(* ===== verification/Prelude.thy ===== *)
theory Prelude
  imports Main "HOL-Library.Product_Lexorder" "HOL-Library.List_Lexorder" "HOL-Library.Char_ord"
    "HOL-Library.Code_Target_Nat"
begin

text \<open>
  Shared vocabulary of the development.

  \<^item> \<open>and_then\<close> is Rust's \<open>?\<close> operator on \<open>Result\<close>: a result is a value of the sum
    \<open>'e + 'a\<close>, with \<open>Inl\<close> the error.
  \<^item> The string functions model what the sources use of Rust's \<open>str\<close>. A Rust string is a
    sequence of UTF-8 bytes and \<open>len\<close> counts bytes, so a \<open>string\<close> (a list of 8-bit
    characters) is the byte sequence itself.
  \<^item> The integer functions write out the saturating and the checked operations of the
    unsigned Rust types, which are naturals here.
  \<^item> The table functions are the SQL statements the agent database executes: a table is the
    list of its rows.
  \<^item> The collections \<open>table_simps\<close> and \<open>result_simps\<close> carry the component proofs.
\<close>

named_theorems table_simps \<open>rewrite rules for rows, tables and SQL statements\<close>
named_theorems result_simps \<open>rewrite rules for results and early returns\<close>

section \<open>Results\<close>

definition and_then :: "'e + 'a \<Rightarrow> ('a \<Rightarrow> 'e + 'b) \<Rightarrow> 'e + 'b" where
  "and_then r k = (case r of Inl e \<Rightarrow> Inl e | Inr x \<Rightarrow> k x)"

declare and_then_def [code_unfold]

lemma and_then_Inl [simp]: "and_then (Inl e) k = Inl e"
  by (simp add: and_then_def)

lemma and_then_Inr [simp]: "and_then (Inr x) k = k x"
  by (simp add: and_then_def)

lemma and_then_eq_Inr [result_simps]:
  "and_then r k = Inr y \<longleftrightarrow> (\<exists>x. r = Inr x \<and> k x = Inr y)"
  by (cases r) auto

lemma and_then_eq_Inl [result_simps]:
  "and_then r k = Inl e \<longleftrightarrow> r = Inl e \<or> (\<exists>x. r = Inr x \<and> k x = Inl e)"
  by (cases r) auto

lemma ran_ok: "\<not> isl (snd out) \<Longrightarrow> \<exists>y. out = (fst out, Inr y)"
  by (cases out; cases "snd out") auto

definition ensure :: "bool \<Rightarrow> 'e \<Rightarrow> 'e + unit" where
  "ensure ok e = (if ok then Inr () else Inl e)"

lemma ensure_simps [simp]: "ensure True e = Inr ()" "ensure False e = Inl e"
  by (simp_all add: ensure_def)

lemma ensure_eq_Inr [result_simps]: "ensure b e = Inr u \<longleftrightarrow> b"
  by (simp add: ensure_def)

lemma ensure_eq_Inl [result_simps]: "ensure b e = Inl e' \<longleftrightarrow> \<not> b \<and> e = e'"
  by (simp add: ensure_def)

text \<open>\<open>for x in xs { f(x)?; }\<close>: the first error ends the loop.\<close>

fun try_each :: "('a \<Rightarrow> 'e + unit) \<Rightarrow> 'a list \<Rightarrow> 'e + unit" where
  "try_each f [] = Inr ()"
| "try_each f (x # xs) = and_then (f x) (\<lambda>_. try_each f xs)"

lemma try_each_ok [result_simps]: "try_each f xs = Inr u \<longleftrightarrow> (\<forall>x\<in>set xs. f x = Inr ())"
  by (induction xs) (auto simp: result_simps)

text \<open>\<open>Option::is_some_and\<close>, and \<open>Iterator::collect\<close> into a \<open>Result\<close> of a vector.\<close>

definition is_some_and :: "'a option \<Rightarrow> ('a \<Rightarrow> bool) \<Rightarrow> bool" where
  "is_some_and v p = (case v of None \<Rightarrow> False | Some x \<Rightarrow> p x)"

lemma is_some_and_simps [simp]:
  "is_some_and None p = False" "is_some_and (Some x) p = p x"
  by (simp_all add: is_some_and_def)

fun collect_results :: "('e + 'a) list \<Rightarrow> 'e + 'a list" where
  "collect_results [] = Inr []"
| "collect_results (r # rs) =
     and_then r (\<lambda>x. and_then (collect_results rs) (\<lambda>xs. Inr (x # xs)))"

lemma collect_results_Inr:
  "collect_results rs = Inr xs \<longleftrightarrow> rs = map Inr xs"
proof (induction rs arbitrary: xs)
  case Nil
  then show ?case by (cases xs) auto
next
  case (Cons r rs)
  then show ?case by (cases xs) (auto simp: result_simps)
qed

section \<open>Strings as UTF-8 byte sequences\<close>

definition byte_of :: "char \<Rightarrow> nat" where
  "byte_of c = of_char c"

text \<open>The number of bytes of the character that a lead byte starts.\<close>

definition utf8_width :: "nat \<Rightarrow> nat" where
  "utf8_width b = (if b < 194 then 1 else if b < 224 then 2 else if b < 240 then 3 else 4)"

function utf8_chars :: "string \<Rightarrow> string list" where
  "utf8_chars [] = []"
| "utf8_chars (c # s) =
     take (utf8_width (byte_of c)) (c # s) # utf8_chars (drop (utf8_width (byte_of c) - 1) s)"
  by pat_completeness auto
termination
  by (relation "measure length") auto

text \<open>\<open>char::is_whitespace\<close>: the code points with the property White\_Space.\<close>

definition char_is_whitespace :: "string \<Rightarrow> bool" where
  "char_is_whitespace u =
     (case map byte_of u of
        [a] \<Rightarrow> 9 \<le> a \<and> a \<le> 13 \<or> a = 32
      | [a, b] \<Rightarrow> a = 194 \<and> (b = 133 \<or> b = 160)
      | [a, b, c] \<Rightarrow>
          a = 225 \<and> b = 154 \<and> c = 128 \<or>
          a = 226 \<and> b = 128 \<and> (128 \<le> c \<and> c \<le> 138 \<or> c = 168 \<or> c = 169 \<or> c = 175) \<or>
          a = 226 \<and> b = 129 \<and> c = 159 \<or>
          a = 227 \<and> b = 128 \<and> c = 128
      | _ \<Rightarrow> False)"

text \<open>\<open>char::is_control\<close>: the code points of category Cc.\<close>

definition char_is_control :: "string \<Rightarrow> bool" where
  "char_is_control u =
     (case map byte_of u of
        [a] \<Rightarrow> a < 32 \<or> a = 127
      | [a, b] \<Rightarrow> a = 194 \<and> 128 \<le> b \<and> b \<le> 159
      | _ \<Rightarrow> False)"

definition str_trim :: "string \<Rightarrow> string" where
  "str_trim s = concat (rev (dropWhile char_is_whitespace
     (rev (dropWhile char_is_whitespace (utf8_chars s)))))"

definition str_has_control :: "string \<Rightarrow> bool" where
  "str_has_control s = list_ex char_is_control (utf8_chars s)"

definition is_ascii_control :: "char \<Rightarrow> bool" where
  "is_ascii_control c = (byte_of c < 32 \<or> byte_of c = 127)"

definition is_ascii_digit :: "char \<Rightarrow> bool" where
  "is_ascii_digit c = (48 \<le> byte_of c \<and> byte_of c \<le> 57)"

definition is_lower_hex :: "char \<Rightarrow> bool" where
  "is_lower_hex c = (is_ascii_digit c \<or> 97 \<le> byte_of c \<and> byte_of c \<le> 102)"

definition is_ascii_hexdigit :: "char \<Rightarrow> bool" where
  "is_ascii_hexdigit c = (is_lower_hex c \<or> 65 \<le> byte_of c \<and> byte_of c \<le> 70)"

definition to_ascii_lowercase :: "string \<Rightarrow> string" where
  "to_ascii_lowercase = map (\<lambda>c. if 65 \<le> byte_of c \<and> byte_of c \<le> 90 then char_of (byte_of c + 32) else c)"

definition starts_with :: "string \<Rightarrow> string \<Rightarrow> bool" where
  "starts_with s p = (take (length p) s = p)"

definition strip_prefix :: "string \<Rightarrow> string \<Rightarrow> string option" where
  "strip_prefix s p = (if starts_with s p then Some (drop (length p) s) else None)"

lemma strip_prefix_append [simp]: "strip_prefix (p @ s) p = Some s"
  by (simp add: strip_prefix_def starts_with_def)

lemma strip_prefix_Some: "strip_prefix s p = Some r \<longleftrightarrow> s = p @ r"
  by (auto simp: strip_prefix_def starts_with_def)
     (metis append_take_drop_id)

text \<open>\<open>str::split\<close> at a character, and the decimal digits that \<open>format!\<close> prints.\<close>

fun split_at :: "char \<Rightarrow> string \<Rightarrow> string list" where
  "split_at sep [] = [[]]"
| "split_at sep (c # s) =
     (if c = sep then [] # split_at sep s
      else case split_at sep s of [] \<Rightarrow> [[c]] | w # ws \<Rightarrow> (c # w) # ws)"

function show_nat :: "nat \<Rightarrow> string" where
  "show_nat n =
     (if n < 10 then [char_of (48 + n)] else show_nat (n div 10) @ [char_of (48 + n mod 10)])"
  by pat_completeness auto
termination
  by (relation "measure id") auto

declare show_nat.simps [simp del]

section \<open>Unsigned integers\<close>

definition u64_max :: nat where "u64_max = 18446744073709551615"
definition i64_max :: nat where "i64_max = 9223372036854775807"
definition u32_max :: nat where "u32_max = 4294967295"

definition saturating_add_u64 :: "nat \<Rightarrow> nat \<Rightarrow> nat" where
  "saturating_add_u64 a b = min u64_max (a + b)"

definition checked_add_u64 :: "nat \<Rightarrow> nat \<Rightarrow> nat option" where
  "checked_add_u64 a b = (if a + b \<le> u64_max then Some (a + b) else None)"

lemma saturating_add_u64_bound: "saturating_add_u64 a b \<le> u64_max"
  by (simp add: saturating_add_u64_def)

section \<open>Tables\<close>

text \<open>
  \<open>UPDATE t SET f WHERE p\<close> gives the number of changed rows and the new table;
  \<open>DELETE FROM t WHERE p\<close> the remaining rows; \<open>SELECT ... WHERE key = k\<close> on a unique key
  the row. \<open>ORDER BY\<close> is a stable sort by key and \<open>LIMIT\<close> a prefix.
\<close>

definition sql_update :: "('r \<Rightarrow> bool) \<Rightarrow> ('r \<Rightarrow> 'r) \<Rightarrow> 'r list \<Rightarrow> nat \<times> 'r list" where
  "sql_update p f t = (length (filter p t), map (\<lambda>r. if p r then f r else r) t)"

definition sql_delete :: "('r \<Rightarrow> bool) \<Rightarrow> 'r list \<Rightarrow> 'r list" where
  "sql_delete p t = filter (\<lambda>r. \<not> p r) t"

definition sql_exists :: "('r \<Rightarrow> bool) \<Rightarrow> 'r list \<Rightarrow> bool" where
  "sql_exists p t = list_ex p t"

definition sql_find :: "('r \<Rightarrow> 'k) \<Rightarrow> 'k \<Rightarrow> 'r list \<Rightarrow> 'r option" where
  "sql_find key k t = find (\<lambda>r. key r = k) t"

lemma sql_exists_iff [table_simps]: "sql_exists p t \<longleftrightarrow> (\<exists>r\<in>set t. p r)"
  by (simp add: sql_exists_def list_ex_iff)

lemma sql_exists_key: "sql_exists (\<lambda>r. key r = k) t \<longleftrightarrow> k \<in> key ` set t"
  by (induction t) (auto simp: sql_exists_def)

lemma set_sql_delete [table_simps]: "set (sql_delete p t) = {r \<in> set t. \<not> p r}"
  by (auto simp: sql_delete_def)

lemma fst_sql_update: "fst (sql_update p f t) = length (filter p t)"
  by (simp add: sql_update_def)

lemma snd_sql_update: "snd (sql_update p f t) = map (\<lambda>r. if p r then f r else r) t"
  by (simp add: sql_update_def)

lemma sql_update_none [simp]:
  "fst (sql_update p f t) = 0 \<Longrightarrow> snd (sql_update p f t) = t"
  by (auto simp: sql_update_def filter_empty_conv intro: map_idI)

lemma map_key_sql_update [table_simps]:
  "(\<And>r. r \<in> set t \<Longrightarrow> p r \<Longrightarrow> key (f r) = key r) \<Longrightarrow>
    map key (snd (sql_update p f t)) = map key t"
  by (simp add: sql_update_def)

lemma distinct_sql_delete [table_simps]:
  "distinct (map key t) \<Longrightarrow> distinct (map key (sql_delete p t))"
  by (induction t) (auto simp: sql_delete_def)

lemma sql_find_None [table_simps]: "sql_find key k t = None \<longleftrightarrow> k \<notin> key ` set t"
  by (auto simp: sql_find_def find_None_iff)

lemma find_keyD: "find (\<lambda>r. key r = k) t = Some r \<Longrightarrow> r \<in> set t \<and> key r = k"
  by (auto simp: find_Some_iff)

lemma sql_find_SomeD: "sql_find key k t = Some r \<Longrightarrow> r \<in> set t \<and> key r = k"
  by (auto simp: sql_find_def find_Some_iff)

lemma sql_find_unique:
  assumes "distinct (map key t)" and "r \<in> set t"
  shows "sql_find key (key r) t = Some r"
proof (cases "sql_find key (key r) t")
  case None
  with assms(2) show ?thesis by (auto simp: sql_find_None)
next
  case (Some r')
  then have "r' \<in> set t" "key r' = key r" by (auto dest: sql_find_SomeD)
  with assms show ?thesis using Some by (auto simp: distinct_map inj_on_def)
qed

lemma sql_find_Some_iff:
  "distinct (map key t) \<Longrightarrow> sql_find key k t = Some r \<longleftrightarrow> r \<in> set t \<and> key r = k"
  by (metis sql_find_SomeD sql_find_unique)

text \<open>An update guarded by a unique key changes at most one row.\<close>

lemma filter_unique_key:
  assumes "distinct (map key t)"
  shows "filter (\<lambda>r. key r = k \<and> q r) t =
    (case sql_find key k t of None \<Rightarrow> [] | Some r \<Rightarrow> if q r then [r] else [])"
  using assms
proof (induction t)
  case Nil
  then show ?case by (simp add: sql_find_def)
next
  case (Cons a t)
  show ?case
  proof (cases "key a = k")
    case True
    with Cons.prems have "filter (\<lambda>r. key r = k \<and> q r) t = []"
      by (auto simp: filter_empty_conv) (metis image_eqI)
    with True show ?thesis by (simp add: sql_find_def)
  next
    case False
    with Cons show ?thesis by (simp add: sql_find_def)
  qed
qed

lemma sql_update_key_count:
  assumes "distinct (map key t)"
  shows "fst (sql_update (\<lambda>r. key r = k \<and> q r) f t) =
    (case sql_find key k t of None \<Rightarrow> 0 | Some r \<Rightarrow> if q r then 1 else 0)"
  by (simp add: fst_sql_update filter_unique_key [OF assms] split: option.splits)

lemma sql_update_key_count1:
  assumes "distinct (map key t)"
  shows "fst (sql_update (\<lambda>r. key r = k \<and> q r) f t) = 1 \<longleftrightarrow>
    (\<exists>r. sql_find key k t = Some r \<and> q r)"
  by (simp add: sql_update_key_count [OF assms] split: option.splits)

lemma set_sql_update:
  "set (snd (sql_update p f t)) = {r. (\<exists>r0\<in>set t. r = (if p r0 then f r0 else r0))}"
  by (auto simp: sql_update_def)

lemma sql_find_update:
  assumes "\<And>r. r \<in> set t \<Longrightarrow> p r \<Longrightarrow> key (f r) = key r"
  shows "sql_find key k (snd (sql_update p f t)) =
    map_option (\<lambda>r. if p r then f r else r) (sql_find key k t)"
  using assms by (induction t) (auto simp: sql_update_def sql_find_def)

lemma sql_find_delete:
  assumes "distinct (map key t)"
  shows "sql_find key k (sql_delete p t) =
    (case sql_find key k t of None \<Rightarrow> None | Some r \<Rightarrow> if p r then None else Some r)"
  using assms
proof (induction t)
  case Nil
  then show ?case by (simp add: sql_find_def sql_delete_def)
next
  case (Cons a t)
  show ?case
  proof (cases "key a = k")
    case True
    with Cons.prems have "find (\<lambda>r. key r = k) (filter (\<lambda>r. \<not> p r) t) = None"
      by (auto simp: find_None_iff) (metis image_eqI)
    with True show ?thesis by (simp add: sql_find_def sql_delete_def)
  next
    case False
    with Cons show ?thesis by (simp add: sql_find_def sql_delete_def)
  qed
qed

lemma sql_find_snoc [table_simps]:
  "sql_find key k (t @ [r]) =
    (case sql_find key k t of Some x \<Rightarrow> Some x | None \<Rightarrow> if key r = k then Some r else None)"
  by (induction t) (auto simp: sql_find_def)

text \<open>
  \<open>INSERT INTO t VALUES row ON CONFLICT(key) DO UPDATE SET merge\<close>.
\<close>

definition sql_upsert :: "('r \<Rightarrow> 'k) \<Rightarrow> 'r \<Rightarrow> ('r \<Rightarrow> 'r) \<Rightarrow> 'r list \<Rightarrow> 'r list" where
  "sql_upsert key row merge t =
     (if sql_exists (\<lambda>r. key r = key row) t
      then snd (sql_update (\<lambda>r. key r = key row) merge t) else t @ [row])"

lemma distinct_sql_upsert:
  assumes "distinct (map key t)" and "\<And>r. key r = key row \<Longrightarrow> key (merge r) = key row"
  shows "distinct (map key (sql_upsert key row merge t))"
proof (cases "sql_exists (\<lambda>r. key r = key row) t")
  case True
  have "map key (snd (sql_update (\<lambda>r. key r = key row) merge t)) = map key t"
    by (rule map_key_sql_update) (simp add: assms(2))
  with True assms(1) show ?thesis by (simp add: sql_upsert_def)
qed (use assms(1) in \<open>auto simp: sql_upsert_def sql_exists_iff\<close>)

lemma set_sql_upsert:
  assumes "r \<in> set (sql_upsert key row merge t)"
    and "\<And>r. key r = key row \<Longrightarrow> key (merge r) = key row"
  shows "key r = key row \<or> r \<in> set t"
  using assms by (auto simp: sql_upsert_def set_sql_update split: if_splits)

lemma sql_find_upsert:
  assumes "\<And>r. key r = key row \<Longrightarrow> key (merge r) = key row"
  shows "sql_find key k (sql_upsert key row merge t) =
    (if k = key row then Some (case sql_find key k t of None \<Rightarrow> row | Some r \<Rightarrow> merge r)
     else sql_find key k t)"
proof (cases "sql_exists (\<lambda>r. key r = key row) t")
  case True
  then have "sql_find key (key row) t \<noteq> None" 
    by (simp add: sql_exists_iff sql_find_None image_iff) metis
  then obtain r where r: "sql_find key (key row) t = Some r" by blast
  have "key r = key row" using sql_find_SomeD [OF r] by simp
  moreover have "map_option (\<lambda>r. if key r = key row then merge r else r) (sql_find key k t) =
      sql_find key k t" if "k \<noteq> key row"
  proof (cases "sql_find key k t")
    case (Some q)
    with that sql_find_SomeD [OF Some] show ?thesis by simp
  qed simp
  moreover have "sql_find key k (snd (sql_update (\<lambda>r. key r = key row) merge t)) =
      map_option (\<lambda>r. if key r = key row then merge r else r) (sql_find key k t)"
    by (rule sql_find_update) (simp add: assms)
  ultimately show ?thesis
    using True r by (simp add: sql_upsert_def)
next
  case False
  then have "sql_find key (key row) t = None" by (auto simp: sql_exists_iff sql_find_None)
  with False show ?thesis
    by (cases "k = key row"; cases "sql_find key k t") (simp_all add: sql_upsert_def sql_find_snoc)
qed

end
