(* ===== verification/Domain_Job.thy ===== *)
theory Domain_Job
  imports Prelude
begin

text \<open>
  The job part of the shared domain types (\<open>crates/domain/src/job.rs\<close>): the job options and
  the bounds every executor enforces on them, the wire form of a rotation, and the canonical
  job state machine with its permitted transitions.

  \<open>valid_history\<close> lifts \<open>validate_transition\<close> to runs. The locale \<open>terminal_machine\<close> is
  the contract of a state machine with final states; its lemmas on histories are proved once
  there and reach the job machine through the interpretation \<open>job_machine\<close>.
\<close>

section \<open>Job options\<close>

definition MAX_JOB_COPIES :: nat where "MAX_JOB_COPIES = 32767"
definition MAX_JOB_NUP :: nat where "MAX_JOB_NUP = 64"
definition MAX_JOB_OPTION_TEXT_BYTES :: nat where "MAX_JOB_OPTION_TEXT_BYTES = 4096"
definition MAX_JOB_NATIVE_OPTIONS :: nat where "MAX_JOB_NATIVE_OPTIONS = 256"
definition MAX_JOB_NATIVE_OPTION_NAME_BYTES :: nat where "MAX_JOB_NATIVE_OPTION_NAME_BYTES = 255"

datatype Duplex = OneSided | LongEdge | ShortEdge
datatype Rotation = Deg0 | Deg90 | Deg180 | Deg270

text \<open>The \<open>BTreeMap\<close> of native options is the list of its entries in key order.\<close>

record JobOptions =
  bin :: "string option"
  collate :: "bool option"
  color :: "bool option"
  copies :: "nat option"
  dpi :: "string option"
  duplex :: "Duplex option"
  fit_to_page :: "bool option"
  media :: "string option"
  nup :: "nat option"
  pages :: "string option"
  paper :: "string option"
  rotate_opt :: "Rotation option"
  native_options :: "(string \<times> string) list"

definition default_options :: JobOptions where
  "default_options = \<lparr>bin = None, collate = None, color = None, copies = None, dpi = None,
     duplex = None, fit_to_page = None, media = None, nup = None, pages = None, paper = None,
     rotate_opt = None, native_options = []\<rparr>"

definition is_empty_options :: "JobOptions \<Rightarrow> bool" where
  "is_empty_options self =
     (bin self = None \<and> collate self = None \<and> color self = None \<and> copies self = None \<and>
      dpi self = None \<and> duplex self = None \<and> fit_to_page self = None \<and> media self = None \<and>
      nup self = None \<and> pages self = None \<and> paper self = None \<and> rotate_opt self = None \<and>
      native_options self = [])"

datatype JobOptionsError =
    CopiesOutOfRange
  | NupOutOfRange
  | InvalidText string
  | TooManyNativeOptions
  | InvalidNativeOption string

definition invalid_option_text :: "string \<Rightarrow> bool" where
  "invalid_option_text v =
     (v = [] \<or> MAX_JOB_OPTION_TEXT_BYTES < length v \<or>
      list_ex (\<lambda>b. byte_of b = 0 \<or> is_ascii_control b) v)"

definition invalid_native_option :: "string \<times> string \<Rightarrow> bool" where
  "invalid_native_option nv =
     (fst nv = [] \<or> MAX_JOB_NATIVE_OPTION_NAME_BYTES < length (fst nv) \<or>
      list_ex is_ascii_control (fst nv) \<or> invalid_option_text (snd nv))"

definition validate_bounds :: "JobOptions \<Rightarrow> JobOptionsError + unit" where
  "validate_bounds self =
     (if is_some_and (copies self) (\<lambda>v. v = 0 \<or> MAX_JOB_COPIES < v) then Inl CopiesOutOfRange
      else if is_some_and (nup self) (\<lambda>v. v = 0 \<or> MAX_JOB_NUP < v) then Inl NupOutOfRange
      else and_then
        (try_each (\<lambda>(name, v). ensure (\<not> is_some_and v invalid_option_text) (InvalidText name))
           [(''bin'', bin self), (''dpi'', dpi self), (''media'', media self),
            (''pages'', pages self), (''paper'', paper self)])
        (\<lambda>_. if MAX_JOB_NATIVE_OPTIONS < length (native_options self)
             then Inl TooManyNativeOptions
             else try_each
               (\<lambda>nv. ensure (\<not> invalid_native_option nv) (InvalidNativeOption (fst nv)))
               (native_options self)))"

section \<open>Rotations on the wire\<close>

fun rotation_serialize :: "Rotation \<Rightarrow> nat" where
  "rotation_serialize Deg0 = 0"
| "rotation_serialize Deg90 = 90"
| "rotation_serialize Deg180 = 180"
| "rotation_serialize Deg270 = 270"

definition rotation_deserialize :: "nat \<Rightarrow> Rotation option" where
  "rotation_deserialize v =
     (if v = 0 then Some Deg0 else if v = 90 then Some Deg90
      else if v = 180 then Some Deg180 else if v = 270 then Some Deg270 else None)"

section \<open>The job state machine\<close>

datatype JobState =
    Registered | ContentPending | WaitingForAgent | AgentDownloading | AgentAccepted
  | QueuedLocal | Preparing | Rendering | SpoolIntent | AcceptedBySpooler | Spooling
  | Printing | Blocked | CompletedReported | DeliveryUncertain | CancelRequested
  | Cancelled | Expired | FailedRetryable | FailedTerminal

definition is_terminal :: "JobState \<Rightarrow> bool" where
  "is_terminal s =
     (s \<in> {CompletedReported, DeliveryUncertain, Cancelled, Expired, FailedTerminal})"

fun can_transition_to :: "JobState \<Rightarrow> JobState \<Rightarrow> bool" where
  "can_transition_to Registered t =
     (t \<in> {ContentPending, WaitingForAgent, CancelRequested, Expired})"
| "can_transition_to ContentPending t =
     (t \<in> {WaitingForAgent, CancelRequested, Expired, FailedTerminal})"
| "can_transition_to WaitingForAgent t =
     (t \<in> {AgentDownloading, CancelRequested, Expired, FailedRetryable})"
| "can_transition_to AgentDownloading t =
     (t \<in> {AgentAccepted, WaitingForAgent, CancelRequested, Expired, FailedRetryable})"
| "can_transition_to AgentAccepted t = (t \<in> {QueuedLocal, CancelRequested, FailedRetryable})"
| "can_transition_to QueuedLocal t =
     (t \<in> {Preparing, CancelRequested, Blocked, Expired, FailedRetryable})"
| "can_transition_to Preparing t =
     (t \<in> {Rendering, SpoolIntent, CancelRequested, FailedRetryable, FailedTerminal})"
| "can_transition_to Rendering t =
     (t \<in> {SpoolIntent, CancelRequested, FailedRetryable, FailedTerminal})"
| "can_transition_to SpoolIntent t =
     (t \<in> {AcceptedBySpooler, DeliveryUncertain, FailedRetryable, FailedTerminal})"
| "can_transition_to AcceptedBySpooler t =
     (t \<in> {Spooling, Printing, CompletedReported, Blocked, DeliveryUncertain, Cancelled,
           FailedTerminal})"
| "can_transition_to Spooling t =
     (t \<in> {Printing, CompletedReported, Blocked, DeliveryUncertain, Cancelled, FailedTerminal})"
| "can_transition_to Printing t =
     (t \<in> {CompletedReported, Blocked, DeliveryUncertain, Cancelled, FailedTerminal})"
| "can_transition_to Blocked t =
     (t \<in> {Spooling, Printing, CompletedReported, CancelRequested, Cancelled, FailedRetryable,
           FailedTerminal})"
| "can_transition_to CancelRequested t = (t \<in> {Cancelled, DeliveryUncertain, CompletedReported})"
| "can_transition_to FailedRetryable t =
     (t \<in> {WaitingForAgent, QueuedLocal, CancelRequested, Expired})"
| "can_transition_to CompletedReported t = False"
| "can_transition_to DeliveryUncertain t = False"
| "can_transition_to Cancelled t = False"
| "can_transition_to Expired t = False"
| "can_transition_to FailedTerminal t = False"

record StateTransitionError =
  from_state :: JobState
  to_state :: JobState

definition validate_transition :: "JobState \<Rightarrow> JobState \<Rightarrow> StateTransitionError + unit" where
  "validate_transition f t =
     (if can_transition_to f t then Inr () else Inl \<lparr>from_state = f, to_state = t\<rparr>)"

text \<open>A history is the list of states a job went through, each entered by a validated step.\<close>

fun valid_history :: "JobState list \<Rightarrow> bool" where
  "valid_history (a # b # rest) = (validate_transition a b = Inr () \<and> valid_history (b # rest))"
| "valid_history _ = True"

section \<open>Machines with final states\<close>

locale terminal_machine =
  fixes step :: "'s \<Rightarrow> 's \<Rightarrow> bool"
    and final :: "'s \<Rightarrow> bool"
    and history :: "'s list \<Rightarrow> bool"
  assumes final_stuck: "final s \<Longrightarrow> \<not> step s t"
    and not_final_moves: "\<not> final s \<Longrightarrow> \<exists>t. step s t"
    and history_single: "history [s]"
    and history_Cons: "history (a # b # rest) \<longleftrightarrow> step a b \<and> history (b # rest)"
begin

lemma history_tail: "history (a # b # rest) \<Longrightarrow> history (b # rest)"
  by (simp add: history_Cons)

lemma history_suffix: "history (xs @ s # ys) \<Longrightarrow> history (s # ys)"
proof (induction xs)
  case Nil
  then show ?case by simp
next
  case (Cons a xs)
  then show ?case by (cases xs) (auto simp: history_Cons)
qed

lemma nothing_after_final: "history (xs @ s # ys) \<Longrightarrow> final s \<Longrightarrow> ys = []"
  by (drule history_suffix) (cases ys, auto simp: history_Cons final_stuck)

lemma final_iff_stuck: "final s \<longleftrightarrow> (\<forall>t. \<not> step s t)"
  using final_stuck not_final_moves by blast

lemma history_join:
  "history (xs @ [s]) \<Longrightarrow> history (s # ys) \<Longrightarrow> history (xs @ s # ys)"
proof (induction xs)
  case Nil
  then show ?case by simp
next
  case (Cons a xs)
  then show ?case by (cases xs) (auto simp: history_Cons)
qed

end

lemma validate_transition_ok: "validate_transition a b = Inr u \<longleftrightarrow> can_transition_to a b"
  by (simp add: validate_transition_def)

lemma is_terminal_stuck: "is_terminal s \<Longrightarrow> \<not> can_transition_to s t"
  by (cases s) (simp_all add: is_terminal_def)

lemma not_terminal_moves: "\<not> is_terminal s \<Longrightarrow> \<exists>t. can_transition_to s t"
  by (cases s) (auto simp: is_terminal_def)

interpretation job_machine: terminal_machine can_transition_to is_terminal valid_history
  by unfold_locales
     (auto simp: validate_transition_ok is_terminal_stuck intro: not_terminal_moves)

lemma into_spooler: "can_transition_to a AcceptedBySpooler \<longleftrightarrow> a = SpoolIntent"
  by (cases a) simp_all

lemma intent_sources: "can_transition_to a SpoolIntent \<Longrightarrow> a = Preparing \<or> a = Rendering"
  by (cases a) simp_all

text \<open>A state from which \<open>n\<close> steps lead into a final state.\<close>

fun finish_route :: "JobState \<Rightarrow> JobState list" where
  "finish_route SpoolIntent = [FailedTerminal]"
| "finish_route AcceptedBySpooler = [Cancelled]"
| "finish_route Spooling = [Cancelled]"
| "finish_route Printing = [Cancelled]"
| "finish_route CancelRequested = [Cancelled]"
| "finish_route s = (if is_terminal s then [] else [CancelRequested, Cancelled])"

lemma finish_route_valid: "valid_history (s # finish_route s) \<and> is_terminal (last (s # finish_route s))"
  by (cases s) (simp_all add: is_terminal_def validate_transition_def)

text \<open>The checks that all have to pass, in the order in which they are made.\<close>

lemma validate_bounds_ok_iff:
  "validate_bounds opts = Inr () \<longleftrightarrow>
     \<not> is_some_and (copies opts) (\<lambda>v. v = 0 \<or> MAX_JOB_COPIES < v) \<and>
     \<not> is_some_and (nup opts) (\<lambda>v. v = 0 \<or> MAX_JOB_NUP < v) \<and>
     (\<forall>t\<in>{bin opts, dpi opts, media opts, pages opts, paper opts}.
        \<not> is_some_and t invalid_option_text) \<and>
     length (native_options opts) \<le> MAX_JOB_NATIVE_OPTIONS \<and>
     (\<forall>nv\<in>set (native_options opts). \<not> invalid_native_option nv)"
  by (auto simp: validate_bounds_def result_simps not_less)

section \<open>Properties\<close>

text \<open>
  \<open>JobOptions::validate_bounds\<close> accepts exactly the options whose copies lie in 1..=32767,
  whose n-up lies in 1..=64, whose five text options are non-empty, at most 4096 bytes long and
  free of control bytes, and whose at most 256 native options have such values and non-empty
  names of at most 255 bytes without control bytes.
\<close>

theorem validate_bounds_exact:
  "validate_bounds opts = Inr () \<longleftrightarrow>
     (\<forall>n. copies opts = Some n \<longrightarrow> 1 \<le> n \<and> n \<le> 32767) \<and>
     (\<forall>n. nup opts = Some n \<longrightarrow> 1 \<le> n \<and> n \<le> 64) \<and>
     (\<forall>t\<in>{bin opts, dpi opts, media opts, pages opts, paper opts}. \<forall>v. t = Some v \<longrightarrow>
        v \<noteq> [] \<and> length v \<le> 4096 \<and> (\<forall>b\<in>set v. 32 \<le> byte_of b \<and> byte_of b \<noteq> 127)) \<and>
     length (native_options opts) \<le> 256 \<and>
     (\<forall>(k, v)\<in>set (native_options opts).
        k \<noteq> [] \<and> length k \<le> 255 \<and> (\<forall>b\<in>set k. 32 \<le> byte_of b \<and> byte_of b \<noteq> 127) \<and>
        v \<noteq> [] \<and> length v \<le> 4096 \<and> (\<forall>b\<in>set v. 32 \<le> byte_of b \<and> byte_of b \<noteq> 127))"
proof -
  have txt_ok: "invalid_option_text v \<longleftrightarrow>
      \<not> (v \<noteq> [] \<and> length v \<le> 4096 \<and> (\<forall>b\<in>set v. 32 \<le> byte_of b \<and> byte_of b \<noteq> 127))" for v
    by (fastforce simp: invalid_option_text_def MAX_JOB_OPTION_TEXT_BYTES_def list_ex_iff
        is_ascii_control_def not_less)
  have opt: "\<not> is_some_and v invalid_option_text \<longleftrightarrow>
      (\<forall>w. v = Some w \<longrightarrow> w \<noteq> [] \<and> length w \<le> 4096 \<and>
        (\<forall>b\<in>set w. 32 \<le> byte_of b \<and> byte_of b \<noteq> 127))" for v
    by (cases v) (auto simp: txt_ok)
  have native: "\<not> invalid_native_option kv \<longleftrightarrow> (case kv of (k, v) \<Rightarrow>
      k \<noteq> [] \<and> length k \<le> 255 \<and> (\<forall>b\<in>set k. 32 \<le> byte_of b \<and> byte_of b \<noteq> 127) \<and>
      v \<noteq> [] \<and> length v \<le> 4096 \<and> (\<forall>b\<in>set v. 32 \<le> byte_of b \<and> byte_of b \<noteq> 127))" for kv
    by (cases kv) (auto simp: invalid_native_option_def txt_ok MAX_JOB_NATIVE_OPTION_NAME_BYTES_def
        list_ex_iff is_ascii_control_def not_less)
  have rng: "\<not> is_some_and v (\<lambda>n. n = 0 \<or> hi < n) \<longleftrightarrow> (\<forall>n. v = Some n \<longrightarrow> 1 \<le> n \<and> n \<le> hi)"
    for v and hi :: nat
    by (cases v) auto
  show ?thesis
    unfolding validate_bounds_ok_iff rng opt native
    by (simp add: MAX_JOB_COPIES_def MAX_JOB_NUP_def MAX_JOB_NATIVE_OPTIONS_def)
qed

theorem validate_bounds_exact_witness:
  "validate_bounds (default_options\<lparr>copies := Some 2, paper := Some ''A4''\<rparr>) = Inr ()"
  by (subst validate_bounds_exact) (simp add: default_options_def byte_of_def)

text \<open>
  A job state is terminal exactly when the state machine permits no transition out of it,
  and every permitted history ends at its first terminal state.
\<close>

theorem terminal_states_are_final:
  "(is_terminal s \<longleftrightarrow> (\<forall>t. validate_transition s t = Inl \<lparr>from_state = s, to_state = t\<rparr>)) \<and>
   (valid_history (xs @ s # ys) \<and> is_terminal s \<longrightarrow> ys = [])"
  using job_machine.final_iff_stuck [of s] job_machine.nothing_after_final [of xs s ys]
  by (auto simp: validate_transition_def)

theorem terminal_states_are_final_witness:
  "valid_history ([Registered, CancelRequested] @ Cancelled # []) \<and> is_terminal Cancelled \<and>
   validate_transition Cancelled WaitingForAgent
     = Inl \<lparr>from_state = Cancelled, to_state = WaitingForAgent\<rparr>"
  using terminal_states_are_final [of Cancelled "[Registered, CancelRequested]" "[]"]
  by (simp add: validate_transition_def is_terminal_def)

text \<open>
  No permitted history reports a job as accepted by the spooler unless the state just
  before was the durable spool intent, which itself follows preparation or rendering.
\<close>

theorem spooler_acceptance_follows_intent:
  assumes "valid_history (Registered # h)" and "h = xs @ AcceptedBySpooler # ys"
  shows "\<exists>ws p. xs = ws @ [p, SpoolIntent] \<and> (p = Preparing \<or> p = Rendering)"
proof -
  have hist: "valid_history ((Registered # xs) @ AcceptedBySpooler # ys)"
    using assms by simp
  obtain vs a where va: "Registered # xs = vs @ [a]"
    by (metis append_butlast_last_id list.distinct(1))
  with hist have "valid_history (a # AcceptedBySpooler # ys)"
    using job_machine.history_suffix [of vs a "AcceptedBySpooler # ys"] by simp
  then have a: "a = SpoolIntent"
    by (simp add: validate_transition_ok into_spooler)
  with va obtain us b where ub: "vs = us @ [b]"
    by (metis JobState.distinct(15) append_Nil append_butlast_last_id list.inject)
  with hist va a have "valid_history (b # SpoolIntent # AcceptedBySpooler # ys)"
    using job_machine.history_suffix [of us b "SpoolIntent # AcceptedBySpooler # ys"] by simp
  then have b: "b = Preparing \<or> b = Rendering"
    by (simp add: validate_transition_ok intent_sources)
  with va ub a obtain ws where "us = Registered # ws"
    by (cases us) auto
  with va ub a have "xs = ws @ [b, SpoolIntent]" by simp
  with b show ?thesis by blast
qed

theorem spooler_acceptance_follows_intent_witness:
  "\<exists>ws p. [WaitingForAgent, AgentDownloading, AgentAccepted, QueuedLocal, Preparing, SpoolIntent]
     = ws @ [p, SpoolIntent] \<and> (p = Preparing \<or> p = Rendering)"
  by (rule spooler_acceptance_follows_intent [where ys = "[]", OF _ refl])
     (simp add: validate_transition_def)

text \<open>
  From every job state some permitted history leads to a terminal state, so no state of the
  machine is a trap.
\<close>

theorem every_state_can_finish:
  "\<exists>h. valid_history (s # h) \<and> is_terminal (last (s # h))"
  using finish_route_valid [of s] by blast

text \<open>The wire form of a rotation decodes to the rotation, and no other number decodes.\<close>

theorem rotation_roundtrip:
  "rotation_deserialize n = Some r \<longleftrightarrow> n = rotation_serialize r"
  by (cases r) (auto simp: rotation_deserialize_def)

end
