(* ===== verification/Agent_Schema.thy ===== *)
theory Agent_Schema
  imports Prelude "HOL-Library.Word"
begin

unbundle bit_operations_syntax

text \<open>
  The data of the durable agent store (\<open>crates/agent-storage/src/lib.rs\<close> and its
  \<open>schema.sql\<close>): the values that cross its interface, the rows of its tables and the state
  of the database.

  \<^item> A table is the list of its rows in insertion order. A statement that would violate a
    \<open>PRIMARY KEY\<close>, \<open>UNIQUE\<close>, \<open>CHECK\<close> or \<open>FOREIGN KEY\<close> clause of the schema (the store turns
    \<open>foreign_keys\<close> on) fails with \<open>Sql\<close>; failures of the disk are not modelled.
  \<^item> A \<open>tx\<close> is the body of a \<open>SQLite\<close> transaction. \<open>transaction\<close> runs it: an early return
    of an error drops the transaction, which rolls the database back.
  \<^item> \<open>ext\<close> holds the functions of libraries the store calls: the JSON parser of
    \<open>serde_json\<close>, SQLite's \<open>json_valid\<close>, and the JSON form of a printer-native pin.
  \<^item> Random identifiers (\<open>EventId::new\<close>) are arguments.
\<close>

section \<open>Errors\<close>

datatype StorageError =
    Sql
  | Json
  | JobConflict string
  | JobNotFound string
  | EventSequence string int int
  | InvalidLocalEvent string
  | PrinterNotFound string
  | ProfileRevisionConflict nat nat
  | InvalidPrinterProfile string
  | CaptureSessionNotFound string
  | CaptureSessionNotAuthorized string
  | InvalidCaptureToken
  | NativeBlobTooLarge nat
  | DocumentResourceNotFound string
  | ContentReclaimInProgress string

definition LOCAL_HANDOFF_RELEASE_FOR_RETRY :: string where
  "LOCAL_HANDOFF_RELEASE_FOR_RETRY = ''release_for_retry''"

definition LOCAL_HANDOFF_CONFIRM_ACCEPTED :: string where
  "LOCAL_HANDOFF_CONFIRM_ACCEPTED = ''confirm_accepted''"

definition MAX_NATIVE_PROFILE_BLOB_BYTES :: nat where
  "MAX_NATIVE_PROFILE_BLOB_BYTES = 1024 * 1024"

section \<open>Values of the interface\<close>

record AcceptedJob =
  aj_job_id :: string
  aj_submission_id :: string
  aj_printer_id :: string
  aj_printer_native_id :: string
  aj_title :: string
  aj_content_sha256 :: string
  aj_content_path :: string
  aj_content_kind :: string
  aj_options_json :: string
  aj_expires_unix_ms :: "int option"
  aj_accepted_unix_ms :: int
  aj_cloud_managed :: bool

record PrinterNativeBindingPin =
  pin_process_session_id :: string
  pin_generation :: nat
  pin_printer_id :: string
  pin_output_profile_id :: string
  pin_language_profile_id :: string
  pin_language :: string
  pin_language_version :: string
  pin_profile_version :: string
  pin_media_type :: string
  pin_driver_fingerprint_sha256 :: string
  pin_support_pack_digest_sha256 :: string

record JobPersistenceFacts =
  jf_route_connector_id :: "string option"
  jf_target_id :: "string option"
  jf_binding_id :: "string option"
  jf_profile_id :: "string option"
  jf_profile_revision :: "nat option"
  jf_stock_id :: "string option"
  jf_loaded_media_snapshot_json :: "string option"
  jf_profile_snapshot_json :: "string option"
  jf_printer_native_binding :: "PrinterNativeBindingPin option"

definition default_facts :: JobPersistenceFacts where
  "default_facts = \<lparr>jf_route_connector_id = None, jf_target_id = None, jf_binding_id = None,
     jf_profile_id = None, jf_profile_revision = None, jf_stock_id = None,
     jf_loaded_media_snapshot_json = None, jf_profile_snapshot_json = None,
     jf_printer_native_binding = None\<rparr>"

record LocalJob =
  lj_job_id :: string
  lj_submission_id :: string
  lj_printer_id :: string
  lj_printer_native_id :: string
  lj_printer_sequence :: int
  lj_title :: string
  lj_content_sha256 :: string
  lj_content_path :: string
  lj_content_kind :: string
  lj_options_json :: string
  lj_state :: string
  lj_expires_unix_ms :: "int option"
  lj_native_job_id :: "string option"
  lj_target_id :: "string option"
  lj_binding_id :: "string option"
  lj_profile_id :: "string option"
  lj_profile_revision :: "nat option"
  lj_stock_id :: "string option"
  lj_loaded_media_snapshot_json :: "string option"
  lj_cloud_managed :: bool
  lj_profile_snapshot_json :: "string option"
  lj_printer_native_binding :: "PrinterNativeBindingPin option"
  lj_route_connector_id :: "string option"

record QueueCounts =
  qc_queued :: nat
  qc_active :: nat

record CloudAcceptIntent =
  ci_job_id :: string
  ci_lease_id :: string
  ci_lease_token :: string
  ci_lease_expires_unix_ms :: int
  ci_content_sha256 :: string
  ci_local_sequence :: nat
  ci_route_reservation_id :: "string option"
  ci_route_generation :: "nat option"
  ci_route_fencing_token :: "string option"
  ci_remote_accept_confirmed :: bool

record CloudReleaseCleanup =
  cc_job_id :: string
  cc_lease_id :: string
  cc_lease_token :: string
  cc_reason :: string

record CloudRouteProof =
  rp_reservation_id :: string
  rp_generation :: nat
  rp_fencing_token :: string

definition route_proof :: "CloudAcceptIntent \<Rightarrow> CloudRouteProof option" where
  "route_proof self =
     (case (ci_route_reservation_id self, ci_route_generation self, ci_route_fencing_token self) of
        (Some r, Some g, Some f) \<Rightarrow>
          if r \<noteq> [] \<and> 0 < g \<and> f \<noteq> []
          then Some \<lparr>rp_reservation_id = r, rp_generation = g, rp_fencing_token = f\<rparr>
          else None
      | _ \<Rightarrow> None)"

record ConfidentialFile =
  cf_job_id :: string
  cf_path :: string

record ReclaimableContent =
  rc_sha256 :: string
  rc_path :: string

section \<open>Rows\<close>

record job_row =
  jr_job_id :: string
  jr_submission_id :: string
  jr_printer_id :: string
  jr_printer_native_id :: string
  jr_printer_sequence :: int
  jr_title :: string
  jr_content_sha256 :: string
  jr_content_path :: string
  jr_content_kind :: string
  jr_options_json :: string
  jr_state :: string
  jr_expires_unix_ms :: "int option"
  jr_next_attempt_unix_ms :: "int option"
  jr_attempt_count :: int
  jr_native_job_id :: "string option"
  jr_accepted_unix_ms :: int
  jr_updated_unix_ms :: int
  jr_cloud_managed :: bool
  jr_confidential :: bool
  jr_confidential_delete_after_unix_ms :: "int option"
  jr_target_id :: "string option"
  jr_binding_id :: "string option"
  jr_profile_id :: "string option"
  jr_profile_revision :: "int option"
  jr_stock_id :: "string option"
  jr_loaded_media_snapshot_json :: "string option"
  jr_profile_snapshot_json :: "string option"
  jr_printer_native_binding_json :: "string option"
  jr_route_connector_id :: "string option"

record content_row =
  cr_sha256 :: string
  cr_path :: string
  cr_reference_count :: int
  cr_verified_unix_ms :: int
  cr_reclaiming :: bool

record receipt_row =
  re_receipt_id :: string
  re_job_id :: string
  re_content_sha256 :: string
  re_received_unix_ms :: int

record intent_row =
  in_job_id :: string
  in_lease_id :: string
  in_lease_token :: string
  in_lease_expires_unix_ms :: int
  in_content_sha256 :: string
  in_local_sequence :: int
  in_route_reservation_id :: "string option"
  in_route_generation :: "int option"
  in_route_fencing_token :: "string option"
  in_acceptance_state :: string
  in_prepared_unix_ms :: int

record proof_row =
  pr_job_id :: string
  pr_reservation_id :: string
  pr_generation :: int
  pr_fencing_token :: string

record cleanup_row =
  cl_job_id :: string
  cl_lease_id :: string
  cl_lease_token :: string
  cl_reason :: string
  cl_quarantined_unix_ms :: int

record event_row =
  ev_event_id :: string
  ev_job_id :: string
  ev_job_sequence :: int
  ev_state :: string
  ev_reason :: "string option"
  ev_message :: "string option"
  ev_details_json :: string
  ev_observed_unix_ms :: int

text \<open>An outbox row repeats the eight columns of its event.\<close>

record outbox_row =
  ob_outbox_sequence :: int
  ob_event :: event_row
  ob_acknowledged_unix_ms :: "int option"

record resolution_row =
  lr_ambiguity_id :: string
  lr_job_id :: string
  lr_resolution :: string
  lr_observed_unix_ms :: int

record observation_row =
  no_observation_id :: string
  no_job_id :: string
  no_native_job_id :: "string option"
  no_state :: string
  no_authority :: string
  no_details_json :: string
  no_observed_unix_ms :: int

record reconciliation_row =
  rr_job_id :: string
  rr_next_observe_unix_ms :: int
  rr_uncertainty_deadline_unix_ms :: int
  rr_attempt_count :: int
  rr_last_native_state :: "string option"
  rr_last_error_code :: "string option"
  rr_cancel_requested :: bool

text \<open>The key and the tombstone of a profile revision are all that the job queue reads.\<close>

record profile_row =
  pf_profile_id :: string
  pf_revision :: int
  pf_deleted :: bool

section \<open>The database\<close>

record agent_db =
  printer_sequences :: "string \<rightharpoonup> int"
  printer_profiles :: "profile_row list"
  content_files :: "content_row list"
  jobs :: "job_row list"
  inbox_receipts :: "receipt_row list"
  cloud_accept_intents :: "intent_row list"
  cloud_route_proofs :: "proof_row list"
  cloud_release_cleanups :: "cleanup_row list"
  job_events :: "event_row list"
  local_handoff_resolutions :: "resolution_row list"
  event_outbox :: "outbox_row list"
  outbox_next :: int
  native_observations :: "observation_row list"
  job_reconciliation :: "reconciliation_row list"

definition empty_db :: agent_db where
  "empty_db = \<lparr>printer_sequences = Map.empty, printer_profiles = [], content_files = [],
     jobs = [], inbox_receipts = [], cloud_accept_intents = [], cloud_route_proofs = [],
     cloud_release_cleanups = [], job_events = [], local_handoff_resolutions = [],
     event_outbox = [], outbox_next = 1, native_observations = [], job_reconciliation = []\<rparr>"

record ext =
  serde_json_valid :: "string \<Rightarrow> bool"
  sqlite_json_valid :: "string \<Rightarrow> bool"
  pin_to_json :: "PrinterNativeBindingPin \<Rightarrow> string option"
  pin_of_json :: "string \<Rightarrow> PrinterNativeBindingPin option"

type_synonym 'a tx = "agent_db \<Rightarrow> StorageError + agent_db \<times> 'a"
type_synonym 'a db_op = "agent_db \<Rightarrow> agent_db \<times> (StorageError + 'a)"

definition transaction ::
  "('s \<Rightarrow> StorageError + 's \<times> 'a) \<Rightarrow> 's \<Rightarrow> 's \<times> (StorageError + 'a)" where
  "transaction body s =
     (case body s of Inl e \<Rightarrow> (s, Inl e) | Inr (s', x) \<Rightarrow> (s', Inr x))"

declare transaction_def [code_unfold]

lemma transaction_Inr: "body s = Inr (s', x) \<Longrightarrow> transaction body s = (s', Inr x)"
  by (simp add: transaction_def)

lemma transaction_rolls_back: "body s = Inl e \<Longrightarrow> transaction body s = (s, Inl e)"
  by (simp add: transaction_def)

lemma transaction_eq_Inr [result_simps]:
  "transaction body s = (s', Inr x) \<longleftrightarrow> body s = Inr (s', x)"
  by (auto simp: transaction_def split: sum.splits prod.splits)

lemma transaction_invariant:
  assumes "P s" and "\<And>s' x. body s = Inr (s', x) \<Longrightarrow> P s'"
  shows "P (fst (transaction body s))"
  using assms by (auto simp: transaction_def split: sum.splits)

section \<open>Conversions at the SQL boundary\<close>

text \<open>\<open>u64\<close> values are stored as \<open>i64\<close>; both directions fail out of range.\<close>

definition to_sql_u64 :: "nat \<Rightarrow> StorageError + int" where
  "to_sql_u64 n = (if n \<le> i64_max then Inr (int n) else Inl Sql)"

definition get_u64 :: "int \<Rightarrow> StorageError + nat" where
  "get_u64 i = (if 0 \<le> i then Inr (nat i) else Inl Sql)"

definition get_u32 :: "nat \<Rightarrow> StorageError + nat" where
  "get_u32 n = (if n \<le> u32_max then Inr n else Inl Sql)"

definition opt_result :: "('a \<Rightarrow> 'e + 'b) \<Rightarrow> 'a option \<Rightarrow> 'e + 'b option" where
  "opt_result f v = (case v of None \<Rightarrow> Inr None | Some x \<Rightarrow> and_then (f x) (\<lambda>y. Inr (Some y)))"

lemma opt_result_simps [simp]:
  "opt_result f None = Inr None"
  "opt_result f (Some x) = and_then (f x) (\<lambda>y. Inr (Some y))"
  by (simp_all add: opt_result_def)

lemma get_u64_to_sql: "to_sql_u64 n = Inr i \<Longrightarrow> get_u64 i = Inr n"
  by (auto simp: to_sql_u64_def get_u64_def split: if_splits)

text \<open>\<open>serde_json::from_str::<Value>(s)?\<close>\<close>

definition parse_json :: "ext \<Rightarrow> string \<Rightarrow> StorageError + unit" where
  "parse_json x s = ensure (serde_json_valid x s) Json"

definition null_or_json :: "ext \<Rightarrow> string option \<Rightarrow> bool" where
  "null_or_json x v = (case v of None \<Rightarrow> True | Some s \<Rightarrow> sqlite_json_valid x s)"

section \<open>Comparisons\<close>

definition constant_time_str_eq :: "string \<Rightarrow> string \<Rightarrow> bool" where
  "constant_time_str_eq left right =
     (if length left \<noteq> length right then False
      else fold (\<lambda>(a, b) difference. difference OR (a XOR b))
        (zip (map (\<lambda>c. of_char c :: 8 word) left) (map (\<lambda>c. of_char c) right)) 0 = 0)"

lemma byte_word_eq [simp]: "(of_char a :: 8 word) = of_char b \<longleftrightarrow> a = b"
proof
  have u: "unat (of_char c :: 8 word) = of_char c" for c
  proof -
    have "(of_char c :: 8 word) = of_nat (of_char c)" by (rule of_nat_of_char [symmetric])
    then have "unat (of_char c :: 8 word) = of_char c mod 2 ^ LENGTH(8)"
      by (simp only: unat_of_nat)
    then show ?thesis using of_char_mod_256 [of c, where 'a = nat] by simp
  qed
  assume "(of_char a :: 8 word) = of_char b"
  then have "unat (of_char a :: 8 word) = unat (of_char b :: 8 word)" by simp
  then have "(of_char a :: nat) = of_char b" by (simp only: u)
  then show "a = b" by simp
qed simp

lemma xor_zero_iff: "(a :: 8 word) XOR b = 0 \<longleftrightarrow> a = b"
  by (auto simp: bit_eq_iff bit_simps)

lemma fold_or_zero:
  "fold (\<lambda>(a, b) d. d OR (a XOR b)) ps d = 0 \<longleftrightarrow> d = (0 :: 8 word) \<and> (\<forall>(a, b)\<in>set ps. a = b)"
proof (induction ps arbitrary: d)
  case (Cons p ps)
  then show ?case by (cases p) (auto simp: or_eq_0_iff xor_zero_iff)
qed simp

lemma constant_time_eq: "constant_time_str_eq l r \<longleftrightarrow> l = r"
proof (cases "length l = length r")
  case True
  then show ?thesis
    by (induction l r rule: list_induct2)
       (auto simp: constant_time_str_eq_def fold_or_zero xor_zero_iff)
qed (auto simp: constant_time_str_eq_def)

definition is_sha256_hex :: "string \<Rightarrow> bool" where
  "is_sha256_hex v = (length v = 64 \<and> list_all is_lower_hex v)"

definition cloud_route_proof_matches :: "CloudRouteProof \<Rightarrow> CloudRouteProof \<Rightarrow> bool" where
  "cloud_route_proof_matches left right =
     (constant_time_str_eq (rp_reservation_id left) (rp_reservation_id right) \<and>
      rp_generation left = rp_generation right \<and>
      constant_time_str_eq (rp_fencing_token left) (rp_fencing_token right))"

definition cloud_accept_evidence_matches ::
  "CloudAcceptIntent \<Rightarrow> LocalJob \<Rightarrow> string \<Rightarrow> string \<Rightarrow> CloudRouteProof \<Rightarrow> bool" where
  "cloud_accept_evidence_matches intent job lease_id lease_token route =
     (constant_time_str_eq (ci_lease_id intent) lease_id \<and>
      constant_time_str_eq (ci_lease_token intent) lease_token \<and>
      constant_time_str_eq (ci_content_sha256 intent) (lj_content_sha256 job) \<and>
      (0 \<le> lj_printer_sequence job \<and> nat (lj_printer_sequence job) = ci_local_sequence intent) \<and>
      is_some_and (ci_route_reservation_id intent)
        (\<lambda>v. constant_time_str_eq v (rp_reservation_id route)) \<and>
      ci_route_generation intent = Some (rp_generation route) \<and>
      is_some_and (ci_route_fencing_token intent)
        (\<lambda>v. constant_time_str_eq v (rp_fencing_token route)))"

definition accepted_job_matches :: "LocalJob \<Rightarrow> AcceptedJob \<Rightarrow> bool" where
  "accepted_job_matches existing offered =
     (lj_submission_id existing = aj_submission_id offered \<and>
      lj_printer_id existing = aj_printer_id offered \<and>
      lj_printer_native_id existing = aj_printer_native_id offered \<and>
      lj_title existing = aj_title offered \<and>
      lj_content_sha256 existing = aj_content_sha256 offered \<and>
      lj_content_kind existing = aj_content_kind offered \<and>
      lj_options_json existing = aj_options_json offered \<and>
      lj_expires_unix_ms existing = aj_expires_unix_ms offered \<and>
      lj_cloud_managed existing = aj_cloud_managed offered)"

definition job_persistence_facts_match_without_route_owner ::
  "LocalJob \<Rightarrow> JobPersistenceFacts \<Rightarrow> bool" where
  "job_persistence_facts_match_without_route_owner existing facts =
     (lj_target_id existing = jf_target_id facts \<and>
      lj_binding_id existing = jf_binding_id facts \<and>
      lj_profile_id existing = jf_profile_id facts \<and>
      lj_profile_revision existing = jf_profile_revision facts \<and>
      lj_stock_id existing = jf_stock_id facts \<and>
      lj_loaded_media_snapshot_json existing = jf_loaded_media_snapshot_json facts \<and>
      lj_profile_snapshot_json existing = jf_profile_snapshot_json facts \<and>
      lj_printer_native_binding existing = jf_printer_native_binding facts)"

definition job_persistence_facts_match :: "LocalJob \<Rightarrow> JobPersistenceFacts \<Rightarrow> bool" where
  "job_persistence_facts_match existing facts =
     (lj_route_connector_id existing = jf_route_connector_id facts \<and>
      job_persistence_facts_match_without_route_owner existing facts)"

section \<open>Reading rows\<close>

definition decode_native_binding ::
  "ext \<Rightarrow> string option \<Rightarrow> StorageError + PrinterNativeBindingPin option" where
  "decode_native_binding x = opt_result (\<lambda>encoded.
     case pin_of_json x encoded of None \<Rightarrow> Inl Sql | Some pin \<Rightarrow> Inr pin)"

definition row_to_job :: "ext \<Rightarrow> job_row \<Rightarrow> StorageError + LocalJob" where
  "row_to_job x r =
     and_then (opt_result get_u64 (jr_profile_revision r)) (\<lambda>profile_revision.
     and_then (decode_native_binding x (jr_printer_native_binding_json r)) (\<lambda>pin.
     Inr \<lparr>lj_job_id = jr_job_id r, lj_submission_id = jr_submission_id r,
       lj_printer_id = jr_printer_id r, lj_printer_native_id = jr_printer_native_id r,
       lj_printer_sequence = jr_printer_sequence r, lj_title = jr_title r,
       lj_content_sha256 = jr_content_sha256 r, lj_content_path = jr_content_path r,
       lj_content_kind = jr_content_kind r, lj_options_json = jr_options_json r,
       lj_state = jr_state r, lj_expires_unix_ms = jr_expires_unix_ms r,
       lj_native_job_id = jr_native_job_id r, lj_target_id = jr_target_id r,
       lj_binding_id = jr_binding_id r, lj_profile_id = jr_profile_id r,
       lj_profile_revision = profile_revision, lj_stock_id = jr_stock_id r,
       lj_loaded_media_snapshot_json = jr_loaded_media_snapshot_json r,
       lj_cloud_managed = jr_cloud_managed r,
       lj_profile_snapshot_json = jr_profile_snapshot_json r,
       lj_printer_native_binding = pin,
       lj_route_connector_id = jr_route_connector_id r\<rparr>))"

definition query_job :: "ext \<Rightarrow> agent_db \<Rightarrow> string \<Rightarrow> StorageError + LocalJob option" where
  "query_job x s job_id = opt_result (row_to_job x) (sql_find jr_job_id job_id (jobs s))"

definition get_job :: "ext \<Rightarrow> agent_db \<Rightarrow> string \<Rightarrow> StorageError + LocalJob option" where
  "get_job x s job_id = query_job x s job_id"

definition row_to_cloud_accept_intent :: "intent_row \<Rightarrow> StorageError + CloudAcceptIntent" where
  "row_to_cloud_accept_intent r =
     and_then (get_u64 (in_local_sequence r)) (\<lambda>local_sequence.
     and_then (opt_result get_u64 (in_route_generation r)) (\<lambda>route_generation.
     Inr \<lparr>ci_job_id = in_job_id r, ci_lease_id = in_lease_id r,
       ci_lease_token = in_lease_token r,
       ci_lease_expires_unix_ms = in_lease_expires_unix_ms r,
       ci_content_sha256 = in_content_sha256 r, ci_local_sequence = local_sequence,
       ci_route_reservation_id = in_route_reservation_id r,
       ci_route_generation = route_generation,
       ci_route_fencing_token = in_route_fencing_token r,
       ci_remote_accept_confirmed = (in_acceptance_state r = ''remote_accept_confirmed'')\<rparr>))"

definition query_cloud_accept_intent ::
  "agent_db \<Rightarrow> string \<Rightarrow> StorageError + CloudAcceptIntent option" where
  "query_cloud_accept_intent s job_id =
     opt_result row_to_cloud_accept_intent (sql_find in_job_id job_id (cloud_accept_intents s))"

definition query_cloud_route_proof ::
  "agent_db \<Rightarrow> string \<Rightarrow> StorageError + CloudRouteProof option" where
  "query_cloud_route_proof s job_id =
     opt_result (\<lambda>r. and_then (get_u64 (pr_generation r)) (\<lambda>generation.
       Inr \<lparr>rp_reservation_id = pr_reservation_id r, rp_generation = generation,
         rp_fencing_token = pr_fencing_token r\<rparr>))
       (sql_find pr_job_id job_id (cloud_route_proofs s))"

end
