(* ===== verification/Agent_Events.thy ===== *)
theory Agent_Events
  imports Agent_Schema
begin

text \<open>
  The event log and the outbox of the agent store: every state change of a job is one row of
  \<open>job_events\<close>, copied to \<open>event_outbox\<close>, from which it is delivered and acknowledged.

  \<open>event_log_ok\<close> is the invariant of the two tables, \<open>projection_ok\<close> the relation between a
  job's row and its last event. The lemmas of the last section say which changes of the
  database keep them; the operations of the other theories are built from these changes.
\<close>

section \<open>Appending\<close>

fun sql_max :: "int list \<Rightarrow> int option" where
  "sql_max [] = None"
| "sql_max (i # is) = Some (case sql_max is of None \<Rightarrow> i | Some m \<Rightarrow> max i m)"

definition coalesce0 :: "int option \<Rightarrow> int" where
  "coalesce0 v = (case v of None \<Rightarrow> 0 | Some i \<Rightarrow> i)"

definition events_of :: "string \<Rightarrow> agent_db \<Rightarrow> event_row list" where
  "events_of job_id s = filter (\<lambda>e. ev_job_id e = job_id) (job_events s)"

definition next_event_sequence :: "string \<Rightarrow> agent_db \<Rightarrow> int" where
  "next_event_sequence job_id s =
     coalesce0 (sql_max (map ev_job_sequence (events_of job_id s))) + 1"

definition job_exists :: "string \<Rightarrow> agent_db \<Rightarrow> bool" where
  "job_exists job_id s = sql_exists (\<lambda>r. jr_job_id r = job_id) (jobs s)"

definition insert_event :: "ext \<Rightarrow> event_row \<Rightarrow> agent_db \<Rightarrow> StorageError + agent_db" where
  "insert_event x e s =
     and_then (ensure (\<not> sql_exists (\<lambda>r. ev_event_id r = ev_event_id e) (job_events s)) Sql) (\<lambda>_.
     and_then (ensure (\<not> sql_exists (\<lambda>r. ev_job_id r = ev_job_id e \<and>
        ev_job_sequence r = ev_job_sequence e) (job_events s)) Sql) (\<lambda>_.
     and_then (ensure (sqlite_json_valid x (ev_details_json e)) Sql) (\<lambda>_.
     and_then (ensure (job_exists (ev_job_id e) s) Sql) (\<lambda>_.
     Inr (s\<lparr>job_events := job_events s @ [e]\<rparr>)))))"

definition insert_outbox :: "ext \<Rightarrow> event_row \<Rightarrow> agent_db \<Rightarrow> StorageError + agent_db" where
  "insert_outbox x e s =
     and_then (ensure (\<not> sql_exists (\<lambda>r. ev_event_id (ob_event r) = ev_event_id e)
       (event_outbox s)) Sql) (\<lambda>_.
     and_then (ensure (sqlite_json_valid x (ev_details_json e)) Sql) (\<lambda>_.
     and_then (ensure (sql_exists (\<lambda>r. ev_event_id r = ev_event_id e) (job_events s)) Sql) (\<lambda>_.
     Inr (s\<lparr>event_outbox := event_outbox s @ [\<lparr>ob_outbox_sequence = outbox_next s,
             ob_event = e, ob_acknowledged_unix_ms = None\<rparr>],
           outbox_next := outbox_next s + 1\<rparr>))))"

definition append_event_tx :: "ext \<Rightarrow> event_row \<Rightarrow> agent_db \<Rightarrow> StorageError + agent_db" where
  "append_event_tx x e s = and_then (insert_event x e s) (insert_outbox x e)"

definition mk_event ::
  "string \<Rightarrow> string \<Rightarrow> int \<Rightarrow> string \<Rightarrow> string option \<Rightarrow> string option \<Rightarrow> string \<Rightarrow> int \<Rightarrow> event_row" where
  "mk_event event_id job_id job_sequence state reason message details_json observed_unix_ms =
     \<lparr>ev_event_id = event_id, ev_job_id = job_id, ev_job_sequence = job_sequence,
      ev_state = state, ev_reason = reason, ev_message = message,
      ev_details_json = details_json, ev_observed_unix_ms = observed_unix_ms\<rparr>"

lemma mk_event_sel [simp]:
  "ev_event_id (mk_event a b c d e f g h) = a"
  "ev_job_id (mk_event a b c d e f g h) = b"
  "ev_job_sequence (mk_event a b c d e f g h) = c"
  "ev_state (mk_event a b c d e f g h) = d"
  "ev_reason (mk_event a b c d e f g h) = e"
  "ev_details_json (mk_event a b c d e f g h) = g"
  by (simp_all add: mk_event_def)

definition update_jobs ::
  "(job_row \<Rightarrow> bool) \<Rightarrow> (job_row \<Rightarrow> job_row) \<Rightarrow> agent_db \<Rightarrow> nat \<times> agent_db" where
  "update_jobs p f s =
     (fst (sql_update p f (jobs s)), s\<lparr>jobs := snd (sql_update p f (jobs s))\<rparr>)"

definition append_event ::
  "ext \<Rightarrow> string \<Rightarrow> string \<Rightarrow> int \<Rightarrow> string \<Rightarrow> string option \<Rightarrow> string option \<Rightarrow> string \<Rightarrow> int \<Rightarrow> unit db_op"
  where
  "append_event x event_id job_id expected_sequence state reason message details_json
     observed_unix_ms s =
     (case parse_json x details_json of
        Inl e \<Rightarrow> (s, Inl e)
      | Inr _ \<Rightarrow> transaction (\<lambda>s.
          let actual = next_event_sequence job_id s in
          if expected_sequence \<noteq> actual
          then Inl (EventSequence job_id expected_sequence actual)
          else and_then (append_event_tx x (mk_event event_id job_id expected_sequence state
                 reason message details_json observed_unix_ms) s) (\<lambda>s.
            let (changes, s) = update_jobs (\<lambda>r. jr_job_id r = job_id)
                  (\<lambda>r. r\<lparr>jr_state := state, jr_updated_unix_ms := observed_unix_ms\<rparr>) s
            in if changes \<noteq> 1 then Inl (JobNotFound job_id) else Inr (s, ()))) s)"

definition append_next_event ::
  "ext \<Rightarrow> string \<Rightarrow> string \<Rightarrow> string \<Rightarrow> string option \<Rightarrow> string option \<Rightarrow> string \<Rightarrow> int \<Rightarrow> int db_op"
  where
  "append_next_event x event_id job_id state reason message details_json observed_unix_ms s =
     (let sequence = next_event_sequence job_id s in
      case append_event x event_id job_id sequence state reason message details_json
             observed_unix_ms s of
        (s', Inl e) \<Rightarrow> (s', Inl e)
      | (s', Inr _) \<Rightarrow> (s', Inr sequence))"

section \<open>Delivery\<close>

record PendingEvent =
  pe_outbox_sequence :: int
  pe_event_id :: string
  pe_job_id :: string
  pe_job_sequence :: int
  pe_state :: string
  pe_reason :: "string option"
  pe_message :: "string option"
  pe_details_json :: string
  pe_observed_unix_ms :: int

definition row_to_pending :: "outbox_row \<Rightarrow> PendingEvent" where
  "row_to_pending r = \<lparr>pe_outbox_sequence = ob_outbox_sequence r,
     pe_event_id = ev_event_id (ob_event r), pe_job_id = ev_job_id (ob_event r),
     pe_job_sequence = ev_job_sequence (ob_event r), pe_state = ev_state (ob_event r),
     pe_reason = ev_reason (ob_event r), pe_message = ev_message (ob_event r),
     pe_details_json = ev_details_json (ob_event r),
     pe_observed_unix_ms = ev_observed_unix_ms (ob_event r)\<rparr>"

definition clamp_limit :: "nat \<Rightarrow> nat \<Rightarrow> nat" where
  "clamp_limit hi limit = min hi (max 1 limit)"

definition cloud_managed_job :: "agent_db \<Rightarrow> string \<Rightarrow> bool" where
  "cloud_managed_job s job_id = sql_exists (\<lambda>r. jr_job_id r = job_id \<and> jr_cloud_managed r) (jobs s)"

definition pending_events :: "int \<Rightarrow> nat \<Rightarrow> agent_db \<Rightarrow> PendingEvent list" where
  "pending_events after_sequence limit s =
     map row_to_pending (take (clamp_limit 500 limit) (sort_key ob_outbox_sequence
       (filter (\<lambda>r. ob_acknowledged_unix_ms r = None \<and> after_sequence < ob_outbox_sequence r)
         (event_outbox s))))"

definition pending_cloud_events :: "int \<Rightarrow> nat \<Rightarrow> agent_db \<Rightarrow> PendingEvent list" where
  "pending_cloud_events after_sequence limit s =
     map row_to_pending (take (clamp_limit 500 limit) (sort_key ob_outbox_sequence
       (filter (\<lambda>r. cloud_managed_job s (ev_job_id (ob_event r)) \<and>
           ob_acknowledged_unix_ms r = None \<and> after_sequence < ob_outbox_sequence r)
         (event_outbox s))))"

definition latest_pending_cloud_event_sequence :: "agent_db \<Rightarrow> int" where
  "latest_pending_cloud_event_sequence s =
     coalesce0 (sql_max (map ob_outbox_sequence
       (filter (\<lambda>r. cloud_managed_job s (ev_job_id (ob_event r)) \<and>
           ob_acknowledged_unix_ms r = None) (event_outbox s))))"

definition acknowledge_events :: "int \<Rightarrow> int \<Rightarrow> nat db_op" where
  "acknowledge_events through_sequence acknowledged_unix_ms s =
     (let (changes, t) = sql_update
        (\<lambda>r. ob_outbox_sequence r \<le> through_sequence \<and> ob_acknowledged_unix_ms r = None)
        (\<lambda>r. r\<lparr>ob_acknowledged_unix_ms := Some acknowledged_unix_ms\<rparr>) (event_outbox s)
      in (s\<lparr>event_outbox := t\<rparr>, Inr changes))"

definition acknowledge_cloud_event :: "string \<Rightarrow> int \<Rightarrow> nat db_op" where
  "acknowledge_cloud_event event_id acknowledged_unix_ms s =
     (case sql_find (\<lambda>r. ev_event_id (ob_event r)) event_id (event_outbox s) of
        None \<Rightarrow> (s, Inl (JobNotFound (''event:'' @ event_id)))
      | Some row \<Rightarrow>
          let (changes, t) = sql_update
            (\<lambda>r. ob_outbox_sequence r \<le> ob_outbox_sequence row \<and>
                 ob_acknowledged_unix_ms r = None \<and>
                 cloud_managed_job s (ev_job_id (ob_event r)))
            (\<lambda>r. r\<lparr>ob_acknowledged_unix_ms := Some acknowledged_unix_ms\<rparr>) (event_outbox s)
          in (s\<lparr>event_outbox := t\<rparr>, Inr changes))"

section \<open>The invariant of the log\<close>

definition event_log_ok :: "agent_db \<Rightarrow> bool" where
  "event_log_ok s \<longleftrightarrow>
     (\<forall>j. map ev_job_sequence (events_of j s) = [1..int (length (events_of j s))]) \<and>
     map ob_event (event_outbox s) = job_events s \<and>
     map ob_outbox_sequence (event_outbox s) = [1..int (length (event_outbox s))] \<and>
     outbox_next s = 1 + int (length (event_outbox s)) \<and>
     distinct (map ev_event_id (job_events s)) \<and>
     (\<forall>e\<in>set (job_events s). job_exists (ev_job_id e) s)"

text \<open>
  The row of a job shows the state of its last event. The exceptions are the states that the
  cloud acceptance protocol gives a cloud job without an event: prepared, and prepared and
  then given back.
\<close>

definition silent_cloud_state :: "job_row \<Rightarrow> bool" where
  "silent_cloud_state r =
     (jr_cloud_managed r \<and> jr_state r \<in> {''cloud_accept_pending'', ''cancelled''})"

definition row_projects :: "agent_db \<Rightarrow> job_row \<Rightarrow> bool" where
  "row_projects s r =
     (silent_cloud_state r \<or>
      (events_of (jr_job_id r) s \<noteq> [] \<and> jr_state r \<noteq> ''cloud_accept_pending'' \<and>
       jr_state r = ev_state (last (events_of (jr_job_id r) s))))"

definition projection_ok :: "agent_db \<Rightarrow> bool" where
  "projection_ok s \<longleftrightarrow> (\<forall>r\<in>set (jobs s). row_projects s r)"

lemma sql_max_Max: "xs \<noteq> [] \<Longrightarrow> sql_max xs = Some (Max (set xs))"
proof (induction xs)
  case (Cons i xs)
  then show ?case by (cases "xs = []") simp_all
qed simp

lemma Max_from_one: "1 \<le> n \<Longrightarrow> Max {1..n} = (n :: int)"
  by (rule Max_eqI) auto

lemma next_event_sequence_log:
  assumes "event_log_ok s"
  shows "next_event_sequence j s = 1 + int (length (events_of j s))"
proof (cases "events_of j s = []")
  case False
  then have "map ev_job_sequence (events_of j s) \<noteq> []" by simp
  moreover have "map ev_job_sequence (events_of j s) = [1..int (length (events_of j s))]"
    using assms by (simp add: event_log_ok_def)
  moreover have "1 \<le> int (length (events_of j s))"
    using False by (cases "events_of j s") auto
  ultimately show ?thesis
    by (simp add: next_event_sequence_def sql_max_Max coalesce0_def Max_from_one)
qed (simp add: next_event_sequence_def coalesce0_def)

lemma append_event_tx_Inr:
  "append_event_tx x e s = Inr s' \<longleftrightarrow>
     (\<forall>r\<in>set (job_events s). ev_event_id r \<noteq> ev_event_id e) \<and>
     (\<forall>r\<in>set (event_outbox s). ev_event_id (ob_event r) \<noteq> ev_event_id e) \<and>
     (\<forall>r\<in>set (job_events s). ev_job_id r = ev_job_id e \<longrightarrow>
        ev_job_sequence r \<noteq> ev_job_sequence e) \<and>
     sqlite_json_valid x (ev_details_json e) \<and> job_exists (ev_job_id e) s \<and>
     s' = s\<lparr>job_events := job_events s @ [e],
            event_outbox := event_outbox s @ [\<lparr>ob_outbox_sequence = outbox_next s,
              ob_event = e, ob_acknowledged_unix_ms = None\<rparr>],
            outbox_next := outbox_next s + 1\<rparr>"
  unfolding append_event_tx_def insert_event_def insert_outbox_def and_then_eq_Inr ensure_eq_Inr
    sql_exists_iff
  by auto

text \<open>What an append changes, for use as rewrite rules.\<close>

lemma append_event_tx_frame:
  assumes "append_event_tx x e s = Inr s'"
  shows "jobs s' = jobs s" "job_events s' = job_events s @ [e]"
    "events_of j s' = events_of j s @ (if ev_job_id e = j then [e] else [])"
    "printer_sequences s' = printer_sequences s" "content_files s' = content_files s"
    "cloud_accept_intents s' = cloud_accept_intents s"
    "cloud_route_proofs s' = cloud_route_proofs s"
    "job_reconciliation s' = job_reconciliation s"
    "local_handoff_resolutions s' = local_handoff_resolutions s"
    "inbox_receipts s' = inbox_receipts s"
    "cloud_release_cleanups s' = cloud_release_cleanups s"
    "native_observations s' = native_observations s"
    "printer_profiles s' = printer_profiles s"
    "job_exists (ev_job_id e) s" "job_exists j s' = job_exists j s"
  using assms by (auto simp: append_event_tx_Inr events_of_def job_exists_def)

lemma upto_snoc: "[1..1 + int n] = [1..int n] @ [1 + int n]"
  by (simp add: upto_rec2)

lemma event_log_ok_append:
  assumes ok: "event_log_ok s" and app: "append_event_tx x e s = Inr s'"
    and seq: "ev_job_sequence e = next_event_sequence (ev_job_id e) s"
  shows "event_log_ok s'"
proof -
  have "map ev_job_sequence (events_of j s') = [1..int (length (events_of j s'))]" for j
    using ok seq app
    by (cases "ev_job_id e = j")
       (auto simp: event_log_ok_def append_event_tx_frame(3) [OF app]
          next_event_sequence_log [OF ok] upto_snoc)
  moreover have "map ob_outbox_sequence (event_outbox s') = [1..int (length (event_outbox s'))]"
    using ok app by (auto simp: event_log_ok_def append_event_tx_Inr upto_snoc)
  ultimately show ?thesis
    using ok app by (auto simp: event_log_ok_def append_event_tx_Inr job_exists_def)
qed

lemma event_log_ok_frame:
  assumes "event_log_ok s" and "job_events s' = job_events s"
    and "event_outbox s' = event_outbox s" and "outbox_next s' = outbox_next s"
    and "jr_job_id ` set (jobs s) \<subseteq> jr_job_id ` set (jobs s')"
  shows "event_log_ok s'"
  using assms by (fastforce simp: event_log_ok_def events_of_def job_exists_def sql_exists_iff)

text \<open>
  A change of the job table that goes with an appended event: the rows of the event's job take
  its state, the others keep theirs.
\<close>

lemma projection_ok_append:
  assumes ok: "projection_ok s" and ev: "job_events s' = job_events s @ [e]"
    and st: "ev_state e \<noteq> ''cloud_accept_pending''"
    and rows: "\<And>r'. r' \<in> set (jobs s') \<Longrightarrow>
      (jr_job_id r' = ev_job_id e \<and> jr_state r' = ev_state e) \<or>
      (jr_job_id r' \<noteq> ev_job_id e \<and> (\<exists>r\<in>set (jobs s). jr_job_id r = jr_job_id r' \<and>
        jr_state r = jr_state r' \<and> jr_cloud_managed r = jr_cloud_managed r'))"
  shows "projection_ok s'"
  unfolding projection_ok_def
proof
  fix r' assume r': "r' \<in> set (jobs s')"
  have *: "events_of j s' = events_of j s @ (if ev_job_id e = j then [e] else [])" for j
    by (simp add: events_of_def ev)
  from rows [OF r'] show "row_projects s' r'"
  proof
    assume "jr_job_id r' = ev_job_id e \<and> jr_state r' = ev_state e"
    then show ?thesis using st by (simp add: row_projects_def *)
  next
    assume "jr_job_id r' \<noteq> ev_job_id e \<and> (\<exists>r\<in>set (jobs s). jr_job_id r = jr_job_id r' \<and>
        jr_state r = jr_state r' \<and> jr_cloud_managed r = jr_cloud_managed r')"
    then show ?thesis using ok by (fastforce simp: row_projects_def silent_cloud_state_def projection_ok_def *)
  qed
qed

lemma projection_ok_frame:
  assumes "projection_ok s" and "job_events s' = job_events s"
    and "\<And>r'. r' \<in> set (jobs s') \<Longrightarrow> silent_cloud_state r' \<or>
      (\<exists>r\<in>set (jobs s). jr_job_id r = jr_job_id r' \<and>
        jr_state r = jr_state r' \<and> jr_cloud_managed r = jr_cloud_managed r')"
  shows "projection_ok s'"
  using assms
  by (fastforce simp: projection_ok_def row_projects_def silent_cloud_state_def events_of_def)

end
