(* ===== verification/Agent_Queue.thy ===== *)
theory Agent_Queue
  imports Agent_Events
begin

text \<open>
  The local queue of the agent store: accepting a job, the rows an acceptance writes, and the
  queries of the executor and of the health report.

  \<open>jobs_ok\<close> is the invariant of the job table: unique identifiers and, per printer, unique
  sequence numbers below the printer's counter. The properties are stated at the end.
\<close>

section \<open>Facts a job is pinned to\<close>

definition connector_id_invalid :: "string \<Rightarrow> bool" where
  "connector_id_invalid v = (v = [] \<or> 128 < length v \<or> str_has_control v)"

definition validate_snapshot :: "ext \<Rightarrow> string \<Rightarrow> StorageError + unit" where
  "validate_snapshot x encoded =
     (if MAX_NATIVE_PROFILE_BLOB_BYTES * 2 < length encoded
      then Inl (InvalidLocalEvent ''job persistence snapshot exceeds the local limit'')
      else parse_json x encoded)"

definition pin_invalid :: "PrinterNativeBindingPin \<Rightarrow> bool" where
  "pin_invalid pin =
     (pin_generation pin = 0 \<or>
      list_ex (\<lambda>v. v = [] \<or> 512 < length v)
        [pin_process_session_id pin, pin_printer_id pin, pin_output_profile_id pin,
         pin_language_profile_id pin, pin_language pin, pin_language_version pin,
         pin_profile_version pin, pin_media_type pin] \<or>
      \<not> is_sha256_hex (pin_driver_fingerprint_sha256 pin) \<or>
      \<not> is_sha256_hex (pin_support_pack_digest_sha256 pin))"

definition list_of_option :: "'a option \<Rightarrow> 'a list" where
  "list_of_option v = (case v of None \<Rightarrow> [] | Some a \<Rightarrow> [a])"

definition validate_job_persistence_facts ::
  "ext \<Rightarrow> JobPersistenceFacts \<Rightarrow> StorageError + unit" where
  "validate_job_persistence_facts x facts =
     (if is_some_and (jf_route_connector_id facts) connector_id_invalid
      then Inl (InvalidLocalEvent ''route connector identity is invalid'')
      else if (jf_profile_id facts \<noteq> None) \<noteq> (jf_profile_revision facts \<noteq> None)
      then Inl (InvalidLocalEvent ''profile identity and revision must be pinned together'')
      else if jf_profile_snapshot_json facts \<noteq> None \<and> jf_profile_id facts = None
      then Inl (InvalidLocalEvent ''profile snapshot requires an exact profile revision'')
      else and_then (try_each (validate_snapshot x)
             (list_of_option (jf_loaded_media_snapshot_json facts) @
              list_of_option (jf_profile_snapshot_json facts))) (\<lambda>_.
        if is_some_and (jf_printer_native_binding facts) pin_invalid
        then Inl (InvalidLocalEvent ''printer-native binding pin is invalid'')
        else Inr ()))"

definition validate_job_native_binding ::
  "AcceptedJob \<Rightarrow> JobPersistenceFacts \<Rightarrow> StorageError + unit" where
  "validate_job_native_binding job facts =
     (if is_some_and (jf_printer_native_binding facts)
           (\<lambda>pin. pin_printer_id pin \<noteq> aj_printer_id job)
      then Inl (InvalidLocalEvent ''printer-native binding does not match the job printer'')
      else Inr ())"

definition encode_native_binding ::
  "ext \<Rightarrow> JobPersistenceFacts \<Rightarrow> StorageError + string option" where
  "encode_native_binding x facts =
     opt_result (\<lambda>pin. case pin_to_json x pin of None \<Rightarrow> Inl Json | Some j \<Rightarrow> Inr j)
       (jf_printer_native_binding facts)"

definition validate_profile_fact_tx ::
  "JobPersistenceFacts \<Rightarrow> agent_db \<Rightarrow> StorageError + unit" where
  "validate_profile_fact_tx facts s =
     (case (jf_profile_id facts, jf_profile_revision facts) of
        (Some profile_id, Some revision) \<Rightarrow>
          if jf_profile_snapshot_json facts \<noteq> None then Inr ()
          else and_then (to_sql_u64 revision) (\<lambda>rev.
            if sql_exists (\<lambda>p. pf_profile_id p = profile_id \<and> pf_revision p = rev \<and>
                 \<not> pf_deleted p) (printer_profiles s)
            then Inr ()
            else Inl (InvalidPrinterProfile (''profile '' @ profile_id @ '' revision '' @
                   show_nat revision @ '' was not found'')))
      | _ \<Rightarrow> Inr ())"

section \<open>The rows an acceptance writes\<close>

definition allocate_printer_sequence :: "string \<Rightarrow> agent_db \<Rightarrow> agent_db \<times> int" where
  "allocate_printer_sequence printer_id s =
     (let next_sequence =
        (case printer_sequences s printer_id of None \<Rightarrow> 2 | Some n \<Rightarrow> n + 1)
      in (s\<lparr>printer_sequences := (printer_sequences s)(printer_id \<mapsto> next_sequence)\<rparr>,
          next_sequence - 1))"

definition insert_inbox_receipt :: "AcceptedJob \<Rightarrow> agent_db \<Rightarrow> StorageError + agent_db" where
  "insert_inbox_receipt job s =
     (let row = \<lparr>re_receipt_id = ''accept:'' @ aj_job_id job, re_job_id = aj_job_id job,
        re_content_sha256 = aj_content_sha256 job,
        re_received_unix_ms = aj_accepted_unix_ms job\<rparr>
      in and_then (ensure (\<not> sql_exists (\<lambda>r. re_receipt_id r = re_receipt_id row \<or>
             re_job_id r = re_job_id row) (inbox_receipts s)) Sql) (\<lambda>_.
         Inr (s\<lparr>inbox_receipts := inbox_receipts s @ [row]\<rparr>)))"

definition record_content_reference :: "AcceptedJob \<Rightarrow> agent_db \<Rightarrow> StorageError + agent_db" where
  "record_content_reference job s =
     (case sql_find cr_sha256 (aj_content_sha256 job) (content_files s) of
        None \<Rightarrow> Inr (s\<lparr>content_files := content_files s @
          [\<lparr>cr_sha256 = aj_content_sha256 job, cr_path = aj_content_path job,
            cr_reference_count = 1, cr_verified_unix_ms = aj_accepted_unix_ms job,
            cr_reclaiming = False\<rparr>]\<rparr>)
      | Some c \<Rightarrow>
          if cr_reclaiming c then Inl (ContentReclaimInProgress (aj_content_sha256 job))
          else Inr (s\<lparr>content_files := snd (sql_update
            (\<lambda>r. cr_sha256 r = aj_content_sha256 job)
            (\<lambda>r. r\<lparr>cr_reference_count := cr_reference_count r + 1\<rparr>) (content_files s))\<rparr>))"

definition new_job_row ::
  "AcceptedJob \<Rightarrow> JobPersistenceFacts \<Rightarrow> int \<Rightarrow> string \<Rightarrow> bool \<Rightarrow> bool \<Rightarrow> int option \<Rightarrow> string option \<Rightarrow> job_row"
  where
  "new_job_row job facts printer_sequence state cloud_managed confidential revision binding =
     \<lparr>jr_job_id = aj_job_id job, jr_submission_id = aj_submission_id job,
      jr_printer_id = aj_printer_id job, jr_printer_native_id = aj_printer_native_id job,
      jr_printer_sequence = printer_sequence, jr_title = aj_title job,
      jr_content_sha256 = aj_content_sha256 job, jr_content_path = aj_content_path job,
      jr_content_kind = aj_content_kind job, jr_options_json = aj_options_json job,
      jr_state = state, jr_expires_unix_ms = aj_expires_unix_ms job,
      jr_next_attempt_unix_ms = None, jr_attempt_count = 0, jr_native_job_id = None,
      jr_accepted_unix_ms = aj_accepted_unix_ms job,
      jr_updated_unix_ms = aj_accepted_unix_ms job, jr_cloud_managed = cloud_managed,
      jr_confidential = confidential, jr_confidential_delete_after_unix_ms = None,
      jr_target_id = jf_target_id facts, jr_binding_id = jf_binding_id facts,
      jr_profile_id = jf_profile_id facts, jr_profile_revision = revision,
      jr_stock_id = jf_stock_id facts,
      jr_loaded_media_snapshot_json = jf_loaded_media_snapshot_json facts,
      jr_profile_snapshot_json = jf_profile_snapshot_json facts,
      jr_printer_native_binding_json = binding,
      jr_route_connector_id = jf_route_connector_id facts\<rparr>"

definition insert_job :: "ext \<Rightarrow> job_row \<Rightarrow> agent_db \<Rightarrow> StorageError + agent_db" where
  "insert_job x r s =
     and_then (ensure (\<not> sql_exists (\<lambda>q. jr_job_id q = jr_job_id r) (jobs s)) Sql) (\<lambda>_.
     and_then (ensure (\<not> sql_exists (\<lambda>q. jr_printer_id q = jr_printer_id r \<and>
        jr_printer_sequence q = jr_printer_sequence r) (jobs s)) Sql) (\<lambda>_.
     and_then (ensure (jr_content_kind r \<in> {''pdf'', ''raw''}) Sql) (\<lambda>_.
     and_then (ensure (sqlite_json_valid x (jr_options_json r)) Sql) (\<lambda>_.
     and_then (ensure (null_or_json x (jr_loaded_media_snapshot_json r)) Sql) (\<lambda>_.
     and_then (ensure (null_or_json x (jr_profile_snapshot_json r)) Sql) (\<lambda>_.
     and_then (ensure (null_or_json x (jr_printer_native_binding_json r)) Sql) (\<lambda>_.
     and_then (ensure (sql_exists (\<lambda>c. cr_sha256 c = jr_content_sha256 r) (content_files s)) Sql) (\<lambda>_.
     Inr (s\<lparr>jobs := jobs s @ [r]\<rparr>)))))))))"

text \<open>The part of an acceptance that local and cloud jobs share, up to the row of the job.\<close>

definition insert_accepted_job ::
  "ext \<Rightarrow> AcceptedJob \<Rightarrow> JobPersistenceFacts \<Rightarrow> string \<Rightarrow> bool \<Rightarrow> bool \<Rightarrow> agent_db \<Rightarrow> StorageError + agent_db"
  where
  "insert_accepted_job x job facts state cloud_managed confidential s =
     and_then (validate_profile_fact_tx facts s) (\<lambda>_.
     let (s, printer_sequence) = allocate_printer_sequence (aj_printer_id job) s in
     and_then (insert_inbox_receipt job s) (\<lambda>s.
     and_then (record_content_reference job s) (\<lambda>s.
     and_then (encode_native_binding x facts) (\<lambda>binding.
     and_then (opt_result to_sql_u64 (jf_profile_revision facts)) (\<lambda>revision.
     insert_job x (new_job_row job facts printer_sequence state cloud_managed confidential
       revision binding) s)))))"

text \<open>
  \<open>Ok(existing)\<close> is returned from inside the transaction; a new job is read back after the
  commit.
\<close>

definition read_back ::
  "ext \<Rightarrow> string \<Rightarrow> agent_db \<times> (StorageError + LocalJob option) \<Rightarrow> agent_db \<times> (StorageError + LocalJob)"
  where
  "read_back x job_id out =
     (case out of
        (s, Inl e) \<Rightarrow> (s, Inl e)
      | (s, Inr (Some existing)) \<Rightarrow> (s, Inr existing)
      | (s, Inr None) \<Rightarrow> (s, and_then (get_job x s job_id) (\<lambda>j.
          case j of None \<Rightarrow> Inl (JobNotFound job_id) | Some job \<Rightarrow> Inr job)))"

definition accept_job_tx ::
  "ext \<Rightarrow> string \<Rightarrow> AcceptedJob \<Rightarrow> JobPersistenceFacts \<Rightarrow> LocalJob option tx" where
  "accept_job_tx x event_id job facts s =
     and_then (query_job x s (aj_job_id job)) (\<lambda>found. case found of
       Some existing \<Rightarrow>
         if accepted_job_matches existing job \<and> job_persistence_facts_match existing facts
         then Inr (s, Some existing) else Inl (JobConflict (aj_job_id job))
     | None \<Rightarrow>
         and_then (insert_accepted_job x job facts ''queued_local'' (aj_cloud_managed job) False s) (\<lambda>s.
         and_then (append_event_tx x (mk_event event_id (aj_job_id job) 1 ''queued_local'' None
           (Some ''Job is durable in the local queue'') ''{}'' (aj_accepted_unix_ms job)) s) (\<lambda>s.
         Inr (s, None))))"

definition accept_job_with_facts ::
  "ext \<Rightarrow> string \<Rightarrow> AcceptedJob \<Rightarrow> JobPersistenceFacts \<Rightarrow> LocalJob db_op" where
  "accept_job_with_facts x event_id job facts s =
     (case and_then (validate_job_persistence_facts x facts)
             (\<lambda>_. validate_job_native_binding job facts) of
        Inl e \<Rightarrow> (s, Inl e)
      | Inr _ \<Rightarrow> read_back x (aj_job_id job)
          (transaction (accept_job_tx x event_id job facts) s))"

definition accept_job :: "ext \<Rightarrow> string \<Rightarrow> AcceptedJob \<Rightarrow> LocalJob db_op" where
  "accept_job x event_id job = accept_job_with_facts x event_id job default_facts"

text \<open>
  \<open>pin_job_profile\<close>: routing pins an accepted job to a profile revision. A pin to the same
  revision may be repeated, a different one is a conflict.
\<close>

definition pin_job_profile ::
  "ext \<Rightarrow> string \<Rightarrow> string option \<Rightarrow> string option \<Rightarrow> string \<Rightarrow> nat \<Rightarrow> string option \<Rightarrow>
     string option \<Rightarrow> unit db_op" where
  "pin_job_profile x job_id target_id binding_id profile_id profile_revision stock_id media_snapshot s =
     (case and_then (opt_result (parse_json x) media_snapshot) (\<lambda>_. to_sql_u64 profile_revision) of
        Inl e \<Rightarrow> (s, Inl e)
      | Inr revision \<Rightarrow>
          if \<not> sql_exists (\<lambda>p. pf_profile_id p = profile_id \<and> pf_revision p = revision \<and>
               \<not> pf_deleted p) (printer_profiles s)
          then (s, Inl (InvalidPrinterProfile (''profile '' @ profile_id @ '' revision '' @
                 show_nat profile_revision @ '' was not found'')))
          else
            let (changed, s') = update_jobs
                  (\<lambda>r. jr_job_id r = job_id \<and> (jr_profile_id r = None \<or>
                     jr_profile_id r = Some profile_id \<and> jr_profile_revision r = Some revision))
                  (\<lambda>r. r\<lparr>jr_target_id := target_id, jr_binding_id := binding_id,
                     jr_profile_id := Some profile_id, jr_profile_revision := Some revision,
                     jr_stock_id := stock_id, jr_loaded_media_snapshot_json := media_snapshot\<rparr>) s
            in if changed \<noteq> 0 \<and> \<not> null_or_json x media_snapshot then (s, Inl Sql)
               else if changed \<noteq> 1
               then (s', Inl (if job_exists job_id s' then JobConflict job_id else JobNotFound job_id))
               else (s', Inr ()))"

section \<open>Queries\<close>

definition executing_states :: "string list" where
  "executing_states = [''preparing'', ''rendering'', ''spool_intent'', ''accepted_by_spooler'',
     ''spooling'', ''printing'']"

definition queued_states :: "string list" where
  "queued_states = [''queued_local'', ''failed_retryable'']"

definition has_queued_work :: "agent_db \<Rightarrow> bool" where
  "has_queued_work s =
     sql_exists (\<lambda>r. jr_state r \<in> set (queued_states @ executing_states)) (jobs s)"

definition count_jobs :: "(job_row \<Rightarrow> bool) \<Rightarrow> agent_db \<Rightarrow> StorageError + nat" where
  "count_jobs p s = get_u32 (length (filter p (jobs s)))"

definition queue_counts :: "agent_db \<Rightarrow> StorageError + QueueCounts" where
  "queue_counts s =
     and_then (count_jobs (\<lambda>r. jr_state r \<in> set queued_states) s) (\<lambda>queued.
     and_then (count_jobs (\<lambda>r. jr_state r \<in> set executing_states) s) (\<lambda>active.
     Inr \<lparr>qc_queued = queued, qc_active = active\<rparr>))"

definition printer_queue_counts :: "string \<Rightarrow> agent_db \<Rightarrow> StorageError + QueueCounts" where
  "printer_queue_counts printer_id s =
     and_then (count_jobs (\<lambda>r. jr_printer_id r = printer_id \<and> jr_state r \<in> set queued_states) s) (\<lambda>queued.
     and_then (count_jobs (\<lambda>r. jr_printer_id r = printer_id \<and>
        jr_state r \<in> set (executing_states @ [''blocked''])) s) (\<lambda>active.
     Inr \<lparr>qc_queued = queued, qc_active = active\<rparr>))"

definition jobs_for_printer :: "ext \<Rightarrow> string \<Rightarrow> nat \<Rightarrow> agent_db \<Rightarrow> StorageError + LocalJob list" where
  "jobs_for_printer x printer_id limit s =
     collect_results (map (row_to_job x) (take (clamp_limit 500 limit)
       (sort_key (\<lambda>r. - jr_printer_sequence r)
         (filter (\<lambda>r. jr_printer_id r = printer_id) (jobs s)))))"

definition local_job_history :: "ext \<Rightarrow> nat \<Rightarrow> nat \<Rightarrow> agent_db \<Rightarrow> StorageError + LocalJob list" where
  "local_job_history x offset limit s =
     collect_results (map (row_to_job x) (take (clamp_limit 200 limit)
       (drop (min offset 2147483647)
         (rev (sort_key (\<lambda>r. (jr_accepted_unix_ms r, jr_job_id r)) (jobs s))))))"

definition head_candidate :: "job_row \<Rightarrow> bool" where
  "head_candidate r =
     ((jr_state r = ''queued_local'' \<or> jr_state r = ''failed_retryable'' \<and> \<not> jr_cloud_managed r) \<and>
      (\<not> jr_cloud_managed r \<or> jr_route_connector_id r \<noteq> None))"

definition executing :: "job_row \<Rightarrow> bool" where
  "executing r = (jr_state r \<in> set executing_states)"

fun sql_min :: "int list \<Rightarrow> int option" where
  "sql_min [] = None"
| "sql_min (i # is) = Some (case sql_min is of None \<Rightarrow> i | Some m \<Rightarrow> min i m)"

definition attempt_due :: "int \<Rightarrow> job_row \<Rightarrow> bool" where
  "attempt_due now_unix_ms j =
     (case jr_next_attempt_unix_ms j of None \<Rightarrow> True | Some t \<Rightarrow> t \<le> now_unix_ms)"

definition unexpired :: "int \<Rightarrow> job_row \<Rightarrow> bool" where
  "unexpired now_unix_ms j =
     (case jr_expires_unix_ms j of None \<Rightarrow> True | Some t \<Rightarrow> now_unix_ms < t)"

definition is_runnable_head :: "int \<Rightarrow> agent_db \<Rightarrow> job_row \<Rightarrow> bool" where
  "is_runnable_head now_unix_ms s j =
     (head_candidate j \<and> attempt_due now_unix_ms j \<and> unexpired now_unix_ms j \<and>
      \<not> sql_exists (\<lambda>a. jr_printer_id a = jr_printer_id j \<and> executing a) (jobs s) \<and>
      Some (jr_printer_sequence j) = sql_min (map jr_printer_sequence
        (filter (\<lambda>h. jr_printer_id h = jr_printer_id j \<and> head_candidate h) (jobs s))))"

definition runnable_head_rows :: "int \<Rightarrow> agent_db \<Rightarrow> job_row list" where
  "runnable_head_rows now_unix_ms s =
     sort_key (\<lambda>r. (jr_accepted_unix_ms r, jr_job_id r))
       (filter (is_runnable_head now_unix_ms s) (jobs s))"

definition runnable_heads :: "ext \<Rightarrow> int \<Rightarrow> agent_db \<Rightarrow> StorageError + LocalJob list" where
  "runnable_heads x now_unix_ms s =
     collect_results (map (row_to_job x) (runnable_head_rows now_unix_ms s))"

end
