(* ===== verification/Agent_Invariant.thy ===== *)
theory Agent_Invariant
  imports Agent_Queue
begin

text \<open>
  The invariant of the agent database, and the two shapes of change that keep it: a change
  that logs nothing, and a change that appends one event and moves the job of the event to the
  event's state. The operations of the store are reduced to these shapes.
\<close>

section \<open>The invariant\<close>

definition row_core :: "job_row \<Rightarrow> string \<times> string \<times> int \<times> string \<times> bool" where
  "row_core r = (jr_job_id r, jr_printer_id r, jr_printer_sequence r, jr_content_sha256 r,
     jr_cloud_managed r)"

definition jobs_ok :: "agent_db \<Rightarrow> bool" where
  "jobs_ok s \<longleftrightarrow>
     distinct (map jr_job_id (jobs s)) \<and>
     distinct (map (\<lambda>r. (jr_printer_id r, jr_printer_sequence r)) (jobs s)) \<and>
     (\<forall>r\<in>set (jobs s). 1 \<le> jr_printer_sequence r \<and>
        (\<exists>n. printer_sequences s (jr_printer_id r) = Some n \<and> jr_printer_sequence r < n)) \<and>
     (\<forall>p n. printer_sequences s p = Some n \<longrightarrow> 1 < n)"

definition content_ok :: "agent_db \<Rightarrow> bool" where
  "content_ok s \<longleftrightarrow>
     distinct (map cr_sha256 (content_files s)) \<and>
     (\<forall>r\<in>set (jobs s). \<exists>c\<in>set (content_files s). cr_sha256 c = jr_content_sha256 r)"

definition refers :: "('r \<Rightarrow> string) \<Rightarrow> 'r list \<Rightarrow> agent_db \<Rightarrow> bool" where
  "refers key t s \<longleftrightarrow> (\<forall>r\<in>set t. job_exists (key r) s)"

definition refs_ok :: "agent_db \<Rightarrow> bool" where
  "refs_ok s \<longleftrightarrow>
     distinct (map in_job_id (cloud_accept_intents s)) \<and>
     refers in_job_id (cloud_accept_intents s) s \<and>
     distinct (map pr_job_id (cloud_route_proofs s)) \<and>
     refers pr_job_id (cloud_route_proofs s) s \<and>
     distinct (map cl_job_id (cloud_release_cleanups s)) \<and>
     refers cl_job_id (cloud_release_cleanups s) s \<and>
     distinct (map rr_job_id (job_reconciliation s)) \<and>
     refers rr_job_id (job_reconciliation s) s \<and>
     distinct (map lr_ambiguity_id (local_handoff_resolutions s)) \<and>
     refers lr_job_id (local_handoff_resolutions s) s \<and>
     refers re_job_id (inbox_receipts s) s \<and>
     (\<forall>r\<in>set (inbox_receipts s). re_receipt_id r = ''accept:'' @ re_job_id r)"

definition db_wf :: "agent_db \<Rightarrow> bool" where
  "db_wf s \<longleftrightarrow> jobs_ok s \<and> content_ok s \<and> refs_ok s \<and> event_log_ok s \<and> projection_ok s"

lemma db_wf_empty: "db_wf empty_db"
  by (simp add: db_wf_def empty_db_def jobs_ok_def content_ok_def refs_ok_def refers_def
      event_log_ok_def projection_ok_def events_of_def)

section \<open>Frames\<close>

definition same_log :: "agent_db \<Rightarrow> agent_db \<Rightarrow> bool" where
  "same_log s s' \<longleftrightarrow> job_events s' = job_events s \<and> event_outbox s' = event_outbox s \<and>
     outbox_next s' = outbox_next s"

lemma row_core_eq:
  assumes "row_core r = row_core r'"
  shows "jr_job_id r = jr_job_id r'" "jr_printer_id r = jr_printer_id r'"
    "jr_printer_sequence r = jr_printer_sequence r'"
    "jr_content_sha256 r = jr_content_sha256 r'" "jr_cloud_managed r = jr_cloud_managed r'"
  using assms by (simp_all add: row_core_def)

lemma core_ids: "(\<And>r. row_core (f r) = row_core r) \<Longrightarrow> map jr_job_id (map f t) = map jr_job_id t"
  by (auto dest: row_core_eq(1))

lemma job_exists_map:
  assumes "jobs s' = map f (jobs s)" and core: "\<And>r. row_core (f r) = row_core r"
  shows "job_exists j s' = job_exists j s"
  by (simp add: assms(1) job_exists_def sql_exists_iff row_core_eq(1) [OF core])

lemma jobs_ok_map:
  assumes "jobs_ok s" and "jobs s' = map f (jobs s)" and core: "\<And>r. row_core (f r) = row_core r"
    and "printer_sequences s' = printer_sequences s"
  shows "jobs_ok s'"
  using assms(1,2,4) by (simp add: jobs_ok_def o_def row_core_eq [OF core])

lemma content_ok_map:
  assumes "content_ok s" and "jobs s' = map f (jobs s)" and core: "\<And>r. row_core (f r) = row_core r"
    and "map cr_sha256 (content_files s') = map cr_sha256 (content_files s)"
  shows "content_ok s'"
proof -
  have "cr_sha256 ` set (content_files s') = cr_sha256 ` set (content_files s)"
    using assms(4) by (metis list.set_map)
  then have *: "(\<exists>c\<in>set (content_files s'). cr_sha256 c = h) = (\<exists>c\<in>set (content_files s). cr_sha256 c = h)"
    for h by (metis imageE imageI)
  show ?thesis
    using assms(1,2,4) by (simp add: content_ok_def row_core_eq [OF core] *)
qed

section \<open>Changes that log nothing\<close>

lemma db_wf_quiet:
  assumes wf: "db_wf s" and jobs: "jobs s' = map f (jobs s)"
    and core: "\<And>r. row_core (f r) = row_core r"
    and state: "\<And>r. r \<in> set (jobs s) \<Longrightarrow> silent_cloud_state (f r) \<or> jr_state (f r) = jr_state r"
    and seqs: "printer_sequences s' = printer_sequences s"
    and content: "map cr_sha256 (content_files s') = map cr_sha256 (content_files s)"
    and log: "same_log s s'" and refs: "refs_ok s'"
  shows "db_wf s'"
proof -
  have ids: "jr_job_id ` set (jobs s') = jr_job_id ` set (jobs s)"
    using core_ids [OF core, of "jobs s"] jobs by (metis list.set_map)
  have "event_log_ok s'"
    by (rule event_log_ok_frame [of s]) (use wf log ids in \<open>simp_all add: db_wf_def same_log_def\<close>)
  moreover have "projection_ok s'"
  proof (rule projection_ok_frame [of s])
    fix r' assume "r' \<in> set (jobs s')"
    then obtain r where r: "r \<in> set (jobs s)" "r' = f r" by (auto simp: jobs)
    show "silent_cloud_state r' \<or> (\<exists>r\<in>set (jobs s). jr_job_id r = jr_job_id r' \<and>
        jr_state r = jr_state r' \<and> jr_cloud_managed r = jr_cloud_managed r')"
      using state [OF r(1)] r by (auto simp: row_core_eq [OF core] intro!: bexI [of _ r])
  qed (use wf log in \<open>auto simp: db_wf_def same_log_def\<close>)
  ultimately show ?thesis
    using wf refs jobs_ok_map [OF _ jobs core seqs] content_ok_map [OF _ jobs core content]
    by (simp add: db_wf_def)
qed

section \<open>Changes that log one event\<close>

text \<open>
  \<open>logs e s s'\<close>: between \<open>s\<close> and \<open>s'\<close> the event \<open>e\<close> was appended, at the next
  sequence number of its job.
\<close>

definition logs :: "event_row \<Rightarrow> agent_db \<Rightarrow> agent_db \<Rightarrow> bool" where
  "logs e s s' \<longleftrightarrow> ev_job_sequence e = next_event_sequence (ev_job_id e) s \<and>
     (\<exists>x s1 s2. append_event_tx x e s1 = Inr s2 \<and> same_log s s1 \<and> same_log s2 s' \<and>
       (\<forall>j. job_exists j s1 = job_exists j s) \<and> (\<forall>j. job_exists j s' = job_exists j s))"

lemma logs_events: "logs e s s' \<Longrightarrow> job_events s' = job_events s @ [e]"
  by (auto simp: logs_def same_log_def dest: append_event_tx_frame(2))

lemma logs_event_log_ok:
  assumes "event_log_ok s" and "logs e s s'"
  shows "event_log_ok s'"
proof -
  obtain x s1 s2 where app: "append_event_tx x e s1 = Inr s2" and l1: "same_log s s1"
    and l2: "same_log s2 s'" and j1: "\<forall>j. job_exists j s1 = job_exists j s"
    and j2: "\<forall>j. job_exists j s' = job_exists j s"
    and seq: "ev_job_sequence e = next_event_sequence (ev_job_id e) s"
    using assms(2) unfolding logs_def by blast
  have ids: "jr_job_id ` set (jobs u) \<subseteq> jr_job_id ` set (jobs v)"
    if "\<forall>j. job_exists j u = job_exists j v" for u v
    using that by (auto simp: job_exists_def sql_exists_iff image_iff) metis
  have ok1: "event_log_ok s1"
    by (rule event_log_ok_frame [of s]) (use assms(1) l1 ids [of s s1] j1 in \<open>simp_all add: same_log_def\<close>)
  have "next_event_sequence j s1 = next_event_sequence j s" for j
    using l1 by (simp add: next_event_sequence_def events_of_def same_log_def)
  with ok1 app seq have ok2: "event_log_ok s2" by (metis event_log_ok_append)
  have j3: "\<forall>j. job_exists j s2 = job_exists j s'"
    using j1 j2 append_event_tx_frame(15) [OF app] by blast
  show ?thesis
    by (rule event_log_ok_frame [of s2]) (use ok2 l2 ids [OF j3] in \<open>simp_all add: same_log_def\<close>)
qed

lemma db_wf_loud:
  assumes wf: "db_wf s" and log: "logs e s s'" and jobs: "jobs s' = map f (jobs s)"
    and st: "ev_state e \<noteq> ''cloud_accept_pending''"
    and core: "\<And>r. row_core (f r) = row_core r"
    and hit: "\<And>r. r \<in> set (jobs s) \<Longrightarrow> jr_job_id r = ev_job_id e \<Longrightarrow> jr_state (f r) = ev_state e"
    and miss: "\<And>r. r \<in> set (jobs s) \<Longrightarrow> jr_job_id r \<noteq> ev_job_id e \<Longrightarrow> jr_state (f r) = jr_state r"
    and seqs: "printer_sequences s' = printer_sequences s"
    and content: "map cr_sha256 (content_files s') = map cr_sha256 (content_files s)"
    and refs: "refs_ok s'"
  shows "db_wf s'"
proof -
  have "projection_ok s'"
  proof (rule projection_ok_append [OF _ logs_events [OF log] st])
    fix r' assume "r' \<in> set (jobs s')"
    then obtain r where r: "r \<in> set (jobs s)" "r' = f r" by (auto simp: jobs)
    show "(jr_job_id r' = ev_job_id e \<and> jr_state r' = ev_state e) \<or>
      (jr_job_id r' \<noteq> ev_job_id e \<and> (\<exists>r\<in>set (jobs s). jr_job_id r = jr_job_id r' \<and>
        jr_state r = jr_state r' \<and> jr_cloud_managed r = jr_cloud_managed r'))"
      using r hit [OF r(1)] miss [OF r(1)]
      by (cases "jr_job_id r = ev_job_id e")
         (auto simp: row_core_eq [OF core] intro!: bexI [of _ r])
  qed (use wf in \<open>simp add: db_wf_def\<close>)
  then show ?thesis
    using wf refs jobs_ok_map [OF _ jobs core seqs] content_ok_map [OF _ jobs core content]
      logs_event_log_ok [OF _ log] by (simp add: db_wf_def)
qed

section \<open>Guarded updates of one job\<close>

lemma update_jobs_simps [simp]:
  "fst (update_jobs p f s) = length (filter p (jobs s))"
  "snd (update_jobs p f s) = s\<lparr>jobs := map (\<lambda>r. if p r then f r else r) (jobs s)\<rparr>"
  by (simp_all add: update_jobs_def sql_update_def)

lemma update_jobs_pair:
  "update_jobs p f s =
     (length (filter p (jobs s)), s\<lparr>jobs := map (\<lambda>r. if p r then f r else r) (jobs s)\<rparr>)"
  by (simp add: update_jobs_def sql_update_def)

lemma updated_rows:
  assumes "q \<in> set (jobs (snd (update_jobs p g s)))"
  obtains (hit) r where "r \<in> set (jobs s)" "p r" "q = g r"
  | (miss) "q \<in> set (jobs s)" "\<not> p q"
proof -
  from assms obtain r where r: "r \<in> set (jobs s)" "q = (if p r then g r else r)"
    unfolding update_jobs_pair by auto
  show thesis by (cases "p r") (use r hit miss in simp_all)
qed

lemma one_updated:
  assumes "db_wf s" and "length (filter (\<lambda>r. jr_job_id r = j \<and> q r) (jobs s)) = 1"
  shows "\<And>r. r \<in> set (jobs s) \<Longrightarrow> jr_job_id r = j \<Longrightarrow> q r"
proof -
  have d: "distinct (map jr_job_id (jobs s))" using assms(1) by (simp add: db_wf_def jobs_ok_def)
  from assms(2) obtain r0 where "filter (\<lambda>r. jr_job_id r = j \<and> q r) (jobs s) = [r0]"
    by (auto simp: length_Suc_conv)
  then have "r0 \<in> set (jobs s) \<and> jr_job_id r0 = j \<and> q r0"
    by (metis (mono_tags, lifting) list.set_intros(1) mem_Collect_eq set_filter)
  then show "q r" if "r \<in> set (jobs s)" "jr_job_id r = j" for r
    using that d by (metis sql_find_unique option.inject)
qed

lemma refs_ok_frame:
  assumes "refs_ok s" and "\<And>j. job_exists j s \<Longrightarrow> job_exists j s'"
    and "cloud_accept_intents s' = cloud_accept_intents s"
    and "cloud_route_proofs s' = cloud_route_proofs s"
    and "cloud_release_cleanups s' = cloud_release_cleanups s"
    and "job_reconciliation s' = job_reconciliation s"
    and "local_handoff_resolutions s' = local_handoff_resolutions s"
    and "inbox_receipts s' = inbox_receipts s"
  shows "refs_ok s'"
  using assms by (simp add: refs_ok_def refers_def)

text \<open>The references after a change of one table.\<close>

lemma refs_ok_intents:
  "refs_ok s \<Longrightarrow> distinct (map in_job_id t) \<Longrightarrow> (\<And>r. r \<in> set t \<Longrightarrow> job_exists (in_job_id r) s) \<Longrightarrow>
    refs_ok (s\<lparr>cloud_accept_intents := t\<rparr>)"
  by (simp add: refs_ok_def refers_def job_exists_def)

lemma refs_ok_proofs:
  "refs_ok s \<Longrightarrow> distinct (map pr_job_id t) \<Longrightarrow> (\<And>r. r \<in> set t \<Longrightarrow> job_exists (pr_job_id r) s) \<Longrightarrow>
    refs_ok (s\<lparr>cloud_route_proofs := t\<rparr>)"
  by (simp add: refs_ok_def refers_def job_exists_def)

lemma refs_ok_cleanups:
  "refs_ok s \<Longrightarrow> distinct (map cl_job_id t) \<Longrightarrow> (\<And>r. r \<in> set t \<Longrightarrow> job_exists (cl_job_id r) s) \<Longrightarrow>
    refs_ok (s\<lparr>cloud_release_cleanups := t\<rparr>)"
  by (simp add: refs_ok_def refers_def job_exists_def)

lemma refs_ok_reconciliation:
  "refs_ok s \<Longrightarrow> distinct (map rr_job_id t) \<Longrightarrow> (\<And>r. r \<in> set t \<Longrightarrow> job_exists (rr_job_id r) s) \<Longrightarrow>
    refs_ok (s\<lparr>job_reconciliation := t\<rparr>)"
  by (simp add: refs_ok_def refers_def job_exists_def)

lemma refs_ok_resolutions:
  "refs_ok s \<Longrightarrow> distinct (map lr_ambiguity_id t) \<Longrightarrow>
    (\<And>r. r \<in> set t \<Longrightarrow> job_exists (lr_job_id r) s) \<Longrightarrow>
    refs_ok (s\<lparr>local_handoff_resolutions := t\<rparr>)"
  by (simp add: refs_ok_def refers_def job_exists_def)

lemma refs_ok_jobs_map:
  assumes "refs_ok s" and "\<And>r. row_core (f r) = row_core r"
  shows "refs_ok (s\<lparr>jobs := map f (jobs s)\<rparr>)"
  by (rule refs_ok_frame [OF assms(1)])
     (use job_exists_map [of "s\<lparr>jobs := map f (jobs s)\<rparr>" f s] assms(2) in auto)

lemma refs_okD:
  assumes "refs_ok s"
  shows "distinct (map in_job_id (cloud_accept_intents s))"
    "\<And>r. r \<in> set (cloud_accept_intents s) \<Longrightarrow> job_exists (in_job_id r) s"
    "distinct (map pr_job_id (cloud_route_proofs s))"
    "\<And>r. r \<in> set (cloud_route_proofs s) \<Longrightarrow> job_exists (pr_job_id r) s"
    "distinct (map cl_job_id (cloud_release_cleanups s))"
    "\<And>r. r \<in> set (cloud_release_cleanups s) \<Longrightarrow> job_exists (cl_job_id r) s"
    "distinct (map rr_job_id (job_reconciliation s))"
    "\<And>r. r \<in> set (job_reconciliation s) \<Longrightarrow> job_exists (rr_job_id r) s"
    "distinct (map lr_ambiguity_id (local_handoff_resolutions s))"
    "\<And>r. r \<in> set (local_handoff_resolutions s) \<Longrightarrow> job_exists (lr_job_id r) s"
  using assms by (simp_all add: refs_ok_def refers_def)

lemma refs_ok_delete:
  assumes "refs_ok s"
  shows "refs_ok (s\<lparr>cloud_accept_intents := sql_delete p1 (cloud_accept_intents s)\<rparr>)"
    "refs_ok (s\<lparr>cloud_route_proofs := sql_delete p2 (cloud_route_proofs s)\<rparr>)"
    "refs_ok (s\<lparr>cloud_release_cleanups := sql_delete p3 (cloud_release_cleanups s)\<rparr>)"
    "refs_ok (s\<lparr>job_reconciliation := sql_delete p4 (job_reconciliation s)\<rparr>)"
  using refs_okD [OF assms]
  by (auto intro!: refs_ok_intents refs_ok_proofs refs_ok_cleanups refs_ok_reconciliation assms
      distinct_sql_delete simp: set_sql_delete)

lemma refs_ok_append:
  assumes "append_event_tx x e s = Inr s'" and "refs_ok s"
  shows "refs_ok s'"
  by (rule refs_ok_frame [OF assms(2)]) (use append_event_tx_frame [OF assms(1)] in auto)

section \<open>Appending an event keeps the invariant\<close>

lemma logs_append:
  assumes "append_event_tx x e s1 = Inr s2" and "same_log s s1" and "same_log s2 s'"
    and "\<And>j. job_exists j s1 = job_exists j s" and "\<And>j. job_exists j s' = job_exists j s"
    and "ev_job_sequence e = next_event_sequence (ev_job_id e) s"
  shows "logs e s s'"
  using assms by (auto simp: logs_def)

lemma append_event_wf:
  assumes "db_wf s" and "state \<noteq> ''cloud_accept_pending''"
  shows "db_wf (fst (append_event x event_id job_id n state reason message details now s))"
proof (cases "parse_json x details")
  case (Inr u)
  let ?e = "mk_event event_id job_id n state reason message details now"
  let ?f = "\<lambda>r. if jr_job_id r = job_id
    then r\<lparr>jr_state := state, jr_updated_unix_ms := now\<rparr> else r"
  show ?thesis
    unfolding append_event_def Inr sum.case
  proof (rule transaction_invariant [where P = db_wf, OF assms(1)], goal_cases)
    case (1 s' y)
    then obtain s1 where n: "n = next_event_sequence job_id s"
      and app: "append_event_tx x ?e s = Inr s1" and s': "s' = s1\<lparr>jobs := map ?f (jobs s)\<rparr>"
      by (auto simp: Let_def update_jobs_pair append_event_tx_frame(1) and_then_eq_Inr
          split: if_splits)
    have ex: "job_exists j s' = job_exists j s" for j
      using append_event_tx_frame(1) [OF app]
      by (intro job_exists_map [of _ ?f]) (auto simp: s' row_core_def)
    show ?case
    proof (rule db_wf_loud [OF assms(1), of ?e _ ?f])
      show "logs ?e s s'"
        by (rule logs_append [OF app]) (use n s' ex in \<open>auto simp: same_log_def\<close>)
      show "refs_ok s'"
        using refs_ok_jobs_map [OF refs_ok_append [OF app], of ?f] assms(1)
          append_event_tx_frame(1) [OF app] by (simp add: s' db_wf_def row_core_def)
    qed (use assms(2) s' append_event_tx_frame [OF app] in \<open>auto simp: row_core_def\<close>)
  qed
qed (simp add: assms append_event_def)

end
