(* ===== verification/Agent_Accept.thy ===== *)
theory Agent_Accept
  imports Agent_Invariant
begin

text \<open>
  The properties of the local queue: an acceptance keeps the invariant of the database, is
  exactly once and idempotent; the executor is handed at most one job per printer, in the
  order of acceptance.
\<close>

section \<open>Accepting a job keeps the invariant\<close>

definition next_printer_sequence :: "string \<Rightarrow> agent_db \<Rightarrow> int" where
  "next_printer_sequence p s = (case printer_sequences s p of None \<Rightarrow> 1 | Some n \<Rightarrow> n)"

lemma record_content_reference_Inr:
  assumes "record_content_reference job s = Inr s'"
  shows "\<exists>C. s' = s\<lparr>content_files := C\<rparr> \<and> aj_content_sha256 job \<in> cr_sha256 ` set C \<and>
    cr_sha256 ` set (content_files s) \<subseteq> cr_sha256 ` set C \<and>
    (distinct (map cr_sha256 (content_files s)) \<longrightarrow> distinct (map cr_sha256 C))"
proof (cases "sql_find cr_sha256 (aj_content_sha256 job) (content_files s)")
  case None
  then have "aj_content_sha256 job \<notin> cr_sha256 ` set (content_files s)"
    by (simp add: sql_find_None)
  with None show ?thesis
    using assms by (auto simp: record_content_reference_def)
next
  case (Some c)
  let ?f = "\<lambda>r :: content_row. if cr_sha256 r = aj_content_sha256 job
    then r\<lparr>cr_reference_count := cr_reference_count r + 1\<rparr> else r"
  have s': "s' = s\<lparr>content_files := map ?f (content_files s)\<rparr>"
    using assms Some by (auto simp: record_content_reference_def sql_update_def split: if_splits)
  have sha: "map cr_sha256 (map ?f (content_files s)) = map cr_sha256 (content_files s)" by simp
  then have img: "cr_sha256 ` set (map ?f (content_files s)) = cr_sha256 ` set (content_files s)"
    by (metis list.set_map)
  from Some have mem: "aj_content_sha256 job \<in> cr_sha256 ` set (content_files s)"
    by (metis sql_find_SomeD imageI)
  show ?thesis
    by (intro exI [of _ "map ?f (content_files s)"] conjI impI)
       (simp_all only: s' sha img mem subset_refl)
qed

lemma insert_job_Inr:
  "insert_job x r s = Inr s' \<Longrightarrow> s' = s\<lparr>jobs := jobs s @ [r]\<rparr> \<and> \<not> job_exists (jr_job_id r) s"
  unfolding insert_job_def and_then_eq_Inr ensure_eq_Inr by (auto simp: job_exists_def)

definition receipt_of :: "AcceptedJob \<Rightarrow> receipt_row" where
  "receipt_of job = \<lparr>re_receipt_id = ''accept:'' @ aj_job_id job, re_job_id = aj_job_id job,
     re_content_sha256 = aj_content_sha256 job, re_received_unix_ms = aj_accepted_unix_ms job\<rparr>"

lemma insert_inbox_receipt_Inr:
  "insert_inbox_receipt job s = Inr s' \<Longrightarrow>
    s' = s\<lparr>inbox_receipts := inbox_receipts s @ [receipt_of job]\<rparr>"
  by (simp add: insert_inbox_receipt_def and_then_eq_Inr receipt_of_def Let_def)

lemma insert_accepted_job_Inr:
  assumes "insert_accepted_job x job facts state cm conf s = Inr s'"
  obtains C rev b where "s' = s\<lparr>
      printer_sequences := (printer_sequences s)(aj_printer_id job \<mapsto>
        next_printer_sequence (aj_printer_id job) s + 1),
      content_files := C,
      jobs := jobs s @ [new_job_row job facts (next_printer_sequence (aj_printer_id job) s)
        state cm conf rev b],
      inbox_receipts := inbox_receipts s @ [receipt_of job]\<rparr>"
    and "aj_content_sha256 job \<in> cr_sha256 ` set C"
    and "cr_sha256 ` set (content_files s) \<subseteq> cr_sha256 ` set C"
    and "distinct (map cr_sha256 (content_files s)) \<longrightarrow> distinct (map cr_sha256 C)"
    and "\<not> job_exists (aj_job_id job) s"
    and "encode_native_binding x facts = Inr b"
    and "opt_result to_sql_u64 (jf_profile_revision facts) = Inr rev"
proof -
  let ?n = "next_printer_sequence (aj_printer_id job) s"
  let ?s0 = "s\<lparr>printer_sequences := (printer_sequences s)(aj_printer_id job \<mapsto> ?n + 1)\<rparr>"
  have alloc: "allocate_printer_sequence (aj_printer_id job) s = (?s0, ?n)"
    by (simp add: allocate_printer_sequence_def next_printer_sequence_def split: option.splits)
  obtain s1 s2 rev b where 1: "insert_inbox_receipt job ?s0 = Inr s1"
    and 2: "record_content_reference job s1 = Inr s2"
    and b: "encode_native_binding x facts = Inr b"
    and rev: "opt_result to_sql_u64 (jf_profile_revision facts) = Inr rev"
    and 3: "insert_job x (new_job_row job facts ?n state cm conf rev b) s2 = Inr s'"
    using assms by (auto simp: insert_accepted_job_def alloc and_then_eq_Inr)
  note s1 = insert_inbox_receipt_Inr [OF 1]
  from record_content_reference_Inr [OF 2] obtain C where s2: "s2 = s1\<lparr>content_files := C\<rparr>"
    and C: "aj_content_sha256 job \<in> cr_sha256 ` set C"
      "cr_sha256 ` set (content_files s) \<subseteq> cr_sha256 ` set C"
      "distinct (map cr_sha256 (content_files s)) \<longrightarrow> distinct (map cr_sha256 C)"
    by (auto simp: s1)
  show ?thesis
    by (rule that [OF _ C _ b rev])
       (use insert_job_Inr [OF 3] in \<open>simp_all add: s1 s2 new_job_row_def job_exists_def\<close>)
qed

lemma no_events_of_unknown:
  "event_log_ok s \<Longrightarrow> \<not> job_exists j s \<Longrightarrow> events_of j s = []"
  by (auto simp: event_log_ok_def events_of_def filter_empty_conv)

lemma insert_accepted_job_keeps:
  assumes wf: "db_wf s" and ins: "insert_accepted_job x job facts state cm conf s = Inr s'"
  shows "jobs_ok s'" "content_ok s'" "refs_ok s'" "event_log_ok s'"
    "events_of (aj_job_id job) s' = []" "same_log s s'"
    "\<exists>r. jobs s' = jobs s @ [r] \<and> jr_job_id r = aj_job_id job \<and> jr_state r = state \<and>
      jr_cloud_managed r = cm \<and> jr_printer_id r = aj_printer_id job \<and>
      jr_printer_sequence r = next_printer_sequence (aj_printer_id job) s"
proof -
  from insert_accepted_job_Inr [OF ins] obtain C rev b where s': "s' = s\<lparr>
      printer_sequences := (printer_sequences s)(aj_printer_id job \<mapsto>
        next_printer_sequence (aj_printer_id job) s + 1),
      content_files := C,
      jobs := jobs s @ [new_job_row job facts (next_printer_sequence (aj_printer_id job) s)
        state cm conf rev b],
      inbox_receipts := inbox_receipts s @ [receipt_of job]\<rparr>"
    and C: "aj_content_sha256 job \<in> cr_sha256 ` set C"
      "cr_sha256 ` set (content_files s) \<subseteq> cr_sha256 ` set C"
      "distinct (map cr_sha256 (content_files s)) \<longrightarrow> distinct (map cr_sha256 C)"
    and new: "\<not> job_exists (aj_job_id job) s" by metis
  have old: "jobs_ok s" "content_ok s" "refs_ok s" "event_log_ok s"
    using wf by (simp_all add: db_wf_def)
  have ex: "job_exists j s' = (job_exists j s \<or> j = aj_job_id job)" for j
    by (auto simp: s' job_exists_def sql_exists_iff new_job_row_def)
  show "jobs_ok s'"
    using old(1) new
    by (fastforce simp: s' jobs_ok_def new_job_row_def job_exists_def sql_exists_iff
        next_printer_sequence_def split: option.splits)
  show "content_ok s'"
    using old(2) C by (fastforce simp: s' content_ok_def new_job_row_def)
  show "refs_ok s'"
    using old(3) ex by (auto simp: refs_ok_def refers_def s' receipt_of_def)
  show "same_log s s'" by (simp add: same_log_def s')
  show "event_log_ok s'"
    by (rule event_log_ok_frame [OF old(4)]) (auto simp: s')
  show "events_of (aj_job_id job) s' = []"
    using no_events_of_unknown [OF old(4) new] by (simp add: s' events_of_def)
  show "\<exists>r. jobs s' = jobs s @ [r] \<and> jr_job_id r = aj_job_id job \<and> jr_state r = state \<and>
      jr_cloud_managed r = cm \<and> jr_printer_id r = aj_printer_id job \<and>
      jr_printer_sequence r = next_printer_sequence (aj_printer_id job) s"
    by (simp add: s' new_job_row_def)
qed

lemma fst_read_back [simp]: "fst (read_back x j out) = fst out"
  by (auto simp: read_back_def split: prod.splits sum.splits option.splits)

lemma accept_job_tx_new:
  assumes wf: "db_wf s" and acc: "accept_job_tx x eid job facts s = Inr (s', None)"
  obtains s1 where "insert_accepted_job x job facts ''queued_local'' (aj_cloud_managed job) False s = Inr s1"
    and "append_event_tx x (mk_event eid (aj_job_id job) 1 ''queued_local'' None
           (Some ''Job is durable in the local queue'') ''{}'' (aj_accepted_unix_ms job)) s1 = Inr s'"
    and "sql_find jr_job_id (aj_job_id job) (jobs s) = None"
  using acc
  by (auto simp: accept_job_tx_def query_job_def and_then_eq_Inr opt_result_def
      split: option.splits if_splits)

lemma accept_job_tx_known:
  assumes "accept_job_tx x eid job facts s = Inr (s', Some lj)"
  shows "s' = s" "query_job x s (aj_job_id job) = Inr (Some lj)"
    "accepted_job_matches lj job" "job_persistence_facts_match lj facts"
  using assms
  by (auto simp: accept_job_tx_def and_then_eq_Inr split: option.splits if_splits)

lemma query_job_exists: "query_job x s j = Inr (Some lj) \<Longrightarrow> job_exists j s"
  by (cases "sql_find jr_job_id j (jobs s)")
     (auto simp: query_job_def job_exists_def sql_exists_iff dest: sql_find_SomeD)

lemma accept_job_wf:
  assumes wf: "db_wf s"
  shows "db_wf (fst (accept_job_with_facts x eid job facts s))"
proof -
  have "db_wf s'" if acc: "accept_job_tx x eid job facts s = Inr (s', res)" for s' res
  proof (cases res)
    case (Some existing)
    with accept_job_tx_known(1) acc wf show ?thesis by blast
  next
    case None
    let ?e = "mk_event eid (aj_job_id job) 1 ''queued_local'' None
      (Some ''Job is durable in the local queue'') ''{}'' (aj_accepted_unix_ms job)"
    from accept_job_tx_new [OF wf acc [unfolded None]] obtain s1
      where ins: "insert_accepted_job x job facts ''queued_local'' (aj_cloud_managed job) False s = Inr s1"
        and app: "append_event_tx x ?e s1 = Inr s'" by metis
    note k = insert_accepted_job_keeps [OF wf ins] and fr = append_event_tx_frame [OF app]
    from k(7) obtain r where r: "jobs s1 = jobs s @ [r]" "jr_job_id r = aj_job_id job"
      "jr_state r = ''queued_local''" by blast
    have "\<not> job_exists (aj_job_id job) s"
      using insert_accepted_job_Inr [OF ins] by metis
    then have old: "jr_job_id q \<noteq> aj_job_id job" if "q \<in> set (jobs s)" for q
      using that by (auto simp: job_exists_def sql_exists_iff)
    have "projection_ok s'"
    proof (rule projection_ok_append [of s _ ?e])
      show "job_events s' = job_events s @ [?e]" using fr(2) k(6) by (simp add: same_log_def)
    qed (use wf old r fr(1) in \<open>auto simp: db_wf_def\<close>)
    moreover have "event_log_ok s'"
      by (rule event_log_ok_append [OF k(4) app])
         (simp add: next_event_sequence_log [OF k(4)] k(5))
    moreover have "refs_ok s'"
      by (rule refs_ok_frame [OF k(3)]) (use fr in auto)
    ultimately show ?thesis
      using k fr by (simp add: db_wf_def jobs_ok_def content_ok_def)
  qed
  then show ?thesis
    by (auto simp: accept_job_with_facts_def wf split: sum.splits
        intro!: transaction_invariant [where P = db_wf])
qed

text \<open>
  What the store assumes of the JSON codec: a pin that was written is read back.
\<close>

definition pin_codec :: "ext \<Rightarrow> bool" where
  "pin_codec x \<longleftrightarrow> (\<forall>pin j. pin_to_json x pin = Some j \<longrightarrow> pin_of_json x j = Some pin)"

lemma decode_new_row:
  assumes "pin_codec x" and "encode_native_binding x facts = Inr b"
    and "opt_result to_sql_u64 (jf_profile_revision facts) = Inr rv"
  shows "\<exists>lj. row_to_job x (new_job_row job facts n st cm conf rv b) = Inr lj \<and>
    lj_job_id lj = aj_job_id job \<and> lj_state lj = st \<and>
    (cm = aj_cloud_managed job \<longrightarrow> accepted_job_matches lj job) \<and>
    job_persistence_facts_match lj facts \<and> lj_printer_sequence lj = n \<and>
    lj_content_sha256 lj = aj_content_sha256 job"
proof -
  have "opt_result get_u64 rv = Inr (jf_profile_revision facts)"
    using assms(3) by (cases "jf_profile_revision facts") (auto simp: and_then_eq_Inr get_u64_to_sql)
  moreover have "decode_native_binding x b = Inr (jf_printer_native_binding facts)"
  proof (cases "jf_printer_native_binding facts")
    case (Some pin)
    with assms(1,2) show ?thesis
      by (cases "pin_to_json x pin")
         (auto simp: encode_native_binding_def decode_native_binding_def pin_codec_def)
  qed (use assms(2) in \<open>simp add: encode_native_binding_def decode_native_binding_def\<close>)
  ultimately show ?thesis
    by (simp add: row_to_job_def new_job_row_def accepted_job_matches_def
        job_persistence_facts_match_def job_persistence_facts_match_without_route_owner_def)
qed

lemma query_job_snoc:
  assumes "\<not> job_exists (jr_job_id r) s" and "jobs s' = jobs s @ [r]"
  shows "query_job x s' (jr_job_id r) = and_then (row_to_job x r) (\<lambda>lj. Inr (Some lj))"
proof -
  have "sql_find jr_job_id (jr_job_id r) (jobs s) = None"
    using assms(1) by (auto simp: job_exists_def sql_exists_iff sql_find_None)
  with assms(2) show ?thesis by (simp add: query_job_def sql_find_snoc)
qed

text \<open>The effect of a successful acceptance of an unknown job.\<close>

definition newly_accepted ::
  "ext \<Rightarrow> AcceptedJob \<Rightarrow> JobPersistenceFacts \<Rightarrow> agent_db \<Rightarrow> agent_db \<Rightarrow> job_row \<Rightarrow> LocalJob \<Rightarrow> bool" where
  "newly_accepted x job facts s s' r lj \<longleftrightarrow>
     jobs s' = jobs s @ [r] \<and> row_to_job x r = Inr lj \<and>
     jr_job_id r = aj_job_id job \<and> \<not> job_exists (aj_job_id job) s \<and>
     jr_state r = ''queued_local'' \<and> jr_printer_id r = aj_printer_id job \<and>
     jr_printer_sequence r = next_printer_sequence (aj_printer_id job) s \<and>
     accepted_job_matches lj job \<and> job_persistence_facts_match lj facts \<and>
     get_job x s' (aj_job_id job) = Inr (Some lj) \<and>
     map ev_state (events_of (aj_job_id job) s') = [''queued_local''] \<and>
     length (event_outbox s') = Suc (length (event_outbox s))"

lemma accept_job_new:
  assumes wf: "db_wf s" and codec: "pin_codec x"
    and acc: "accept_job_tx x eid job facts s = Inr (s', None)"
  obtains r lj where "newly_accepted x job facts s s' r lj"
proof -
  from accept_job_tx_new [OF wf acc] obtain s1
    where ins: "insert_accepted_job x job facts ''queued_local'' (aj_cloud_managed job) False s = Inr s1"
      and app: "append_event_tx x (mk_event eid (aj_job_id job) 1 ''queued_local'' None
           (Some ''Job is durable in the local queue'') ''{}'' (aj_accepted_unix_ms job)) s1 = Inr s'"
    by metis
  let ?row = "\<lambda>rv b. new_job_row job facts (next_printer_sequence (aj_printer_id job) s)
        ''queued_local'' (aj_cloud_managed job) False rv b"
  obtain rv b where s1: "jobs s1 = jobs s @ [?row rv b]"
      and b: "encode_native_binding x facts = Inr b"
      and rv: "opt_result to_sql_u64 (jf_profile_revision facts) = Inr rv"
      and new: "\<not> job_exists (aj_job_id job) s" and out: "event_outbox s1 = event_outbox s"
    by (rule insert_accepted_job_Inr [OF ins]) auto
  note fr = append_event_tx_frame [OF app] and k = insert_accepted_job_keeps [OF wf ins]
  have row: "jobs s' = jobs s @ [?row rv b]" using fr(1) s1 by simp
  obtain lj where lj: "row_to_job x (?row rv b) = Inr lj" "accepted_job_matches lj job"
      "job_persistence_facts_match lj facts"
    using decode_new_row [OF codec b rv] by metis
  have "get_job x s' (aj_job_id job) = Inr (Some lj)"
    using query_job_snoc [of "?row rv b" s s' x] new row lj(1)
    by (simp add: get_job_def new_job_row_def)
  moreover have "length (event_outbox s') = Suc (length (event_outbox s))"
    using app out by (simp add: append_event_tx_Inr)
  ultimately show ?thesis
    by (intro that [of "?row rv b" lj])
       (use row new lj k(5) fr(3) in \<open>simp add: newly_accepted_def new_job_row_def\<close>)
qed

section \<open>Properties\<close>

text \<open>Concrete inputs for the witnesses: a codec that knows one pin, and one local job.\<close>

definition sample_pin :: PrinterNativeBindingPin where
  "sample_pin = \<lparr>pin_process_session_id = ''session'', pin_generation = 1,
     pin_printer_id = ''p1'', pin_output_profile_id = ''out'', pin_language_profile_id = ''lang'',
     pin_language = ''zpl'', pin_language_version = ''2'', pin_profile_version = ''1'',
     pin_media_type = ''label'', pin_driver_fingerprint_sha256 = replicate 64 (CHR ''a''),
     pin_support_pack_digest_sha256 = replicate 64 (CHR ''0'')\<rparr>"

definition sample_ext :: ext where
  "sample_ext = \<lparr>serde_json_valid = (\<lambda>_. True), sqlite_json_valid = (\<lambda>_. True),
     pin_to_json = (\<lambda>p. if p = sample_pin then Some ''{pin}'' else None),
     pin_of_json = (\<lambda>j. if j = ''{pin}'' then Some sample_pin else None)\<rparr>"

definition sample_facts :: JobPersistenceFacts where
  "sample_facts = default_facts\<lparr>jf_printer_native_binding := Some sample_pin\<rparr>"

definition sample_job :: AcceptedJob where
  "sample_job = \<lparr>aj_job_id = ''job1'', aj_submission_id = ''sub1'', aj_printer_id = ''p1'',
     aj_printer_native_id = ''n1'', aj_title = ''label'', aj_content_sha256 = ''ab'',
     aj_content_path = ''/c/ab'', aj_content_kind = ''pdf'', aj_options_json = ''{}'',
     aj_expires_unix_ms = None, aj_accepted_unix_ms = 5, aj_cloud_managed = False\<rparr>"

definition sample_db :: agent_db where
  "sample_db = fst (accept_job_with_facts sample_ext ''e1'' sample_job sample_facts empty_db)"

lemma empty_db_jobs [simp]: "jobs empty_db = []" "job_exists j empty_db = False"
  by (simp_all add: empty_db_def job_exists_def sql_exists_def)

lemma sample_job_id [simp]: "aj_job_id sample_job = ''job1''"
  by (simp add: sample_job_def)

lemma sample_pin_codec: "pin_codec sample_ext"
  by (simp add: pin_codec_def sample_ext_def)

lemma sample_db_wf: "db_wf sample_db"
  unfolding sample_db_def by (rule accept_job_wf [OF db_wf_empty])

lemma sample_accepted:
  "\<exists>lj. accept_job_with_facts sample_ext ''e1'' sample_job sample_facts empty_db = (sample_db, Inr lj)"
proof -
  have "\<not> isl (snd (accept_job_with_facts sample_ext ''e1'' sample_job sample_facts empty_db))"
    by code_simp
  from ran_ok [OF this] show ?thesis by (simp add: sample_db_def)
qed

lemma next_sequence_fresh:
  assumes "db_wf s" and "q \<in> set (jobs s)" and "jr_printer_id q = p"
  shows "jr_printer_sequence q < next_printer_sequence p s"
  using assms by (fastforce simp: db_wf_def jobs_ok_def next_printer_sequence_def)

text \<open>
  C1: Accepting a job is atomic and happens exactly once. A refused acceptance leaves the
  database as it was. A repeated delivery of a known job changes nothing. The acceptance of an
  unknown job adds one row, in state \<open>queued_local\<close> and behind every job of its printer,
  whose log is the single event \<open>queued_local\<close>, and queues one event for delivery.
\<close>

theorem accept_job_exactly_once:
  assumes wf: "db_wf s" and codec: "pin_codec x"
  shows "case accept_job_with_facts x event_id job facts s of
      (s', Inl e) \<Rightarrow> s' = s
    | (s', Inr accepted) \<Rightarrow>
        if job_exists (aj_job_id job) s then s' = s
        else \<exists>r. jobs s' = jobs s @ [r] \<and> row_to_job x r = Inr accepted \<and>
          jr_job_id r = aj_job_id job \<and> jr_state r = ''queued_local'' \<and>
          (\<forall>q\<in>set (jobs s). jr_printer_id q = jr_printer_id r \<longrightarrow>
             jr_printer_sequence q < jr_printer_sequence r) \<and>
          map ev_state (events_of (aj_job_id job) s') = [''queued_local''] \<and>
          length (event_outbox s') = Suc (length (event_outbox s))"
proof (cases "and_then (validate_job_persistence_facts x facts)
    (\<lambda>_. validate_job_native_binding job facts)")
  case (Inr u)
  then have run: "accept_job_with_facts x event_id job facts s =
      read_back x (aj_job_id job) (transaction (accept_job_tx x event_id job facts) s)"
    by (simp add: accept_job_with_facts_def)
  show ?thesis
  proof (cases "accept_job_tx x event_id job facts s")
    case (Inr out)
    obtain s' res where out: "out = (s', res)" by (cases out)
    show ?thesis
    proof (cases res)
      case None
      with Inr out have acc: "accept_job_tx x event_id job facts s = Inr (s', None)" by simp
      from accept_job_new [OF wf codec acc] obtain r lj
        where new: "newly_accepted x job facts s s' r lj" .
      then have "accept_job_with_facts x event_id job facts s = (s', Inr lj)"
        unfolding run by (simp add: read_back_def transaction_def acc newly_accepted_def)
      with new next_sequence_fresh [OF wf] show ?thesis
        by (simp add: newly_accepted_def)
    next
      case (Some lj)
      with Inr out have acc: "accept_job_tx x event_id job facts s = Inr (s', Some lj)" by simp
      note known = accept_job_tx_known [OF acc]
      show ?thesis unfolding run
        using known(1) query_job_exists [OF known(2)]
        by (simp add: read_back_def transaction_def acc)
    qed
  qed (simp add: run read_back_def transaction_def)
qed (simp add: accept_job_with_facts_def)

theorem accept_job_exactly_once_witness:
  "\<exists>r accepted. accept_job_with_facts sample_ext ''e1'' sample_job sample_facts empty_db =
       (sample_db, Inr accepted) \<and>
     jobs sample_db = [r] \<and> row_to_job sample_ext r = Inr accepted \<and>
     jr_state r = ''queued_local'' \<and>
     map ev_state (events_of ''job1'' sample_db) = [''queued_local'']"
proof -
  obtain lj where lj: "accept_job_with_facts sample_ext ''e1'' sample_job sample_facts empty_db =
      (sample_db, Inr lj)" using sample_accepted by blast
  show ?thesis
    using accept_job_exactly_once [OF db_wf_empty sample_pin_codec,
        where event_id = "''e1''" and job = sample_job and facts = sample_facts]
    by (auto simp: lj)
qed

text \<open>
  C31: Accepting the same job again, with the same pinned facts, changes nothing and returns the
  job that the first acceptance returned.
\<close>

theorem accept_job_idempotent:
  assumes wf: "db_wf s" and codec: "pin_codec x"
    and first: "accept_job_with_facts x event_id job facts s = (s', Inr accepted)"
  shows "accept_job_with_facts x event_id' job facts s' = (s', Inr accepted)"
proof -
  have valid: "and_then (validate_job_persistence_facts x facts)
      (\<lambda>_. validate_job_native_binding job facts) = Inr ()"
    using first by (auto simp: accept_job_with_facts_def split: sum.splits)
  then have run: "accept_job_with_facts x e job facts u =
      read_back x (aj_job_id job) (transaction (accept_job_tx x e job facts) u)" for e u
    by (simp add: accept_job_with_facts_def)
  obtain res where acc: "accept_job_tx x event_id job facts s = Inr (s', res)"
    using first unfolding run
    by (auto simp: read_back_def transaction_def split: prod.splits sum.splits option.splits)
  have "query_job x s' (aj_job_id job) = Inr (Some accepted) \<and>
      accepted_job_matches accepted job \<and> job_persistence_facts_match accepted facts"
  proof (cases res)
    case None
    from accept_job_new [OF wf codec acc [unfolded None]] obtain r lj
      where "newly_accepted x job facts s s' r lj" .
    then show ?thesis
      using first unfolding run
      by (auto simp: read_back_def transaction_def acc None newly_accepted_def get_job_def)
  next
    case (Some lj)
    with accept_job_tx_known [of x event_id job facts s s' lj] first acc show ?thesis
      unfolding run by (simp add: read_back_def transaction_def)
  qed
  then show ?thesis
    unfolding run by (simp add: read_back_def transaction_def accept_job_tx_def)
qed

theorem accept_job_idempotent_witness:
  "\<exists>accepted. accept_job_with_facts sample_ext ''e1'' sample_job sample_facts empty_db =
       (sample_db, Inr accepted) \<and>
     accept_job_with_facts sample_ext ''e2'' sample_job sample_facts sample_db =
       (sample_db, Inr accepted)"
  using accept_job_idempotent [OF db_wf_empty sample_pin_codec] sample_accepted by blast

section \<open>The heads of the queue\<close>

lemma sql_min_le: "sql_min xs = Some m \<Longrightarrow> i \<in> set xs \<Longrightarrow> m \<le> i"
proof (induction xs arbitrary: m)
  case (Cons a xs)
  then show ?case by (cases "sql_min xs") (auto simp: min_def split: if_splits, cases xs, auto)
qed simp

lemma sql_min_mem: "xs \<noteq> [] \<Longrightarrow> \<exists>m\<in>set xs. sql_min xs = Some m"
proof (induction xs)
  case (Cons a xs)
  then show ?case by (cases "xs = []") (auto simp: min_def split: if_splits)
qed simp

lemma row_to_job_sel:
  assumes "row_to_job x r = Inr lj"
  shows "lj_job_id lj = jr_job_id r" "lj_printer_id lj = jr_printer_id r"
    "lj_printer_sequence lj = jr_printer_sequence r" "lj_state lj = jr_state r"
    "lj_cloud_managed lj = jr_cloud_managed r" "lj_content_sha256 lj = jr_content_sha256 r"
    "lj_route_connector_id lj = jr_route_connector_id r"
  using assms by (auto simp: row_to_job_def and_then_eq_Inr)

lemma runnable_head_unique:
  assumes wf: "db_wf s" and "r \<in> set (jobs s)" "r' \<in> set (jobs s)"
    and "is_runnable_head now s r" "is_runnable_head now s r'"
    and "jr_printer_id r = jr_printer_id r'"
  shows "r = r'"
proof -
  have "jr_printer_sequence r = jr_printer_sequence r'"
    using assms(4-6) unfolding is_runnable_head_def by (metis option.inject)
  moreover have "inj_on (\<lambda>r. (jr_printer_id r, jr_printer_sequence r)) (set (jobs s))"
    using wf by (simp add: db_wf_def jobs_ok_def distinct_map)
  ultimately show ?thesis using assms(2,3,6) by (simp add: inj_on_def)
qed

lemma distinct_heads:
  assumes wf: "db_wf s"
  shows "distinct (map jr_printer_id (runnable_head_rows now s))"
proof -
  have "distinct (jobs s)" using wf by (simp add: db_wf_def jobs_ok_def distinct_map)
  moreover have "inj_on jr_printer_id (set (runnable_head_rows now s))"
    using runnable_head_unique [OF wf] by (auto simp: runnable_head_rows_def inj_on_def)
  ultimately show ?thesis by (simp add: distinct_map runnable_head_rows_def)
qed

text \<open>
  C8: The executor is handed at most one job per printer, no job of a printer that is already
  executing one, and of each printer the job with the smallest sequence number among those
  that are waiting.
\<close>

theorem runnable_heads_fifo:
  assumes wf: "db_wf s" and heads: "runnable_heads x now s = Inr js"
  shows "distinct (map lj_printer_id js) \<and>
    (\<forall>j\<in>set js. lj_state j \<in> {''queued_local'', ''failed_retryable''} \<and>
       (\<forall>r\<in>set (jobs s). jr_printer_id r = lj_printer_id j \<longrightarrow>
          \<not> executing r \<and> (head_candidate r \<longrightarrow> lj_printer_sequence j \<le> jr_printer_sequence r)))"
proof -
  have map: "map (row_to_job x) (runnable_head_rows now s) = map Inr js"
    using heads by (simp add: runnable_heads_def collect_results_Inr)
  then have len: "length (runnable_head_rows now s) = length js" by (metis length_map)
  have nth: "row_to_job x (runnable_head_rows now s ! i) = Inr (js ! i)" if "i < length js" for i
    using map that len by (metis nth_map)
  have "map lj_printer_id js = map jr_printer_id (runnable_head_rows now s)"
    by (rule nth_equalityI) (use len nth row_to_job_sel(2) in auto)
  moreover have "lj_state j \<in> {''queued_local'', ''failed_retryable''} \<and>
       (\<forall>r\<in>set (jobs s). jr_printer_id r = lj_printer_id j \<longrightarrow>
          \<not> executing r \<and> (head_candidate r \<longrightarrow> lj_printer_sequence j \<le> jr_printer_sequence r))"
    if j: "j \<in> set js" for j
  proof -
    obtain r where r: "r \<in> set (runnable_head_rows now s)" "row_to_job x r = Inr j"
      using j nth len by (metis in_set_conv_nth)
    then have head: "is_runnable_head now s r" by (simp add: runnable_head_rows_def)
    show ?thesis
      using head row_to_job_sel [OF r(2)] sql_min_le
      by (auto simp: is_runnable_head_def sql_exists_iff head_candidate_def)
  qed
  ultimately show ?thesis using distinct_heads [OF wf] by simp
qed

theorem runnable_heads_fifo_witness:
  "\<exists>j. runnable_heads sample_ext 10 sample_db = Inr [j] \<and>
     lj_state j \<in> {''queued_local'', ''failed_retryable''} \<and>
     (\<forall>r\<in>set (jobs sample_db). jr_printer_id r = lj_printer_id j \<longrightarrow> \<not> executing r)"
proof -
  have "(case runnable_heads sample_ext 10 sample_db of Inr [j] \<Rightarrow> True | _ \<Rightarrow> False)"
    by code_simp
  then obtain j where j: "runnable_heads sample_ext 10 sample_db = Inr [j]"
    by (auto split: sum.splits list.splits)
  then show ?thesis using runnable_heads_fifo [OF sample_db_wf j] by auto
qed

text \<open>
  C37: A printer that is not executing a job is never starved: when its oldest waiting job is
  due and has not expired, the executor is handed that job.
\<close>

theorem runnable_heads_progress:
  assumes rows: "\<forall>r\<in>set (jobs s). \<not> isl (row_to_job x r)"
    and waiting: "\<exists>r\<in>set (jobs s). jr_printer_id r = p \<and> head_candidate r"
    and idle: "\<forall>r\<in>set (jobs s). jr_printer_id r = p \<longrightarrow> \<not> executing r"
    and due: "\<forall>r\<in>set (jobs s). jr_printer_id r = p \<and> head_candidate r \<and>
      (\<forall>q\<in>set (jobs s). jr_printer_id q = p \<and> head_candidate q \<longrightarrow>
         jr_printer_sequence r \<le> jr_printer_sequence q) \<longrightarrow>
      attempt_due now r \<and> unexpired now r"
  shows "\<exists>js. runnable_heads x now s = Inr js \<and> (\<exists>j\<in>set js. lj_printer_id j = p)"
proof -
  let ?c = "filter (\<lambda>h. jr_printer_id h = p \<and> head_candidate h) (jobs s)"
  have "map jr_printer_sequence ?c \<noteq> []"
    using waiting by (auto simp: filter_empty_conv)
  from sql_min_mem [OF this] obtain r where r: "r \<in> set ?c"
    and m: "sql_min (map jr_printer_sequence ?c) = Some (jr_printer_sequence r)" by auto
  have "jr_printer_sequence r \<le> jr_printer_sequence q" if "q \<in> set ?c" for q
    using sql_min_le [OF m] that by simp
  then have "is_runnable_head now s r"
    using r m due idle by (auto simp: is_runnable_head_def sql_exists_iff)
  then have mem: "r \<in> set (runnable_head_rows now s)" using r by (simp add: runnable_head_rows_def)
  define dec where "dec = (\<lambda>r. projr (row_to_job x r))"
  have dec: "row_to_job x r = Inr (dec r)" if "r \<in> set (jobs s)" for r
    using rows that by (simp add: dec_def)
  have "map (row_to_job x) (runnable_head_rows now s) = map Inr (map dec (runnable_head_rows now s))"
    using dec by (simp add: runnable_head_rows_def)
  then have "runnable_heads x now s = Inr (map dec (runnable_head_rows now s))"
    by (simp only: runnable_heads_def collect_results_Inr)
  moreover have "lj_printer_id (dec r) = p"
    using row_to_job_sel(2) [OF dec] r by simp
  ultimately show ?thesis using mem by auto
qed

theorem runnable_heads_progress_witness:
  "\<exists>js. runnable_heads sample_ext 10 sample_db = Inr js \<and> (\<exists>j\<in>set js. lj_printer_id j = ''p1'')"
  by (rule runnable_heads_progress) code_simp+

end
