(* ===== verification/Agent_Cloud.thy ===== *)
theory Agent_Cloud
  imports Agent_Accept
begin

text \<open>
  The cloud acceptance protocol of the agent store. A leased job is prepared (durable, not
  runnable), the acceptance is confirmed remotely, and the job is activated; a prepared job can
  be abandoned or quarantined instead. The lease capability lives in \<open>cloud_accept_intents\<close>
  until activation; the route proof in \<open>cloud_route_proofs\<close> survives it.
\<close>

section \<open>Preparing\<close>

definition intent_row_of ::
  "LocalJob \<Rightarrow> string \<Rightarrow> string \<Rightarrow> int \<Rightarrow> CloudRouteProof \<Rightarrow> int \<Rightarrow> intent_row" where
  "intent_row_of job lease_id lease_token lease_expires route prepared =
     \<lparr>in_job_id = lj_job_id job, in_lease_id = lease_id, in_lease_token = lease_token,
      in_lease_expires_unix_ms = lease_expires, in_content_sha256 = lj_content_sha256 job,
      in_local_sequence = lj_printer_sequence job,
      in_route_reservation_id = Some (rp_reservation_id route),
      in_route_generation = Some (int (rp_generation route)),
      in_route_fencing_token = Some (rp_fencing_token route),
      in_acceptance_state = ''prepared'', in_prepared_unix_ms = prepared\<rparr>"

definition upsert_cloud_accept_intent ::
  "LocalJob \<Rightarrow> string \<Rightarrow> string \<Rightarrow> int \<Rightarrow> CloudRouteProof \<Rightarrow> int \<Rightarrow> agent_db \<Rightarrow> StorageError + agent_db"
  where
  "upsert_cloud_accept_intent job lease_id lease_token lease_expires route prepared s =
     and_then (query_cloud_accept_intent s (lj_job_id job)) (\<lambda>existing.
     if is_some_and existing (\<lambda>intent. ci_remote_accept_confirmed intent \<and>
          \<not> cloud_accept_evidence_matches intent job lease_id lease_token route)
     then Inl (JobConflict (lj_job_id job))
     else if i64_max < rp_generation route
     then Inl (InvalidLocalEvent ''route generation exceeds durable storage bounds'')
     else if lj_printer_sequence job \<le> 0 \<or> \<not> job_exists (lj_job_id job) s then Inl Sql
     else let row = intent_row_of job lease_id lease_token lease_expires route prepared
       in Inr (s\<lparr>cloud_accept_intents := sql_upsert in_job_id row
            (\<lambda>r. if in_acceptance_state r = ''remote_accept_confirmed''
                 then row\<lparr>in_acceptance_state := ''remote_accept_confirmed''\<rparr> else row)
            (cloud_accept_intents s)\<rparr>))"

definition proof_row_of :: "string \<Rightarrow> CloudRouteProof \<Rightarrow> proof_row" where
  "proof_row_of job_id route = \<lparr>pr_job_id = job_id, pr_reservation_id = rp_reservation_id route,
     pr_generation = int (rp_generation route), pr_fencing_token = rp_fencing_token route\<rparr>"

definition upsert_cloud_route_proof ::
  "string \<Rightarrow> CloudRouteProof \<Rightarrow> agent_db \<Rightarrow> StorageError + agent_db" where
  "upsert_cloud_route_proof job_id route s =
     (if i64_max < rp_generation route
      then Inl (InvalidLocalEvent ''route generation exceeds durable storage bounds'')
      else if rp_reservation_id route = [] \<or> rp_generation route = 0 \<or>
        rp_fencing_token route = [] \<or> \<not> job_exists job_id s then Inl Sql
      else Inr (s\<lparr>cloud_route_proofs := sql_upsert pr_job_id (proof_row_of job_id route)
             (\<lambda>_. proof_row_of job_id route) (cloud_route_proofs s)\<rparr>))"

text \<open>\<open>Path::file_name\<close> of a Unix path: the last component unless it is \<open>..\<close>.\<close>

definition path_file_name :: "string \<Rightarrow> string option" where
  "path_file_name path =
     (case rev (filter (\<lambda>c. c \<noteq> [] \<and> c \<noteq> ''.'') (split_at (CHR ''/'') path)) of
        [] \<Rightarrow> None
      | c # _ \<Rightarrow> if c = ''..'' then None else Some c)"

definition is_confidential_path :: "string \<Rightarrow> bool" where
  "is_confidential_path path =
     is_some_and (path_file_name path) (\<lambda>name. starts_with name ''confidential-'')"

definition preparable :: "AcceptedJob \<Rightarrow> job_row \<Rightarrow> bool" where
  "preparable job r =
     (jr_job_id r = aj_job_id job \<and>
      jr_state r \<in> {''cloud_accept_pending'', ''failed_retryable''} \<and> jr_cloud_managed r)"

definition pending_again :: "AcceptedJob \<Rightarrow> JobPersistenceFacts \<Rightarrow> job_row \<Rightarrow> job_row" where
  "pending_again job facts r = r\<lparr>jr_state := ''cloud_accept_pending'',
     jr_route_connector_id := jf_route_connector_id facts, jr_next_attempt_unix_ms := None,
     jr_updated_unix_ms := aj_accepted_unix_ms job\<rparr>"

text \<open>A repeated offer of a job that is prepared, or whose last attempt failed.\<close>

definition prepare_again ::
  "AcceptedJob \<Rightarrow> string \<Rightarrow> string \<Rightarrow> int \<Rightarrow> CloudRouteProof \<Rightarrow> JobPersistenceFacts \<Rightarrow> LocalJob \<Rightarrow>
     LocalJob option tx" where
  "prepare_again job lease_id lease_token lease_expires route facts existing s =
     (let replaces_consumed_attempt = lj_state existing = ''failed_retryable'';
          (changed, s) = update_jobs (preparable job) (pending_again job facts) s
      in
      if changed \<noteq> 1
      then Inl (InvalidLocalEvent (''cloud job '' @ aj_job_id job @
             '' cannot prepare a new authoritative attempt''))
      else
        let existing = existing\<lparr>lj_state := ''cloud_accept_pending'',
              lj_route_connector_id := jf_route_connector_id facts\<rparr>;
            s = (if replaces_consumed_attempt
                 then s\<lparr>cloud_accept_intents :=
                   sql_delete (\<lambda>r. in_job_id r = aj_job_id job) (cloud_accept_intents s)\<rparr>
                 else s)
        in and_then (upsert_cloud_accept_intent existing lease_id lease_token lease_expires
             route (aj_accepted_unix_ms job) s) (\<lambda>s.
           and_then (upsert_cloud_route_proof (aj_job_id job) route s) (\<lambda>s.
           Inr (s, Some existing))))"

definition prepare_existing ::
  "AcceptedJob \<Rightarrow> string \<Rightarrow> string \<Rightarrow> int \<Rightarrow> CloudRouteProof \<Rightarrow> JobPersistenceFacts \<Rightarrow> LocalJob \<Rightarrow>
     LocalJob option tx" where
  "prepare_existing job lease_id lease_token lease_expires route facts existing s =
     (let same_without_owner = accepted_job_matches existing job \<and>
            job_persistence_facts_match_without_route_owner existing facts;
          same = same_without_owner \<and>
            (lj_route_connector_id existing = jf_route_connector_id facts \<or>
             lj_route_connector_id existing = None \<or> lj_state existing = ''failed_retryable'')
      in
      if \<not> same then Inl (JobConflict (aj_job_id job))
      else if lj_state existing \<notin> {''cloud_accept_pending'', ''failed_retryable''}
      then and_then (query_cloud_route_proof s (aj_job_id job)) (\<lambda>found.
        if is_some_and found (\<lambda>p. cloud_route_proof_matches p route)
        then Inr (s, Some existing)
        else Inl (InvalidLocalEvent (''cloud job '' @ aj_job_id job @
               '' is already in local state '' @ lj_state existing)))
      else prepare_again job lease_id lease_token lease_expires route facts existing s)"

definition prepare_new ::
  "ext \<Rightarrow> AcceptedJob \<Rightarrow> string \<Rightarrow> string \<Rightarrow> int \<Rightarrow> CloudRouteProof \<Rightarrow> JobPersistenceFacts \<Rightarrow>
     LocalJob option tx" where
  "prepare_new x job lease_id lease_token lease_expires route facts s =
     and_then (insert_accepted_job x job facts ''cloud_accept_pending'' True
       (is_confidential_path (aj_content_path job)) s) (\<lambda>s.
     and_then (query_job x s (aj_job_id job)) (\<lambda>found. case found of
       None \<Rightarrow> Inl (JobNotFound (aj_job_id job))
     | Some local_job \<Rightarrow>
         and_then (upsert_cloud_accept_intent local_job lease_id lease_token lease_expires route
           (aj_accepted_unix_ms job) s) (\<lambda>s.
         and_then (upsert_cloud_route_proof (aj_job_id job) route s) (\<lambda>s.
         Inr (s, None)))))"

definition prepare_cloud_job_with_facts ::
  "ext \<Rightarrow> AcceptedJob \<Rightarrow> string \<Rightarrow> string \<Rightarrow> int \<Rightarrow> CloudRouteProof \<Rightarrow> JobPersistenceFacts \<Rightarrow>
     LocalJob db_op" where
  "prepare_cloud_job_with_facts x job lease_id lease_token lease_expires route facts s =
     (case and_then (validate_job_persistence_facts x facts)
             (\<lambda>_. validate_job_native_binding job facts) of
        Inl e \<Rightarrow> (s, Inl e)
      | Inr _ \<Rightarrow>
          if \<not> aj_cloud_managed job \<or> lease_token = [] \<or> rp_reservation_id route = [] \<or>
             rp_generation route = 0 \<or> rp_fencing_token route = []
          then (s, Inl (InvalidLocalEvent
            ''cloud acceptance requires a managed job, lease, and route reservation proof''))
          else read_back x (aj_job_id job) (transaction (\<lambda>s.
            and_then (query_job x s (aj_job_id job)) (\<lambda>found. case found of
              Some existing \<Rightarrow> prepare_existing job lease_id lease_token lease_expires route
                facts existing s
            | None \<Rightarrow> prepare_new x job lease_id lease_token lease_expires route facts s)) s))"

definition prepare_cloud_job ::
  "ext \<Rightarrow> AcceptedJob \<Rightarrow> string \<Rightarrow> string \<Rightarrow> int \<Rightarrow> CloudRouteProof \<Rightarrow> LocalJob db_op" where
  "prepare_cloud_job x job lease_id lease_token lease_expires route =
     prepare_cloud_job_with_facts x job lease_id lease_token lease_expires route default_facts"

section \<open>Confirming and activating\<close>

definition pending_cloud_accepts :: "agent_db \<Rightarrow> StorageError + CloudAcceptIntent list" where
  "pending_cloud_accepts s = collect_results (map row_to_cloud_accept_intent
     (sort_key (\<lambda>r. (in_prepared_unix_ms r, in_job_id r)) (cloud_accept_intents s)))"

definition cloud_route_proof :: "agent_db \<Rightarrow> string \<Rightarrow> StorageError + CloudRouteProof option" where
  "cloud_route_proof s job_id = query_cloud_route_proof s job_id"

definition confirm_cloud_accept :: "string \<Rightarrow> int \<Rightarrow> unit db_op" where
  "confirm_cloud_accept job_id observed_unix_ms s =
     (let (changed, t) = sql_update
        (\<lambda>r. in_job_id r = job_id \<and>
           in_acceptance_state r \<in> {''prepared'', ''remote_accept_confirmed''})
        (\<lambda>r. r\<lparr>in_acceptance_state := ''remote_accept_confirmed'',
           in_prepared_unix_ms := observed_unix_ms\<rparr>) (cloud_accept_intents s);
          s = s\<lparr>cloud_accept_intents := t\<rparr>
      in if changed \<noteq> 1
         then (s, Inl (InvalidLocalEvent (''cloud job '' @ job_id @
                 '' has no acceptance intent to confirm'')))
         else (s, Inr ()))"

definition activate_cloud_job_tx :: "ext \<Rightarrow> string \<Rightarrow> string \<Rightarrow> int \<Rightarrow> LocalJob option tx" where
  "activate_cloud_job_tx x event_id job_id observed_unix_ms s =
     and_then (query_job x s job_id) (\<lambda>found. case found of
       None \<Rightarrow> Inl (JobNotFound job_id)
     | Some job \<Rightarrow>
         if lj_state job = ''queued_local'' then Inr (s, Some job)
         else if lj_state job \<noteq> ''cloud_accept_pending''
         then Inl (InvalidLocalEvent (''cloud job '' @ job_id @ '' cannot activate from '' @
                lj_state job))
         else if \<not> sql_exists (\<lambda>r. in_job_id r = job_id \<and>
                in_acceptance_state r = ''remote_accept_confirmed'') (cloud_accept_intents s)
         then Inl (InvalidLocalEvent (''cloud job '' @ job_id @
                '' has no remotely confirmed acceptance intent''))
         else
           let (_, s) = update_jobs (\<lambda>r. jr_job_id r = job_id)
                 (\<lambda>r. r\<lparr>jr_state := ''queued_local'', jr_updated_unix_ms := observed_unix_ms\<rparr>) s;
               seq_no = next_event_sequence job_id s
           in and_then (append_event_tx x (mk_event event_id job_id seq_no ''queued_local'' None
                (Some ''Job is durable in the local queue'') ''{}'' observed_unix_ms) s) (\<lambda>s.
              Inr (s\<lparr>cloud_accept_intents :=
                sql_delete (\<lambda>r. in_job_id r = job_id) (cloud_accept_intents s)\<rparr>, None)))"

definition activate_cloud_job :: "ext \<Rightarrow> string \<Rightarrow> string \<Rightarrow> int \<Rightarrow> LocalJob db_op" where
  "activate_cloud_job x event_id job_id observed_unix_ms s =
     read_back x job_id (transaction (activate_cloud_job_tx x event_id job_id observed_unix_ms) s)"

section \<open>Giving a prepared job back\<close>

definition abandon_cloud_accept :: "ext \<Rightarrow> string \<Rightarrow> int \<Rightarrow> unit db_op" where
  "abandon_cloud_accept x job_id observed_unix_ms = transaction (\<lambda>s.
     and_then (query_job x s job_id) (\<lambda>found. case found of
       None \<Rightarrow> Inl (JobNotFound job_id)
     | Some current \<Rightarrow>
         if lj_state current = ''cancelled'' then Inr (s, ())
         else if lj_state current \<noteq> ''cloud_accept_pending''
         then Inl (InvalidLocalEvent (''cloud job '' @ job_id @ '' cannot abandon from '' @
                lj_state current))
         else
           let s = s\<lparr>cloud_route_proofs :=
                 sql_delete (\<lambda>r. pr_job_id r = job_id) (cloud_route_proofs s)\<rparr>;
               s = s\<lparr>cloud_accept_intents :=
                 sql_delete (\<lambda>r. in_job_id r = job_id) (cloud_accept_intents s)\<rparr>;
               (_, s) = update_jobs (\<lambda>r. jr_job_id r = job_id)
                 (\<lambda>r. r\<lparr>jr_state := ''cancelled'', jr_updated_unix_ms := observed_unix_ms\<rparr>) s
           in Inr (s, ())))"

definition proofless :: "intent_row \<Rightarrow> bool" where
  "proofless r =
     ((case in_route_reservation_id r of None \<Rightarrow> True | Some v \<Rightarrow> v = []) \<or>
      (case in_route_generation r of None \<Rightarrow> True | Some g \<Rightarrow> g \<le> 0) \<or>
      (case in_route_fencing_token r of None \<Rightarrow> True | Some v \<Rightarrow> v = []))"

definition cleanup_row_of :: "CloudReleaseCleanup \<Rightarrow> int \<Rightarrow> cleanup_row" where
  "cleanup_row_of cleanup observed_unix_ms =
     \<lparr>cl_job_id = cc_job_id cleanup, cl_lease_id = cc_lease_id cleanup,
      cl_lease_token = cc_lease_token cleanup, cl_reason = cc_reason cleanup,
      cl_quarantined_unix_ms = observed_unix_ms\<rparr>"

definition insert_cleanup :: "CloudReleaseCleanup \<Rightarrow> int \<Rightarrow> agent_db \<Rightarrow> StorageError + agent_db" where
  "insert_cleanup cleanup observed_unix_ms s =
     (if sql_exists (\<lambda>r. cl_job_id r = cc_job_id cleanup) (cloud_release_cleanups s) then Inr s
      else if \<not> job_exists (cc_job_id cleanup) s then Inl Sql
      else Inr (s\<lparr>cloud_release_cleanups := cloud_release_cleanups s @
        [cleanup_row_of cleanup observed_unix_ms]\<rparr>))"

definition cancel_pending_row :: "string \<Rightarrow> int \<Rightarrow> agent_db \<Rightarrow> agent_db" where
  "cancel_pending_row job_id observed_unix_ms s =
     snd (update_jobs (\<lambda>r. jr_job_id r = job_id \<and> jr_state r = ''cloud_accept_pending'')
       (\<lambda>r. r\<lparr>jr_state := ''cancelled'', jr_updated_unix_ms := observed_unix_ms\<rparr>) s)"

definition quarantine_one :: "int \<Rightarrow> CloudReleaseCleanup \<Rightarrow> agent_db \<Rightarrow> StorageError + agent_db" where
  "quarantine_one observed_unix_ms cleanup s =
     and_then (insert_cleanup cleanup observed_unix_ms s) (\<lambda>s.
     Inr (cancel_pending_row (cc_job_id cleanup) observed_unix_ms
       (s\<lparr>cloud_accept_intents :=
          sql_delete (\<lambda>r. in_job_id r = cc_job_id cleanup) (cloud_accept_intents s)\<rparr>)))"

fun quarantine_rows ::
  "int \<Rightarrow> CloudReleaseCleanup list \<Rightarrow> agent_db \<Rightarrow> StorageError + agent_db" where
  "quarantine_rows observed_unix_ms [] s = Inr s"
| "quarantine_rows observed_unix_ms (c # cs) s =
     and_then (quarantine_one observed_unix_ms c s) (quarantine_rows observed_unix_ms cs)"

definition cleanup_of_intent :: "string \<Rightarrow> intent_row \<Rightarrow> CloudReleaseCleanup" where
  "cleanup_of_intent reason r = \<lparr>cc_job_id = in_job_id r, cc_lease_id = in_lease_id r,
     cc_lease_token = in_lease_token r, cc_reason = reason\<rparr>"

definition proofless_batch :: "agent_db \<Rightarrow> CloudReleaseCleanup list" where
  "proofless_batch s = map (cleanup_of_intent ''route_reservation_required'')
     (take 256 (sort_key (\<lambda>r. (in_prepared_unix_ms r, in_job_id r))
       (filter proofless (cloud_accept_intents s))))"

lemma quarantine_rows_intents:
  "quarantine_rows now cs s = Inr s' \<Longrightarrow>
    cloud_accept_intents s' =
      filter (\<lambda>r. in_job_id r \<notin> cc_job_id ` set cs) (cloud_accept_intents s)"
proof (induction cs arbitrary: s)
  case (Cons c cs)
  from Cons.prems obtain s1 where s1: "quarantine_one now c s = Inr s1"
    and rest: "quarantine_rows now cs s1 = Inr s'" by (auto simp: and_then_eq_Inr)
  have "cloud_accept_intents s1 =
      filter (\<lambda>r. in_job_id r \<noteq> cc_job_id c) (cloud_accept_intents s)"
    using s1 by (auto simp: quarantine_one_def insert_cleanup_def cancel_pending_row_def
        sql_delete_def and_then_eq_Inr split: if_splits)
  with Cons.IH [OF rest] show ?case by (simp add: filter_filter conj_commute)
qed simp

lemma proofless_batch_shrinks:
  assumes "proofless_batch s \<noteq> []" and "quarantine_rows now (proofless_batch s) s = Inr s'"
  shows "length (cloud_accept_intents s') < length (cloud_accept_intents s)"
proof -
  obtain c cs where cs: "proofless_batch s = c # cs" using assms(1) by (cases "proofless_batch s") auto
  then have "c \<in> set (proofless_batch s)" by simp
  then obtain r where "r \<in> set (cloud_accept_intents s)" "in_job_id r = cc_job_id c"
    by (auto simp: proofless_batch_def cleanup_of_intent_def dest!: in_set_takeD)
  then show ?thesis
    using quarantine_rows_intents [OF assms(2)] cs
    by (auto intro!: length_filter_less)
qed

function quarantine_loop :: "int \<Rightarrow> agent_db \<Rightarrow> StorageError + agent_db" where
  "quarantine_loop observed_unix_ms s =
     (if proofless_batch s = [] then Inr s
      else case quarantine_rows observed_unix_ms (proofless_batch s) s of
        Inl e \<Rightarrow> Inl e
      | Inr s' \<Rightarrow> quarantine_loop observed_unix_ms s')"
  by pat_completeness auto
termination
  by (relation "measure (\<lambda>(_, s). length (cloud_accept_intents s))")
     (auto dest: proofless_batch_shrinks)

declare quarantine_loop.simps [simp del]

definition pending_cloud_release_cleanups :: "agent_db \<Rightarrow> CloudReleaseCleanup list" where
  "pending_cloud_release_cleanups s =
     map (\<lambda>r. \<lparr>cc_job_id = cl_job_id r, cc_lease_id = cl_lease_id r,
       cc_lease_token = cl_lease_token r, cc_reason = cl_reason r\<rparr>)
     (take 256 (sort_key (\<lambda>r. (cl_quarantined_unix_ms r, cl_job_id r))
       (cloud_release_cleanups s)))"

definition quarantine_invalid_cloud_accepts :: "int \<Rightarrow> CloudReleaseCleanup list db_op" where
  "quarantine_invalid_cloud_accepts observed_unix_ms s =
     (case transaction (\<lambda>s. and_then (quarantine_loop observed_unix_ms s) (\<lambda>s. Inr (s, ()))) s of
        (s', Inl e) \<Rightarrow> (s', Inl e)
      | (s', Inr _) \<Rightarrow> (s', Inr (pending_cloud_release_cleanups s')))"

definition quarantine_prepared_cloud_accept ::
  "string \<Rightarrow> string \<Rightarrow> int \<Rightarrow> CloudReleaseCleanup option db_op" where
  "quarantine_prepared_cloud_accept job_id reason observed_unix_ms s =
     (if reason = [] \<or> 128 < length reason
      then (s, Inl (InvalidLocalEvent ''cloud quarantine reason is invalid''))
      else transaction (\<lambda>s.
        case sql_find in_job_id job_id
          (filter (\<lambda>r. in_acceptance_state r = ''prepared'') (cloud_accept_intents s)) of
          None \<Rightarrow> Inr (s, None)
        | Some r \<Rightarrow>
            let cleanup = cleanup_of_intent reason r in
            and_then (insert_cleanup cleanup observed_unix_ms s) (\<lambda>s.
            let s = s\<lparr>cloud_accept_intents := sql_delete
                  (\<lambda>r. in_job_id r = job_id \<and> in_acceptance_state r = ''prepared'')
                  (cloud_accept_intents s)\<rparr>
            in Inr (cancel_pending_row job_id observed_unix_ms s, Some cleanup))) s)"

definition complete_cloud_release_cleanup :: "string \<Rightarrow> unit db_op" where
  "complete_cloud_release_cleanup job_id s =
     (s\<lparr>cloud_release_cleanups :=
        sql_delete (\<lambda>r. cl_job_id r = job_id) (cloud_release_cleanups s)\<rparr>, Inr ())"

definition complete_all_cloud_release_cleanups :: "unit db_op" where
  "complete_all_cloud_release_cleanups s = (s\<lparr>cloud_release_cleanups := []\<rparr>, Inr ())"

section \<open>Recovery of ownership\<close>

definition bounded_inventory :: "ext \<Rightarrow> string \<Rightarrow> job_row list \<Rightarrow> StorageError + LocalJob list" where
  "bounded_inventory x message rows =
     and_then (collect_results (map (row_to_job x)
       (take 513 (sort_key (\<lambda>r. (jr_accepted_unix_ms r, jr_job_id r)) rows)))) (\<lambda>js.
     if 512 < length js then Inl (InvalidLocalEvent message) else Inr js)"

definition cloud_jobs_missing_route_owner :: "ext \<Rightarrow> agent_db \<Rightarrow> StorageError + LocalJob list" where
  "cloud_jobs_missing_route_owner x s =
     bounded_inventory x ''ownerless cloud job inventory exceeds reconciliation bounds''
       (filter (\<lambda>r. jr_cloud_managed r \<and> jr_route_connector_id r = None \<and>
          jr_state r \<in> {''cloud_accept_pending'', ''queued_local'', ''preparing'', ''rendering'',
            ''spool_intent'', ''failed_retryable''}) (jobs s))"

definition cloud_handoff_recovery_candidates :: "ext \<Rightarrow> agent_db \<Rightarrow> StorageError + LocalJob list" where
  "cloud_handoff_recovery_candidates x s =
     bounded_inventory x ''cloud spool intent inventory exceeds reconciliation bounds''
       (filter (\<lambda>r. sql_exists (\<lambda>p. pr_job_id p = jr_job_id r) (cloud_route_proofs s) \<and>
          jr_cloud_managed r \<and> jr_state r \<in> {''spool_intent'', ''delivery_uncertain''}) (jobs s))"

definition uncertain_cloud_row :: "agent_db \<Rightarrow> string \<Rightarrow> bool" where
  "uncertain_cloud_row s job_id =
     sql_exists (\<lambda>r. jr_job_id r = job_id \<and> jr_cloud_managed r \<and>
       jr_state r = ''delivery_uncertain'') (jobs s)"

definition finalize_uncertain_cloud_handoff_recovery :: "ext \<Rightarrow> string \<Rightarrow> unit db_op" where
  "finalize_uncertain_cloud_handoff_recovery x job_id s =
     (let hit = (\<lambda>r. pr_job_id r = job_id \<and> uncertain_cloud_row s (pr_job_id r));
          changed = length (filter hit (cloud_route_proofs s));
          s' = s\<lparr>cloud_route_proofs := sql_delete hit (cloud_route_proofs s)\<rparr>;
          already_finalized =
            (if changed = 1 then Inr True
             else and_then (get_job x s' job_id) (\<lambda>found.
               if is_some_and found (\<lambda>j. lj_cloud_managed j \<and> lj_state j = ''delivery_uncertain'')
               then and_then (cloud_route_proof s' job_id) (\<lambda>p. Inr (p = None))
               else Inr False))
      in (s', and_then already_finalized (\<lambda>ok.
            if ok then Inr ()
            else Inl (InvalidLocalEvent (''cloud job '' @ job_id @
                   '' has no uncertain handoff proof to finalize'')))))"

definition backfill_cloud_route_owner :: "ext \<Rightarrow> string \<Rightarrow> string \<Rightarrow> int \<Rightarrow> unit db_op" where
  "backfill_cloud_route_owner x job_id connector_id observed_unix_ms s =
     (if connector_id_invalid connector_id
      then (s, Inl (InvalidLocalEvent ''route connector owner is invalid''))
      else let (changed, s') = update_jobs
             (\<lambda>r. jr_job_id r = job_id \<and> jr_cloud_managed r \<and> jr_route_connector_id r = None)
             (\<lambda>r. r\<lparr>jr_route_connector_id := Some connector_id,
                jr_updated_unix_ms := observed_unix_ms\<rparr>) s
        in if changed \<noteq> 1
           then (s', and_then (get_job x s' job_id) (\<lambda>current.
             if is_some_and current (\<lambda>j. lj_cloud_managed j \<and>
                  lj_route_connector_id j = Some connector_id)
             then Inr ()
             else Inl (InvalidLocalEvent (''cloud job '' @ job_id @
                    '' cannot backfill route ownership''))))
           else (s', Inr ()))"

end
