(* ===== verification/Agent_Cloud_Correct.thy ===== *)
theory Agent_Cloud_Correct
  imports Agent_Cloud
begin

text \<open>
  The cloud acceptance protocol keeps the invariant of the database; a prepared job becomes
  runnable only through a confirmed activation, which destroys the lease; giving a job back is
  silent; and the quarantine loop ends with no intent that lacks a route proof.
\<close>

section \<open>The cloud tables\<close>

lemma db_wf_tables:
  assumes "db_wf s" and "jobs s' = jobs s" and "printer_sequences s' = printer_sequences s"
    and "content_files s' = content_files s" and "same_log s s'" and "refs_ok s'"
  shows "db_wf s'"
  by (rule db_wf_quiet [OF assms(1), of _ "\<lambda>r. r"]) (use assms in auto)

lemma db_wf_parts:
  assumes "db_wf s"
  shows "jobs_ok s" "content_ok s" "refs_ok s" "event_log_ok s" "projection_ok s"
    "distinct (map jr_job_id (jobs s))"
  using assms by (simp_all add: db_wf_def jobs_ok_def)

lemma wf_delete:
  assumes "db_wf s"
  shows "db_wf (s\<lparr>cloud_accept_intents := sql_delete p1 (cloud_accept_intents s)\<rparr>)"
    "db_wf (s\<lparr>cloud_route_proofs := sql_delete p2 (cloud_route_proofs s)\<rparr>)"
    "db_wf (s\<lparr>cloud_release_cleanups := sql_delete p3 (cloud_release_cleanups s)\<rparr>)"
    "db_wf (s\<lparr>job_reconciliation := sql_delete p4 (job_reconciliation s)\<rparr>)"
  by (rule db_wf_tables [OF assms];
      simp add: same_log_def refs_ok_delete [OF db_wf_parts(3) [OF assms]])+

lemma upsert_intent_Inr:
  assumes "upsert_cloud_accept_intent job lid ltok exp route prep s = Inr s'"
  obtains t where "s' = s\<lparr>cloud_accept_intents := t\<rparr>" "job_exists (lj_job_id job) s"
    "distinct (map in_job_id (cloud_accept_intents s)) \<Longrightarrow> distinct (map in_job_id t)"
    "\<And>r. r \<in> set t \<Longrightarrow> in_job_id r = lj_job_id job \<or> r \<in> set (cloud_accept_intents s)"
    "sql_find in_job_id (lj_job_id job) t \<noteq> None"
proof -
  let ?row = "intent_row_of job lid ltok exp route prep"
  let ?m = "\<lambda>r. if in_acceptance_state r = ''remote_accept_confirmed''
    then ?row\<lparr>in_acceptance_state := ''remote_accept_confirmed''\<rparr> else ?row"
  let ?t = "sql_upsert in_job_id ?row ?m (cloud_accept_intents s)"
  have id: "in_job_id ?row = lj_job_id job" by (simp add: intent_row_of_def)
  have m: "\<And>r. in_job_id r = in_job_id ?row \<Longrightarrow> in_job_id (?m r) = in_job_id ?row" by simp
  have "s' = s\<lparr>cloud_accept_intents := ?t\<rparr>" "job_exists (lj_job_id job) s"
    using assms by (auto simp: upsert_cloud_accept_intent_def and_then_eq_Inr Let_def split: if_splits)
  then show thesis
    by (rule that)
       (use distinct_sql_upsert [where key = in_job_id and row = ?row and merge = ?m, OF _ m]
          set_sql_upsert [where key = in_job_id and row = ?row and merge = ?m, OF _ m]
          sql_find_upsert [where key = in_job_id and row = ?row and merge = ?m, OF m] id in auto)
qed

lemma upsert_proof_Inr:
  assumes "upsert_cloud_route_proof j route s = Inr s'"
  obtains t where "s' = s\<lparr>cloud_route_proofs := t\<rparr>" "job_exists j s"
    "distinct (map pr_job_id (cloud_route_proofs s)) \<Longrightarrow> distinct (map pr_job_id t)"
    "\<And>r. r \<in> set t \<Longrightarrow> pr_job_id r = j \<or> r \<in> set (cloud_route_proofs s)"
    "sql_find pr_job_id j t = Some (proof_row_of j route)"
proof -
  let ?row = "proof_row_of j route"
  let ?t = "sql_upsert pr_job_id ?row (\<lambda>_. ?row) (cloud_route_proofs s)"
  have id: "pr_job_id ?row = j" by (simp add: proof_row_of_def)
  have out: "s' = s\<lparr>cloud_route_proofs := ?t\<rparr>" "job_exists j s"
    using assms by (auto simp: upsert_cloud_route_proof_def split: if_splits)
  show thesis
  proof (rule that [OF out])
    show "distinct (map pr_job_id ?t)" if "distinct (map pr_job_id (cloud_route_proofs s))"
      using that by (rule distinct_sql_upsert) simp
    show "sql_find pr_job_id j ?t = Some ?row"
      by (subst sql_find_upsert) (simp_all add: id split: option.splits)
    show "pr_job_id r = j \<or> r \<in> set (cloud_route_proofs s)" if "r \<in> set ?t" for r
      using set_sql_upsert [OF that] id by simp
  qed
qed

section \<open>Every step keeps the invariant\<close>

lemma update_job_core:
  assumes "\<And>r. row_core (g r) = row_core r"
  shows "row_core (if p r then g r else r) = row_core r"
  using assms by simp

lemma confirm_cloud_accept_wf:
  assumes "db_wf s"
  shows "db_wf (fst (confirm_cloud_accept j now s))"
proof -
  have "refs_ok (fst (confirm_cloud_accept j now s))"
    using refs_okD(1,2) [OF db_wf_parts(3) [OF assms]]
    by (auto simp: confirm_cloud_accept_def Let_def split_beta set_sql_update map_key_sql_update
        intro!: refs_ok_intents db_wf_parts(3) [OF assms])
  then show ?thesis
    by (intro db_wf_tables [OF assms])
       (auto simp: confirm_cloud_accept_def Let_def same_log_def split: prod.splits)
qed

lemma upserts_wf:
  assumes wf: "db_wf s"
    and up1: "upsert_cloud_accept_intent job lid ltok exp route prep s = Inr s1"
    and up2: "upsert_cloud_route_proof j route s1 = Inr s2"
  shows "db_wf s2" "jobs s2 = jobs s" "job_events s2 = job_events s"
    "event_outbox s2 = event_outbox s"
    "sql_find pr_job_id j (cloud_route_proofs s2) = Some (proof_row_of j route)"
    "sql_find in_job_id (lj_job_id job) (cloud_accept_intents s2) \<noteq> None"
proof -
  obtain t where s1: "s1 = s\<lparr>cloud_accept_intents := t\<rparr>" "job_exists (lj_job_id job) s"
    "distinct (map in_job_id (cloud_accept_intents s)) \<Longrightarrow> distinct (map in_job_id t)"
    "\<And>r. r \<in> set t \<Longrightarrow> in_job_id r = lj_job_id job \<or> r \<in> set (cloud_accept_intents s)"
    "sql_find in_job_id (lj_job_id job) t \<noteq> None"
    using upsert_intent_Inr [OF up1] by metis
  obtain u where s2: "s2 = s1\<lparr>cloud_route_proofs := u\<rparr>" "job_exists j s1"
    "distinct (map pr_job_id (cloud_route_proofs s1)) \<Longrightarrow> distinct (map pr_job_id u)"
    "\<And>r. r \<in> set u \<Longrightarrow> pr_job_id r = j \<or> r \<in> set (cloud_route_proofs s1)"
    "sql_find pr_job_id j u = Some (proof_row_of j route)"
    using upsert_proof_Inr [OF up2] by metis
  note r0 = db_wf_parts(3) [OF wf]
  have r1: "refs_ok s1"
    unfolding s1(1)
  proof (rule refs_ok_intents [OF r0])
    show "job_exists (in_job_id r) s" if "r \<in> set t" for r
      using s1(4) [OF that] refs_okD(2) [OF r0] s1(2) by auto
  qed (rule s1(3) [OF refs_okD(1) [OF r0]])
  have "refs_ok s2"
    unfolding s2(1)
  proof (rule refs_ok_proofs [OF r1])
    show "job_exists (pr_job_id r) s1" if "r \<in> set u" for r
      using s2(4) [OF that] refs_okD(4) [OF r1] s2(2) by auto
  qed (rule s2(3) [OF refs_okD(3) [OF r1]])
  then show "db_wf s2"
    by (intro db_wf_tables [OF wf]) (simp_all add: s1(1) s2(1) same_log_def)
  show "jobs s2 = jobs s" "job_events s2 = job_events s" "event_outbox s2 = event_outbox s"
    "sql_find pr_job_id j (cloud_route_proofs s2) = Some (proof_row_of j route)"
    "sql_find in_job_id (lj_job_id job) (cloud_accept_intents s2) \<noteq> None"
    using s1(5) s2(5) by (simp_all add: s1(1) s2(1))
qed

lemma wf_update_quiet:
  assumes wf: "db_wf s" and core: "\<And>r. row_core (g r) = row_core r"
    and state: "\<And>r. r \<in> set (jobs s) \<Longrightarrow> p r \<Longrightarrow> silent_cloud_state (g r) \<or> jr_state (g r) = jr_state r"
  shows "db_wf (snd (update_jobs p g s))"
proof (rule db_wf_quiet [OF wf, of _ "\<lambda>r. if p r then g r else r"])
  show "refs_ok (snd (update_jobs p g s))"
    using refs_ok_jobs_map [OF db_wf_parts(3) [OF wf], of "\<lambda>r. if p r then g r else r"] core by simp
qed (use core state in \<open>auto simp: same_log_def\<close>)

lemma query_job_row:
  assumes "db_wf s" and "query_job x s j = Inr (Some lj)"
  obtains r where "r \<in> set (jobs s)" "jr_job_id r = j" "row_to_job x r = Inr lj"
    "\<And>q. q \<in> set (jobs s) \<Longrightarrow> jr_job_id q = j \<Longrightarrow> q = r"
proof -
  obtain r where r: "sql_find jr_job_id j (jobs s) = Some r" "row_to_job x r = Inr lj"
    using assms(2) by (cases "sql_find jr_job_id j (jobs s)") (auto simp: query_job_def and_then_eq_Inr)
  have "q = r" if "q \<in> set (jobs s)" "jr_job_id q = j" for q
    using sql_find_unique [OF db_wf_parts(6) [OF assms(1)] that(1)] that(2) r(1) by simp
  then show thesis using that sql_find_SomeD [OF r(1)] r(2) by blast
qed

lemma query_job_some:
  assumes "query_job x s j = Inr (Some lj)"
  obtains r where "r \<in> set (jobs s)" "jr_job_id r = j" "row_to_job x r = Inr lj"
  using assms by (cases "sql_find jr_job_id j (jobs s)")
    (auto simp: query_job_def and_then_eq_Inr dest: sql_find_SomeD)

lemma query_job_id: "query_job x s j = Inr (Some lj) \<Longrightarrow> lj_job_id lj = j"
  by (erule query_job_some) (simp add: row_to_job_sel(1))

lemma query_job_state:
  "query_job x s j = Inr (Some lj) \<Longrightarrow> \<exists>r\<in>set (jobs s). jr_job_id r = j \<and> jr_state r = lj_state lj"
  by (erule query_job_some) (metis row_to_job_sel(4))

lemma pending_is_cloud:
  assumes "db_wf s" and "r \<in> set (jobs s)" and "jr_state r = ''cloud_accept_pending''"
  shows "jr_cloud_managed r"
  using assms db_wf_parts(5) [OF assms(1)]
  by (auto simp: projection_ok_def row_projects_def silent_cloud_state_def)

lemma abandon_cloud_accept_wf:
  assumes wf: "db_wf s"
  shows "db_wf (fst (abandon_cloud_accept x j now s))"
  unfolding abandon_cloud_accept_def
proof (rule transaction_invariant [where P = db_wf, OF wf], goal_cases)
  case (1 s' u)
  then obtain lj where q: "query_job x s j = Inr (Some lj)"
    and c: "lj_state lj = ''cancelled'' \<and> s' = s \<or> lj_state lj = ''cloud_accept_pending'' \<and>
      s' = snd (update_jobs (\<lambda>r. jr_job_id r = j)
        (\<lambda>r. r\<lparr>jr_state := ''cancelled'', jr_updated_unix_ms := now\<rparr>)
        (s\<lparr>cloud_route_proofs := sql_delete (\<lambda>r. pr_job_id r = j) (cloud_route_proofs s),
           cloud_accept_intents := sql_delete (\<lambda>r. in_job_id r = j) (cloud_accept_intents s)\<rparr>))"
    by (auto simp: and_then_eq_Inr Let_def split_beta split: option.splits if_splits)
  note wf1 = wf_delete(2) [OF wf, of "\<lambda>r. pr_job_id r = j"]
  note wf2 = wf_delete(1) [OF wf1, of "\<lambda>r. in_job_id r = j"]
  from c show ?case
  proof
    assume c: "lj_state lj = ''cloud_accept_pending'' \<and>
      s' = snd (update_jobs (\<lambda>r. jr_job_id r = j)
        (\<lambda>r. r\<lparr>jr_state := ''cancelled'', jr_updated_unix_ms := now\<rparr>)
        (s\<lparr>cloud_route_proofs := sql_delete (\<lambda>r. pr_job_id r = j) (cloud_route_proofs s),
           cloud_accept_intents := sql_delete (\<lambda>r. in_job_id r = j) (cloud_accept_intents s)\<rparr>))"
    obtain r where r: "r \<in> set (jobs s)" "row_to_job x r = Inr lj"
        "\<And>q. q \<in> set (jobs s) \<Longrightarrow> jr_job_id q = j \<Longrightarrow> q = r"
      using query_job_row [OF wf q] by metis
    then have "jr_cloud_managed q" if "q \<in> set (jobs s)" "jr_job_id q = j" for q
      using that c pending_is_cloud [OF wf r(1)] row_to_job_sel(4) [OF r(2)] by auto
    then show "db_wf s'"
      using c wf_update_quiet [OF wf2, of "\<lambda>r. r\<lparr>jr_state := ''cancelled'', jr_updated_unix_ms := now\<rparr>"
          "\<lambda>r. jr_job_id r = j"]
      by (simp add: row_core_def silent_cloud_state_def)
  qed (simp add: wf)
qed

lemma next_event_sequence_frame [simp]:
  "next_event_sequence j (s\<lparr>jobs := J\<rparr>) = next_event_sequence j s"
  "next_event_sequence j (s\<lparr>cloud_accept_intents := t\<rparr>) = next_event_sequence j s"
  "next_event_sequence j (s\<lparr>cloud_route_proofs := u\<rparr>) = next_event_sequence j s"
  "next_event_sequence j (s\<lparr>job_reconciliation := v\<rparr>) = next_event_sequence j s"
  "next_event_sequence j (s\<lparr>local_handoff_resolutions := w\<rparr>) = next_event_sequence j s"
  by (simp_all add: next_event_sequence_def events_of_def)

text \<open>A guarded move of one job to the state of the event that is appended after it.\<close>

lemma wf_move_append:
  assumes wf: "db_wf s" and core: "\<And>r. row_core (g r) = row_core r"
    and st: "\<And>r. jr_state (g r) = st" "st \<noteq> ''cloud_accept_pending''"
    and all: "\<And>r. r \<in> set (jobs s) \<Longrightarrow> jr_job_id r = j \<Longrightarrow> q r"
    and s1: "s1 = snd (update_jobs (\<lambda>r. jr_job_id r = j \<and> q r) g s)"
    and app: "append_event_tx x (mk_event eid j (next_event_sequence j s) st rs ms d t) s1 = Inr s'"
  shows "db_wf s'"
proof -
  let ?f = "\<lambda>r. if jr_job_id r = j \<and> q r then g r else r"
  have cf: "row_core (?f r) = row_core r" for r using core by simp
  have jobs: "jobs s' = map ?f (jobs s)" using append_event_tx_frame(1) [OF app] s1 by simp
  have ex: "job_exists k s' = job_exists k s" for k using job_exists_map [OF jobs cf] .
  have ex1: "job_exists k s1 = job_exists k s" for k
    using job_exists_map [of s1 ?f s k] cf s1 by simp
  show ?thesis
  proof (rule db_wf_loud [OF wf _ jobs _ cf])
    show "logs (mk_event eid j (next_event_sequence j s) st rs ms d t) s s'"
      by (rule logs_append [OF app _ _ ex1 ex]) (simp_all add: s1 same_log_def)
    show "refs_ok s'"
      using refs_ok_append [OF app] refs_ok_jobs_map [OF db_wf_parts(3) [OF wf], of ?f] cf
      by (simp add: s1)
  qed (use st all append_event_tx_frame [OF app] s1 in auto)
qed

lemma activate_cloud_job_tx_new:
  assumes "activate_cloud_job_tx x eid j now s = Inr (s', None)"
  obtains lj s1 where "query_job x s j = Inr (Some lj)" "lj_state lj = ''cloud_accept_pending''"
    "sql_exists (\<lambda>r. in_job_id r = j \<and> in_acceptance_state r = ''remote_accept_confirmed'')
       (cloud_accept_intents s)"
    "append_event_tx x (mk_event eid j (next_event_sequence j s) ''queued_local'' None
       (Some ''Job is durable in the local queue'') ''{}'' now)
       (snd (update_jobs (\<lambda>r. jr_job_id r = j \<and> True)
         (\<lambda>r. r\<lparr>jr_state := ''queued_local'', jr_updated_unix_ms := now\<rparr>) s)) = Inr s1"
    "s' = s1\<lparr>cloud_accept_intents := sql_delete (\<lambda>r. in_job_id r = j) (cloud_accept_intents s1)\<rparr>"
  using assms
  by (auto simp: activate_cloud_job_tx_def and_then_eq_Inr Let_def split_beta
      split: option.splits if_splits)

lemma activate_cloud_job_wf:
  assumes wf: "db_wf s"
  shows "db_wf (fst (activate_cloud_job x eid j now s))"
  unfolding activate_cloud_job_def fst_read_back
proof (rule transaction_invariant [where P = db_wf, OF wf])
  fix s' res assume act: "activate_cloud_job_tx x eid j now s = Inr (s', res)"
  show "db_wf s'"
  proof (cases res)
    case None
    show ?thesis
    proof (rule activate_cloud_job_tx_new [OF act [unfolded None]])
      fix lj s1
      assume app: "append_event_tx x (mk_event eid j (next_event_sequence j s) ''queued_local'' None
         (Some ''Job is durable in the local queue'') ''{}'' now)
         (snd (update_jobs (\<lambda>r. jr_job_id r = j \<and> True)
           (\<lambda>r. r\<lparr>jr_state := ''queued_local'', jr_updated_unix_ms := now\<rparr>) s)) = Inr s1"
        and s': "s' = s1\<lparr>cloud_accept_intents :=
          sql_delete (\<lambda>r. in_job_id r = j) (cloud_accept_intents s1)\<rparr>"
      have "db_wf s1"
        by (rule wf_move_append [OF wf _ _ _ _ refl app]) (simp_all add: row_core_def)
      then show ?thesis unfolding s' by (rule wf_delete)
    qed
  next
    case (Some lj)
    with act wf show ?thesis
      by (auto simp: activate_cloud_job_tx_def and_then_eq_Inr Let_def split_beta
          split: option.splits if_splits)
  qed
qed

lemma insert_pending_wf:
  assumes wf: "db_wf s"
    and ins: "insert_accepted_job x job facts ''cloud_accept_pending'' True conf s = Inr s'"
  shows "db_wf s'"
proof -
  note k = insert_accepted_job_keeps [OF wf ins]
  from k(7) obtain r where r: "jobs s' = jobs s @ [r]" "jr_state r = ''cloud_accept_pending''"
    "jr_cloud_managed r" by auto
  have "projection_ok s'"
    by (rule projection_ok_frame [OF db_wf_parts(5) [OF wf]])
       (use k(6) r in \<open>auto simp: same_log_def silent_cloud_state_def\<close>)
  with k show ?thesis by (simp add: db_wf_def)
qed

lemma prepare_again_Inr:
  assumes "prepare_again job lid ltok exp route facts existing s = Inr (s', res)"
  obtains s2 s3 where
      "s2 = snd (update_jobs (preparable job) (pending_again job facts) s) \<or>
       s2 = snd (update_jobs (preparable job) (pending_again job facts) s)\<lparr>cloud_accept_intents :=
         sql_delete (\<lambda>r. in_job_id r = aj_job_id job) (cloud_accept_intents s)\<rparr>"
      "upsert_cloud_accept_intent (existing\<lparr>lj_state := ''cloud_accept_pending'',
         lj_route_connector_id := jf_route_connector_id facts\<rparr>) lid ltok exp route
         (aj_accepted_unix_ms job) s2 = Inr s3"
      "upsert_cloud_route_proof (aj_job_id job) route s3 = Inr s'"
      "length (filter (preparable job) (jobs s)) = 1"
  using assms unfolding prepare_again_def update_jobs_pair Let_def prod.case
  by (cases "lj_state existing = ''failed_retryable''")
     (auto simp: and_then_eq_Inr split: if_splits)

lemma prepare_existing_cases:
  assumes "prepare_existing job lid ltok exp route facts existing s = Inr (s', res)"
  shows "s' = s \<and> lj_state existing \<notin> {''cloud_accept_pending'', ''failed_retryable''} \<or>
    prepare_again job lid ltok exp route facts existing s = Inr (s', res)"
  using assms by (auto simp: prepare_existing_def Let_def and_then_eq_Inr split: if_splits)

lemma prepare_again_wf:
  assumes wf: "db_wf s" and prep: "prepare_again job lid ltok exp route facts existing s = Inr (s', res)"
  shows "db_wf s'"
  using prep
proof (cases rule: prepare_again_Inr)
  case (1 s2 s3)
  let ?s1 = "snd (update_jobs (preparable job) (pending_again job facts) s)"
  have "db_wf ?s1"
    by (rule wf_update_quiet [OF wf])
       (auto simp: row_core_def pending_again_def preparable_def silent_cloud_state_def)
  then have "db_wf s2" using 1(1) wf_delete(1) [of ?s1] by auto
  then show ?thesis using upserts_wf(1) [OF _ 1(2,3)] by blast
qed

lemma prepare_existing_wf:
  assumes "db_wf s" and "prepare_existing job lid ltok exp route facts existing s = Inr (s', res)"
  shows "db_wf s'"
  using prepare_existing_cases [OF assms(2)] prepare_again_wf [OF assms(1)] assms(1) by blast

lemma prepare_new_Inr:
  assumes "prepare_new x job lid ltok exp route facts s = Inr (s', res)"
  obtains s1 lj s2 where "insert_accepted_job x job facts ''cloud_accept_pending'' True
       (is_confidential_path (aj_content_path job)) s = Inr s1"
    "query_job x s1 (aj_job_id job) = Inr (Some lj)"
    "upsert_cloud_accept_intent lj lid ltok exp route (aj_accepted_unix_ms job) s1 = Inr s2"
    "upsert_cloud_route_proof (aj_job_id job) route s2 = Inr s'" "res = None"
  using assms by (auto simp: prepare_new_def and_then_eq_Inr split: option.splits)

lemma prepare_cloud_job_wf:
  assumes wf: "db_wf s"
  shows "db_wf (fst (prepare_cloud_job_with_facts x job lid ltok exp route facts s))"
proof -
  have new: "db_wf s'" if prep: "prepare_new x job lid ltok exp route facts s = Inr (s', res)" for s' res
  proof (rule prepare_new_Inr [OF prep])
    fix s1 lj s2
    assume ins: "insert_accepted_job x job facts ''cloud_accept_pending'' True
       (is_confidential_path (aj_content_path job)) s = Inr s1"
      and up: "upsert_cloud_accept_intent lj lid ltok exp route (aj_accepted_unix_ms job) s1 = Inr s2"
        "upsert_cloud_route_proof (aj_job_id job) route s2 = Inr s'"
    from upserts_wf(1) [OF insert_pending_wf [OF wf ins] up] show "db_wf s'" .
  qed
  let ?body = "\<lambda>s. and_then (query_job x s (aj_job_id job)) (\<lambda>found. case found of
      Some existing \<Rightarrow> prepare_existing job lid ltok exp route facts existing s
    | None \<Rightarrow> prepare_new x job lid ltok exp route facts s)"
  have "db_wf (fst (transaction ?body s))"
  proof (rule transaction_invariant [where P = db_wf, OF wf])
    fix s' res assume "?body s = Inr (s', res)"
    then obtain found where "(case found of
        Some existing \<Rightarrow> prepare_existing job lid ltok exp route facts existing s
      | None \<Rightarrow> prepare_new x job lid ltok exp route facts s) = Inr (s', res)"
      by (auto simp: and_then_eq_Inr)
    then show "db_wf s'"
      using new prepare_existing_wf [OF wf] by (cases found) auto
  qed
  then show ?thesis
    by (simp add: prepare_cloud_job_with_facts_def wf split: sum.splits)
qed

section \<open>Quarantine\<close>

lemma cleanup_row_job [simp]: "cl_job_id (cleanup_row_of c now) = cc_job_id c"
  by (simp add: cleanup_row_of_def)

lemma insert_cleanup_cases:
  assumes "insert_cleanup c now s = Inr s'"
  obtains (old) "s' = s" "cc_job_id c \<in> cl_job_id ` set (cloud_release_cleanups s)"
  | (new) "s' = s\<lparr>cloud_release_cleanups := cloud_release_cleanups s @ [cleanup_row_of c now]\<rparr>"
      "cc_job_id c \<notin> cl_job_id ` set (cloud_release_cleanups s)" "job_exists (cc_job_id c) s"
  using assms old new by (auto simp: insert_cleanup_def sql_exists_key split: if_splits)

lemma insert_cleanup_frame:
  assumes "insert_cleanup c now s = Inr s'"
  shows "jobs s' = jobs s" "job_events s' = job_events s"
    "cloud_accept_intents s' = cloud_accept_intents s"
    "cc_job_id c \<in> cl_job_id ` set (cloud_release_cleanups s')"
    "cl_job_id ` set (cloud_release_cleanups s) \<subseteq> cl_job_id ` set (cloud_release_cleanups s')"
  using assms by (cases rule: insert_cleanup_cases; auto)+

lemma wf_insert_cleanup:
  assumes wf: "db_wf s" and ins: "insert_cleanup c now s = Inr s'"
  shows "db_wf s'"
  using ins
proof (cases rule: insert_cleanup_cases)
  case new
  have "refs_ok s'" unfolding new(1)
    by (rule refs_ok_cleanups [OF db_wf_parts(3) [OF wf]])
       (use refs_okD(5,6) [OF db_wf_parts(3) [OF wf]] new in auto)
  with new(1) show ?thesis by (intro db_wf_tables [OF wf]) (auto simp: same_log_def)
qed (simp add: wf)

lemma wf_cancel_pending_row:
  assumes "db_wf s"
  shows "db_wf (cancel_pending_row j now s)"
  unfolding cancel_pending_row_def
  by (rule wf_update_quiet [OF assms])
     (use pending_is_cloud [OF assms] in \<open>auto simp: row_core_def silent_cloud_state_def\<close>)

lemma quarantine_one_Inr:
  assumes wf: "db_wf s" and q: "quarantine_one now c s = Inr s'"
  shows "db_wf s'" "job_events s' = job_events s" "\<And>j. job_exists j s' = job_exists j s"
    "cc_job_id c \<in> cl_job_id ` set (cloud_release_cleanups s')"
    "cl_job_id ` set (cloud_release_cleanups s) \<subseteq> cl_job_id ` set (cloud_release_cleanups s')"
proof -
  obtain s1 where ins: "insert_cleanup c now s = Inr s1"
    and s': "s' = cancel_pending_row (cc_job_id c) now (s1\<lparr>cloud_accept_intents :=
      sql_delete (\<lambda>r. in_job_id r = cc_job_id c) (cloud_accept_intents s1)\<rparr>)"
    using q by (auto simp: quarantine_one_def and_then_eq_Inr)
  note i = insert_cleanup_frame [OF ins]
  show "db_wf s'" unfolding s'
    by (intro wf_cancel_pending_row wf_delete(1) wf_insert_cleanup [OF wf ins])
  show "job_events s' = job_events s"
    "cc_job_id c \<in> cl_job_id ` set (cloud_release_cleanups s')"
    "cl_job_id ` set (cloud_release_cleanups s) \<subseteq> cl_job_id ` set (cloud_release_cleanups s')"
    using i by (simp_all add: s' cancel_pending_row_def)
  show "job_exists j s' = job_exists j s" for j
    by (rule job_exists_map [where f = "\<lambda>r. if jr_job_id r = cc_job_id c \<and>
        jr_state r = ''cloud_accept_pending''
      then r\<lparr>jr_state := ''cancelled'', jr_updated_unix_ms := now\<rparr> else r"])
       (simp_all add: s' cancel_pending_row_def i(1) row_core_def)
qed

lemma quarantine_rows_succeeds:
  assumes "db_wf s" and "\<forall>c\<in>set cs. job_exists (cc_job_id c) s"
  shows "\<exists>s'. quarantine_rows now cs s = Inr s' \<and> db_wf s' \<and> job_events s' = job_events s \<and>
    cc_job_id ` set cs \<union> cl_job_id ` set (cloud_release_cleanups s) \<subseteq>
      cl_job_id ` set (cloud_release_cleanups s')"
  using assms
proof (induction cs arbitrary: s)
  case (Cons c cs)
  then have "\<exists>s1. insert_cleanup c now s = Inr s1" by (simp add: insert_cleanup_def)
  then obtain s1 where s1: "quarantine_one now c s = Inr s1" by (auto simp: quarantine_one_def)
  note q = quarantine_one_Inr [OF Cons.prems(1) s1]
  from Cons.IH [OF q(1)] Cons.prems(2) q(3) obtain s' where
    s': "quarantine_rows now cs s1 = Inr s'" "db_wf s'" "job_events s' = job_events s1"
    "cc_job_id ` set cs \<union> cl_job_id ` set (cloud_release_cleanups s1) \<subseteq>
      cl_job_id ` set (cloud_release_cleanups s')" by auto
  have "cc_job_id ` set (c # cs) \<union> cl_job_id ` set (cloud_release_cleanups s) \<subseteq>
      cl_job_id ` set (cloud_release_cleanups s')"
    using q(4,5) s'(4) by simp (meson subset_trans subsetD)
  with q(2) s1 s' show ?case by simp
qed simp

lemma proofless_batch_mem:
  assumes "c \<in> set (proofless_batch s)"
  obtains r where "r \<in> set (cloud_accept_intents s)" "proofless r" "in_job_id r = cc_job_id c"
  using assms by (auto simp: proofless_batch_def cleanup_of_intent_def dest!: in_set_takeD)

lemma quarantine_loop_clears:
  assumes "db_wf s"
  shows "\<exists>s'. quarantine_loop now s = Inr s' \<and> db_wf s' \<and> job_events s' = job_events s \<and>
    cloud_accept_intents s' = filter (\<lambda>r. \<not> proofless r) (cloud_accept_intents s) \<and>
    in_job_id ` {r \<in> set (cloud_accept_intents s). proofless r} \<union>
      cl_job_id ` set (cloud_release_cleanups s) \<subseteq> cl_job_id ` set (cloud_release_cleanups s')"
  using assms
proof (induction now s rule: quarantine_loop.induct)
  case (1 now s)
  show ?case
  proof (cases "proofless_batch s = []")
    case True
    then have "sort_key (\<lambda>r. (in_prepared_unix_ms r, in_job_id r))
        (filter proofless (cloud_accept_intents s)) = []" by (simp add: proofless_batch_def)
    then have "filter proofless (cloud_accept_intents s) = []" by (metis length_0_conv length_sort)
    then have none: "\<forall>r\<in>set (cloud_accept_intents s). \<not> proofless r" by (simp add: filter_empty_conv)
    with True 1 show ?thesis by (auto simp: quarantine_loop.simps filter_id_conv)
  next
    case False
    have "\<forall>c\<in>set (proofless_batch s). job_exists (cc_job_id c) s"
      using refs_okD(2) [OF db_wf_parts(3) [OF 1(2)]] by (metis proofless_batch_mem)
    from quarantine_rows_succeeds [OF 1(2) this] obtain s1
      where s1: "quarantine_rows now (proofless_batch s) s = Inr s1" "db_wf s1"
        "job_events s1 = job_events s"
        "cc_job_id ` set (proofless_batch s) \<union> cl_job_id ` set (cloud_release_cleanups s) \<subseteq>
           cl_job_id ` set (cloud_release_cleanups s1)" by blast
    note ints = quarantine_rows_intents [OF s1(1)]
    have keep: "in_job_id r \<notin> cc_job_id ` set (proofless_batch s)"
      if "r \<in> set (cloud_accept_intents s)" "\<not> proofless r" for r
      using that refs_okD(1) [OF db_wf_parts(3) [OF 1(2)]]
      by (auto elim!: proofless_batch_mem simp: distinct_map inj_on_def)
    have kept: "filter (\<lambda>r. \<not> proofless r) (cloud_accept_intents s1) =
        filter (\<lambda>r. \<not> proofless r) (cloud_accept_intents s)"
      unfolding ints filter_filter using keep by (intro filter_cong) auto
    have moved: "in_job_id ` {r \<in> set (cloud_accept_intents s). proofless r} \<subseteq>
        cc_job_id ` set (proofless_batch s) \<union> in_job_id ` {r \<in> set (cloud_accept_intents s1). proofless r}"
      unfolding ints by auto
    from 1(1) [OF False s1(1) s1(2)] obtain s' where s': "quarantine_loop now s1 = Inr s'" "db_wf s'"
        "job_events s' = job_events s1"
        "cloud_accept_intents s' = filter (\<lambda>r. \<not> proofless r) (cloud_accept_intents s1)"
        "in_job_id ` {r \<in> set (cloud_accept_intents s1). proofless r} \<union>
          cl_job_id ` set (cloud_release_cleanups s1) \<subseteq> cl_job_id ` set (cloud_release_cleanups s')"
      by blast
    have "in_job_id ` {r \<in> set (cloud_accept_intents s). proofless r} \<union>
        cl_job_id ` set (cloud_release_cleanups s) \<subseteq> cl_job_id ` set (cloud_release_cleanups s')"
      using moved s1(4) s'(5) by (meson Un_least Un_subset_iff subset_trans)
    with s' s1 False kept show ?thesis
      by (intro exI [of _ s']) (simp add: quarantine_loop.simps [of now s])
  qed
qed

section \<open>The remaining operations\<close>

lemma quarantine_invalid_wf:
  assumes "db_wf s"
  shows "db_wf (fst (quarantine_invalid_cloud_accepts now s))"
  using quarantine_loop_clears [OF assms, of now]
  by (auto simp: quarantine_invalid_cloud_accepts_def transaction_def)

lemma quarantine_prepared_wf:
  assumes wf: "db_wf s"
  shows "db_wf (fst (quarantine_prepared_cloud_accept j reason now s))"
proof (cases "reason = [] \<or> 128 < length reason")
  case False
  show ?thesis
    unfolding quarantine_prepared_cloud_accept_def if_not_P [OF False]
  proof (rule transaction_invariant [where P = db_wf, OF wf], goal_cases)
    case (1 s' res)
    then consider "s' = s" | c s1 where "insert_cleanup c now s = Inr s1"
      "s' = cancel_pending_row j now (s1\<lparr>cloud_accept_intents := sql_delete
         (\<lambda>r. in_job_id r = j \<and> in_acceptance_state r = ''prepared'') (cloud_accept_intents s1)\<rparr>)"
      by (auto simp: and_then_eq_Inr Let_def split: option.splits)
    then show ?case
      by cases (auto intro!: wf wf_cancel_pending_row wf_delete(1) dest: wf_insert_cleanup [OF wf])
  qed
qed (auto simp: quarantine_prepared_cloud_accept_def wf)

lemma complete_cleanup_wf:
  assumes "db_wf s"
  shows "db_wf (fst (complete_cloud_release_cleanup j s))"
    "db_wf (fst (complete_all_cloud_release_cleanups s))"
  using wf_delete(3) [OF assms, of "\<lambda>_. True"] wf_delete(3) [OF assms, of "\<lambda>r. cl_job_id r = j"]
  by (simp_all add: complete_cloud_release_cleanup_def complete_all_cloud_release_cleanups_def
      sql_delete_def)

lemma finalize_recovery_wf:
  assumes "db_wf s"
  shows "db_wf (fst (finalize_uncertain_cloud_handoff_recovery x j s))"
  using wf_delete(2) [OF assms] by (simp add: finalize_uncertain_cloud_handoff_recovery_def Let_def)

lemma backfill_wf:
  assumes wf: "db_wf s"
  shows "db_wf (fst (backfill_cloud_route_owner x j c now s))"
proof -
  have "db_wf (snd (update_jobs
      (\<lambda>r. jr_job_id r = j \<and> jr_cloud_managed r \<and> jr_route_connector_id r = None)
      (\<lambda>r. r\<lparr>jr_route_connector_id := Some c, jr_updated_unix_ms := now\<rparr>) s))"
    by (rule wf_update_quiet [OF wf]) (auto simp: row_core_def)
  then show ?thesis
    by (auto simp: backfill_cloud_route_owner_def Let_def split_beta wf)
qed

end
