(* ===== verification/Agent_Cloud_Props.thy ===== *)
theory Agent_Cloud_Props
  imports Agent_Cloud_Correct
begin

text \<open>
  The properties of the cloud acceptance protocol, with the witnesses that run it on one job.
\<close>

section \<open>A run of the protocol\<close>

definition cloud_job :: AcceptedJob where
  "cloud_job = sample_job\<lparr>aj_job_id := ''c1'', aj_cloud_managed := True\<rparr>"

definition cloud_facts :: JobPersistenceFacts where
  "cloud_facts = default_facts\<lparr>jf_route_connector_id := Some ''conn''\<rparr>"

definition sample_route :: CloudRouteProof where
  "sample_route = \<lparr>rp_reservation_id = ''rr'', rp_generation = 3, rp_fencing_token = ''ft''\<rparr>"

definition prepared_db :: agent_db where
  "prepared_db = fst (prepare_cloud_job_with_facts sample_ext cloud_job ''l1'' ''tok'' 99
     sample_route cloud_facts empty_db)"

definition confirmed_db :: agent_db where
  "confirmed_db = fst (confirm_cloud_accept ''c1'' 7 prepared_db)"

definition activated_db :: agent_db where
  "activated_db = fst (activate_cloud_job sample_ext ''e1'' ''c1'' 8 confirmed_db)"

lemma prepared_db_wf: "db_wf prepared_db"
  unfolding prepared_db_def by (rule prepare_cloud_job_wf [OF db_wf_empty])

lemma confirmed_db_wf: "db_wf confirmed_db"
  unfolding confirmed_db_def by (rule confirm_cloud_accept_wf [OF prepared_db_wf])

lemma activated_db_wf: "db_wf activated_db"
  unfolding activated_db_def by (rule activate_cloud_job_wf [OF confirmed_db_wf])

lemma sample_prepared:
  "\<exists>lj. prepare_cloud_job_with_facts sample_ext cloud_job ''l1'' ''tok'' 99 sample_route
     cloud_facts empty_db = (prepared_db, Inr lj) \<and> lj_state lj = ''cloud_accept_pending''"
proof -
  have "case snd (prepare_cloud_job_with_facts sample_ext cloud_job ''l1'' ''tok'' 99 sample_route
     cloud_facts empty_db) of Inr lj \<Rightarrow> lj_state lj = ''cloud_accept_pending'' | _ \<Rightarrow> False"
    by code_simp
  then show ?thesis
    unfolding prepared_db_def
    by (cases "prepare_cloud_job_with_facts sample_ext cloud_job ''l1'' ''tok'' 99 sample_route
      cloud_facts empty_db") (auto split: sum.splits)
qed

lemma sample_activated:
  "\<exists>lj. activate_cloud_job sample_ext ''e1'' ''c1'' 8 confirmed_db = (activated_db, Inr lj)"
proof -
  have "\<not> isl (snd (activate_cloud_job sample_ext ''e1'' ''c1'' 8 confirmed_db))" by code_simp
  from ran_ok [OF this] show ?thesis by (simp add: activated_db_def)
qed

section \<open>Preparing makes nothing runnable\<close>

definition left_pending :: "AcceptedJob \<Rightarrow> CloudRouteProof \<Rightarrow> agent_db \<Rightarrow> agent_db \<Rightarrow> bool" where
  "left_pending job route s s' \<longleftrightarrow> job_events s' = job_events s \<and>
    (\<forall>r\<in>set (jobs s'). jr_job_id r = aj_job_id job \<longrightarrow> jr_state r = ''cloud_accept_pending'') \<and>
    sql_find pr_job_id (aj_job_id job) (cloud_route_proofs s') = Some (proof_row_of (aj_job_id job) route) \<and>
    sql_find in_job_id (aj_job_id job) (cloud_accept_intents s') \<noteq> None"

lemma left_pending_idle:
  "left_pending job route s s' \<Longrightarrow> r \<in> set (jobs s') \<Longrightarrow> jr_job_id r = aj_job_id job \<Longrightarrow>
    jr_state r = ''cloud_accept_pending'' \<and> \<not> is_runnable_head now s' r"
  by (simp add: left_pending_def is_runnable_head_def head_candidate_def)

lemma prepare_again_pending:
  assumes wf: "db_wf s" and prep: "prepare_again job lid ltok exp route facts existing s = Inr (s', res)"
    and id: "lj_job_id existing = aj_job_id job"
  shows "left_pending job route s s' \<and>
    (\<exists>lj. res = Some lj \<and> lj_state lj = ''cloud_accept_pending'')"
  using prep
proof (cases rule: prepare_again_Inr)
  case (1 s2 s3)
  let ?s1 = "snd (update_jobs (preparable job) (pending_again job facts) s)"
  have "db_wf ?s1"
    by (rule wf_update_quiet [OF wf])
       (auto simp: row_core_def pending_again_def preparable_def silent_cloud_state_def)
  then have wf2: "db_wf s2" using 1(1) wf_delete(1) [of ?s1] by auto
  note u = upserts_wf [OF wf2 1(2,3)]
  have eq: "preparable job = (\<lambda>r. jr_job_id r = aj_job_id job \<and>
      (jr_state r \<in> {''cloud_accept_pending'', ''failed_retryable''} \<and> jr_cloud_managed r))"
    by (simp add: preparable_def fun_eq_iff)
  have "preparable job r" if "r \<in> set (jobs s)" "jr_job_id r = aj_job_id job" for r
    using one_updated [OF wf 1(4) [unfolded eq] that] that unfolding eq by blast
  then have "\<forall>r\<in>set (jobs s2). jr_job_id r = aj_job_id job \<longrightarrow> jr_state r = ''cloud_accept_pending''"
    using 1(1) by (auto simp: pending_again_def)
  moreover have "job_events s2 = job_events s" using 1(1) by auto
  moreover have "\<exists>lj. res = Some lj \<and> lj_state lj = ''cloud_accept_pending''"
    using prep by (auto simp: prepare_again_def Let_def split_beta and_then_eq_Inr split: if_splits)
  ultimately show ?thesis using u id by (simp add: left_pending_def)
qed

lemma prepare_new_pending:
  assumes wf: "db_wf s" and prep: "prepare_new x job lid ltok exp route facts s = Inr (s', res)"
  shows "left_pending job route s s'"
proof (rule prepare_new_Inr [OF prep])
  fix s1 lj s2
  assume ins: "insert_accepted_job x job facts ''cloud_accept_pending'' True
       (is_confidential_path (aj_content_path job)) s = Inr s1"
    and q: "query_job x s1 (aj_job_id job) = Inr (Some lj)"
    and up: "upsert_cloud_accept_intent lj lid ltok exp route (aj_accepted_unix_ms job) s1 = Inr s2"
      "upsert_cloud_route_proof (aj_job_id job) route s2 = Inr s'"
  note wf1 = insert_pending_wf [OF wf ins] and k = insert_accepted_job_keeps [OF wf ins]
  note u = upserts_wf [OF wf1 up]
  from k(7) obtain r where r: "jobs s1 = jobs s @ [r]" "jr_job_id r = aj_job_id job"
    "jr_state r = ''cloud_accept_pending''" by blast
  obtain r' where r': "r' \<in> set (jobs s1)" "jr_job_id r' = aj_job_id job" "row_to_job x r' = Inr lj"
    "\<And>q. q \<in> set (jobs s1) \<Longrightarrow> jr_job_id q = aj_job_id job \<Longrightarrow> q = r'"
    by (rule query_job_row [OF wf1 q], rule that)
  have "r = r'" using r'(4) [of r] r(1,2) by simp
  then have "jr_state q = ''cloud_accept_pending''"
    if "q \<in> set (jobs s1)" "jr_job_id q = aj_job_id job" for q
    using r'(4) [OF that] r(3) by simp
  then show ?thesis
    using u k(6) row_to_job_sel(1) [OF r'(3)] r'(2) by (simp add: same_log_def left_pending_def)
qed



section \<open>Activation\<close>

text \<open>
  C14: Activation is the only way out of preparation, and needs a remotely confirmed intent. It
  moves the job to \<open>queued_local\<close> with exactly one event and destroys the lease, keeping the
  route proof. Activating a job that is already queued changes nothing.
\<close>

theorem activation_consumes_confirmed_lease:
  assumes wf: "db_wf s"
    and act: "activate_cloud_job x event_id job_id now s = (s', Inr lj)"
  shows "(\<exists>r\<in>set (jobs s). jr_job_id r = job_id \<and> jr_state r = ''queued_local'') \<and> s' = s \<or>
    (\<exists>r\<in>set (jobs s). jr_job_id r = job_id \<and> jr_state r = ''cloud_accept_pending'') \<and>
    (\<exists>i\<in>set (cloud_accept_intents s). in_job_id i = job_id \<and>
       in_acceptance_state i = ''remote_accept_confirmed'') \<and>
    (\<forall>i\<in>set (cloud_accept_intents s'). in_job_id i \<noteq> job_id) \<and>
    cloud_route_proofs s' = cloud_route_proofs s \<and>
    (\<forall>r\<in>set (jobs s'). jr_job_id r = job_id \<longrightarrow> jr_state r = ''queued_local'') \<and>
    map ev_state (events_of job_id s') = map ev_state (events_of job_id s) @ [''queued_local'']"
proof -
  obtain res where tx: "activate_cloud_job_tx x event_id job_id now s = Inr (s', res)"
    using act unfolding activate_cloud_job_def read_back_def transaction_def
    by (auto split: prod.splits sum.splits option.splits)
  show ?thesis
  proof (cases res)
    case (Some old)
    then have "s' = s" "query_job x s job_id = Inr (Some old)" "lj_state old = ''queued_local''"
      using tx by (auto simp: activate_cloud_job_tx_def and_then_eq_Inr Let_def split_beta
          split: option.splits if_splits)
    then show ?thesis using query_job_state by metis
  next
    case None
    show ?thesis
    proof (rule activate_cloud_job_tx_new [OF tx [unfolded None]], rule disjI2)
      fix old s1
      assume q: "query_job x s job_id = Inr (Some old)" "lj_state old = ''cloud_accept_pending''"
        and c: "sql_exists (\<lambda>r. in_job_id r = job_id \<and>
          in_acceptance_state r = ''remote_accept_confirmed'') (cloud_accept_intents s)"
        and app: "append_event_tx x (mk_event event_id job_id (next_event_sequence job_id s)
           ''queued_local'' None (Some ''Job is durable in the local queue'') ''{}'' now)
           (snd (update_jobs (\<lambda>r. jr_job_id r = job_id \<and> True)
             (\<lambda>r. r\<lparr>jr_state := ''queued_local'', jr_updated_unix_ms := now\<rparr>) s)) = Inr s1"
        and s': "s' = s1\<lparr>cloud_accept_intents :=
          sql_delete (\<lambda>r. in_job_id r = job_id) (cloud_accept_intents s1)\<rparr>"
      note fr = append_event_tx_frame [OF app]
      have pend: "\<exists>r\<in>set (jobs s). jr_job_id r = job_id \<and> jr_state r = ''cloud_accept_pending''"
        using query_job_state [OF q(1)] q(2) by simp
      have ev: "events_of job_id s' = events_of job_id s1" by (simp add: s' events_of_def)
      have "events_of job_id (snd (update_jobs p g s)) = events_of job_id s" for p g
        by (simp add: events_of_def)
      with fr(3) [of job_id] have
        "map ev_state (events_of job_id s') = map ev_state (events_of job_id s) @ [''queued_local'']"
        by (simp add: ev del: update_jobs_simps)
      with pend c fr show "(\<exists>r\<in>set (jobs s). jr_job_id r = job_id \<and>
            jr_state r = ''cloud_accept_pending'') \<and>
          (\<exists>i\<in>set (cloud_accept_intents s). in_job_id i = job_id \<and>
             in_acceptance_state i = ''remote_accept_confirmed'') \<and>
          (\<forall>i\<in>set (cloud_accept_intents s'). in_job_id i \<noteq> job_id) \<and>
          cloud_route_proofs s' = cloud_route_proofs s \<and>
          (\<forall>r\<in>set (jobs s'). jr_job_id r = job_id \<longrightarrow> jr_state r = ''queued_local'') \<and>
          map ev_state (events_of job_id s') =
            map ev_state (events_of job_id s) @ [''queued_local'']"
        by (simp add: s' sql_exists_iff set_sql_delete) auto
    qed
  qed
qed

theorem activation_consumes_confirmed_lease_witness:
  "(\<exists>i\<in>set (cloud_accept_intents confirmed_db). in_job_id i = ''c1'') \<and>
   filter (\<lambda>i. in_job_id i = ''c1'') (cloud_accept_intents activated_db) = [] \<and>
   filter (\<lambda>r. jr_job_id r = ''c1'' \<and> jr_state r \<noteq> ''queued_local'') (jobs activated_db) = []"
proof -
  obtain lj where act: "activate_cloud_job sample_ext ''e1'' ''c1'' 8 confirmed_db = (activated_db, Inr lj)"
    using sample_activated by blast
  have "activated_db \<noteq> confirmed_db"
  proof
    assume "activated_db = confirmed_db"
    moreover have "job_events confirmed_db = []" "job_events activated_db \<noteq> []" by code_simp+
    ultimately show False by simp
  qed
  with activation_consumes_confirmed_lease [OF confirmed_db_wf act] show ?thesis
    unfolding filter_empty_conv by blast
qed

text \<open>
  Abandoning a prepared job is silent and final: the job is cancelled, its lease and its
  route proof are gone, and nothing is added to the event log or to the outbox.
\<close>

theorem abandon_is_silent:
  assumes wf: "db_wf s"
    and out: "abandon_cloud_accept x job_id now s = (s', Inr ())"
    and pending: "r \<in> set (jobs s)" "jr_job_id r = job_id" "jr_state r = ''cloud_accept_pending''"
  shows "(\<forall>q\<in>set (jobs s'). jr_job_id q = job_id \<longrightarrow> jr_state q = ''cancelled'') \<and>
    (\<forall>i\<in>set (cloud_accept_intents s'). in_job_id i \<noteq> job_id) \<and>
    (\<forall>p\<in>set (cloud_route_proofs s'). pr_job_id p \<noteq> job_id) \<and>
    job_events s' = job_events s \<and> event_outbox s' = event_outbox s"
proof -
  obtain lj where q: "query_job x s job_id = Inr (Some lj)"
    and c: "lj_state lj = ''cancelled'' \<or>
      s' = snd (update_jobs (\<lambda>r. jr_job_id r = job_id)
        (\<lambda>r. r\<lparr>jr_state := ''cancelled'', jr_updated_unix_ms := now\<rparr>)
        (s\<lparr>cloud_route_proofs := sql_delete (\<lambda>r. pr_job_id r = job_id) (cloud_route_proofs s),
           cloud_accept_intents := sql_delete (\<lambda>r. in_job_id r = job_id) (cloud_accept_intents s)\<rparr>))"
    using out unfolding abandon_cloud_accept_def transaction_eq_Inr
    by (auto simp: and_then_eq_Inr Let_def split_beta split: option.splits if_splits)
  have "lj_state lj = ''cloud_accept_pending''"
  proof (rule query_job_row [OF wf q])
    fix r' assume "row_to_job x r' = Inr lj"
      and one: "\<And>q. q \<in> set (jobs s) \<Longrightarrow> jr_job_id q = job_id \<Longrightarrow> q = r'"
    then show ?thesis using one [OF pending(1,2)] pending(3) by (simp add: row_to_job_sel(4))
  qed
  with c have s': "s' = snd (update_jobs (\<lambda>r. jr_job_id r = job_id)
        (\<lambda>r. r\<lparr>jr_state := ''cancelled'', jr_updated_unix_ms := now\<rparr>)
        (s\<lparr>cloud_route_proofs := sql_delete (\<lambda>r. pr_job_id r = job_id) (cloud_route_proofs s),
           cloud_accept_intents := sql_delete (\<lambda>r. in_job_id r = job_id) (cloud_accept_intents s)\<rparr>))"
    by simp
  have "jr_state q = ''cancelled''" if "q \<in> set (jobs s')" "jr_job_id q = job_id" for q
    using that(1) unfolding s' by (cases rule: updated_rows) (simp_all add: that(2))
  then show ?thesis unfolding s' by (simp add: set_sql_delete del: set_map)
qed

theorem abandon_is_silent_witness:
  "\<exists>s'. abandon_cloud_accept sample_ext ''c1'' 8 prepared_db = (s', Inr ()) \<and>
     (\<forall>q\<in>set (jobs s'). jr_job_id q = ''c1'' \<longrightarrow> jr_state q = ''cancelled'') \<and>
     (\<forall>i\<in>set (cloud_accept_intents s'). in_job_id i \<noteq> ''c1'')"
proof -
  have "\<not> isl (snd (abandon_cloud_accept sample_ext ''c1'' 8 prepared_db))" by code_simp
  from ran_ok [OF this] obtain s' where s': "abandon_cloud_accept sample_ext ''c1'' 8 prepared_db = (s', Inr ())"
    by auto
  have "list_ex (\<lambda>r. jr_job_id r = ''c1'' \<and> jr_state r = ''cloud_accept_pending'') (jobs prepared_db)"
    by code_simp
  then obtain r where "r \<in> set (jobs prepared_db)" "jr_job_id r = ''c1''"
    "jr_state r = ''cloud_accept_pending''" by (auto simp: list_ex_iff)
  from abandon_is_silent [OF prepared_db_wf s' this] s' show ?thesis by blast
qed

section \<open>Leases that lack a route proof\<close>


text \<open>A database of an older release: the intent of the job has no route proof.\<close>

definition legacy_db :: agent_db where
  "legacy_db = prepared_db\<lparr>cloud_accept_intents := map
     (\<lambda>r. r\<lparr>in_route_reservation_id := None, in_route_generation := None,
       in_route_fencing_token := None\<rparr>) (cloud_accept_intents prepared_db)\<rparr>"

lemma legacy_db_wf: "db_wf legacy_db"
proof (rule db_wf_tables [OF prepared_db_wf])
  note r = db_wf_parts(3) [OF prepared_db_wf]
  show "refs_ok legacy_db"
    unfolding legacy_db_def using refs_okD(1,2) [OF r]
    by (intro refs_ok_intents [OF r]) (auto simp: o_def)
qed (simp_all add: legacy_db_def same_log_def)


section \<open>A confirmed acceptance is never overwritten\<close>



end
