(* ===== verification/Agent_Handoff.thy ===== *)
theory Agent_Handoff
  imports Agent_Cloud_Correct
begin

text \<open>
  The handoff of a job to the operating system, in the agent store: native acceptance and its
  reconciliation schedule, failed and uncertain handoffs and their resolution, cancellation and
  expiry. Most of these operations are one transaction of the same shape, \<open>logged_move\<close>: append
  an event, move the job under a guard on its row, fail if the guard did not hold.
\<close>

section \<open>Moves that log an event\<close>

definition logged_move ::
  "ext \<Rightarrow> event_row \<Rightarrow> (job_row \<Rightarrow> bool) \<Rightarrow> (job_row \<Rightarrow> job_row) \<Rightarrow> StorageError \<Rightarrow> agent_db \<Rightarrow>
     StorageError + agent_db" where
  "logged_move x e guard change refused s =
     and_then (append_event_tx x e s) (\<lambda>s.
     let (changed, s) = update_jobs (\<lambda>r. jr_job_id r = ev_job_id e \<and> guard r) change s
     in if changed \<noteq> 1 then Inl refused else Inr s)"

definition record_local_retryable_failure ::
  "ext \<Rightarrow> string \<Rightarrow> string \<Rightarrow> string \<Rightarrow> string \<Rightarrow> string \<Rightarrow> int \<Rightarrow> int \<Rightarrow> unit db_op" where
  "record_local_retryable_failure x event_id job_id reason message details_json
     observed_unix_ms next_attempt_unix_ms s =
     (case parse_json x details_json of
        Inl e \<Rightarrow> (s, Inl e)
      | Inr _ \<Rightarrow> transaction (\<lambda>s.
          and_then (logged_move x
            (mk_event event_id job_id (next_event_sequence job_id s) ''failed_retryable''
              (Some reason) (Some message) details_json observed_unix_ms)
            (\<lambda>r. jr_state r = ''spool_intent'' \<and> \<not> jr_cloud_managed r)
            (\<lambda>r. r\<lparr>jr_state := ''failed_retryable'',
               jr_next_attempt_unix_ms := Some next_attempt_unix_ms,
               jr_attempt_count := jr_attempt_count r + 1,
               jr_updated_unix_ms := observed_unix_ms\<rparr>)
            (InvalidLocalEvent (''job '' @ job_id @ '' cannot record a local retryable failure'')) s)
          (\<lambda>s. Inr (s, ()))) s)"

definition record_local_handoff_uncertainty :: "ext \<Rightarrow> string \<Rightarrow> string \<Rightarrow> int \<Rightarrow> unit db_op" where
  "record_local_handoff_uncertainty x event_id job_id observed_unix_ms = transaction (\<lambda>s.
     and_then (logged_move x
       (mk_event event_id job_id (next_event_sequence job_id s) ''delivery_uncertain''
         (Some ''ambiguous_handoff'') (Some ''Native handoff outcome is uncertain after restart'')
         ''{}'' observed_unix_ms)
       (\<lambda>r. jr_state r = ''spool_intent'' \<and> \<not> jr_cloud_managed r)
       (\<lambda>r. r\<lparr>jr_state := ''delivery_uncertain'', jr_updated_unix_ms := observed_unix_ms\<rparr>)
       (InvalidLocalEvent (''job '' @ job_id @ '' has no local spool intent to quarantine'')) s)
     (\<lambda>s. Inr (s, ())))"

section \<open>Resolution of a local uncertainty\<close>

definition local_handoff_resolution :: "agent_db \<Rightarrow> string \<Rightarrow> string \<Rightarrow> string option" where
  "local_handoff_resolution s job_id ambiguity_id =
     map_option lr_resolution (find (\<lambda>r. lr_job_id r = job_id \<and> lr_ambiguity_id r = ambiguity_id)
       (local_handoff_resolutions s))"

definition insert_resolution :: "resolution_row \<Rightarrow> agent_db \<Rightarrow> StorageError + agent_db" where
  "insert_resolution row s =
     and_then (ensure (\<not> sql_exists (\<lambda>r. lr_ambiguity_id r = lr_ambiguity_id row)
       (local_handoff_resolutions s)) Sql) (\<lambda>_.
     and_then (ensure (lr_resolution row \<in> {''release_for_retry'', ''confirm_accepted''}) Sql) (\<lambda>_.
     and_then (ensure (job_exists (lr_job_id row) s) Sql) (\<lambda>_.
     Inr (s\<lparr>local_handoff_resolutions := local_handoff_resolutions s @ [row]\<rparr>))))"

text \<open>A resolution that was recorded is repeated or refused before the transaction starts.\<close>

definition already_resolved ::
  "string \<Rightarrow> string \<Rightarrow> string \<Rightarrow> agent_db \<Rightarrow> (StorageError + unit) option" where
  "already_resolved job_id ambiguity_id wanted s =
     (case local_handoff_resolution s job_id ambiguity_id of
        None \<Rightarrow> None
      | Some existing \<Rightarrow> Some (if existing = wanted then Inr ()
          else Inl (InvalidLocalEvent (''local ambiguity '' @ ambiguity_id @
                 '' was already resolved differently''))))"

definition resolution_row_of :: "string \<Rightarrow> string \<Rightarrow> string \<Rightarrow> int \<Rightarrow> resolution_row" where
  "resolution_row_of ambiguity_id job_id resolution observed_unix_ms =
     \<lparr>lr_ambiguity_id = ambiguity_id, lr_job_id = job_id, lr_resolution = resolution,
      lr_observed_unix_ms = observed_unix_ms\<rparr>"

definition release_uncertain_local_handoff_for_retry ::
  "ext \<Rightarrow> string \<Rightarrow> string \<Rightarrow> string \<Rightarrow> int \<Rightarrow> int \<Rightarrow> unit db_op" where
  "release_uncertain_local_handoff_for_retry x event_id job_id ambiguity_id observed_unix_ms
     next_attempt_unix_ms s =
     (case already_resolved job_id ambiguity_id LOCAL_HANDOFF_RELEASE_FOR_RETRY s of
        Some out \<Rightarrow> (s, out)
      | None \<Rightarrow> transaction (\<lambda>s.
          and_then (logged_move x
            (mk_event event_id job_id (next_event_sequence job_id s) ''failed_retryable''
              (Some ''ambiguous_handoff_released'')
              (Some ''Local operator released the uncertain handoff for retry'') ''{}''
              observed_unix_ms)
            (\<lambda>r. \<not> jr_cloud_managed r \<and> jr_state r = ''delivery_uncertain'')
            (\<lambda>r. r\<lparr>jr_state := ''failed_retryable'',
               jr_next_attempt_unix_ms := Some next_attempt_unix_ms,
               jr_attempt_count := jr_attempt_count r + 1,
               jr_updated_unix_ms := observed_unix_ms\<rparr>)
            (InvalidLocalEvent (''local job '' @ job_id @ '' has no uncertainty to release'')) s) (\<lambda>s.
          and_then (insert_resolution (resolution_row_of ambiguity_id job_id
            LOCAL_HANDOFF_RELEASE_FOR_RETRY observed_unix_ms) s) (\<lambda>s. Inr (s, ())))) s)"

definition confirm_uncertain_local_handoff_accepted ::
  "ext \<Rightarrow> string \<Rightarrow> string \<Rightarrow> string \<Rightarrow> int \<Rightarrow> unit db_op" where
  "confirm_uncertain_local_handoff_accepted x event_id job_id ambiguity_id observed_unix_ms s =
     (case already_resolved job_id ambiguity_id LOCAL_HANDOFF_CONFIRM_ACCEPTED s of
        Some out \<Rightarrow> (s, out)
      | None \<Rightarrow> transaction (\<lambda>s.
          and_then (logged_move x
            (mk_event event_id job_id (next_event_sequence job_id s) ''delivery_uncertain''
              (Some ''ambiguous_handoff_confirmed'')
              (Some ''Local operator confirmed native acceptance'') ''{}'' observed_unix_ms)
            (\<lambda>r. \<not> jr_cloud_managed r \<and> jr_state r = ''delivery_uncertain'')
            (\<lambda>r. r\<lparr>jr_updated_unix_ms := observed_unix_ms\<rparr>)
            (InvalidLocalEvent (''local job '' @ job_id @ '' has no uncertainty to confirm'')) s) (\<lambda>s.
          and_then (insert_resolution (resolution_row_of ambiguity_id job_id
            LOCAL_HANDOFF_CONFIRM_ACCEPTED observed_unix_ms) s) (\<lambda>s. Inr (s, ())))) s)"

section \<open>Native acceptance and reconciliation\<close>

definition set_native_job_id :: "string \<Rightarrow> string \<Rightarrow> int \<Rightarrow> unit db_op" where
  "set_native_job_id job_id native_job_id updated_unix_ms s =
     (let (changed, s') = update_jobs (\<lambda>r. jr_job_id r = job_id)
        (\<lambda>r. r\<lparr>jr_native_job_id := Some native_job_id, jr_updated_unix_ms := updated_unix_ms\<rparr>) s
      in if changed \<noteq> 1 then (s', Inl (JobNotFound job_id)) else (s', Inr ()))"

definition reconciliation_row_of :: "string \<Rightarrow> int \<Rightarrow> int \<Rightarrow> reconciliation_row" where
  "reconciliation_row_of job_id next_observe deadline =
     \<lparr>rr_job_id = job_id, rr_next_observe_unix_ms = next_observe,
      rr_uncertainty_deadline_unix_ms = deadline, rr_attempt_count = 0,
      rr_last_native_state = None, rr_last_error_code = None, rr_cancel_requested = False\<rparr>"

definition upsert_reconciliation :: "string \<Rightarrow> int \<Rightarrow> int \<Rightarrow> agent_db \<Rightarrow> StorageError + agent_db" where
  "upsert_reconciliation job_id next_observe deadline s =
     (if \<not> job_exists job_id s then Inl Sql
      else Inr (s\<lparr>job_reconciliation := sql_upsert rr_job_id
        (reconciliation_row_of job_id next_observe deadline)
        (\<lambda>r. r\<lparr>rr_next_observe_unix_ms := next_observe,
           rr_uncertainty_deadline_unix_ms := deadline\<rparr>) (job_reconciliation s)\<rparr>))"

definition delete_route_proof :: "string \<Rightarrow> agent_db \<Rightarrow> agent_db" where
  "delete_route_proof job_id s =
     s\<lparr>cloud_route_proofs := sql_delete (\<lambda>r. pr_job_id r = job_id) (cloud_route_proofs s)\<rparr>"

definition schedule_native_reconciliation :: "string \<Rightarrow> string \<Rightarrow> int \<Rightarrow> int \<Rightarrow> unit db_op" where
  "schedule_native_reconciliation job_id native_job_id next_observe deadline = transaction (\<lambda>s.
     let (changed, s) = update_jobs (\<lambda>r. jr_job_id r = job_id)
        (\<lambda>r. r\<lparr>jr_native_job_id := Some native_job_id, jr_updated_unix_ms := next_observe\<rparr>) s
     in if changed \<noteq> 1 then Inl (JobNotFound job_id)
        else and_then (upsert_reconciliation job_id next_observe deadline s) (\<lambda>s.
          Inr (delete_route_proof job_id s, ())))"

definition record_native_acceptance ::
  "ext \<Rightarrow> string \<Rightarrow> string \<Rightarrow> string \<Rightarrow> string \<Rightarrow> int \<Rightarrow> int \<Rightarrow> int \<Rightarrow> unit db_op" where
  "record_native_acceptance x event_id job_id native_job_id details_json observed_unix_ms
     next_observe deadline s =
     (case parse_json x details_json of
        Inl e \<Rightarrow> (s, Inl e)
      | Inr _ \<Rightarrow> transaction (\<lambda>s.
          and_then (logged_move x
            (mk_event event_id job_id (next_event_sequence job_id s) ''accepted_by_spooler'' None
              (Some ''Operating system accepted the job'') details_json observed_unix_ms)
            (\<lambda>r. jr_state r = ''spool_intent'')
            (\<lambda>r. r\<lparr>jr_native_job_id := Some native_job_id, jr_state := ''accepted_by_spooler'',
               jr_updated_unix_ms := observed_unix_ms\<rparr>)
            (JobNotFound job_id) s) (\<lambda>s.
          and_then (upsert_reconciliation job_id next_observe deadline s) (\<lambda>s.
          Inr (delete_route_proof job_id s, ())))) s)"

record ReconciliationItem =
  ri_job :: LocalJob
  ri_next_observe_unix_ms :: int
  ri_uncertainty_deadline_unix_ms :: int
  ri_attempt_count :: nat
  ri_cancel_requested :: bool

definition observed_states :: "string list" where
  "observed_states = [''accepted_by_spooler'', ''spooling'', ''printing'', ''blocked'',
     ''cancel_requested'']"

definition row_to_reconciliation_item ::
  "ext \<Rightarrow> reconciliation_row \<times> job_row \<Rightarrow> StorageError + ReconciliationItem" where
  "row_to_reconciliation_item x = (\<lambda>(r, j).
     and_then (row_to_job x j) (\<lambda>job.
     and_then (get_u64 (rr_attempt_count r)) (\<lambda>n.
     and_then (get_u32 n) (\<lambda>attempts.
     Inr \<lparr>ri_job = job, ri_next_observe_unix_ms = rr_next_observe_unix_ms r,
       ri_uncertainty_deadline_unix_ms = rr_uncertainty_deadline_unix_ms r,
       ri_attempt_count = attempts, ri_cancel_requested = rr_cancel_requested r\<rparr>))))"

definition due_reconciliations ::
  "ext \<Rightarrow> int \<Rightarrow> nat \<Rightarrow> agent_db \<Rightarrow> StorageError + ReconciliationItem list" where
  "due_reconciliations x now_unix_ms limit s =
     collect_results (map (row_to_reconciliation_item x) (take (clamp_limit 100 limit)
       (sort_key (\<lambda>(r, j). (rr_next_observe_unix_ms r, jr_job_id j))
         (filter (\<lambda>(r, j). rr_next_observe_unix_ms r \<le> now_unix_ms \<and>
             jr_state j \<in> set observed_states)
           (concat (map (\<lambda>r. map (Pair r) (filter (\<lambda>j. jr_job_id j = rr_job_id r) (jobs s)))
             (job_reconciliation s)))))))"

definition record_reconciliation_attempt ::
  "ext \<Rightarrow> string \<Rightarrow> string \<Rightarrow> string \<Rightarrow> string \<Rightarrow> string \<Rightarrow> string \<Rightarrow> string option \<Rightarrow> int \<Rightarrow> int \<Rightarrow> unit db_op"
  where
  "record_reconciliation_attempt x observation_id job_id native_job_id native_state authority
     details_json error_code observed_unix_ms next_observe s =
     (case parse_json x details_json of
        Inl e \<Rightarrow> (s, Inl e)
      | Inr _ \<Rightarrow> transaction (\<lambda>s.
          and_then (ensure (\<not> sql_exists (\<lambda>r. no_observation_id r = observation_id)
            (native_observations s)) Sql) (\<lambda>_.
          and_then (ensure (sqlite_json_valid x details_json) Sql) (\<lambda>_.
          and_then (ensure (job_exists job_id s) Sql) (\<lambda>_.
          let s = s\<lparr>native_observations := native_observations s @
                [\<lparr>no_observation_id = observation_id, no_job_id = job_id,
                  no_native_job_id = Some native_job_id, no_state = native_state,
                  no_authority = authority, no_details_json = details_json,
                  no_observed_unix_ms = observed_unix_ms\<rparr>]\<rparr>;
              (changed, t) = sql_update (\<lambda>r. rr_job_id r = job_id)
                (\<lambda>r. r\<lparr>rr_next_observe_unix_ms := next_observe,
                   rr_attempt_count := rr_attempt_count r + 1,
                   rr_last_native_state := Some native_state,
                   rr_last_error_code := error_code, rr_cancel_requested := False\<rparr>)
                (job_reconciliation s)
          in if changed \<noteq> 1 then Inl (JobNotFound job_id)
             else Inr (s\<lparr>job_reconciliation := t\<rparr>, ()))))) s)"

definition finish_reconciliation :: "string \<Rightarrow> unit db_op" where
  "finish_reconciliation job_id s =
     (s\<lparr>job_reconciliation := sql_delete (\<lambda>r. rr_job_id r = job_id) (job_reconciliation s)\<rparr>, Inr ())"

section \<open>Recovery of a cloud handoff\<close>

definition release_uncertain_cloud_handoff_for_retry ::
  "ext \<Rightarrow> string \<Rightarrow> string \<Rightarrow> int \<Rightarrow> unit db_op" where
  "release_uncertain_cloud_handoff_for_retry x event_id job_id observed_unix_ms s =
     (case get_job x s job_id of
        Inl e \<Rightarrow> (s, Inl e)
      | Inr found \<Rightarrow>
          if is_some_and found (\<lambda>j. lj_cloud_managed j \<and> lj_state j = ''failed_retryable'')
          then (s, Inr ())
          else transaction (\<lambda>s.
            and_then (logged_move x
              (mk_event event_id job_id (next_event_sequence job_id s) ''failed_retryable''
                (Some ''ambiguous_handoff_released'')
                (Some ''Authority released the uncertain handoff for a fresh offer'') ''{}''
                observed_unix_ms)
              (\<lambda>r. jr_cloud_managed r \<and> jr_state r = ''delivery_uncertain'')
              (\<lambda>r. r\<lparr>jr_state := ''failed_retryable'', jr_updated_unix_ms := observed_unix_ms\<rparr>)
              (InvalidLocalEvent (''cloud job '' @ job_id @ '' has no uncertainty to release'')) s) (\<lambda>s.
            Inr (delete_route_proof job_id s, ()))) s)"

definition record_cloud_handoff_recovery ::
  "ext \<Rightarrow> string \<Rightarrow> string \<Rightarrow> string \<Rightarrow> string \<Rightarrow> string \<Rightarrow> int \<Rightarrow> unit db_op" where
  "record_cloud_handoff_recovery x event_id job_id state reason message observed_unix_ms s =
     (if state \<notin> {''failed_retryable'', ''delivery_uncertain''}
      then (s, Inl (InvalidLocalEvent ''cloud handoff recovery state is invalid''))
      else transaction (\<lambda>s.
        and_then (logged_move x
          (mk_event event_id job_id (next_event_sequence job_id s) state (Some reason)
            (Some message) ''{}'' observed_unix_ms)
          (\<lambda>r. jr_state r = ''spool_intent'' \<and> jr_cloud_managed r)
          (\<lambda>r. r\<lparr>jr_state := state, jr_updated_unix_ms := observed_unix_ms\<rparr>)
          (InvalidLocalEvent (''cloud job '' @ job_id @ '' has no spool intent to reconcile'')) s) (\<lambda>s.
        Inr (if state = ''failed_retryable'' then delete_route_proof job_id s else s, ()))) s)"

section \<open>Cancellation and expiry\<close>

text \<open>Each of the two events of a cancellation is a transaction of its own.\<close>

definition cancel_before_handoff :: "ext \<Rightarrow> string \<Rightarrow> string \<Rightarrow> string \<Rightarrow> int \<Rightarrow> bool db_op" where
  "cancel_before_handoff x event_id1 event_id2 job_id observed_unix_ms s =
     (case get_job x s job_id of
        Inl e \<Rightarrow> (s, Inl e)
      | Inr None \<Rightarrow> (s, Inl (JobNotFound job_id))
      | Inr (Some job) \<Rightarrow>
          if lj_state job = ''cloud_accept_pending'' then (s, Inr False)
          else if lj_state job \<notin> set queued_states then (s, Inr False)
          else case append_next_event x event_id1 job_id ''cancel_requested''
                 (Some ''cancelled_by_server'') (Some ''Cancellation requested by control plane'')
                 ''{}'' observed_unix_ms s of
            (s1, Inl e) \<Rightarrow> (s1, Inl e)
          | (s1, Inr _) \<Rightarrow>
              (case append_next_event x event_id2 job_id ''cancelled''
                 (Some ''cancelled_by_server'') (Some ''Cancelled before native handoff'')
                 ''{}'' observed_unix_ms s1 of
                 (s2, Inl e) \<Rightarrow> (s2, Inl e)
               | (s2, Inr _) \<Rightarrow> (s2, Inr True)))"

definition cancellable_native_states :: "string list" where
  "cancellable_native_states = [''accepted_by_spooler'', ''spooling'', ''printing'', ''blocked'']"

definition request_cancel :: "ext \<Rightarrow> string \<Rightarrow> string \<Rightarrow> string \<Rightarrow> int \<Rightarrow> bool db_op" where
  "request_cancel x event_id1 event_id2 job_id observed_unix_ms s =
     (case get_job x s job_id of
        Inl e \<Rightarrow> (s, Inl e)
      | Inr None \<Rightarrow> (s, Inl (JobNotFound job_id))
      | Inr (Some job) \<Rightarrow>
          if lj_state job \<in> set queued_states
          then cancel_before_handoff x event_id1 event_id2 job_id observed_unix_ms s
          else if lj_state job = ''cloud_accept_pending'' then (s, Inr False)
          else if lj_state job \<notin> set cancellable_native_states then (s, Inr False)
          else case append_next_event x event_id1 job_id ''cancel_requested''
                 (Some ''cancelled_by_server'') (Some ''Cancellation requested after native handoff'')
                 ''{}'' observed_unix_ms s of
            (s1, Inl e) \<Rightarrow> (s1, Inl e)
          | (s1, Inr _) \<Rightarrow>
              (s1\<lparr>job_reconciliation := snd (sql_update (\<lambda>r. rr_job_id r = job_id)
                 (\<lambda>r. r\<lparr>rr_cancel_requested := True, rr_next_observe_unix_ms := observed_unix_ms\<rparr>)
                 (job_reconciliation s1))\<rparr>, Inr True))"

definition expired_waiting :: "int \<Rightarrow> job_row \<Rightarrow> bool" where
  "expired_waiting now_unix_ms r =
     (jr_state r \<in> set queued_states \<and>
      (case jr_expires_unix_ms r of None \<Rightarrow> False | Some t \<Rightarrow> t \<le> now_unix_ms))"

fun expire_each :: "ext \<Rightarrow> (string \<Rightarrow> string) \<Rightarrow> int \<Rightarrow> string list \<Rightarrow> unit db_op" where
  "expire_each x fresh now_unix_ms [] s = (s, Inr ())"
| "expire_each x fresh now_unix_ms (job_id # job_ids) s =
     (case append_event x (fresh job_id) job_id (next_event_sequence job_id s) ''expired''
        (Some ''expired_before_handoff'') (Some ''Job expired before native submission'') ''{}''
        now_unix_ms s of
        (s1, Inl e) \<Rightarrow> (s1, Inl e)
      | (s1, Inr _) \<Rightarrow> expire_each x fresh now_unix_ms job_ids s1)"

text \<open>
  The query has no \<open>ORDER BY\<close>: \<open>scan\<close> is the order in which SQLite returns the rows. \<open>fresh\<close>
  gives the new event identifier for each job.
\<close>

definition expire_waiting ::
  "ext \<Rightarrow> (job_row list \<Rightarrow> job_row list) \<Rightarrow> (string \<Rightarrow> string) \<Rightarrow> int \<Rightarrow> nat db_op" where
  "expire_waiting x scan fresh now_unix_ms s =
     (let job_ids = map jr_job_id (scan (filter (expired_waiting now_unix_ms) (jobs s)))
      in case expire_each x fresh now_unix_ms job_ids s of
        (s', Inl e) \<Rightarrow> (s', Inl e)
      | (s', Inr _) \<Rightarrow> (s', Inr (length job_ids)))"

section \<open>Every operation keeps the invariant\<close>

lemma logged_move_Inr:
  assumes "logged_move x e guard g refused s = Inr s'"
  obtains s1 where "append_event_tx x e s = Inr s1"
    "s' = s1\<lparr>jobs := map (\<lambda>r. if jr_job_id r = ev_job_id e \<and> guard r then g r else r) (jobs s)\<rparr>"
    "length (filter (\<lambda>r. jr_job_id r = ev_job_id e \<and> guard r) (jobs s)) = 1"
  using assms
  by (auto simp: logged_move_def and_then_eq_Inr update_jobs_pair append_event_tx_frame(1)
      split: if_splits)

lemma logged_move_frame:
  assumes wf: "db_wf s" and mv: "logged_move x e guard g refused s = Inr s'"
    and core: "\<And>r. row_core (g r) = row_core r"
  shows "\<And>r. r \<in> set (jobs s) \<Longrightarrow> jr_job_id r = ev_job_id e \<Longrightarrow> guard r"
    "\<exists>r\<in>set (jobs s). jr_job_id r = ev_job_id e"
    "events_of j s' = events_of j s @ (if ev_job_id e = j then [e] else [])"
    "cloud_route_proofs s' = cloud_route_proofs s" "job_reconciliation s' = job_reconciliation s"
    "job_exists j s' = job_exists j s"
    "jobs s' = map (\<lambda>r. if jr_job_id r = ev_job_id e \<and> guard r then g r else r) (jobs s)"
    "local_handoff_resolutions s' = local_handoff_resolutions s"
proof -
  obtain s1 where app: "append_event_tx x e s = Inr s1"
    and s': "s' = s1\<lparr>jobs := map (\<lambda>r. if jr_job_id r = ev_job_id e \<and> guard r then g r else r) (jobs s)\<rparr>"
    and one: "length (filter (\<lambda>r. jr_job_id r = ev_job_id e \<and> guard r) (jobs s)) = 1"
    by (rule logged_move_Inr [OF mv], rule that)
  note fr = append_event_tx_frame [OF app]
  show "guard r" if "r \<in> set (jobs s)" "jr_job_id r = ev_job_id e" for r
    by (rule one_updated [OF wf one that])
  show "\<exists>r\<in>set (jobs s). jr_job_id r = ev_job_id e"
    using fr(14) by (simp add: job_exists_def sql_exists_iff)
  show "events_of j s' = events_of j s @ (if ev_job_id e = j then [e] else [])"
    using fr(3) [of j] by (simp add: s' events_of_def)
  show "job_exists j s' = job_exists j s"
    by (rule job_exists_map [where f = "\<lambda>r. if jr_job_id r = ev_job_id e \<and> guard r then g r else r"])
       (use core in \<open>simp_all add: s'\<close>)
  show "cloud_route_proofs s' = cloud_route_proofs s" "job_reconciliation s' = job_reconciliation s"
    "jobs s' = map (\<lambda>r. if jr_job_id r = ev_job_id e \<and> guard r then g r else r) (jobs s)"
    "local_handoff_resolutions s' = local_handoff_resolutions s"
    using fr by (simp_all add: s')
qed

lemma logged_move_wf:
  assumes wf: "db_wf s"
    and mv: "logged_move x (mk_event eid j (next_event_sequence j s) st rs ms d t) guard g refused s = Inr s'"
    and core: "\<And>r. row_core (g r) = row_core r"
    and st: "\<And>r. guard r \<Longrightarrow> jr_state (g r) = st" "st \<noteq> ''cloud_accept_pending''"
  shows "db_wf s'"
proof -
  let ?e = "mk_event eid j (next_event_sequence j s) st rs ms d t"
  let ?f = "\<lambda>r. if jr_job_id r = j \<and> guard r then g r else r"
  note fr = logged_move_frame [OF wf mv core]
  obtain s1 where app: "append_event_tx x ?e s = Inr s1" and s': "s' = s1\<lparr>jobs := map ?f (jobs s)\<rparr>"
    by (rule logged_move_Inr [OF mv]) (simp add: that)
  note ap = append_event_tx_frame [OF app]
  show ?thesis
  proof (rule db_wf_loud [OF wf, of ?e _ ?f])
    show "logs ?e s s'"
      by (rule logs_append [OF app _ _ _ fr(6)]) (simp_all add: s' same_log_def)
    show "refs_ok s'"
      using refs_ok_jobs_map [OF refs_ok_append [OF app db_wf_parts(3) [OF wf]], of ?f] core ap(1)
      by (simp add: s')
    show "jr_state (?f r) = ev_state ?e" if "r \<in> set (jobs s)" "jr_job_id r = ev_job_id ?e" for r
      using fr(1) [OF that] that st(1) by simp
  qed (use core st ap s' in simp_all)
qed

lemma wf_delete_route_proof: "db_wf s \<Longrightarrow> db_wf (delete_route_proof j s)"
  unfolding delete_route_proof_def by (rule wf_delete)

lemma wf_upsert_reconciliation:
  assumes wf: "db_wf s" and up: "upsert_reconciliation j n d s = Inr s'"
  shows "db_wf s'"
proof -
  let ?row = "reconciliation_row_of j n d"
  let ?m = "\<lambda>r. r\<lparr>rr_next_observe_unix_ms := n, rr_uncertainty_deadline_unix_ms := d\<rparr>"
  have id: "rr_job_id ?row = j" by (simp add: reconciliation_row_of_def)
  have s': "s' = s\<lparr>job_reconciliation := sql_upsert rr_job_id ?row ?m (job_reconciliation s)\<rparr>"
    and ex: "job_exists j s"
    using up by (auto simp: upsert_reconciliation_def split: if_splits)
  note r0 = db_wf_parts(3) [OF wf]
  have "refs_ok s'" unfolding s'
  proof (rule refs_ok_reconciliation [OF r0])
    show "distinct (map rr_job_id (sql_upsert rr_job_id ?row ?m (job_reconciliation s)))"
      by (rule distinct_sql_upsert [OF refs_okD(7) [OF r0]]) simp
    show "job_exists (rr_job_id r) s" if "r \<in> set (sql_upsert rr_job_id ?row ?m (job_reconciliation s))" for r
      using set_sql_upsert [OF that] refs_okD(8) [OF r0] ex id by auto
  qed
  then show ?thesis by (intro db_wf_tables [OF wf]) (simp_all add: s' same_log_def)
qed

lemma wf_insert_resolution:
  assumes wf: "db_wf s" and ins: "insert_resolution row s = Inr s'"
  shows "db_wf s'"
proof -
  have s': "s' = s\<lparr>local_handoff_resolutions := local_handoff_resolutions s @ [row]\<rparr>"
    and new: "lr_ambiguity_id row \<notin> lr_ambiguity_id ` set (local_handoff_resolutions s)"
    and ex: "job_exists (lr_job_id row) s"
    using ins unfolding insert_resolution_def and_then_eq_Inr ensure_eq_Inr sql_exists_key by auto
  note r0 = db_wf_parts(3) [OF wf]
  have "refs_ok s'" unfolding s'
    by (rule refs_ok_resolutions [OF r0]) (use refs_okD(9,10) [OF r0] new ex in auto)
  then show ?thesis by (intro db_wf_tables [OF wf]) (simp_all add: s' same_log_def)
qed

end
