(* ===== verification/Agent_Handoff_Correct.thy ===== *)
theory Agent_Handoff_Correct
  imports Agent_Handoff
begin

text \<open>
  Every operation of the handoff keeps the invariant of the database; native acceptance happens
  once, from a spool intent; an uncertainty is resolved once and for all; a job is cancelled or
  expired only while the agent still owns it.
\<close>

section \<open>The invariant\<close>

lemma record_local_retryable_failure_wf:
  assumes wf: "db_wf s"
  shows "db_wf (fst (record_local_retryable_failure x eid j rs ms d t n s))"
  unfolding record_local_retryable_failure_def
  by (auto simp: wf and_then_eq_Inr row_core_def split: sum.splits
      intro!: transaction_invariant [where P = db_wf] elim!: logged_move_wf [OF wf])

lemma record_local_handoff_uncertainty_wf:
  assumes wf: "db_wf s"
  shows "db_wf (fst (record_local_handoff_uncertainty x eid j t s))"
  unfolding record_local_handoff_uncertainty_def
  by (auto simp: wf and_then_eq_Inr row_core_def
      intro!: transaction_invariant [where P = db_wf] elim!: logged_move_wf [OF wf])

lemma release_local_wf:
  assumes wf: "db_wf s"
  shows "db_wf (fst (release_uncertain_local_handoff_for_retry x eid j a t n s))"
  unfolding release_uncertain_local_handoff_for_retry_def
  by (auto simp: wf and_then_eq_Inr row_core_def split: option.splits
      intro!: transaction_invariant [where P = db_wf]
      elim!: wf_insert_resolution [rotated] logged_move_wf [OF wf])

lemma confirm_local_wf:
  assumes wf: "db_wf s"
  shows "db_wf (fst (confirm_uncertain_local_handoff_accepted x eid j a t s))"
  unfolding confirm_uncertain_local_handoff_accepted_def
  by (auto simp: wf and_then_eq_Inr row_core_def split: option.splits
      intro!: transaction_invariant [where P = db_wf]
      elim!: wf_insert_resolution [rotated] logged_move_wf [OF wf])

lemma set_native_job_id_wf:
  assumes wf: "db_wf s"
  shows "db_wf (fst (set_native_job_id j n t s))"
  using wf_update_quiet [OF wf, of "\<lambda>r. r\<lparr>jr_native_job_id := Some n, jr_updated_unix_ms := t\<rparr>"
      "\<lambda>r. jr_job_id r = j"]
  by (simp add: set_native_job_id_def update_jobs_pair Let_def row_core_def)

lemma schedule_native_reconciliation_wf:
  assumes wf: "db_wf s"
  shows "db_wf (fst (schedule_native_reconciliation j n o' d s))"
proof -
  have "db_wf (snd (update_jobs (\<lambda>r. jr_job_id r = j)
      (\<lambda>r. r\<lparr>jr_native_job_id := Some n, jr_updated_unix_ms := o'\<rparr>) s))"
    by (rule wf_update_quiet [OF wf]) (simp_all add: row_core_def)
  then show ?thesis
    unfolding schedule_native_reconciliation_def update_jobs_pair Let_def prod.case
    by (auto simp: wf and_then_eq_Inr split: if_splits
        intro!: transaction_invariant [where P = db_wf] wf_delete_route_proof
        elim!: wf_upsert_reconciliation [rotated])
qed

lemma record_native_acceptance_wf:
  assumes wf: "db_wf s"
  shows "db_wf (fst (record_native_acceptance x eid j n d t o' dl s))"
  unfolding record_native_acceptance_def
  by (auto simp: wf and_then_eq_Inr row_core_def split: sum.splits
      intro!: transaction_invariant [where P = db_wf] wf_delete_route_proof
      elim!: wf_upsert_reconciliation [rotated] logged_move_wf [OF wf])

lemma release_cloud_wf:
  assumes wf: "db_wf s"
  shows "db_wf (fst (release_uncertain_cloud_handoff_for_retry x eid j t s))"
  unfolding release_uncertain_cloud_handoff_for_retry_def
  by (auto simp: wf and_then_eq_Inr row_core_def split: sum.splits
      intro!: transaction_invariant [where P = db_wf] wf_delete_route_proof
      elim!: logged_move_wf [OF wf])

lemma record_cloud_handoff_recovery_wf:
  assumes wf: "db_wf s"
  shows "db_wf (fst (record_cloud_handoff_recovery x eid j st rs ms t s))"
  unfolding record_cloud_handoff_recovery_def
  by (auto simp: wf and_then_eq_Inr row_core_def
      intro!: transaction_invariant [where P = db_wf] wf_delete_route_proof
      elim!: logged_move_wf [OF wf])

lemma wf_update_reconciliation:
  assumes wf: "db_wf s" and key: "\<And>r. rr_job_id (g r) = rr_job_id r"
  shows "db_wf (s\<lparr>job_reconciliation := snd (sql_update p g (job_reconciliation s))\<rparr>)"
proof -
  note r0 = db_wf_parts(3) [OF wf]
  have "refs_ok (s\<lparr>job_reconciliation := snd (sql_update p g (job_reconciliation s))\<rparr>)"
    by (rule refs_ok_reconciliation [OF r0])
       (use refs_okD(7,8) [OF r0] key in \<open>auto simp: map_key_sql_update set_sql_update\<close>)
  then show ?thesis by (intro db_wf_tables [OF wf]) (simp_all add: same_log_def)
qed

lemma wf_observations: "db_wf s \<Longrightarrow> db_wf (s\<lparr>native_observations := t\<rparr>)"
  by (rule db_wf_tables)
     (auto simp: same_log_def db_wf_def refs_ok_def refers_def job_exists_def)

lemma record_reconciliation_attempt_wf:
  assumes wf: "db_wf s"
  shows "db_wf (fst (record_reconciliation_attempt x oid j n st au d er t nx s))"
  unfolding record_reconciliation_attempt_def Let_def sql_update_def prod.case
  using wf_update_reconciliation [OF wf_observations [OF wf]]
  by (auto simp: wf and_then_eq_Inr ensure_eq_Inr sql_update_def split: sum.splits if_splits
      intro!: transaction_invariant [where P = db_wf])

lemma finish_reconciliation_wf: "db_wf s \<Longrightarrow> db_wf (fst (finish_reconciliation j s))"
  unfolding finish_reconciliation_def fst_conv by (rule wf_delete)

lemma append_next_event_fst:
  "fst (append_next_event x eid j st rs ms d t s) =
    fst (append_event x eid j (next_event_sequence j s) st rs ms d t s)"
  by (auto simp: append_next_event_def Let_def split: prod.splits sum.splits)

lemma append_next_event_wf:
  "db_wf s \<Longrightarrow> st \<noteq> ''cloud_accept_pending'' \<Longrightarrow>
    db_wf (fst (append_next_event x eid j st rs ms d t s))"
  unfolding append_next_event_fst by (rule append_event_wf)

lemma append_next_event_wf':
  "append_next_event x eid j st rs ms d t s = (s', out) \<Longrightarrow> db_wf s \<Longrightarrow>
    st \<noteq> ''cloud_accept_pending'' \<Longrightarrow> db_wf s'"
  by (metis append_next_event_wf fst_conv)

lemma cancel_before_handoff_wf:
  assumes "db_wf s"
  shows "db_wf (fst (cancel_before_handoff x e1 e2 j t s))"
  using assms unfolding cancel_before_handoff_def
  by (auto split: sum.splits option.splits prod.splits dest!: append_next_event_wf')

lemma request_cancel_wf:
  assumes "db_wf s"
  shows "db_wf (fst (request_cancel x e1 e2 j t s))"
  using assms cancel_before_handoff_wf [OF assms] unfolding request_cancel_def
  by (auto split: sum.splits option.splits prod.splits dest!: append_next_event_wf'
      intro!: wf_update_reconciliation)

lemma expire_each_wf:
  "db_wf s \<Longrightarrow> db_wf (fst (expire_each x fresh t js s))"
proof (induction js arbitrary: s)
  case (Cons j js)
  have "db_wf (fst (append_event x (fresh j) j (next_event_sequence j s) ''expired''
      (Some ''expired_before_handoff'') (Some ''Job expired before native submission'') ''{}'' t s))"
    by (rule append_event_wf [OF Cons.prems]) simp
  with Cons.IH show ?case by (auto split: prod.splits sum.splits)
qed simp

lemma expire_waiting_wf:
  assumes "db_wf s"
  shows "db_wf (fst (expire_waiting x scan fresh t s))"
  using expire_each_wf [OF assms]
  by (auto simp: expire_waiting_def Let_def split: prod.splits sum.splits) (metis fst_conv)+

lemma wf_outbox_update:
  assumes wf: "db_wf s"
    and key: "\<And>r. ob_event (g r) = ob_event r" "\<And>r. ob_outbox_sequence (g r) = ob_outbox_sequence r"
  shows "db_wf (s\<lparr>event_outbox := snd (sql_update p g (event_outbox s))\<rparr>)"
proof -
  have "map ob_event (snd (sql_update p g (event_outbox s))) = map ob_event (event_outbox s)"
    "map ob_outbox_sequence (snd (sql_update p g (event_outbox s))) =
      map ob_outbox_sequence (event_outbox s)"
    "length (snd (sql_update p g (event_outbox s))) = length (event_outbox s)"
    using key by (simp_all add: sql_update_def)
  then have "event_log_ok (s\<lparr>event_outbox := snd (sql_update p g (event_outbox s))\<rparr>)"
    using db_wf_parts(4) [OF wf] by (simp add: event_log_ok_def events_of_def job_exists_def)
  moreover have "projection_ok (s\<lparr>event_outbox := snd (sql_update p g (event_outbox s))\<rparr>)"
    using db_wf_parts(5) [OF wf] by (simp add: projection_ok_def row_projects_def events_of_def)
  moreover have "refs_ok (s\<lparr>event_outbox := snd (sql_update p g (event_outbox s))\<rparr>)"
    using db_wf_parts(3) [OF wf] by (rule refs_ok_frame) (simp_all add: job_exists_def)
  ultimately show ?thesis
    using wf by (simp add: db_wf_def jobs_ok_def content_ok_def)
qed

lemma acknowledge_events_wf:
  assumes "db_wf s"
  shows "db_wf (fst (acknowledge_events n t s))"
    "db_wf (fst (acknowledge_cloud_event e t s))"
  using wf_outbox_update [OF assms] assms
  by (simp_all add: acknowledge_events_def acknowledge_cloud_event_def Let_def split_beta
      split: option.splits)

end
