(* ===== verification/Agent_Content.thy ===== *)
theory Agent_Content
  imports Agent_Handoff_Correct
begin

text \<open>
  Retention of the documents of jobs: the inventory of files, confidential plaintext files, and
  the two-phase reclaim of content (claim, delete the file, retire the row).
\<close>

section \<open>Operations\<close>

definition truthful_terminal_states :: "string list" where
  "truthful_terminal_states = [''completed_reported'', ''failed_terminal'', ''cancelled'', ''expired'']"

definition tracked_content_paths :: "agent_db \<Rightarrow> StorageError + string list" where
  "tracked_content_paths s =
     (let paths = remdups (take 4097 (sort (map cr_path (content_files s))))
      in if 4096 < length paths
         then Inl (InvalidLocalEvent ''content path inventory exceeds reconciliation bounds'')
         else Inr paths)"

text \<open>The query has no \<open>ORDER BY\<close>: \<open>scan\<close> is the order of SQLite's table scan.\<close>

definition confidential_files_due ::
  "(job_row list \<Rightarrow> job_row list) \<Rightarrow> agent_db \<Rightarrow> ConfidentialFile list" where
  "confidential_files_due scan s =
     map (\<lambda>r. \<lparr>cf_job_id = jr_job_id r, cf_path = jr_content_path r\<rparr>)
       (take 256 (scan (filter (\<lambda>r. jr_confidential r \<and>
          jr_state r \<in> {''completed_reported'', ''delivery_uncertain'', ''failed_terminal'',
            ''cancelled'', ''expired''}) (jobs s))))"

definition mark_confidential_file_deleted :: "string \<Rightarrow> unit db_op" where
  "mark_confidential_file_deleted job_id s =
     (snd (update_jobs (\<lambda>r. jr_job_id r = job_id \<and> jr_confidential r)
        (\<lambda>r. r\<lparr>jr_confidential := False, jr_confidential_delete_after_unix_ms := None\<rparr>) s), Inr ())"

text \<open>A job that still needs the file.\<close>

definition retains_content :: "string \<Rightarrow> string \<Rightarrow> job_row \<Rightarrow> bool" where
  "retains_content sha256 path r =
     (jr_content_sha256 r = sha256 \<and> jr_content_path r = path \<and>
      jr_state r \<notin> set truthful_terminal_states)"

definition content_retained :: "string \<Rightarrow> string \<Rightarrow> agent_db \<Rightarrow> bool" where
  "content_retained sha256 path s = sql_exists (retains_content sha256 path) (jobs s)"

definition set_reclaiming ::
  "bool \<Rightarrow> (content_row \<Rightarrow> bool) \<Rightarrow> agent_db \<Rightarrow> nat \<times> agent_db" where
  "set_reclaiming b p s =
     (let (changed, t) = sql_update p (\<lambda>c. c\<lparr>cr_reclaiming := b\<rparr>) (content_files s)
      in (changed, s\<lparr>content_files := t\<rparr>))"

fun claim_each :: "ReclaimableContent list \<Rightarrow> agent_db \<Rightarrow> agent_db \<times> ReclaimableContent list" where
  "claim_each [] s = (s, [])"
| "claim_each (c # cs) s =
     (let (changed, s1) = set_reclaiming True (\<lambda>r. cr_sha256 r = rc_sha256 c \<and>
            cr_path r = rc_path c \<and> \<not> cr_reclaiming r \<and>
            \<not> content_retained (rc_sha256 c) (rc_path c) s) s;
          (s2, claimed) = claim_each cs s1
      in (s2, if changed = 1 then c # claimed else claimed))"

definition claim_reclaimable_terminal_content :: "nat \<Rightarrow> ReclaimableContent list db_op" where
  "claim_reclaimable_terminal_content limit s =
     (let candidates = map (\<lambda>c. \<lparr>rc_sha256 = cr_sha256 c, rc_path = cr_path c\<rparr>)
            (take (clamp_limit 256 limit)
              (sort_key (\<lambda>c. (cr_verified_unix_ms c, cr_sha256 c))
                (filter (\<lambda>c. \<not> cr_reclaiming c \<and>
                   \<not> content_retained (cr_sha256 c) (cr_path c) s) (content_files s))));
          (s', claimed) = claim_each candidates s
      in (s', Inr claimed))"

definition mark_terminal_content_reclaimed :: "string \<Rightarrow> string \<Rightarrow> bool db_op" where
  "mark_terminal_content_reclaimed sha256 path = transaction (\<lambda>s.
     if content_retained sha256 path s
     then Inr (snd (set_reclaiming False
            (\<lambda>c. cr_sha256 c = sha256 \<and> cr_path c = path \<and> cr_reclaiming c) s), False)
     else
       let (_, s) = update_jobs (\<lambda>r. jr_content_sha256 r = sha256 \<and> jr_content_path r = path \<and>
              jr_state r \<in> set truthful_terminal_states)
            (\<lambda>r. r\<lparr>jr_content_path := ''retired:'' @ jr_content_sha256 r\<rparr>) s;
           gone = (\<lambda>c. cr_sha256 c = sha256 \<and> cr_path c = path \<and> cr_reclaiming c)
       in if sql_exists (\<lambda>r. sql_exists (\<lambda>c. gone c \<and> cr_sha256 c = jr_content_sha256 r)
               (content_files s)) (jobs s)
          then Inl Sql
          else Inr (s\<lparr>content_files := sql_delete gone (content_files s)\<rparr>, True))"

definition cancel_terminal_content_reclaim :: "string \<Rightarrow> string \<Rightarrow> unit db_op" where
  "cancel_terminal_content_reclaim sha256 path s =
     (snd (set_reclaiming False
        (\<lambda>c. cr_sha256 c = sha256 \<and> cr_path c = path \<and> cr_reclaiming c) s), Inr ())"

text \<open>Opening the database forgets the claims of the process that held them.\<close>

definition release_claims_on_open :: "agent_db \<Rightarrow> agent_db" where
  "release_claims_on_open s = snd (set_reclaiming False cr_reclaiming s)"

section \<open>The invariant\<close>

lemma set_reclaiming_pair:
  "set_reclaiming b p s = (length (filter p (content_files s)),
     s\<lparr>content_files := map (\<lambda>c. if p c then c\<lparr>cr_reclaiming := b\<rparr> else c) (content_files s)\<rparr>)"
  by (simp add: set_reclaiming_def sql_update_def)

lemma set_reclaiming_wf:
  assumes wf: "db_wf s"
  shows "db_wf (snd (set_reclaiming b p s))"
proof (rule db_wf_quiet [OF wf, of _ "\<lambda>r. r"])
  show "refs_ok (snd (set_reclaiming b p s))"
    by (rule refs_ok_frame [OF db_wf_parts(3) [OF wf]])
       (simp_all add: set_reclaiming_pair job_exists_def)
qed (simp_all add: set_reclaiming_pair same_log_def)

lemma claim_each_wf: "db_wf s \<Longrightarrow> db_wf (fst (claim_each cs s))"
proof (induction cs arbitrary: s)
  case (Cons c cs)
  then show ?case using set_reclaiming_wf [OF Cons.prems] by (simp add: Let_def split_beta)
qed simp

lemma claim_wf: "db_wf s \<Longrightarrow> db_wf (fst (claim_reclaimable_terminal_content n s))"
  using claim_each_wf by (simp add: claim_reclaimable_terminal_content_def Let_def split_beta)

lemma mark_reclaimed_wf:
  assumes wf: "db_wf s"
  shows "db_wf (fst (mark_terminal_content_reclaimed h p s))"
  unfolding mark_terminal_content_reclaimed_def
proof (rule transaction_invariant [where P = db_wf, OF wf], goal_cases)
  case (1 s' res)
  let ?g = "\<lambda>r. r\<lparr>jr_content_path := ''retired:'' @ jr_content_sha256 r\<rparr>"
  let ?p = "\<lambda>r. jr_content_sha256 r = h \<and> jr_content_path r = p \<and>
    jr_state r \<in> set truthful_terminal_states"
  let ?gone = "\<lambda>c. cr_sha256 c = h \<and> cr_path c = p \<and> cr_reclaiming c"
  let ?s1 = "snd (update_jobs ?p ?g s)"
  have wf1: "db_wf ?s1" by (rule wf_update_quiet [OF wf]) (simp_all add: row_core_def)
  show ?case
  proof (cases "content_retained h p s")
    case True
    with 1 have "s' = snd (set_reclaiming False ?gone s)" by simp
    then show ?thesis by (simp add: set_reclaiming_wf wf)
  next
    case False
    with 1 have out: "(if sql_exists (\<lambda>r. sql_exists (\<lambda>c. ?gone c \<and> cr_sha256 c = jr_content_sha256 r)
        (content_files ?s1)) (jobs ?s1) then Inl Sql
      else Inr (?s1\<lparr>content_files := sql_delete ?gone (content_files ?s1)\<rparr>, True)) = Inr (s', res)"
      by (simp only: if_False Let_def split_beta)
    have keep: "\<not> sql_exists (\<lambda>r. sql_exists (\<lambda>c. ?gone c \<and> cr_sha256 c = jr_content_sha256 r)
        (content_files ?s1)) (jobs ?s1)"
    proof
      assume "sql_exists (\<lambda>r. sql_exists (\<lambda>c. ?gone c \<and> cr_sha256 c = jr_content_sha256 r)
        (content_files ?s1)) (jobs ?s1)"
      with out show False by (simp only: if_True sum.distinct)
    qed
    from out have s': "s' = ?s1\<lparr>content_files := sql_delete ?gone (content_files ?s1)\<rparr>"
      by (simp only: if_not_P [OF keep] sum.inject prod.inject)
    have "\<exists>c\<in>set (sql_delete ?gone (content_files ?s1)). cr_sha256 c = jr_content_sha256 r"
      if r: "r \<in> set (jobs ?s1)" for r
    proof -
      obtain c where c: "c \<in> set (content_files ?s1)" "cr_sha256 c = jr_content_sha256 r"
        using db_wf_parts(2) [OF wf1] r unfolding content_ok_def by blast
      moreover have "\<not> ?gone c" using keep r c unfolding sql_exists_iff by blast
      ultimately show ?thesis unfolding set_sql_delete by blast
    qed
    then have "content_ok s'"
      using db_wf_parts(2) [OF wf1] distinct_sql_delete unfolding s' content_ok_def by auto
    moreover have "refs_ok s'"
      by (rule refs_ok_frame [OF db_wf_parts(3) [OF wf1]]) (simp_all add: s' job_exists_def)
    moreover have "jobs_ok s'" "event_log_ok s'" "projection_ok s'"
      using wf1 by (simp_all add: s' db_wf_def jobs_ok_def event_log_ok_def projection_ok_def
          row_projects_def events_of_def job_exists_def)
    ultimately show ?thesis by (simp add: db_wf_def)
  qed
qed

lemma cancel_reclaim_wf: "db_wf s \<Longrightarrow> db_wf (fst (cancel_terminal_content_reclaim h p s))"
  using set_reclaiming_wf by (simp add: cancel_terminal_content_reclaim_def)

lemma release_claims_wf: "db_wf s \<Longrightarrow> db_wf (release_claims_on_open s)"
  using set_reclaiming_wf by (simp add: release_claims_on_open_def)

lemma mark_confidential_wf:
  assumes "db_wf s"
  shows "db_wf (fst (mark_confidential_file_deleted j s))"
  unfolding mark_confidential_file_deleted_def fst_conv
  by (rule wf_update_quiet [OF assms]) (simp_all add: row_core_def)

end
