(* ===== verification/Transition.thy ===== *)
theory Transition
  imports Main
begin

text \<open>
  State machines with an invariant and a history: the contract that the stateful components of
  the program keep. \<open>grows s s'\<close> is what a step never takes back.
\<close>

locale machine =
  fixes init :: "'s \<Rightarrow> bool"
    and step :: "'s \<Rightarrow> 's \<Rightarrow> bool"
    and inv :: "'s \<Rightarrow> bool"
    and grows :: "'s \<Rightarrow> 's \<Rightarrow> bool"
  assumes init_inv: "init s \<Longrightarrow> inv s"
    and step_inv: "step s s' \<Longrightarrow> inv s \<Longrightarrow> inv s'"
    and step_grows: "step s s' \<Longrightarrow> inv s \<Longrightarrow> grows s s'"
    and grows_refl: "grows s s"
    and grows_trans: "grows s s' \<Longrightarrow> grows s' s'' \<Longrightarrow> grows s s''"
begin

definition reachable :: "'s \<Rightarrow> bool" where
  "reachable s \<longleftrightarrow> (\<exists>s0. init s0 \<and> rtranclp step s0 s)"

lemma run_inv: "rtranclp step s s' \<Longrightarrow> inv s \<Longrightarrow> inv s'"
  by (induction rule: rtranclp_induct) (auto intro: step_inv)

lemma run_grows: "rtranclp step s s' \<Longrightarrow> inv s \<Longrightarrow> grows s s'"
proof (induction rule: rtranclp_induct)
  case (step y z)
  then show ?case using run_inv step_grows grows_trans by blast
qed (rule grows_refl)

lemma reachable_inv: "reachable s \<Longrightarrow> inv s"
  by (auto simp: reachable_def intro: run_inv init_inv)

lemma reachable_run: "reachable s \<Longrightarrow> rtranclp step s s' \<Longrightarrow> reachable s'"
  by (auto simp: reachable_def intro: rtranclp_trans)

lemma reachable_init: "init s \<Longrightarrow> reachable s"
  by (auto simp: reachable_def)

lemma reachable_step: "reachable s \<Longrightarrow> step s s' \<Longrightarrow> reachable s'"
  by (auto intro: reachable_run)

end

end
