(* ===== verification/Agent_Reach.thy ===== *)
theory Agent_Reach
  imports Agent_Cloud_Props Agent_Content Transition "HOL-Library.Sublist" "HOL-Library.Multiset"
begin

text \<open>
  The agent store as a transition system: one rule for every operation of the store that
  changes the database. The invariant \<open>db_wf\<close> holds in every reachable database, and no
  operation forgets: \<open>extends\<close> says that the event log only grows at its end, and that no row
  of \<open>jobs\<close> disappears or changes its identity.
\<close>

section \<open>Operations never forget\<close>

definition extends :: "agent_db \<Rightarrow> agent_db \<Rightarrow> bool" where
  "extends s s' \<longleftrightarrow> prefix (job_events s) (job_events s') \<and>
     prefix (map row_core (jobs s)) (map row_core (jobs s'))"

lemma extends_refl [simp]: "extends s s" by (simp add: extends_def)

lemma extends_trans [trans]: "extends s1 s2 \<Longrightarrow> extends s2 s3 \<Longrightarrow> extends s1 s3"
  by (auto simp: extends_def intro: prefix_order.trans)

lemma extends_tables:
  "job_events s' = job_events s1 \<Longrightarrow> jobs s' = jobs s1 \<Longrightarrow> extends s s1 \<Longrightarrow> extends s s'"
  by (simp add: extends_def)

lemma extends_append: "append_event_tx x e s1 = Inr s' \<Longrightarrow> extends s s1 \<Longrightarrow> extends s s'"
  by (auto simp: extends_def append_event_tx_frame(1,2) intro: prefix_order.trans)

lemma extends_rows:
  "map row_core (jobs s') = map row_core (jobs s1) \<Longrightarrow> job_events s' = job_events s1 \<Longrightarrow>
    extends s s1 \<Longrightarrow> extends s s'"
  by (simp add: extends_def)

lemma core_fields [simp]:
  "row_core (r\<lparr>jr_state := a\<rparr>) = row_core r"
  "row_core (r\<lparr>jr_updated_unix_ms := b\<rparr>) = row_core r"
  "row_core (r\<lparr>jr_native_job_id := c\<rparr>) = row_core r"
  "row_core (r\<lparr>jr_next_attempt_unix_ms := d\<rparr>) = row_core r"
  "row_core (r\<lparr>jr_attempt_count := e\<rparr>) = row_core r"
  "row_core (r\<lparr>jr_route_connector_id := f\<rparr>) = row_core r"
  "row_core (r\<lparr>jr_confidential := g\<rparr>) = row_core r"
  "row_core (r\<lparr>jr_confidential_delete_after_unix_ms := h\<rparr>) = row_core r"
  "row_core (r\<lparr>jr_content_path := i\<rparr>) = row_core r"
  by (simp_all add: row_core_def)

lemma core_update [simp]:
  "(\<And>r. row_core (g r) = row_core r) \<Longrightarrow>
    map (row_core \<circ> (\<lambda>r. if p r then g r else r)) t = map row_core t"
  by simp

lemma extends_same:
  "map row_core (jobs s') = map row_core (jobs s) \<Longrightarrow> job_events s' = job_events s \<Longrightarrow>
    extends s s'"
  by (simp add: extends_def)

lemma extends_insert:
  assumes "insert_accepted_job x job facts st cm conf s = Inr s'"
  shows "extends s s'"
  by (rule insert_accepted_job_Inr [OF assms]) (simp add: extends_def)

lemma extends_move:
  assumes "logged_move x e guard g refused s = Inr s1" and "\<And>r. row_core (g r) = row_core r"
    and "job_events s' = job_events s1" "jobs s' = jobs s1"
  shows "extends s s'"
proof (rule logged_move_Inr [OF assms(1)])
  fix s2 assume app: "append_event_tx x e s = Inr s2"
    and s1: "s1 = s2\<lparr>jobs := map (\<lambda>r. if jr_job_id r = ev_job_id e \<and> guard r then g r else r) (jobs s)\<rparr>"
  have "extends s s1"
    by (rule extends_rows [OF _ _ extends_append [OF app extends_refl]])
       (simp_all add: s1 assms(2) append_event_tx_frame(1) [OF app])
  then show ?thesis using assms(3,4) by (simp add: extends_def)
qed

lemmas extends_tx = transaction_invariant [where P = "extends s" for s, OF extends_refl]

lemma extends_append_event:
  "extends s (fst (append_event x eid j n st rs ms d t s))"
proof (cases "parse_json x d")
  case (Inr u)
  show ?thesis unfolding append_event_def Inr sum.case
  proof (rule extends_tx, goal_cases)
    case (1 s' y)
    then obtain s1 where app: "append_event_tx x (mk_event eid j n st rs ms d t) s = Inr s1"
      and s': "s' = snd (update_jobs (\<lambda>r. jr_job_id r = j)
        (\<lambda>r. r\<lparr>jr_state := st, jr_updated_unix_ms := t\<rparr>) s1)"
      by (auto simp: Let_def update_jobs_pair and_then_eq_Inr split: if_splits)
    show ?case unfolding s' update_jobs_simps
      by (rule extends_rows [OF _ _ extends_append [OF app extends_refl]])
         simp_all
  qed
qed (simp add: append_event_def)

lemma extends_append_next:
  "append_next_event x eid j st rs ms d t s1 = (s', out) \<Longrightarrow> extends s s1 \<Longrightarrow> extends s s'"
  by (metis append_next_event_fst extends_append_event extends_trans fst_conv)

lemma extends_moves:
  "extends s (fst (record_local_retryable_failure x eid j rs ms d t n s))"
  "extends s (fst (record_local_handoff_uncertainty x eid j t s))"
  "extends s (fst (release_uncertain_local_handoff_for_retry x eid j a t n s))"
  "extends s (fst (confirm_uncertain_local_handoff_accepted x eid j a t s))"
  "extends s (fst (record_native_acceptance x eid j nj d t nx dl s))"
  "extends s (fst (release_uncertain_cloud_handoff_for_retry x eid j t s))"
  "extends s (fst (record_cloud_handoff_recovery x eid j st rs ms t s))"
  unfolding record_local_retryable_failure_def record_local_handoff_uncertainty_def
    release_uncertain_local_handoff_for_retry_def confirm_uncertain_local_handoff_accepted_def
    record_native_acceptance_def release_uncertain_cloud_handoff_for_retry_def
    record_cloud_handoff_recovery_def
  by (auto simp: and_then_eq_Inr ensure_eq_Inr  insert_resolution_def delete_route_proof_def
      upsert_reconciliation_def split: sum.splits option.splits if_splits
      intro!: extends_tx elim!: extends_move)

lemma extends_quiet:
  "extends s (fst (set_native_job_id j n t s))"
  "extends s (fst (schedule_native_reconciliation j n nx dl s))"
  "extends s (fst (record_reconciliation_attempt x oid j n st au d er t nx s))"
  "extends s (fst (finish_reconciliation j s))"
  "extends s (fst (confirm_cloud_accept j t s))"
  "extends s (fst (complete_cloud_release_cleanup j s))"
  "extends s (fst (complete_all_cloud_release_cleanups s))"
  "extends s (fst (finalize_uncertain_cloud_handoff_recovery x j s))"
  "extends s (fst (backfill_cloud_route_owner x j c t s))"
  "extends s (fst (acknowledge_events k t s))"
  "extends s (fst (acknowledge_cloud_event e t s))"
  "extends s (fst (mark_confidential_file_deleted j s))"
  "extends s (fst (cancel_terminal_content_reclaim h p s))"
  "extends s (release_claims_on_open s)"
  unfolding set_native_job_id_def schedule_native_reconciliation_def
    record_reconciliation_attempt_def finish_reconciliation_def confirm_cloud_accept_def
    complete_cloud_release_cleanup_def complete_all_cloud_release_cleanups_def
    finalize_uncertain_cloud_handoff_recovery_def backfill_cloud_route_owner_def
    acknowledge_events_def acknowledge_cloud_event_def mark_confidential_file_deleted_def
    cancel_terminal_content_reclaim_def release_claims_on_open_def
  by (auto simp: and_then_eq_Inr ensure_eq_Inr  update_jobs_pair sql_update_def
      set_reclaiming_pair upsert_reconciliation_def delete_route_proof_def Let_def split_beta
      extends_same split: sum.splits option.splits if_splits
      intro!: extends_tx)

lemma extends_accept: "extends s (fst (accept_job_with_facts x eid job facts s))"
proof -
  have tx: "extends s s'" if "accept_job_tx x eid job facts s = Inr (s', res)" for s' res
  proof -
    from that consider "s' = s" | s1 where
      "insert_accepted_job x job facts ''queued_local'' (aj_cloud_managed job) False s = Inr s1"
      "\<exists>e. append_event_tx x e s1 = Inr s'"
      unfolding accept_job_tx_def
      by (auto simp: and_then_eq_Inr split: option.splits if_splits)
    then show ?thesis by cases (auto dest: extends_insert extends_append)
  qed
  show ?thesis
    unfolding accept_job_with_facts_def
    by (auto simp: fst_read_back split: sum.splits intro!: extends_tx intro: tx)
qed

lemma extends_upserts:
  "upsert_cloud_accept_intent lj lid ltok ex route t s1 = Inr s' \<Longrightarrow> extends s s1 \<Longrightarrow> extends s s'"
  "upsert_cloud_route_proof j route s1 = Inr s' \<Longrightarrow> extends s s1 \<Longrightarrow> extends s s'"
  by (auto simp: upsert_cloud_accept_intent_def upsert_cloud_route_proof_def and_then_eq_Inr
      ensure_eq_Inr extends_def Let_def split: if_splits option.splits)

lemma extends_prepare:
  "extends s (fst (prepare_cloud_job_with_facts x job lid ltok ex route facts s))"
proof -
  have again: "extends s s'"
    if "prepare_again job lid ltok ex route facts lj s = Inr (s', res)" for lj s' res
    using that unfolding prepare_again_def
    by (auto simp: Let_def update_jobs_pair and_then_eq_Inr extends_def 
        pending_again_def split: if_splits elim!: extends_upserts [unfolded extends_def])
  have old: "extends s s'"
    if "prepare_existing job lid ltok ex route facts lj s = Inr (s', res)" for lj s' res
    using that again unfolding prepare_existing_def
    by (auto simp: Let_def and_then_eq_Inr split: if_splits)
  have new: "extends s s'" if "prepare_new x job lid ltok ex route facts s = Inr (s', res)" for s' res
    using that unfolding prepare_new_def
    by (auto simp: and_then_eq_Inr split: option.splits
        elim!: extends_upserts intro: extends_insert)
  show ?thesis
    unfolding prepare_cloud_job_with_facts_def
    by (auto simp: fst_read_back and_then_eq_Inr split: sum.splits option.splits
        intro!: extends_tx) (erule old, erule new)
qed

lemma extends_activate: "extends s (fst (activate_cloud_job x eid j t s))"
  unfolding activate_cloud_job_def fst_read_back
proof (rule extends_tx)
  fix s' res assume act: "activate_cloud_job_tx x eid j t s = Inr (s', res)"
  show "extends s s'"
  proof (cases res)
    case None
    with act show ?thesis
      by (auto elim!: activate_cloud_job_tx_new
          simp: extends_def append_event_tx_frame(1) append_event_tx_frame(2))
  next
    case (Some lj)
    with act have "s' = s"
      by (auto simp: activate_cloud_job_tx_def and_then_eq_Inr Let_def split_beta
          split: option.splits if_splits)
    then show ?thesis by simp
  qed
qed

lemma extends_abandon: "extends s (fst (abandon_cloud_accept x j t s))"
  unfolding abandon_cloud_accept_def
  by (rule extends_tx)
     (auto simp: and_then_eq_Inr Let_def update_jobs_pair extends_def 
       split: option.splits if_splits)

lemma extends_quarantine_one: "quarantine_one t c s1 = Inr s' \<Longrightarrow> extends s s1 \<Longrightarrow> extends s s'"
  by (auto simp: quarantine_one_def insert_cleanup_def cancel_pending_row_def and_then_eq_Inr
      update_jobs_pair extends_def  split: if_splits)

lemma extends_quarantine_rows: "quarantine_rows t cs s1 = Inr s' \<Longrightarrow> extends s s1 \<Longrightarrow> extends s s'"
  by (induction cs arbitrary: s1) (auto simp: and_then_eq_Inr intro: extends_quarantine_one)

lemma extends_quarantine_loop: "quarantine_loop t s1 = Inr s' \<Longrightarrow> extends s s1 \<Longrightarrow> extends s s'"
proof (induction t s1 rule: quarantine_loop.induct)
  case (1 t s1)
  then show ?case
    by (subst (asm) quarantine_loop.simps)
       (auto split: if_splits sum.splits intro: extends_quarantine_rows)
qed

lemma extends_quarantine:
  "extends s (fst (quarantine_invalid_cloud_accepts t s))"
  "extends s (fst (quarantine_prepared_cloud_accept j reason t s))"
proof -
  show "extends s (fst (quarantine_invalid_cloud_accepts t s))"
    unfolding quarantine_invalid_cloud_accepts_def
    by (auto simp: transaction_def and_then_eq_Inr intro: extends_quarantine_loop
        split: prod.splits sum.splits)
  show "extends s (fst (quarantine_prepared_cloud_accept j reason t s))"
    unfolding quarantine_prepared_cloud_accept_def
    by (auto simp: and_then_eq_Inr Let_def insert_cleanup_def cancel_pending_row_def
        update_jobs_pair extends_same split: option.splits if_splits intro!: extends_tx)
qed

lemma extends_reconciliation [simp]:
  "extends s (s1\<lparr>job_reconciliation := u\<rparr>) = extends s s1"
  by (simp add: extends_def)

lemma extends_cancel:
  "extends s (fst (cancel_before_handoff x e1 e2 j t s))"
  "extends s (fst (request_cancel x e1 e2 j t s))"
proof -
  show before: "extends s (fst (cancel_before_handoff x e1 e2 j t s))"
    unfolding cancel_before_handoff_def
    by (auto split: sum.splits option.splits prod.splits elim!: extends_append_next)
  show "extends s (fst (request_cancel x e1 e2 j t s))"
    unfolding request_cancel_def
    by (auto simp: before split: sum.splits option.splits prod.splits elim!: extends_append_next)
qed

lemma extends_expire: "extends s (fst (expire_waiting x scan fresh t s))"
proof -
  have each: "extends s (fst (expire_each x fresh t js s))" for js s
  proof (induction js arbitrary: s)
    case (Cons j js)
    show ?case
      using extends_append_event [of s x "fresh j" j "next_event_sequence j s" "''expired''"]
        extends_trans [OF _ Cons.IH]
      by (auto split: prod.splits sum.splits) (metis fst_conv)+
  qed simp
  show ?thesis
    using each [where s = s] by (auto simp: expire_waiting_def Let_def split: prod.splits sum.splits) (metis fst_conv)+
qed

lemma extends_reclaim:
  "extends s (fst (claim_reclaimable_terminal_content n s))"
  "extends s (fst (mark_terminal_content_reclaimed h p s))"
proof -
  have each: "extends s (fst (claim_each cs s1))" if "extends s s1" for cs s1
    using that
  proof (induction cs arbitrary: s1)
    case (Cons c cs)
    show ?case
      using Cons.IH [OF extends_tables [OF _ _ Cons.prems]]
      by (simp add: Let_def split_beta set_reclaiming_pair)
  qed simp
  show "extends s (fst (claim_reclaimable_terminal_content n s))"
    by (simp add: claim_reclaimable_terminal_content_def Let_def split_beta each)
  show "extends s (fst (mark_terminal_content_reclaimed h p s))"
    unfolding mark_terminal_content_reclaimed_def
    by (rule extends_tx)
       (auto simp: Let_def split_beta set_reclaiming_pair extends_def 
         split: if_splits)
qed

section \<open>Pins and the catalogue\<close>

lemma pin_job_profile_cases:
  assumes "P s" and "\<And>p f. (\<And>r. row_core (f r) = row_core r) \<Longrightarrow> (\<And>r. jr_state (f r) = jr_state r) \<Longrightarrow>
    P (snd (update_jobs p f s))"
  shows "P (fst (pin_job_profile x j target binding profile revision stock media s))"
  using assms(1) unfolding pin_job_profile_def Let_def split_beta
  by (auto split: sum.splits intro!: assms(2) simp del: update_jobs_simps simp: row_core_def)

lemma pin_job_profile_wf:
  "db_wf s \<Longrightarrow> db_wf (fst (pin_job_profile x j target binding profile revision stock media s))"
  by (rule pin_job_profile_cases, assumption, rule wf_update_quiet) simp_all

lemma extends_pin: "extends s (fst (pin_job_profile x j target binding profile revision stock media s))"
  by (rule pin_job_profile_cases) (auto intro: extends_same)

lemma catalogue_wf: "db_wf s \<Longrightarrow> db_wf (s\<lparr>printer_profiles := ps\<rparr>)"
  by (rule db_wf_tables, assumption) (simp_all add: same_log_def refs_ok_def refers_def db_wf_def job_exists_def)

lemma extends_catalogue: "extends s (s\<lparr>printer_profiles := ps\<rparr>)"
  by (simp add: extends_same)

section \<open>The transition system\<close>

text \<open>
  \<open>client_step\<close> has the operations that the programs around the store call. Only the print engine
  appends events of its own choice. The profile catalogue that the queue reads is written by the
  operations of the inventory.
\<close>

inductive client_step :: "ext \<Rightarrow> agent_db \<Rightarrow> agent_db \<Rightarrow> bool" for x where
  accept: "client_step x s (fst (accept_job_with_facts x eid job facts s))"
| acknowledge: "client_step x s (fst (acknowledge_events k t s))"
| acknowledge_cloud: "client_step x s (fst (acknowledge_cloud_event eid t s))"
| prepare: "client_step x s (fst (prepare_cloud_job_with_facts x job lid ltok expiry route facts s))"
| confirm: "client_step x s (fst (confirm_cloud_accept j t s))"
| activate: "client_step x s (fst (activate_cloud_job x eid j t s))"
| abandon: "client_step x s (fst (abandon_cloud_accept x j t s))"
| quarantine_invalid: "client_step x s (fst (quarantine_invalid_cloud_accepts t s))"
| quarantine_prepared: "client_step x s (fst (quarantine_prepared_cloud_accept j reason t s))"
| cleaned: "client_step x s (fst (complete_cloud_release_cleanup j s))"
| all_cleaned: "client_step x s (fst (complete_all_cloud_release_cleanups s))"
| finalize: "client_step x s (fst (finalize_uncertain_cloud_handoff_recovery x j s))"
| backfill: "client_step x s (fst (backfill_cloud_route_owner x j connector t s))"
| retryable: "client_step x s (fst (record_local_retryable_failure x eid j rs ms details t n s))"
| uncertain: "client_step x s (fst (record_local_handoff_uncertainty x eid j t s))"
| release_local: "client_step x s (fst (release_uncertain_local_handoff_for_retry x eid j a t n s))"
| confirm_local: "client_step x s (fst (confirm_uncertain_local_handoff_accepted x eid j a t s))"
| native_id: "client_step x s (fst (set_native_job_id j native t s))"
| schedule: "client_step x s (fst (schedule_native_reconciliation j native t dl s))"
| native_accept: "client_step x s (fst (record_native_acceptance x eid j native details t nx dl s))"
| attempt: "client_step x s (fst (record_reconciliation_attempt x oid j native st au details er t nx s))"
| reconciled: "client_step x s (fst (finish_reconciliation j s))"
| release_cloud: "client_step x s (fst (release_uncertain_cloud_handoff_for_retry x eid j t s))"
| recovery: "client_step x s (fst (record_cloud_handoff_recovery x eid j st rs ms t s))"
| cancel_before: "client_step x s (fst (cancel_before_handoff x e1 e2 j t s))"
| cancel: "client_step x s (fst (request_cancel x e1 e2 j t s))"
| expire: "(\<And>rows. mset (scan rows) = mset rows) \<Longrightarrow>
    client_step x s (fst (expire_waiting x scan fresh t s))"
| confidential: "client_step x s (fst (mark_confidential_file_deleted j s))"
| claim: "client_step x s (fst (claim_reclaimable_terminal_content limit s))"
| reclaimed: "client_step x s (fst (mark_terminal_content_reclaimed h p s))"
| unclaim: "client_step x s (fst (cancel_terminal_content_reclaim h p s))"
| open_again: "client_step x s (release_claims_on_open s)"
| pin: "client_step x s (fst (pin_job_profile x j target binding profile revision stock media s))"
| catalogue: "client_step x s (s\<lparr>printer_profiles := ps\<rparr>)"

inductive store_step :: "ext \<Rightarrow> agent_db \<Rightarrow> agent_db \<Rightarrow> bool" for x where
  client: "client_step x s s' \<Longrightarrow> store_step x s s'"
| event: "state \<noteq> ''cloud_accept_pending'' \<Longrightarrow>
    store_step x s (fst (append_event x eid j n state reason message details t s))"
| next_event: "state \<noteq> ''cloud_accept_pending'' \<Longrightarrow>
    store_step x s (fst (append_next_event x eid j state reason message details t s))"

lemma client_step_wf: "client_step x s s' \<Longrightarrow> db_wf s \<Longrightarrow> db_wf s'"
  by (induction rule: client_step.induct)
     (rule accept_job_wf acknowledge_events_wf
       prepare_cloud_job_wf confirm_cloud_accept_wf activate_cloud_job_wf abandon_cloud_accept_wf
       quarantine_invalid_wf quarantine_prepared_wf complete_cleanup_wf finalize_recovery_wf
       backfill_wf record_local_retryable_failure_wf record_local_handoff_uncertainty_wf
       release_local_wf confirm_local_wf set_native_job_id_wf schedule_native_reconciliation_wf
       record_native_acceptance_wf record_reconciliation_attempt_wf finish_reconciliation_wf
       release_cloud_wf record_cloud_handoff_recovery_wf cancel_before_handoff_wf
       request_cancel_wf expire_waiting_wf mark_confidential_wf claim_wf mark_reclaimed_wf
       cancel_reclaim_wf release_claims_wf pin_job_profile_wf catalogue_wf; assumption)+

lemma client_step_extends: "client_step x s s' \<Longrightarrow> extends s s'"
  by (induction rule: client_step.induct)
     (simp_all only: extends_accept extends_quiet
       extends_prepare extends_activate extends_abandon extends_quarantine extends_moves
       extends_cancel extends_expire extends_reclaim extends_pin extends_catalogue)

lemma store_step_wf: "store_step x s s' \<Longrightarrow> db_wf s \<Longrightarrow> db_wf s'"
  by (induction rule: store_step.induct)
     (rule client_step_wf append_event_wf append_next_event_wf; assumption)+

lemma store_step_extends: "store_step x s s' \<Longrightarrow> extends s s'"
  by (induction rule: store_step.induct)
     (simp_all only: append_next_event_fst extends_append_event client_step_extends)

interpretation store: machine "\<lambda>s. s = empty_db" "store_step x" db_wf extends for x
  by unfold_locales
     (auto simp: db_wf_empty intro: store_step_wf store_step_extends extends_trans)

end
