(* ===== verification/Agent_Handoff_Props.thy ===== *)
theory Agent_Handoff_Props
  imports Agent_Reach
begin

text \<open>
  The properties of the handoff to the operating system, of cancellation and expiry, of the
  retention of documents, and of all reachable databases, with the runs that witness them.
\<close>

section \<open>A run to the handoff\<close>

definition spooling_db :: agent_db where
  "spooling_db = fst (append_next_event sample_ext ''e2'' ''job1'' ''spool_intent'' None None ''{}'' 20
     sample_db)"

definition accepted_db :: agent_db where
  "accepted_db = fst (record_native_acceptance sample_ext ''e3'' ''job1'' ''n1'' ''{}'' 30 40 50
     spooling_db)"

definition uncertain_db :: agent_db where
  "uncertain_db = fst (record_local_handoff_uncertainty sample_ext ''e3'' ''job1'' 30 spooling_db)"

definition released_db :: agent_db where
  "released_db = fst (release_uncertain_local_handoff_for_retry sample_ext ''e4'' ''job1'' ''a1''
     40 50 uncertain_db)"

lemma spooling_db_wf: "db_wf spooling_db"
  unfolding spooling_db_def by (rule append_next_event_wf [OF sample_db_wf]) simp

lemma uncertain_db_wf: "db_wf uncertain_db"
  unfolding uncertain_db_def by (rule record_local_handoff_uncertainty_wf [OF spooling_db_wf])

section \<open>Native acceptance\<close>

lemma accepted_rows:
  assumes mv: "logged_move x e (\<lambda>r. jr_state r = a) g refused s = Inr s1" and wf: "db_wf s"
    and core: "\<And>r. row_core (g r) = row_core r" and q: "q \<in> set (jobs s1)" "jr_job_id q = ev_job_id e"
  shows "\<exists>r\<in>set (jobs s). jr_job_id r = jr_job_id q \<and> jr_state r = a \<and> q = g r"
proof -
  note fr = logged_move_frame [OF wf mv core]
  from q(1) obtain r where r: "r \<in> set (jobs s)"
    and qr: "q = (if jr_job_id r = ev_job_id e \<and> jr_state r = a then g r else r)"
    by (auto simp: fr(7))
  have id: "jr_job_id r = ev_job_id e"
    using q(2) qr row_core_eq(1) [OF core] by (simp split: if_splits)
  show ?thesis using r id fr(1) [OF r id] qr row_core_eq(1) [OF core] by auto
qed

lemma record_native_acceptance_Inr:
  assumes "record_native_acceptance x eid j n d t nx dl s = (s', Inr u)"
  obtains s1 where "parse_json x d = Inr ()"
    "logged_move x (mk_event eid j (next_event_sequence j s) ''accepted_by_spooler'' None
       (Some ''Operating system accepted the job'') d t) (\<lambda>r. jr_state r = ''spool_intent'')
       (\<lambda>r. r\<lparr>jr_native_job_id := Some n, jr_state := ''accepted_by_spooler'', jr_updated_unix_ms := t\<rparr>)
       (JobNotFound j) s = Inr s1" "job_exists j s1"
    "s' = delete_route_proof j (s1\<lparr>job_reconciliation := sql_upsert rr_job_id
        (reconciliation_row_of j nx dl)
        (\<lambda>r. r\<lparr>rr_next_observe_unix_ms := nx, rr_uncertainty_deadline_unix_ms := dl\<rparr>)
        (job_reconciliation s1)\<rparr>)"
  using assms
  by (auto simp: record_native_acceptance_def transaction_eq_Inr and_then_eq_Inr
      upsert_reconciliation_def split: sum.splits if_splits)

lemma logged_move_refused:
  assumes "\<And>r. r \<in> set (jobs s) \<Longrightarrow> jr_job_id r = ev_job_id e \<Longrightarrow> \<not> guard r"
  shows "\<exists>err. logged_move x e guard g refused s = Inl err"
proof (cases "logged_move x e guard g refused s")
  case (Inr s')
  have none: "filter (\<lambda>r. jr_job_id r = ev_job_id e \<and> guard r) (jobs s) = []"
    using assms by (auto simp: filter_empty_conv)
  show ?thesis by (rule logged_move_Inr [OF Inr]) (simp add: none)
qed simp

lemma upserted_reconciliation:
  "\<exists>r\<in>set (sql_upsert rr_job_id (reconciliation_row_of j nx dl)
      (\<lambda>r. r\<lparr>rr_next_observe_unix_ms := nx, rr_uncertainty_deadline_unix_ms := dl\<rparr>) t).
    rr_job_id r = j \<and> rr_next_observe_unix_ms r = nx \<and> rr_uncertainty_deadline_unix_ms r = dl"
proof -
  let ?row = "reconciliation_row_of j nx dl"
  let ?m = "\<lambda>r. r\<lparr>rr_next_observe_unix_ms := nx, rr_uncertainty_deadline_unix_ms := dl\<rparr>"
  obtain r where f: "sql_find rr_job_id j (sql_upsert rr_job_id ?row ?m t) = Some r"
    and r: "rr_next_observe_unix_ms r = nx" "rr_uncertainty_deadline_unix_ms r = dl"
    using sql_find_upsert [of rr_job_id ?row ?m j t]
    by (auto simp: reconciliation_row_of_def split: option.splits)
  show ?thesis using sql_find_SomeD [OF f] r by blast
qed

text \<open>
  C11: The acceptance of a job by the operating system is recorded once. It needs a spool intent;
  it stores the native identifier and the schedule of observations together with the event, and
  destroys the route proof; recording it again is refused and changes nothing.
\<close>

theorem native_acceptance_once:
  assumes wf: "db_wf s" and ok: "record_native_acceptance x eid j n d t nx dl s = (s', Inr u)"
  shows "(\<exists>r\<in>set (jobs s). jr_job_id r = j \<and> jr_state r = ''spool_intent'') \<and>
    (\<forall>r\<in>set (jobs s'). jr_job_id r = j \<longrightarrow>
       jr_state r = ''accepted_by_spooler'' \<and> jr_native_job_id r = Some n) \<and>
    map ev_state (events_of j s') = map ev_state (events_of j s) @ [''accepted_by_spooler''] \<and>
    (\<exists>r\<in>set (job_reconciliation s'). rr_job_id r = j \<and> rr_next_observe_unix_ms r = nx \<and>
       rr_uncertainty_deadline_unix_ms r = dl) \<and>
    (\<forall>p\<in>set (cloud_route_proofs s'). pr_job_id p \<noteq> j) \<and>
    (\<exists>e. record_native_acceptance x eid' j n' d' t' nx' dl' s' = (s', Inl e))"
proof (rule record_native_acceptance_Inr [OF ok])
  let ?e = "mk_event eid j (next_event_sequence j s) ''accepted_by_spooler'' None
    (Some ''Operating system accepted the job'') d t"
  let ?g = "\<lambda>r. r\<lparr>jr_native_job_id := Some n, jr_state := ''accepted_by_spooler'', jr_updated_unix_ms := t\<rparr>"
  fix s1
  assume mv: "logged_move x ?e (\<lambda>r. jr_state r = ''spool_intent'') ?g (JobNotFound j) s = Inr s1"
    and s': "s' = delete_route_proof j (s1\<lparr>job_reconciliation := sql_upsert rr_job_id
        (reconciliation_row_of j nx dl)
        (\<lambda>r. r\<lparr>rr_next_observe_unix_ms := nx, rr_uncertainty_deadline_unix_ms := dl\<rparr>)
        (job_reconciliation s1)\<rparr>)"
  have core: "row_core (?g r) = row_core r" for r by simp
  note fr = logged_move_frame [OF wf mv core]
  have jobs: "jobs s' = jobs s1" by (simp add: s' delete_route_proof_def)
  have row: "jr_state r = ''accepted_by_spooler'' \<and> jr_native_job_id r = Some n"
    if "r \<in> set (jobs s')" "jr_job_id r = j" for r
  proof -
    have "r \<in> set (jobs s1)" "jr_job_id r = ev_job_id ?e" using that jobs by simp_all
    from accepted_rows [OF mv wf core this] obtain r0 where "r = ?g r0" by blast
    then show ?thesis by simp
  qed
  obtain r where r: "r \<in> set (jobs s)" "jr_job_id r = ev_job_id ?e" using fr(2) by blast
  have "\<exists>r\<in>set (jobs s). jr_job_id r = j \<and> jr_state r = ''spool_intent''"
    using r fr(1) [OF r] by auto
  moreover have "events_of j s' = events_of j s1"
    by (simp add: s' delete_route_proof_def events_of_def)
  moreover have "\<exists>e. record_native_acceptance x eid' j n' d' t' nx' dl' s' = (s', Inl e)"
  proof (cases "parse_json x d'")
    case (Inr v)
    have "\<exists>err. logged_move x (mk_event eid' j (next_event_sequence j s') ''accepted_by_spooler''
        None (Some ''Operating system accepted the job'') d' t') (\<lambda>r. jr_state r = ''spool_intent'')
        (\<lambda>r. r\<lparr>jr_native_job_id := Some n', jr_state := ''accepted_by_spooler'', jr_updated_unix_ms := t'\<rparr>)
        (JobNotFound j) s' = Inl err"
      by (rule logged_move_refused) (use row in force)
    with Inr show ?thesis by (auto simp: record_native_acceptance_def transaction_def)
  qed (simp add: record_native_acceptance_def)
  ultimately show ?thesis
    using row fr(3) [of j] upserted_reconciliation [of j nx dl "job_reconciliation s1"]
    by (auto simp: s' delete_route_proof_def set_sql_delete)
qed

theorem native_acceptance_once_witness:
  "map jr_state (jobs spooling_db) = [''spool_intent''] \<and>
   map jr_native_job_id (jobs accepted_db) = [Some ''n1''] \<and>
   map ev_state (events_of ''job1'' accepted_db) =
     map ev_state (events_of ''job1'' spooling_db) @ [''accepted_by_spooler''] \<and>
   (\<exists>e. record_native_acceptance sample_ext ''e9'' ''job1'' ''n2'' ''{}'' 31 41 51 accepted_db =
     (accepted_db, Inl e))"
proof -
  have "\<not> isl (snd (record_native_acceptance sample_ext ''e3'' ''job1'' ''n1'' ''{}'' 30 40 50
      spooling_db))" by code_simp
  from ran_ok [OF this] obtain u where ok: "record_native_acceptance sample_ext ''e3'' ''job1'' ''n1''
      ''{}'' 30 40 50 spooling_db = (accepted_db, Inr u)" unfolding accepted_db_def by blast
  have "map jr_state (jobs spooling_db) = [''spool_intent'']"
    "map jr_native_job_id (jobs accepted_db) = [Some ''n1'']" by code_simp+
  with native_acceptance_once [OF spooling_db_wf ok] show ?thesis by blast
qed

section \<open>Uncertain handoffs\<close>

lemma find_snoc: "find p (xs @ [y]) = (case find p xs of None \<Rightarrow> if p y then Some y else None | Some z \<Rightarrow> Some z)"
  by (induction xs) auto

lemma resolution_recorded:
  assumes "local_handoff_resolution s j a = None"
    and "insert_resolution (resolution_row_of a j w t) s1 = Inr s'"
    and "local_handoff_resolutions s1 = local_handoff_resolutions s"
  shows "local_handoff_resolution s' j a = Some w"
  using assms
  by (auto simp: local_handoff_resolution_def insert_resolution_def and_then_eq_Inr
      resolution_row_of_def find_snoc)

lemma logged_move_resolutions:
  "logged_move x e guard g refused s = Inr s' \<Longrightarrow>
    local_handoff_resolutions s' = local_handoff_resolutions s"
  by (erule logged_move_Inr) (simp add: append_event_tx_frame(9))

lemma release_recorded:
  assumes "release_uncertain_local_handoff_for_retry x eid j a t n s = (s', Inr u)"
  shows "local_handoff_resolution s' j a = Some LOCAL_HANDOFF_RELEASE_FOR_RETRY"
  using assms unfolding release_uncertain_local_handoff_for_retry_def already_resolved_def
  by (auto simp: transaction_eq_Inr and_then_eq_Inr split: option.splits if_splits
      elim!: resolution_recorded intro: logged_move_resolutions)

lemma confirm_recorded:
  assumes "confirm_uncertain_local_handoff_accepted x eid j a t s = (s', Inr u)"
  shows "local_handoff_resolution s' j a = Some LOCAL_HANDOFF_CONFIRM_ACCEPTED"
  using assms unfolding confirm_uncertain_local_handoff_accepted_def already_resolved_def
  by (auto simp: transaction_eq_Inr and_then_eq_Inr split: option.splits if_splits
      elim!: resolution_recorded intro: logged_move_resolutions)

lemma resolved_before:
  assumes "local_handoff_resolution s j a = Some w"
  shows "\<exists>e. release_uncertain_local_handoff_for_retry x eid j a t n s =
      (s, if w = LOCAL_HANDOFF_RELEASE_FOR_RETRY then Inr () else Inl e)"
    "\<exists>e. confirm_uncertain_local_handoff_accepted x eid j a t s =
      (s, if w = LOCAL_HANDOFF_CONFIRM_ACCEPTED then Inr () else Inl e)"
  using assms
  by (auto simp: release_uncertain_local_handoff_for_retry_def
        confirm_uncertain_local_handoff_accepted_def already_resolved_def)

text \<open>
  C23: An uncertain handoff is resolved once. After an operator released it for retry (or
  confirmed it), the same decision about the same ambiguity is accepted again without any
  change, and the opposite decision is refused without any change.
\<close>

theorem uncertainty_resolved_once:
  shows "(release_uncertain_local_handoff_for_retry x eid j a t n s = (s1, Inr u) \<longrightarrow>
      release_uncertain_local_handoff_for_retry x eid' j a t' n' s1 = (s1, Inr ()) \<and>
      (\<exists>e. confirm_uncertain_local_handoff_accepted x eid' j a t' s1 = (s1, Inl e))) \<and>
    (confirm_uncertain_local_handoff_accepted x eid j a t s = (s2, Inr v) \<longrightarrow>
      confirm_uncertain_local_handoff_accepted x eid' j a t' s2 = (s2, Inr ()) \<and>
      (\<exists>e. release_uncertain_local_handoff_for_retry x eid' j a t' n' s2 = (s2, Inl e)))"
proof -
  have "LOCAL_HANDOFF_RELEASE_FOR_RETRY \<noteq> LOCAL_HANDOFF_CONFIRM_ACCEPTED"
    by (simp add: LOCAL_HANDOFF_RELEASE_FOR_RETRY_def LOCAL_HANDOFF_CONFIRM_ACCEPTED_def)
  then show ?thesis
    using resolved_before [OF release_recorded, of x eid j a t n s s1 u x eid' t']
      resolved_before [OF confirm_recorded, of x eid j a t s s2 v x eid' t']
    by auto
qed

theorem uncertainty_resolved_once_witness:
  "map jr_state (jobs uncertain_db) = [''delivery_uncertain''] \<and>
   map jr_state (jobs released_db) = [''failed_retryable''] \<and>
   release_uncertain_local_handoff_for_retry sample_ext ''e5'' ''job1'' ''a1'' 60 70 released_db =
     (released_db, Inr ()) \<and>
   (\<exists>e. confirm_uncertain_local_handoff_accepted sample_ext ''e5'' ''job1'' ''a1'' 60 released_db =
     (released_db, Inl e))"
proof -
  have "\<not> isl (snd (release_uncertain_local_handoff_for_retry sample_ext ''e4'' ''job1'' ''a1''
     40 50 uncertain_db))" by code_simp
  from ran_ok [OF this] obtain u where ok: "release_uncertain_local_handoff_for_retry sample_ext
      ''e4'' ''job1'' ''a1'' 40 50 uncertain_db = (released_db, Inr u)"
    unfolding released_db_def by blast
  have "map jr_state (jobs uncertain_db) = [''delivery_uncertain'']"
    "map jr_state (jobs released_db) = [''failed_retryable'']" by code_simp+
  with ok show ?thesis
    using uncertainty_resolved_once [of sample_ext "''e4''" "''job1''" "''a1''" 40 50 uncertain_db
        released_db u "''e5''" 60 70] by blast
qed

section \<open>Cancellation\<close>

lemma append_event_Inr:
  assumes "append_event x eid j n st rs ms d t s = (s', Inr u)"
  shows "jobs s' = map (\<lambda>r. if jr_job_id r = j then r\<lparr>jr_state := st, jr_updated_unix_ms := t\<rparr> else r)
      (jobs s)"
    "events_of k s' = events_of k s @ (if k = j then [mk_event eid j n st rs ms d t] else [])"
    "length (filter (\<lambda>r. jr_job_id r = j) (jobs s)) = 1"
  using assms
  by (auto simp: append_event_def transaction_eq_Inr and_then_eq_Inr Let_def update_jobs_pair
      append_event_tx_Inr events_of_def split: sum.splits if_splits)

lemma sql_update_all:
  assumes "\<And>r. r \<in> set t \<Longrightarrow> p r \<Longrightarrow> q (f r)" and "\<And>r. r \<in> set t \<Longrightarrow> \<not> p r \<Longrightarrow> q r"
  shows "\<forall>r\<in>set (snd (sql_update p f t)). q r"
  using assms by (auto simp: sql_update_def)

lemma append_event_state:
  assumes "append_event x eid j n st rs ms d t s = (s', Inr u)"
    and "r \<in> set (jobs s')" "jr_job_id r = j"
  shows "jr_state r = st"
proof -
  from assms(2) obtain r0 where
    "r = (if jr_job_id r0 = j then r0\<lparr>jr_state := st, jr_updated_unix_ms := t\<rparr> else r0)"
    unfolding append_event_Inr(1) [OF assms(1)] set_map by blast
  with assms(3) show ?thesis by (simp split: if_splits)
qed

lemma append_next_event_Inr:
  assumes "append_next_event x eid j st rs ms d t s = (s', Inr n)"
  shows "append_event x eid j n st rs ms d t s = (s', Inr ())"
  using assms by (auto simp: append_next_event_def Let_def split: prod.splits sum.splits)

lemma cancel_before_handoff_Inr:
  assumes "cancel_before_handoff x e1 e2 j t s = (s', Inr res)"
  shows "if res then \<exists>lj s1 n1 n2. query_job x s j = Inr (Some lj) \<and> lj_state lj \<in> set queued_states \<and>
      append_event x e1 j n1 ''cancel_requested'' (Some ''cancelled_by_server'')
        (Some ''Cancellation requested by control plane'') ''{}'' t s = (s1, Inr ()) \<and>
      append_event x e2 j n2 ''cancelled'' (Some ''cancelled_by_server'')
        (Some ''Cancelled before native handoff'') ''{}'' t s1 = (s', Inr ())
    else s' = s"
  using assms unfolding cancel_before_handoff_def get_job_def
  by (auto split: sum.splits option.splits prod.splits if_splits dest!: append_next_event_Inr)

text \<open>What a successful cancellation did.\<close>

definition cancelled_before_handoff :: "string \<Rightarrow> agent_db \<Rightarrow> agent_db \<Rightarrow> bool" where
  "cancelled_before_handoff j s s' \<longleftrightarrow>
     (\<exists>r\<in>set (jobs s). jr_job_id r = j \<and> jr_state r \<in> set queued_states) \<and>
     (\<forall>r\<in>set (jobs s'). jr_job_id r = j \<longrightarrow> jr_state r = ''cancelled'') \<and>
     map ev_state (events_of j s') =
       map ev_state (events_of j s) @ [''cancel_requested'', ''cancelled'']"

definition cancel_sent_to_native :: "string \<Rightarrow> int \<Rightarrow> agent_db \<Rightarrow> agent_db \<Rightarrow> bool" where
  "cancel_sent_to_native j t s s' \<longleftrightarrow>
     (\<exists>r\<in>set (jobs s). jr_job_id r = j \<and> jr_state r \<in> set cancellable_native_states) \<and>
     (\<forall>r\<in>set (jobs s'). jr_job_id r = j \<longrightarrow> jr_state r = ''cancel_requested'') \<and>
     map ev_state (events_of j s') = map ev_state (events_of j s) @ [''cancel_requested''] \<and>
     (\<forall>r\<in>set (job_reconciliation s'). rr_job_id r = j \<longrightarrow>
        rr_cancel_requested r \<and> rr_next_observe_unix_ms r = t)"

lemma cancel_before_handoff_effect:
  assumes "cancel_before_handoff x e1 e2 j t s = (s', Inr True)"
  shows "cancelled_before_handoff j s s'"
proof -
  from cancel_before_handoff_Inr [OF assms] obtain lj s1 n1 n2
    where lj: "query_job x s j = Inr (Some lj)" "lj_state lj \<in> set queued_states"
    and a1: "append_event x e1 j n1 ''cancel_requested'' (Some ''cancelled_by_server'')
        (Some ''Cancellation requested by control plane'') ''{}'' t s = (s1, Inr ())"
    and a2: "append_event x e2 j n2 ''cancelled'' (Some ''cancelled_by_server'')
        (Some ''Cancelled before native handoff'') ''{}'' t s1 = (s', Inr ())"
    unfolding if_True by blast
  have "\<forall>r\<in>set (jobs s'). jr_job_id r = j \<longrightarrow> jr_state r = ''cancelled''"
    using append_event_state [OF a2] by blast
  moreover have "\<exists>r\<in>set (jobs s). jr_job_id r = j \<and> jr_state r \<in> set queued_states"
    using query_job_state [OF lj(1)] lj(2) by metis
  ultimately show ?thesis
    using append_event_Inr(2) [OF a1, of j] append_event_Inr(2) [OF a2, of j]
    by (simp add: cancelled_before_handoff_def mk_event_def)
qed

lemma request_cancel_native:
  assumes "query_job x s j = Inr (Some lj)" "lj_state lj \<in> set cancellable_native_states"
    and app: "append_event x e1 j n ''cancel_requested'' rs ms d t s = (s1, Inr ())"
    and s': "s' = s1\<lparr>job_reconciliation := snd (sql_update (\<lambda>r. rr_job_id r = j)
      (\<lambda>r. r\<lparr>rr_cancel_requested := True, rr_next_observe_unix_ms := t\<rparr>) (job_reconciliation s1))\<rparr>"
  shows "cancel_sent_to_native j t s s'"
proof -
  have "\<forall>r\<in>set (jobs s'). jr_job_id r = j \<longrightarrow> jr_state r = ''cancel_requested''"
    using append_event_state [OF app] by (simp add: s')
  moreover have "\<exists>r\<in>set (jobs s). jr_job_id r = j \<and> jr_state r \<in> set cancellable_native_states"
    using query_job_state [OF assms(1)] assms(2) by metis
  moreover have "\<forall>r\<in>set (job_reconciliation s'). rr_job_id r = j \<longrightarrow>
      rr_cancel_requested r \<and> rr_next_observe_unix_ms r = t"
    unfolding s' by (simp, rule sql_update_all) simp_all
  ultimately show ?thesis
    using append_event_Inr(2) [OF app, of j]
    by (simp add: cancel_sent_to_native_def mk_event_def s' events_of_def)
qed



end
