(* ===== verification/Agent_Store_Props.thy ===== *)
theory Agent_Store_Props
  imports Agent_Handoff_Props "HOL-Library.Multiset"
begin

text \<open>
  The properties of the maintenance of the store: expiry, retention of documents, and what
  holds in every database that the operations can reach.
\<close>

section \<open>Expiry\<close>

definition expire_row :: "int \<Rightarrow> job_row \<Rightarrow> job_row" where
  "expire_row t r = r\<lparr>jr_state := ''expired'', jr_updated_unix_ms := t\<rparr>"

lemma expire_row_id [simp]: "jr_job_id (expire_row t r) = jr_job_id r"
  by (simp add: expire_row_def)

lemma expire_row_twice [simp]: "expire_row t (expire_row t r) = expire_row t r"
  by (simp add: expire_row_def)

lemma expire_each_Inr:
  "expire_each x fresh t js s = (s', Inr u) \<Longrightarrow>
    jobs s' = map (\<lambda>r. if jr_job_id r \<in> set js then expire_row t r else r) (jobs s)"
proof (induction js arbitrary: s)
  case (Cons j js)
  from Cons.prems obtain s1 where
    a: "append_event x (fresh j) j (next_event_sequence j s) ''expired''
        (Some ''expired_before_handoff'') (Some ''Job expired before native submission'') ''{}'' t s =
        (s1, Inr ())" and r: "expire_each x fresh t js s1 = (s', Inr u)"
    by (auto split: prod.splits sum.splits)
  have "jobs s1 = map (\<lambda>r. if jr_job_id r = j then expire_row t r else r) (jobs s)"
    using append_event_Inr(1) [OF a] by (simp add: expire_row_def)
  with Cons.IH [OF r] show ?case by simp
qed simp

text \<open>
  C26: A successful expiry expires the jobs that are waiting and whose time is over, all of them
  and no others, in whatever order the database returns them, and answers their number.
\<close>

theorem expire_waiting_exact:
  assumes wf: "db_wf s" and scan: "\<And>rs. mset (scan rs) = mset rs"
    and ok: "expire_waiting x scan fresh t s = (s', Inr n)"
  shows "n = length (filter (expired_waiting t) (jobs s)) \<and>
    jobs s' = map (\<lambda>r. if expired_waiting t r
      then r\<lparr>jr_state := ''expired'', jr_updated_unix_ms := t\<rparr> else r) (jobs s) \<and>
    filter (expired_waiting t) (jobs s') = []"
proof -
  let ?due = "filter (expired_waiting t) (jobs s)"
  have e: "expire_each x fresh t (map jr_job_id (scan ?due)) s = (s', Inr ())"
    and n: "n = length (scan ?due)"
    using ok by (auto simp: expire_waiting_def Let_def split: prod.splits sum.splits)
  have set: "set (scan ?due) = set ?due" using scan [of ?due] by (metis set_mset_mset)
  have due: "jr_job_id r \<in> set (map jr_job_id (scan ?due)) \<longleftrightarrow> expired_waiting t r"
    if r: "r \<in> set (jobs s)" for r
  proof -
    have "inj_on jr_job_id (set (jobs s))"
      using db_wf_parts(6) [OF wf] by (simp add: distinct_map)
    then show ?thesis using r set by (auto simp: inj_on_def)
  qed
  have "jobs s' = map (\<lambda>r. if expired_waiting t r then expire_row t r else r) (jobs s)"
    unfolding expire_each_Inr [OF e] using due by (intro map_cong) auto
  moreover have "\<not> expired_waiting t (expire_row t r)" for r
    by (simp add: expired_waiting_def expire_row_def queued_states_def)
  ultimately show ?thesis
    using n mset_eq_length [OF scan [of ?due]] by (auto simp: expire_row_def filter_empty_conv)
qed

definition expiring_db :: agent_db where
  "expiring_db = snd (update_jobs (\<lambda>_. True) (\<lambda>r. r\<lparr>jr_expires_unix_ms := Some 15\<rparr>) sample_db)"

lemma expiring_db_wf: "db_wf expiring_db"
  unfolding expiring_db_def
  by (rule wf_update_quiet [OF sample_db_wf]) (simp_all add: row_core_def)

theorem expire_waiting_exact_witness:
  "length (filter (expired_waiting 15) (jobs expiring_db)) = 1 \<and>
   (\<exists>s'. expire_waiting sample_ext rev (\<lambda>j. ''x'' @ j) 15 expiring_db = (s', Inr 1) \<and>
     filter (expired_waiting 15) (jobs s') = [])"
proof -
  have one: "length (filter (expired_waiting 15) (jobs expiring_db)) = 1" by code_simp
  have "snd (expire_waiting sample_ext rev (\<lambda>j. ''x'' @ j) 15 expiring_db) = Inr 1" by code_simp
  then obtain s' where ok: "expire_waiting sample_ext rev (\<lambda>j. ''x'' @ j) 15 expiring_db = (s', Inr 1)"
    by (metis prod.collapse)
  then show ?thesis
    using one expire_waiting_exact [OF expiring_db_wf mset_rev ok] by blast
qed

section \<open>Retention of documents\<close>

lemma claim_each_claims:
  "claim_each cs s = (s', claimed) \<Longrightarrow> jobs s' = jobs s \<and>
    (\<forall>c\<in>set claimed. \<not> content_retained (rc_sha256 c) (rc_path c) s \<and>
       (\<exists>r\<in>set (content_files s'). cr_sha256 r = rc_sha256 c \<and> cr_path r = rc_path c \<and> cr_reclaiming r)) \<and>
    (\<forall>r\<in>set (content_files s). cr_reclaiming r \<longrightarrow> r \<in> set (content_files s'))"
proof (induction cs arbitrary: s claimed)
  case (Cons c cs)
  let ?p = "\<lambda>r. cr_sha256 r = rc_sha256 c \<and> cr_path r = rc_path c \<and> \<not> cr_reclaiming r \<and>
    \<not> content_retained (rc_sha256 c) (rc_path c) s"
  let ?s1 = "s\<lparr>content_files := map (\<lambda>r. if ?p r then r\<lparr>cr_reclaiming := True\<rparr> else r) (content_files s)\<rparr>"
  obtain rest where r: "claim_each cs ?s1 = (s', rest)"
    and cl: "claimed = (if length (filter ?p (content_files s)) = 1 then c # rest else rest)"
    using Cons.prems by (auto simp: set_reclaiming_pair Let_def split: prod.splits)
  note IH = Cons.IH [OF r]
  have ret: "content_retained h q ?s1 = content_retained h q s" for h q
    by (simp add: content_retained_def)
  have old: "r \<in> set (content_files s')" if "r \<in> set (content_files s)" "cr_reclaiming r" for r
    using IH that by (force simp: image_iff)
  have new: "\<not> content_retained (rc_sha256 c) (rc_path c) s \<and>
      (\<exists>r\<in>set (content_files s'). cr_sha256 r = rc_sha256 c \<and> cr_path r = rc_path c \<and> cr_reclaiming r)"
    if "length (filter ?p (content_files s)) = 1"
  proof -
    from that obtain r where "filter ?p (content_files s) = [r]" by (auto simp: length_Suc_conv)
    then have r: "r \<in> set (content_files s)" "?p r"
      by (metis (mono_tags, lifting) list.set_intros(1) mem_Collect_eq set_filter)+
    then have "r\<lparr>cr_reclaiming := True\<rparr> \<in> set (content_files ?s1)" by force
    with IH have "r\<lparr>cr_reclaiming := True\<rparr> \<in> set (content_files s')" by simp
    then show ?thesis using r by (intro conjI bexI [of _ "r\<lparr>cr_reclaiming := True\<rparr>"]) simp_all
  qed
  have rest: "\<not> content_retained (rc_sha256 b) (rc_path b) s \<and>
      (\<exists>r\<in>set (content_files s'). cr_sha256 r = rc_sha256 b \<and> cr_path r = rc_path b \<and> cr_reclaiming r)"
    if "b \<in> set rest" for b using IH that unfolding ret by blast
  have "jobs s' = jobs s" using IH by simp
  moreover have "\<not> content_retained (rc_sha256 b) (rc_path b) s \<and>
      (\<exists>r\<in>set (content_files s'). cr_sha256 r = rc_sha256 b \<and> cr_path r = rc_path b \<and> cr_reclaiming r)"
    if b: "b \<in> set claimed" for b
  proof (cases "b \<in> set rest")
    case False
    with b have "b = c" "length (filter ?p (content_files s)) = 1"
      unfolding cl by (simp_all split: if_splits)
    then show ?thesis using new by blast
  qed (rule rest)
  ultimately show ?case using old by blast
qed simp

text \<open>
  C32: A document is claimed for deletion only when no job needs it, and while it is claimed no
  new job can refer to it: of each claimed document no job outside a truthful terminal state
  uses the file, its row is marked, and a new job with the same content is refused.
\<close>

theorem claimed_content_is_unused:
  assumes wf: "db_wf s" and ok: "claim_reclaimable_terminal_content limit s = (s', Inr claimed)"
    and c: "c \<in> set claimed"
  shows "(\<forall>r\<in>set (jobs s'). jr_content_sha256 r = rc_sha256 c \<and> jr_content_path r = rc_path c \<longrightarrow>
      jr_state r \<in> set truthful_terminal_states) \<and>
    (aj_content_sha256 job = rc_sha256 c \<longrightarrow>
      record_content_reference job s' = Inl (ContentReclaimInProgress (rc_sha256 c)))"
proof -
  obtain cs where cl: "claim_each cs s = (s', claimed)"
    using ok by (auto simp: claim_reclaimable_terminal_content_def Let_def split: prod.splits)
  note cc = claim_each_claims [OF cl]
  have "\<not> content_retained (rc_sha256 c) (rc_path c) s" using cc c by blast
  then have unused: "\<forall>r\<in>set (jobs s'). jr_content_sha256 r = rc_sha256 c \<and> jr_content_path r = rc_path c \<longrightarrow>
      jr_state r \<in> set truthful_terminal_states"
    using cc by (auto simp: content_retained_def sql_exists_iff retains_content_def)
  obtain r where r: "r \<in> set (content_files s')" "cr_sha256 r = rc_sha256 c" "cr_reclaiming r"
    using cc c by blast
  have "db_wf s'" using claim_wf [OF wf, of limit] ok by simp
  then have "sql_find cr_sha256 (rc_sha256 c) (content_files s') = Some r"
    using sql_find_unique [of cr_sha256, OF _ r(1)] r(2) by (simp add: db_wf_def content_ok_def)
  with unused r(3) show ?thesis by (simp add: record_content_reference_def)
qed

definition finished_db :: agent_db where
  "finished_db = fst (append_next_event sample_ext ''e9'' ''job1'' ''completed_reported'' None None ''{}''
     90 sample_db)"

definition claimed_db :: agent_db where
  "claimed_db = fst (claim_reclaimable_terminal_content 4 finished_db)"

lemma finished_db_wf: "db_wf finished_db"
  unfolding finished_db_def by (rule append_next_event_wf [OF sample_db_wf]) simp

lemma claimed_db_wf: "db_wf claimed_db"
  unfolding claimed_db_def by (rule claim_wf [OF finished_db_wf])

theorem claimed_content_is_unused_witness:
  "\<exists>c. claim_reclaimable_terminal_content 4 finished_db = (claimed_db, Inr [c]) \<and>
     aj_content_sha256 sample_job = rc_sha256 c \<and>
     record_content_reference sample_job claimed_db = Inl (ContentReclaimInProgress (rc_sha256 c))"
proof -
  have "(case claim_reclaimable_terminal_content 4 finished_db of
      (_, Inr [c]) \<Rightarrow> rc_sha256 c = aj_content_sha256 sample_job | _ \<Rightarrow> False)" by code_simp
  then obtain c where ok: "claim_reclaimable_terminal_content 4 finished_db = (claimed_db, Inr [c])"
    and h: "aj_content_sha256 sample_job = rc_sha256 c"
    unfolding claimed_db_def by (auto split: prod.splits sum.splits list.splits)
  then show ?thesis
    using claimed_content_is_unused [OF finished_db_wf ok, of c sample_job] by simp
qed

text \<open>
  C35: Retiring a claimed document fails as long as any job, even a finished one, carries its
  hash: the row of a finished job still refers to the document by foreign key, so the deletion
  is refused, the transaction is rolled back and the claim stays. Since no operation deletes a
  job, the file is gone and its row stays claimed until the store is opened again.
\<close>

theorem reclaimed_content_keeps_row:
  assumes unused: "\<not> content_retained h p s"
    and claimed: "\<exists>c\<in>set (content_files s). cr_sha256 c = h \<and> cr_path c = p \<and> cr_reclaiming c"
    and job: "\<exists>r\<in>set (jobs s). jr_content_sha256 r = h"
  shows "mark_terminal_content_reclaimed h p s = (s, Inl Sql)"
proof -
  let ?g = "\<lambda>r. r\<lparr>jr_content_path := ''retired:'' @ jr_content_sha256 r\<rparr>"
  let ?p = "\<lambda>r. jr_content_sha256 r = h \<and> jr_content_path r = p \<and>
    jr_state r \<in> set truthful_terminal_states"
  from job obtain r where r: "r \<in> set (jobs s)" "jr_content_sha256 r = h" by blast
  then have "(if ?p r then ?g r else r) \<in> set (jobs (snd (update_jobs ?p ?g s)))" by simp
  moreover have "jr_content_sha256 (if ?p r then ?g r else r) = h" using r by simp
  ultimately obtain q where q: "q \<in> set (jobs (snd (update_jobs ?p ?g s)))" "jr_content_sha256 q = h"
    by blast
  obtain c where c: "c \<in> set (content_files s)" "cr_sha256 c = h" "cr_path c = p" "cr_reclaiming c"
    using claimed by blast
  have "content_files (snd (update_jobs ?p ?g s)) = content_files s" by simp
  then have "sql_exists (\<lambda>r. sql_exists (\<lambda>c. (cr_sha256 c = h \<and> cr_path c = p \<and> cr_reclaiming c) \<and>
      cr_sha256 c = jr_content_sha256 r) (content_files (snd (update_jobs ?p ?g s))))
      (jobs (snd (update_jobs ?p ?g s)))"
    unfolding sql_exists_iff by (intro bexI [OF _ q(1)] bexI [of _ c]) (simp_all only: c q)
  then show ?thesis
    unfolding mark_terminal_content_reclaimed_def transaction_def
    by (simp only: unused if_False Let_def split_beta if_True sum.case)
qed

theorem reclaimed_content_keeps_row_witness:
  "\<exists>h p. map cr_sha256 (content_files claimed_db) = [h] \<and>
     mark_terminal_content_reclaimed h p claimed_db = (claimed_db, Inl Sql)"
proof -
  let ?h = "aj_content_sha256 sample_job" and ?p = "aj_content_path sample_job"
  have c: "\<not> content_retained ?h ?p claimed_db"
    "\<exists>c\<in>set (content_files claimed_db). cr_sha256 c = ?h \<and> cr_path c = ?p \<and> cr_reclaiming c"
    "\<exists>r\<in>set (jobs claimed_db). jr_content_sha256 r = ?h"
    "map cr_sha256 (content_files claimed_db) = [?h]" by code_simp+
  show ?thesis by (intro exI conjI) (rule c(4), rule reclaimed_content_keeps_row [OF c(1-3)])
qed

section \<open>Reachable databases\<close>

text \<open>
  C4: Every database that the operations of the store reach from an empty one is well formed:
  job identifiers and positions are unique, positions lie below the printer's counter, every
  reference of the other tables hits a row, the log of each job is numbered without gaps, the
  outbox mirrors the log, and the state of a job is that of its last event, apart from the
  states that the cloud acceptance gives without an event.
\<close>

theorem store_invariant:
  assumes "rtranclp (store_step x) empty_db s"
  shows "db_wf s"
  using store.run_inv [OF assms db_wf_empty] .

lemma sample_steps: "store_step sample_ext empty_db sample_db" "store_step sample_ext sample_db spooling_db"
  "store_step sample_ext spooling_db accepted_db"
  unfolding sample_db_def spooling_db_def accepted_db_def
  by (rule store_step.client [OF client_step.accept] store_step.next_event
      store_step.client [OF client_step.native_accept]; simp)+

lemma sample_run: "rtranclp (store_step sample_ext) empty_db accepted_db"
  using sample_steps by (meson rtranclp.rtrancl_into_rtrancl rtranclp.rtrancl_refl)

theorem store_invariant_witness:
  "rtranclp (store_step sample_ext) empty_db accepted_db \<and> db_wf accepted_db \<and>
   length (job_events accepted_db) = 3"
proof -
  have "length (job_events accepted_db) = 3" by code_simp
  then show ?thesis using sample_run store_invariant [OF sample_run] by blast
qed



text \<open>
  The specification of a job's life that the outbox gives to its reader: the state after a
  list of events.
\<close>

fun replay :: "string \<Rightarrow> event_row list \<Rightarrow> string option" where
  "replay j [] = None"
| "replay j (e # es) = (case replay j es of
     Some st \<Rightarrow> Some st
   | None \<Rightarrow> if ev_job_id e = j then Some (ev_state e) else None)"

lemma replay_last:
  "replay j es = (let own = filter (\<lambda>e. ev_job_id e = j) es
     in if own = [] then None else Some (ev_state (last own)))"
  by (induction es) (auto simp: Let_def filter_empty_conv split: if_splits)

text \<open>
  C6: The outbox refines the table of jobs: replaying all the events of the outbox gives, for
  every local job of a reachable database, the state in the job's row.
\<close>

theorem outbox_replays_jobs:
  assumes run: "rtranclp (store_step x) empty_db s"
    and r: "r \<in> set (jobs s)" "\<not> jr_cloud_managed r"
  shows "replay (jr_job_id r) (map ob_event (event_outbox s)) = Some (jr_state r)"
proof -
  have wf: "db_wf s" using store.run_inv [OF run db_wf_empty] .
  have "map ob_event (event_outbox s) = job_events s"
    using db_wf_parts(4) [OF wf] by (simp add: event_log_ok_def)
  moreover have "row_projects s r" "\<not> silent_cloud_state r"
    using db_wf_parts(5) [OF wf] r by (simp_all add: projection_ok_def silent_cloud_state_def)
  ultimately show ?thesis
    by (simp add: row_projects_def replay_last Let_def flip: events_of_def)
qed

theorem outbox_replays_jobs_witness:
  "\<exists>r. jobs accepted_db = [r] \<and>
     replay ''job1'' (map ob_event (event_outbox accepted_db)) = Some ''accepted_by_spooler''"
proof -
  have "map (\<lambda>r. (jr_job_id r, jr_state r, jr_cloud_managed r)) (jobs accepted_db) =
      [(''job1'', ''accepted_by_spooler'', False)]" by code_simp
  then obtain r where r: "jobs accepted_db = [r]" "jr_job_id r = ''job1''"
      "jr_state r = ''accepted_by_spooler''" "\<not> jr_cloud_managed r"
    by (cases "jobs accepted_db") auto
  then show ?thesis using outbox_replays_jobs [OF sample_run, of r] by simp
qed

end
