(* ===== verification/Agent_Moves.thy ===== *)
theory Agent_Moves
  imports Agent_Reach
begin

text \<open>
  How the clients of the agent store move jobs. \<open>client_moves\<close> lists the changes of a job's state
  that an operation of the store makes on its own; every other change is an event that the print
  engine appends. In particular a job returns to a state from which it can be printed only along
  \<open>waiting_states\<close> or by an event \<open>failed_retryable\<close>, and no operation leaves \<open>preparing\<close> or
  \<open>rendering\<close>.
\<close>

section \<open>Moves\<close>

definition client_moves :: "(string \<times> string) set" where
  "client_moves =
     {(''cloud_accept_pending'', ''queued_local''), (''cloud_accept_pending'', ''cancelled''),
      (''failed_retryable'', ''cloud_accept_pending''),
      (''queued_local'', ''cancel_requested''), (''queued_local'', ''cancelled''),
      (''queued_local'', ''expired''), (''failed_retryable'', ''cancel_requested''),
      (''failed_retryable'', ''cancelled''), (''failed_retryable'', ''expired''),
      (''spool_intent'', ''failed_retryable''), (''spool_intent'', ''delivery_uncertain''),
      (''spool_intent'', ''accepted_by_spooler''), (''delivery_uncertain'', ''failed_retryable''),
      (''accepted_by_spooler'', ''cancel_requested''), (''spooling'', ''cancel_requested''),
      (''printing'', ''cancel_requested''), (''blocked'', ''cancel_requested'')}"

definition moves :: "agent_db \<Rightarrow> agent_db \<Rightarrow> bool" where
  "moves s s' \<longleftrightarrow> (\<forall>r'\<in>set (jobs s'). job_exists (jr_job_id r') s \<longrightarrow>
     (\<exists>r\<in>set (jobs s). row_core r = row_core r' \<and>
        (jr_state r = jr_state r' \<or> (jr_state r, jr_state r') \<in> client_moves)))"

lemma moves_refl [simp]: "moves s s"
  by (auto simp: moves_def)

lemma moves_same:
  assumes "map (\<lambda>r. (row_core r, jr_state r)) (jobs s') = map (\<lambda>r. (row_core r, jr_state r)) (jobs s)"
  shows "moves s s'"
  unfolding moves_def
proof (intro ballI impI)
  fix r' assume "r' \<in> set (jobs s')"
  then have "(row_core r', jr_state r') \<in> set (map (\<lambda>r. (row_core r, jr_state r)) (jobs s'))" by simp
  then show "\<exists>r\<in>set (jobs s). row_core r = row_core r' \<and>
      (jr_state r = jr_state r' \<or> (jr_state r, jr_state r') \<in> client_moves)"
    unfolding assms by auto
qed

lemma same_update [simp]:
  "(\<And>r. row_core (g r) = row_core r) \<Longrightarrow> (\<And>r. jr_state (g r) = jr_state r) \<Longrightarrow>
    map ((\<lambda>r. (row_core r, jr_state r)) \<circ> (\<lambda>r. if p r then g r else r)) t =
    map (\<lambda>r. (row_core r, jr_state r)) t"
  by simp

lemma moves_map:
  assumes "jobs s' = map f (jobs s)" and "\<And>r. r \<in> set (jobs s) \<Longrightarrow> row_core (f r) = row_core r"
    and "\<And>r. r \<in> set (jobs s) \<Longrightarrow> jr_state (f r) \<noteq> jr_state r \<Longrightarrow> (jr_state r, jr_state (f r)) \<in> client_moves"
  shows "moves s s'"
  using assms unfolding moves_def by (auto simp: image_iff) metis

lemma moves_update:
  assumes "jobs s' = jobs (snd (update_jobs p g s))" and "\<And>r. row_core (g r) = row_core r"
    and "\<And>r. r \<in> set (jobs s) \<Longrightarrow> p r \<Longrightarrow> jr_state (g r) \<noteq> jr_state r \<Longrightarrow>
      (jr_state r, jr_state (g r)) \<in> client_moves"
  shows "moves s s'"
  by (rule moves_map [where f = "\<lambda>r. if p r then g r else r"]) (use assms in auto)

lemma moves_insert:
  assumes "jobs s' = jobs s @ [r]" and "\<not> job_exists (jr_job_id r) s"
  shows "moves s s'"
  using assms by (auto simp: moves_def)

lemmas moves_tx = transaction_invariant [where P = "moves s" for s, OF moves_refl]

lemma moves_logged:
  assumes mv: "logged_move x e guard g refused s = Inr s1" and core: "\<And>r. row_core (g r) = row_core r"
    and st: "\<And>r. guard r \<Longrightarrow> jr_state (g r) \<noteq> jr_state r \<Longrightarrow> (jr_state r, jr_state (g r)) \<in> client_moves"
    and "jobs s' = jobs s1"
  shows "moves s s'"
proof (rule logged_move_Inr [OF mv])
  fix s2 assume "s1 = s2\<lparr>jobs := map (\<lambda>r. if jr_job_id r = ev_job_id e \<and> guard r then g r else r) (jobs s)\<rparr>"
  then show ?thesis
    using assms(4) core st
    by (intro moves_map [where f = "\<lambda>r. if jr_job_id r = ev_job_id e \<and> guard r then g r else r"]) auto
qed

section \<open>The operations\<close>

lemma moves_handoff:
  "moves s (fst (record_local_retryable_failure x eid j rs ms d t n s))"
  "moves s (fst (record_local_handoff_uncertainty x eid j t s))"
  "moves s (fst (release_uncertain_local_handoff_for_retry x eid j a t n s))"
  "moves s (fst (confirm_uncertain_local_handoff_accepted x eid j a t s))"
  "moves s (fst (record_native_acceptance x eid j nj d t nx dl s))"
  "moves s (fst (release_uncertain_cloud_handoff_for_retry x eid j t s))"
  "moves s (fst (record_cloud_handoff_recovery x eid j st rs ms t s))"
  unfolding record_local_retryable_failure_def record_local_handoff_uncertainty_def
    release_uncertain_local_handoff_for_retry_def confirm_uncertain_local_handoff_accepted_def
    record_native_acceptance_def release_uncertain_cloud_handoff_for_retry_def
    record_cloud_handoff_recovery_def
  by (auto simp: and_then_eq_Inr ensure_eq_Inr insert_resolution_def delete_route_proof_def
      upsert_reconciliation_def client_moves_def row_core_def split: sum.splits option.splits if_splits
      intro!: moves_tx elim!: moves_logged)

lemma moves_quiet:
  "moves s (fst (set_native_job_id j n t s))"
  "moves s (fst (schedule_native_reconciliation j n nx dl s))"
  "moves s (fst (record_reconciliation_attempt x oid j n st au d er t nx s))"
  "moves s (fst (finish_reconciliation j s))"
  "moves s (fst (confirm_cloud_accept j t s))"
  "moves s (fst (complete_cloud_release_cleanup j s))"
  "moves s (fst (complete_all_cloud_release_cleanups s))"
  "moves s (fst (finalize_uncertain_cloud_handoff_recovery x j s))"
  "moves s (fst (backfill_cloud_route_owner x j c t s))"
  "moves s (fst (acknowledge_events k t s))"
  "moves s (fst (acknowledge_cloud_event e t s))"
  "moves s (fst (mark_confidential_file_deleted j s))"
  "moves s (fst (cancel_terminal_content_reclaim h p s))"
  "moves s (release_claims_on_open s)"
  "moves s (s\<lparr>printer_profiles := ps\<rparr>)"
  unfolding set_native_job_id_def schedule_native_reconciliation_def
    record_reconciliation_attempt_def finish_reconciliation_def confirm_cloud_accept_def
    complete_cloud_release_cleanup_def complete_all_cloud_release_cleanups_def
    finalize_uncertain_cloud_handoff_recovery_def backfill_cloud_route_owner_def
    acknowledge_events_def acknowledge_cloud_event_def mark_confidential_file_deleted_def
    cancel_terminal_content_reclaim_def release_claims_on_open_def
  by (auto simp: and_then_eq_Inr ensure_eq_Inr update_jobs_pair sql_update_def
      set_reclaiming_pair upsert_reconciliation_def delete_route_proof_def Let_def split_beta moves_same
      split: sum.splits option.splits if_splits intro!: moves_tx)

section \<open>Events\<close>

definition restate :: "string \<Rightarrow> string \<Rightarrow> int \<Rightarrow> job_row \<Rightarrow> job_row" where
  "restate j st t r = (if jr_job_id r = j then r\<lparr>jr_state := st, jr_updated_unix_ms := t\<rparr> else r)"

lemma restate_sel [simp]:
  "row_core (restate j st t r) = row_core r" "jr_job_id (restate j st t r) = jr_job_id r"
  "jr_state (restate j st t r) = (if jr_job_id r = j then st else jr_state r)"
  by (simp_all add: restate_def row_core_def)

lemma append_next_event_cases:
  assumes "append_next_event x eid j st rs ms d t s = (s', out)"
  obtains e where "s' = s" "out = Inl e"
  | s1 where "out = Inr (next_event_sequence j s)" "job_exists j s"
      "append_event_tx x (mk_event eid j (next_event_sequence j s) st rs ms d t) s = Inr s1"
      "s' = s1\<lparr>jobs := map (restate j st t) (jobs s)\<rparr>"
proof (cases "parse_json x d")
  case (Inl e)
  then have "append_next_event x eid j st rs ms d t s = (s, Inl e)"
    by (simp add: append_next_event_def append_event_def Let_def)
  with assms show thesis by (intro that(1) [of e]) simp_all
next
  case (Inr u)
  let ?e = "mk_event eid j (next_event_sequence j s) st rs ms d t"
  show thesis
  proof (cases "append_event_tx x ?e s")
    case (Inl e)
    with Inr have "append_next_event x eid j st rs ms d t s = (s, Inl e)"
      by (simp add: append_next_event_def append_event_def Let_def transaction_def and_then_def)
    with assms show thesis by (intro that(1) [of e]) simp_all
  next
    case (Inr s1)
    note fr = append_event_tx_frame [OF Inr]
    have "append_next_event x eid j st rs ms d t s =
      (if length (filter (\<lambda>r. jr_job_id r = j) (jobs s)) \<noteq> 1 then (s, Inl (JobNotFound j))
       else (s1\<lparr>jobs := map (restate j st t) (jobs s)\<rparr>, Inr (next_event_sequence j s)))"
      using \<open>parse_json x d = Inr u\<close> Inr fr(1)
      by (simp add: append_next_event_def append_event_def Let_def transaction_def and_then_def
          update_jobs_pair restate_def [abs_def])
    with assms Inr fr(14) show thesis
      by (cases "length (filter (\<lambda>r. jr_job_id r = j) (jobs s)) = 1")
         (intro that(2) [of s1], simp_all, intro that(1) [of "JobNotFound j"], simp_all)
  qed
qed

lemma append_next_event_moves:
  assumes "append_next_event x eid j st rs ms d t s = (s', out)"
    and "\<And>r. r \<in> set (jobs s) \<Longrightarrow> jr_job_id r = j \<Longrightarrow> jr_state r \<noteq> st \<Longrightarrow> (jr_state r, st) \<in> client_moves"
  shows "moves s s'"
  using assms(1)
  by (rule append_next_event_cases)
     (use assms(2) in \<open>auto intro!: moves_map [where f = "restate j st t"]\<close>)

lemma append_next_event_jobs:
  "append_next_event x eid j st rs ms d t s = (s', out) \<Longrightarrow>
    jobs s' = jobs s \<or> jobs s' = map (restate j st t) (jobs s)"
  by (erule append_next_event_cases) simp_all

lemma moves_restated:
  assumes "jobs s1 = jobs s \<or> jobs s1 = map (restate j a t) (jobs s)"
    and "jobs s2 = jobs s1 \<or> jobs s2 = map (restate j b t) (jobs s1)"
    and "\<And>r. r \<in> set (jobs s) \<Longrightarrow> jr_job_id r = j \<Longrightarrow>
      (jr_state r, a) \<in> client_moves \<and> (jr_state r, b) \<in> client_moves"
  shows "moves s s2"
proof -
  obtain f g where "jobs s1 = map f (jobs s)" "f = id \<or> f = restate j a t"
    and "jobs s2 = map g (jobs s1)" "g = id \<or> g = restate j b t"
    using assms(1,2) by (metis list.map_id)
  then show ?thesis
    using assms(3) by (intro moves_map [where f = "g \<circ> f"]) (elim disjE; simp split: if_splits)+
qed

lemma queried_row_state:
  assumes "db_wf s" "get_job x s j = Inr (Some lj)" "r \<in> set (jobs s)" "jr_job_id r = j"
  shows "jr_state r = lj_state lj"
  by (rule query_job_row [OF assms(1) assms(2) [unfolded get_job_def]])
     (use assms(3,4) in \<open>auto simp: row_to_job_def result_simps\<close>)

lemma moves_cancel_before:
  assumes wf: "db_wf s"
  shows "moves s (fst (cancel_before_handoff x e1 e2 j t s))"
proof (cases "get_job x s j")
  case (Inr found)
  show ?thesis
  proof (cases "\<exists>lj. found = Some lj \<and> lj_state lj \<in> set queued_states")
    case True
    then obtain lj where lj: "found = Some lj" "lj_state lj \<in> set queued_states" by blast
    have st: "jr_state r \<in> set queued_states" if "r \<in> set (jobs s)" "jr_job_id r = j" for r
      using queried_row_state [OF wf Inr [unfolded lj(1)] that] lj(2) by simp
    obtain s1 o1 where a1: "append_next_event x e1 j ''cancel_requested'' (Some ''cancelled_by_server'')
      (Some ''Cancellation requested by control plane'') ''{}'' t s = (s1, o1)" by force
    obtain s2 o2 where a2: "append_next_event x e2 j ''cancelled'' (Some ''cancelled_by_server'')
      (Some ''Cancelled before native handoff'') ''{}'' t s1 = (s2, o2)" by force
    have m1: "moves s s1"
      by (rule append_next_event_moves [OF a1]) (use st in \<open>auto simp: client_moves_def queued_states_def\<close>)
    have m2: "moves s s2"
      by (rule moves_restated [OF append_next_event_jobs [OF a1] append_next_event_jobs [OF a2]])
         (use st in \<open>auto simp: client_moves_def queued_states_def\<close>)
    show ?thesis
      using m1 m2 lj by (auto simp: cancel_before_handoff_def Inr a1 a2 queued_states_def split: sum.splits)
  qed (auto simp: cancel_before_handoff_def Inr split: option.splits)
qed (simp add: cancel_before_handoff_def)

lemma moves_reconciliation [simp]: "moves s (s1\<lparr>job_reconciliation := u\<rparr>) = moves s s1"
  by (simp add: moves_def)

lemma moves_cancel:
  assumes wf: "db_wf s"
  shows "moves s (fst (request_cancel x e1 e2 j t s))"
proof (cases "get_job x s j")
  case (Inr found)
  show ?thesis
  proof (cases "\<exists>lj. found = Some lj \<and> lj_state lj \<in> set cancellable_native_states")
    case True
    then obtain lj where lj: "found = Some lj" "lj_state lj \<in> set cancellable_native_states" by blast
    obtain s1 o1 where a1: "append_next_event x e1 j ''cancel_requested'' (Some ''cancelled_by_server'')
      (Some ''Cancellation requested after native handoff'') ''{}'' t s = (s1, o1)" by force
    have "moves s s1"
      by (rule append_next_event_moves [OF a1])
         (use queried_row_state [OF wf Inr [unfolded lj(1)]] lj(2) in
           \<open>auto simp: client_moves_def cancellable_native_states_def\<close>)
    then show ?thesis
      using lj(2) moves_cancel_before [OF wf]
      by (auto simp: request_cancel_def Inr lj(1) a1 split: sum.splits)
  qed (use moves_cancel_before [OF wf] in \<open>auto simp: request_cancel_def Inr split: option.splits\<close>)
qed (simp add: request_cancel_def)

lemma expire_each_jobs:
  "\<exists>f. jobs (fst (expire_each x fresh t js s)) = map f (jobs s) \<and> (\<forall>r. row_core (f r) = row_core r \<and>
     (jr_state (f r) = jr_state r \<or> jr_job_id r \<in> set js \<and> jr_state (f r) = ''expired''))"
proof (induction js arbitrary: s)
  case (Cons j js)
  obtain s1 o1 where a: "append_next_event x (fresh j) j ''expired'' (Some ''expired_before_handoff'')
    (Some ''Job expired before native submission'') ''{}'' t s = (s1, o1)" by force
  then have e: "append_event x (fresh j) j (next_event_sequence j s) ''expired'' (Some ''expired_before_handoff'')
    (Some ''Job expired before native submission'') ''{}'' t s = (s1, map_sum id (\<lambda>_. ()) o1)"
    by (auto simp: append_next_event_def Let_def split: prod.splits sum.splits)
  obtain g where g: "jobs s1 = map g (jobs s)" "g = id \<or> g = restate j ''expired'' t"
    using append_next_event_jobs [OF a] by (metis list.map_id)
  obtain f where f: "jobs (fst (expire_each x fresh t js s1)) = map f (jobs s1)"
    "\<forall>r. row_core (f r) = row_core r \<and>
      (jr_state (f r) = jr_state r \<or> jr_job_id r \<in> set js \<and> jr_state (f r) = ''expired'')"
    using Cons.IH by blast
  show ?case
  proof (cases o1)
    case Inl
    then have "fst (expire_each x fresh t (j # js) s) = s1" by (simp add: e)
    with g show ?thesis by (intro exI [of _ g]) (auto split: if_splits)
  next
    case Inr
    then have "fst (expire_each x fresh t (j # js) s) = fst (expire_each x fresh t js s1)" by (simp add: e)
    moreover have "row_core (f (g r)) = row_core r \<and> (jr_state (f (g r)) = jr_state r \<or>
        jr_job_id r \<in> set (j # js) \<and> jr_state (f (g r)) = ''expired'')" for r
      using f(2) [rule_format, of "g r"] g(2) by (elim disjE) (auto split: if_splits)
    ultimately show ?thesis using f(1) g(1) by (intro exI [of _ "f \<circ> g"]) simp
  qed
qed (auto intro: exI [of _ id])

lemma moves_expire:
  assumes wf: "db_wf s" and scan: "\<And>rows. mset (scan rows) = mset rows"
  shows "moves s (fst (expire_waiting x scan fresh t s))"
proof -
  let ?due = "filter (expired_waiting t) (jobs s)"
  obtain f where f: "jobs (fst (expire_each x fresh t (map jr_job_id (scan ?due)) s)) = map f (jobs s)"
    "\<forall>r. row_core (f r) = row_core r \<and> (jr_state (f r) = jr_state r \<or>
      jr_job_id r \<in> set (map jr_job_id (scan ?due)) \<and> jr_state (f r) = ''expired'')"
    using expire_each_jobs by blast
  have set: "set (scan ?due) = set ?due" using scan [of ?due] by (metis set_mset_mset)
  have due: "jr_state r \<in> set queued_states"
    if r: "r \<in> set (jobs s)" "jr_job_id r \<in> set (map jr_job_id (scan ?due))" for r
  proof -
    obtain q where "q \<in> set (jobs s)" "expired_waiting t q" "jr_job_id q = jr_job_id r"
      using r(2) set by auto
    moreover from this have "q = r"
      using wf r(1) by (auto simp: db_wf_def jobs_ok_def distinct_map inj_on_def)
    ultimately show ?thesis by (simp add: expired_waiting_def)
  qed
  have "fst (expire_waiting x scan fresh t s) = fst (expire_each x fresh t (map jr_job_id (scan ?due)) s)"
    by (simp add: expire_waiting_def Let_def split: prod.splits sum.splits)
  moreover have "moves s (fst (expire_each x fresh t (map jr_job_id (scan ?due)) s))"
  proof (rule moves_map [OF f(1)])
    fix r assume r: "r \<in> set (jobs s)" "jr_state (f r) \<noteq> jr_state r"
    then have e: "jr_job_id r \<in> set (map jr_job_id (scan ?due))" "jr_state (f r) = ''expired''"
      using f(2) by blast+
    from due [OF r(1) e(1)] show "(jr_state r, jr_state (f r)) \<in> client_moves"
      unfolding e(2) by (auto simp: client_moves_def queued_states_def)
  qed (use f(2) in simp)
  ultimately show ?thesis by simp
qed

section \<open>Admission\<close>

lemma moves_inserted:
  assumes "insert_accepted_job x job facts st cm conf s = Inr s1" and "jobs s' = jobs s1"
  shows "moves s s'"
  by (rule insert_accepted_job_Inr [OF assms(1)])
     (rule moves_insert, use assms(2) in \<open>auto simp: new_job_row_def\<close>)

lemma moves_accept: "moves s (fst (accept_job_with_facts x eid job facts s))"
proof -
  have tx: "moves s s'" if run: "accept_job_tx x eid job facts s = Inr (s', res)" for s' res
  proof -
    from run consider "s' = s" | s1 where
      "insert_accepted_job x job facts ''queued_local'' (aj_cloud_managed job) False s = Inr s1"
      "\<exists>e. append_event_tx x e s1 = Inr s'"
      unfolding accept_job_tx_def by (auto simp: and_then_eq_Inr split: option.splits if_splits)
    then show ?thesis by cases (auto dest: append_event_tx_frame(1) intro: moves_inserted)
  qed
  show ?thesis
    unfolding accept_job_with_facts_def
    by (auto simp: fst_read_back split: sum.splits intro!: moves_tx intro: tx)
qed

lemma upserts_jobs:
  "upsert_cloud_accept_intent lj lid ltok ex route t s = Inr s' \<Longrightarrow> jobs s' = jobs s"
  "upsert_cloud_route_proof j route s = Inr s' \<Longrightarrow> jobs s' = jobs s"
  by (auto simp: upsert_cloud_accept_intent_def upsert_cloud_route_proof_def and_then_eq_Inr
      ensure_eq_Inr Let_def split: if_splits option.splits)

lemma moves_prepare: "moves s (fst (prepare_cloud_job_with_facts x job lid ltok ex route facts s))"
proof -
  have again: "moves s s'"
    if run: "prepare_again job lid ltok ex route facts lj s = Inr (s', res)" for lj s' res
  proof -
    have "jobs s' = jobs (snd (update_jobs (preparable job) (pending_again job facts) s))"
      using run unfolding prepare_again_def
      by (auto simp: Let_def update_jobs_pair and_then_eq_Inr split: if_splits dest!: upserts_jobs)
    then show ?thesis
      by (rule moves_update) (auto simp: pending_again_def preparable_def client_moves_def row_core_def)
  qed
  have old: "moves s s'"
    if "prepare_existing job lid ltok ex route facts lj s = Inr (s', res)" for lj s' res
    using that again unfolding prepare_existing_def
    by (auto simp: Let_def and_then_eq_Inr split: if_splits)
  have new: "moves s s'" if "prepare_new x job lid ltok ex route facts s = Inr (s', res)" for s' res
    using that unfolding prepare_new_def
    by (auto simp: and_then_eq_Inr split: option.splits dest!: upserts_jobs elim!: moves_inserted)
  show ?thesis
    unfolding prepare_cloud_job_with_facts_def
    by (auto simp: fst_read_back and_then_eq_Inr split: sum.splits option.splits
        intro!: moves_tx) (erule old, erule new)
qed

lemma moves_activate:
  assumes wf: "db_wf s"
  shows "moves s (fst (activate_cloud_job x eid j t s))"
  unfolding activate_cloud_job_def fst_read_back
proof (rule moves_tx)
  fix s' res assume act: "activate_cloud_job_tx x eid j t s = Inr (s', res)"
  show "moves s s'"
  proof (cases res)
    case None
    from act [unfolded None] show ?thesis
    proof (rule activate_cloud_job_tx_new)
      fix lj s1
      assume lj: "query_job x s j = Inr (Some lj)" "lj_state lj = ''cloud_accept_pending''"
        and app: "append_event_tx x (mk_event eid j (next_event_sequence j s) ''queued_local'' None
          (Some ''Job is durable in the local queue'') ''{}'' t)
          (snd (update_jobs (\<lambda>r. jr_job_id r = j \<and> True)
            (\<lambda>r. r\<lparr>jr_state := ''queued_local'', jr_updated_unix_ms := t\<rparr>) s)) = Inr s1"
        and s': "s' = s1\<lparr>cloud_accept_intents := sql_delete (\<lambda>r. in_job_id r = j) (cloud_accept_intents s1)\<rparr>"
      have "jr_state r = ''cloud_accept_pending''" if "r \<in> set (jobs s)" "jr_job_id r = j" for r
        using queried_row_state [OF wf _ that] lj by (simp add: get_job_def)
      then show ?thesis
        using append_event_tx_frame(1) [OF app] s'
        by (intro moves_update [where p = "\<lambda>r. jr_job_id r = j \<and> True"
              and g = "\<lambda>r. r\<lparr>jr_state := ''queued_local'', jr_updated_unix_ms := t\<rparr>"])
           (auto simp: client_moves_def)
    qed
  next
    case (Some lj)
    with act have "s' = s"
      by (auto simp: activate_cloud_job_tx_def and_then_eq_Inr Let_def split_beta
          split: option.splits if_splits)
    then show ?thesis by simp
  qed
qed

text \<open>A job that is given back: its row goes from \<open>cloud_accept_pending\<close> to \<open>cancelled\<close>.\<close>

definition gives_back :: "agent_db \<Rightarrow> agent_db \<Rightarrow> bool" where
  "gives_back s s' \<longleftrightarrow> (\<exists>f. jobs s' = map f (jobs s) \<and> (\<forall>r. row_core (f r) = row_core r \<and>
     (jr_state (f r) = jr_state r \<or> jr_state r = ''cloud_accept_pending'' \<and> jr_state (f r) = ''cancelled'')))"

lemma gives_back_moves:
  assumes "gives_back s s'"
  shows "moves s s'"
proof -
  obtain f where f: "jobs s' = map f (jobs s)" "\<And>r. row_core (f r) = row_core r"
    "\<And>r. jr_state (f r) = jr_state r \<or> jr_state r = ''cloud_accept_pending'' \<and> jr_state (f r) = ''cancelled''"
    using assms unfolding gives_back_def by blast
  have "(jr_state r, jr_state (f r)) \<in> client_moves" if "jr_state (f r) \<noteq> jr_state r" for r
    using f(3) [of r] that by (simp add: client_moves_def)
  then show ?thesis by (intro moves_map [OF f(1,2)])
qed

lemma gives_back_jobs: "jobs s' = jobs s \<Longrightarrow> gives_back s s'"
  unfolding gives_back_def by (intro exI [of _ id]) simp

lemma gives_back_trans:
  assumes "gives_back s s1" "gives_back s1 s2"
  shows "gives_back s s2"
proof -
  obtain f g where f: "jobs s1 = map f (jobs s)" "\<forall>r. row_core (f r) = row_core r \<and>
     (jr_state (f r) = jr_state r \<or> jr_state r = ''cloud_accept_pending'' \<and> jr_state (f r) = ''cancelled'')"
    and g: "jobs s2 = map g (jobs s1)" "\<forall>r. row_core (g r) = row_core r \<and>
     (jr_state (g r) = jr_state r \<or> jr_state r = ''cloud_accept_pending'' \<and> jr_state (g r) = ''cancelled'')"
    using assms unfolding gives_back_def by blast
  have "row_core (g (f r)) = row_core r \<and> (jr_state (g (f r)) = jr_state r \<or>
     jr_state r = ''cloud_accept_pending'' \<and> jr_state (g (f r)) = ''cancelled'')" for r
    using f(2) [rule_format, of r] g(2) [rule_format, of "f r"] by auto
  then show ?thesis
    unfolding gives_back_def using f(1) g(1) by (intro exI [of _ "g \<circ> f"]) simp
qed

lemma gives_back_row: "gives_back s (cancel_pending_row j t s)"
  unfolding gives_back_def cancel_pending_row_def
  by (intro exI [of _ "\<lambda>r. if jr_job_id r = j \<and> jr_state r = ''cloud_accept_pending''
        then r\<lparr>jr_state := ''cancelled'', jr_updated_unix_ms := t\<rparr> else r"]) simp

lemma insert_cleanup_jobs: "insert_cleanup c t s = Inr s' \<Longrightarrow> jobs s' = jobs s"
  by (auto simp: insert_cleanup_def split: if_splits)

lemma gives_back_one: "quarantine_one t c s = Inr s' \<Longrightarrow> gives_back s s'"
  by (auto simp: quarantine_one_def and_then_eq_Inr intro!: gives_back_trans [OF gives_back_jobs gives_back_row]
      dest: insert_cleanup_jobs)

lemma gives_back_rows: "quarantine_rows t cs s = Inr s' \<Longrightarrow> gives_back s s'"
proof (induction cs arbitrary: s)
  case (Cons c cs)
  then obtain s1 where "quarantine_one t c s = Inr s1" "quarantine_rows t cs s1 = Inr s'"
    by (auto simp: and_then_eq_Inr)
  then show ?case using Cons.IH gives_back_one gives_back_trans by blast
qed (simp add: gives_back_jobs)

lemma gives_back_loop: "quarantine_loop t s = Inr s' \<Longrightarrow> gives_back s s'"
proof (induction t s rule: quarantine_loop.induct)
  case (1 t s)
  show ?case
  proof (cases "proofless_batch s = []")
    case False
    with "1.prems" obtain s1 where s1: "quarantine_rows t (proofless_batch s) s = Inr s1" "quarantine_loop t s1 = Inr s'"
      by (subst (asm) quarantine_loop.simps) (auto split: sum.splits)
    show ?thesis by (rule gives_back_trans [OF gives_back_rows [OF s1(1)] "1.IH" [OF False s1]])
  qed (use "1.prems" in \<open>subst (asm) quarantine_loop.simps, simp add: gives_back_jobs\<close>)
qed

lemma moves_give_back:
  assumes wf: "db_wf s"
  shows "moves s (fst (quarantine_invalid_cloud_accepts t s))"
    "moves s (fst (quarantine_prepared_cloud_accept j reason t s))"
    "moves s (fst (abandon_cloud_accept x j t s))"
proof -
  show "moves s (fst (quarantine_invalid_cloud_accepts t s))"
    unfolding quarantine_invalid_cloud_accepts_def
    by (auto simp: transaction_def and_then_eq_Inr intro: gives_back_moves gives_back_loop
        split: prod.splits sum.splits)
  show "moves s (fst (quarantine_prepared_cloud_accept j reason t s))"
    unfolding quarantine_prepared_cloud_accept_def
    by (cases "reason = [] \<or> 128 < length reason", simp, simp only: if_False,
        rule gives_back_moves, rule transaction_invariant [where P = "gives_back s"])
       (auto simp: gives_back_jobs and_then_eq_Inr Let_def split: option.splits dest!: insert_cleanup_jobs
         intro!: gives_back_trans [OF gives_back_jobs gives_back_row])
  show "moves s (fst (abandon_cloud_accept x j t s))"
    unfolding abandon_cloud_accept_def
  proof (rule moves_tx, goal_cases)
    case (1 s' u)
    then consider "s' = s" | lj where "get_job x s j = Inr (Some lj)" "lj_state lj = ''cloud_accept_pending''"
      "jobs s' = jobs (snd (update_jobs (\<lambda>r. jr_job_id r = j)
        (\<lambda>r. r\<lparr>jr_state := ''cancelled'', jr_updated_unix_ms := t\<rparr>) s))"
      by (auto simp: and_then_eq_Inr Let_def update_jobs_pair get_job_def split: option.splits if_splits)
    then show ?case
    proof cases
      case 2
      show ?thesis
        by (rule moves_update [OF 2(3)])
           (use queried_row_state [OF wf 2(1)] 2(2) in \<open>auto simp: client_moves_def\<close>)
    qed simp
  qed
qed

lemma moves_reclaim:
  "moves s (fst (claim_reclaimable_terminal_content n s))"
  "moves s (fst (mark_terminal_content_reclaimed h p s))"
proof -
  have each: "jobs (fst (claim_each cs s)) = jobs s" for cs s
    by (induction cs arbitrary: s) (simp_all add: Let_def split_beta set_reclaiming_pair)
  show "moves s (fst (claim_reclaimable_terminal_content n s))"
    by (rule moves_same) (simp add: claim_reclaimable_terminal_content_def Let_def split_beta each)
  show "moves s (fst (mark_terminal_content_reclaimed h p s))"
    unfolding mark_terminal_content_reclaimed_def
    by (rule moves_tx) (auto simp: Let_def split_beta set_reclaiming_pair moves_same split: if_splits)
qed

lemma moves_pin: "moves s (fst (pin_job_profile x j target binding profile revision stock media s))"
  by (rule pin_job_profile_cases) (auto intro: moves_same)

lemma client_step_moves: "client_step x s s' \<Longrightarrow> db_wf s \<Longrightarrow> moves s s'"
  by (induction rule: client_step.induct)
     (rule moves_accept moves_quiet moves_prepare moves_activate moves_give_back moves_handoff
        moves_cancel_before moves_cancel moves_expire moves_reclaim moves_pin; assumption)+

end
