(* ===== verification/Ordered_Map.thy ===== *)
theory Ordered_Map
  imports Prelude
begin

text \<open>
  \<open>BTreeMap\<close>: the list of its entries in the order of the keys, which is the order in which the
  sources iterate. \<open>get\<close> is \<open>map_of\<close>; the other functions are the methods the sources call. The
  invariant \<open>btree_ok\<close> is that the keys ascend strictly.
\<close>

type_synonym ('k, 'v) btree = "('k \<times> 'v) list"

named_theorems btree_simps \<open>lookups, membership and lengths of ordered maps\<close>

fun btree_insert :: "'k::linorder \<Rightarrow> 'v \<Rightarrow> ('k, 'v) btree \<Rightarrow> ('k, 'v) btree" where
  "btree_insert k v [] = [(k, v)]"
| "btree_insert k v ((k', v') # m) =
     (if k < k' then (k, v) # (k', v') # m
      else if k = k' then (k, v) # m
      else (k', v') # btree_insert k v m)"

definition btree_remove :: "'k \<Rightarrow> ('k, 'v) btree \<Rightarrow> ('k, 'v) btree" where
  "btree_remove k m = filter (\<lambda>(k', v). k' \<noteq> k) m"

definition btree_retain :: "('v \<Rightarrow> bool) \<Rightarrow> ('k, 'v) btree \<Rightarrow> ('k, 'v) btree" where
  "btree_retain p m = filter (\<lambda>(k, v). p v) m"

definition contains_key :: "'k \<Rightarrow> ('k, 'v) btree \<Rightarrow> bool" where
  "contains_key k m = (map_of m k \<noteq> None)"

definition btree_values :: "('k, 'v) btree \<Rightarrow> 'v list" where
  "btree_values m = map snd m"

definition btree_ok :: "('k::linorder, 'v) btree \<Rightarrow> bool" where
  "btree_ok m = sorted_wrt (<) (map fst m)"

lemma btree_ok_Nil [simp]: "btree_ok []"
  by (simp add: btree_ok_def)

lemma btree_ok_distinct: "btree_ok m \<Longrightarrow> distinct (map fst m)"
  by (simp add: btree_ok_def strict_sorted_iff)

lemma btree_get_iff:
  "btree_ok m \<Longrightarrow> map_of m k = Some v \<longleftrightarrow> (k, v) \<in> set m"
  by (simp add: btree_ok_distinct)

lemma set_btree_keys_insert: "fst ` set (btree_insert k v m) = insert k (fst ` set m)"
  by (induction k v m rule: btree_insert.induct) (simp_all add: insert_commute)

lemma btree_ok_insert [simp]: "btree_ok m \<Longrightarrow> btree_ok (btree_insert k v m)"
proof (induction m)
  case Nil
  then show ?case by (simp add: btree_ok_def)
next
  case (Cons e m)
  obtain k' v' where e: "e = (k', v')" by (cases e)
  have tail: "btree_ok m" and above: "\<forall>q\<in>fst ` set m. k' < q"
    using Cons.prems by (auto simp: btree_ok_def e)
  have "\<forall>q\<in>fst ` set (btree_insert k v m). k' < q" if "k' < k"
    using above that by (simp add: set_btree_keys_insert)
  then show ?case
    using Cons.IH [OF tail] Cons.prems by (force simp: btree_ok_def e)
qed

lemma btree_ok_filter [simp]: "btree_ok m \<Longrightarrow> btree_ok (filter p m)"
  by (induction m) (auto simp: btree_ok_def)

lemma btree_ok_remove [simp]: "btree_ok m \<Longrightarrow> btree_ok (btree_remove k m)"
  by (simp add: btree_remove_def)

lemma btree_ok_retain [simp]: "btree_ok m \<Longrightarrow> btree_ok (btree_retain p m)"
  by (simp add: btree_retain_def)

lemma btree_ok_map [simp]: "btree_ok (map (\<lambda>(k, v). (k, f k v)) m) = btree_ok m"
  by (simp add: btree_ok_def comp_def case_prod_unfold)

lemma btree_get_insert [btree_simps]:
  "btree_ok m \<Longrightarrow> map_of (btree_insert k v m) = (map_of m)(k \<mapsto> v)"
proof (induction m)
  case (Cons e m)
  obtain k' v' where e: "e = (k', v')" by (cases e)
  have "btree_ok m" using Cons.prems by (simp add: btree_ok_def)
  with Cons.IH show ?case by (auto simp: e fun_eq_iff)
qed simp

lemma btree_get_remove [btree_simps]: "map_of (btree_remove k m) = (map_of m)(k := None)"
  by (induction m) (auto simp: btree_remove_def)

lemma set_btree_remove [btree_simps]: "set (btree_remove k m) = {e \<in> set m. fst e \<noteq> k}"
  by (auto simp: btree_remove_def)

lemma set_btree_retain [btree_simps]: "set (btree_retain p m) = {e \<in> set m. p (snd e)}"
  by (auto simp: btree_retain_def)

lemma set_btree_values [btree_simps]: "set (btree_values m) = snd ` set m"
  by (simp add: btree_values_def)

lemma contains_key_iff [btree_simps]: "contains_key k m \<longleftrightarrow> k \<in> fst ` set m"
  by (simp add: contains_key_def map_of_eq_None_iff)

lemma set_btree_insert [btree_simps]:
  assumes "btree_ok m"
  shows "set (btree_insert k v m) = insert (k, v) {e \<in> set m. fst e \<noteq> k}"
proof -
  have "(q, w) \<in> set (btree_insert k v m) \<longleftrightarrow> (q, w) \<in> insert (k, v) {e \<in> set m. fst e \<noteq> k}" for q w
    using btree_get_iff [of "btree_insert k v m" q w] btree_get_iff [OF assms, of q w] assms
    by (auto simp: btree_get_insert [OF assms] split: if_splits)
  then show ?thesis by auto
qed

lemma length_btree_insert [btree_simps]:
  assumes "btree_ok m"
  shows "length (btree_insert k v m) = (if contains_key k m then length m else Suc (length m))"
proof -
  have card: "length t = card (fst ` set t)" if "btree_ok t" for t :: "('a, 'b) btree"
    using distinct_card [OF btree_ok_distinct [OF that]] by simp
  show ?thesis
    using card [OF assms] card [OF btree_ok_insert [OF assms]]
    by (simp add: set_btree_keys_insert contains_key_iff card_insert_if)
qed

lemma length_btree_remove_le: "length (btree_remove k m) \<le> length m"
  by (simp add: btree_remove_def)

lemma length_btree_retain_le: "length (btree_retain p m) \<le> length m"
  by (simp add: btree_retain_def)

text \<open>\<open>values().find\<close>: the first value in key order.\<close>

definition find_value :: "('v \<Rightarrow> bool) \<Rightarrow> ('k, 'v) btree \<Rightarrow> 'v option" where
  "find_value p m = find p (btree_values m)"

lemma find_member: "find p xs = Some x \<Longrightarrow> x \<in> set xs \<and> p x"
  by (auto simp: find_Some_iff)

lemma find_value_SomeD: "find_value p m = Some v \<Longrightarrow> (\<exists>k. (k, v) \<in> set m) \<and> p v"
  using find_member [of p "btree_values m" v] by (force simp: find_value_def btree_values_def)

lemma find_value_None: "find_value p m = None \<longleftrightarrow> (\<forall>e\<in>set m. \<not> p (snd e))"
  by (auto simp: find_value_def btree_values_def find_None_iff)

end
