(* ===== verification/Domain_Printer.thy ===== *)
theory Domain_Printer
  imports Ordered_Map
begin

text \<open>
  The printer part of the shared domain types (\<open>crates/domain/src/printer.rs\<close> and, of
  \<open>crates/domain/src/profile.rs\<close>, kinds, states and driver fingerprints): native options of a driver with the contract that
  \<open>PrinterCapabilityProfile::validate\<close> checks, and the names of profile kinds and states.
\<close>

definition PRINTER_PROFILE_SCHEMA_VERSION :: nat where "PRINTER_PROFILE_SCHEMA_VERSION = 1"

record NativePrinterChoice =
  ch_value :: string
  ch_display_name :: string

record NativePrinterOption =
  po_display_name :: string
  po_default_choice :: "string option"
  po_selected_choice :: "string option"
  po_choices :: "NativePrinterChoice list"

text \<open>
  The portable capabilities are not inspected by the contract: a profile is its schema version and
  the \<open>BTreeMap\<close> of native options.
\<close>

record PrinterCapabilityProfile =
  cp_schema_version :: nat
  cp_native_options :: "(string \<times> NativePrinterOption) list"

definition draft :: "(string \<times> NativePrinterOption) list \<Rightarrow> PrinterCapabilityProfile" where
  "draft native_options =
     \<lparr>cp_schema_version = PRINTER_PROFILE_SCHEMA_VERSION, cp_native_options = native_options\<rparr>"

datatype PrinterProfileError =
    UnsupportedSchema nat
  | EmptyOptionKey
  | EmptyOptionName string
  | InvalidChoice string
  | UnknownDefault string
  | UnknownSelection string

fun printer_profile_error_display :: "PrinterProfileError \<Rightarrow> string" where
  "printer_profile_error_display (UnsupportedSchema n) =
     ''printer profile schema '' @ show_nat n @ '' is unsupported''"
| "printer_profile_error_display EmptyOptionKey = ''native printer option key cannot be empty''"
| "printer_profile_error_display (EmptyOptionName k) =
     ''native printer option '' @ k @ '' has an empty display name''"
| "printer_profile_error_display (InvalidChoice k) =
     ''native printer option '' @ k @ '' has an empty or duplicate choice''"
| "printer_profile_error_display (UnknownDefault k) =
     ''native printer option '' @ k @ '' has a default absent from its choices''"
| "printer_profile_error_display (UnknownSelection k) =
     ''native printer option '' @ k @ '' has a selection absent from its choices''"

text \<open>The set of values that the loop over the choices has inserted so far is \<open>seen\<close>.\<close>

fun collect_choices ::
  "string \<Rightarrow> string list \<Rightarrow> NativePrinterChoice list \<Rightarrow> PrinterProfileError + string list" where
  "collect_choices key seen [] = Inr seen"
| "collect_choices key seen (choice # choices) =
     (if str_trim (ch_value choice) = [] \<or> ch_value choice \<in> set seen then Inl (InvalidChoice key)
      else collect_choices key (ch_value choice # seen) choices)"

definition known_choice :: "NativePrinterOption \<Rightarrow> string list \<Rightarrow> string option \<Rightarrow> bool" where
  "known_choice opt values choice =
     (case choice of None \<Rightarrow> True | Some v \<Rightarrow> po_choices opt = [] \<or> v \<in> set values)"

definition validate_option :: "string \<times> NativePrinterOption \<Rightarrow> PrinterProfileError + unit" where
  "validate_option entry = (case entry of (key, opt) \<Rightarrow>
     if str_trim key = [] then Inl EmptyOptionKey
     else if str_trim (po_display_name opt) = [] then Inl (EmptyOptionName key)
     else and_then (collect_choices key [] (po_choices opt)) (\<lambda>values.
       if \<not> known_choice opt values (po_default_choice opt) then Inl (UnknownDefault key)
       else if \<not> known_choice opt values (po_selected_choice opt) then Inl (UnknownSelection key)
       else Inr ()))"

definition validate_capability_profile :: "PrinterCapabilityProfile \<Rightarrow> PrinterProfileError + unit" where
  "validate_capability_profile self =
     (if cp_schema_version self \<noteq> PRINTER_PROFILE_SCHEMA_VERSION
      then Inl (UnsupportedSchema (cp_schema_version self))
      else try_each validate_option (cp_native_options self))"

section \<open>Kinds and states of profiles\<close>

datatype NativeProfileKind =
    PortableOptions | WindowsDevmode | WindowsPrintTicket | MacosPrintcore | CupsOptions
  | CupsInstance | NativeQueue

fun native_kind_name :: "NativeProfileKind \<Rightarrow> string" where
  "native_kind_name PortableOptions = ''portable_options''"
| "native_kind_name WindowsDevmode = ''windows_devmode''"
| "native_kind_name WindowsPrintTicket = ''windows_print_ticket''"
| "native_kind_name MacosPrintcore = ''macos_printcore''"
| "native_kind_name CupsOptions = ''cups_options''"
| "native_kind_name CupsInstance = ''cups_instance''"
| "native_kind_name NativeQueue = ''native_queue''"

definition native_kind_of :: "string \<Rightarrow> NativeProfileKind option" where
  "native_kind_of name = find (\<lambda>k. native_kind_name k = name)
     [PortableOptions, WindowsDevmode, WindowsPrintTicket, MacosPrintcore, CupsOptions,
      CupsInstance, NativeQueue]"

datatype ProfileStatus =
    Draft | Capturing | Ready | NeedsTest | Stale | DriverMismatch | DestinationMissing
  | DependencyMissing | InteractiveOnly | Invalid | Retired

fun profile_status_name :: "ProfileStatus \<Rightarrow> string" where
  "profile_status_name Draft = ''draft''"
| "profile_status_name Capturing = ''capturing''"
| "profile_status_name Ready = ''ready''"
| "profile_status_name NeedsTest = ''needs_test''"
| "profile_status_name Stale = ''stale''"
| "profile_status_name DriverMismatch = ''driver_mismatch''"
| "profile_status_name DestinationMissing = ''destination_missing''"
| "profile_status_name DependencyMissing = ''dependency_missing''"
| "profile_status_name InteractiveOnly = ''interactive_only''"
| "profile_status_name Invalid = ''invalid''"
| "profile_status_name Retired = ''retired''"

definition profile_status_of :: "string \<Rightarrow> ProfileStatus option" where
  "profile_status_of name = find (\<lambda>s. profile_status_name s = name)
     [Draft, Capturing, Ready, NeedsTest, Stale, DriverMismatch, DestinationMissing,
      DependencyMissing, InteractiveOnly, Invalid, Retired]"

definition permits_jobs :: "ProfileStatus \<Rightarrow> bool" where
  "permits_jobs s = (s \<notin> {Capturing, Invalid, Retired})"

record DriverFingerprint =
  df_platform :: string
  df_driver_name :: string
  df_driver_version :: "string option"
  df_architecture :: "string option"
  df_native_queue_id :: string
  df_device_fingerprint :: "string option"
  df_driver_package_fingerprint :: "string option"
  df_firmware_version :: "string option"

section \<open>The contract of native options\<close>

lemma collect_choices_Inr:
  "collect_choices key seen choices = Inr values \<longleftrightarrow>
     values = rev (map ch_value choices) @ seen \<and> distinct (map ch_value choices) \<and>
     set (map ch_value choices) \<inter> set seen = {} \<and>
     (\<forall>c\<in>set choices. str_trim (ch_value c) \<noteq> [])"
  by (induction choices arbitrary: seen) auto

lemma native_kind_of_name [simp]: "native_kind_of (native_kind_name k) = Some k"
  by (cases k) (simp_all add: native_kind_of_def)

lemma native_kind_of_Some: "native_kind_of name = Some k \<longleftrightarrow> name = native_kind_name k"
proof
  assume "native_kind_of name = Some k"
  then show "name = native_kind_name k"
    unfolding native_kind_of_def by (rule find_keyD [THEN conjunct2, symmetric])
qed simp

text \<open>
  Exactly the option tables are accepted in which every key and display name is non-blank, the
  choices of an option are non-blank and pairwise different, and a default or a selection is one
  of the choices, if there are any.
\<close>

lemma validate_option_ok_iff:
  "validate_option (key, opt) = Inr () \<longleftrightarrow>
     str_trim key \<noteq> [] \<and> str_trim (po_display_name opt) \<noteq> [] \<and>
     distinct (map ch_value (po_choices opt)) \<and>
     (\<forall>c\<in>set (po_choices opt). str_trim (ch_value c) \<noteq> []) \<and>
     (\<forall>v. v \<in> set_option (po_default_choice opt) \<union> set_option (po_selected_choice opt) \<longrightarrow>
        po_choices opt = [] \<or> v \<in> ch_value ` set (po_choices opt))"
proof (cases "collect_choices key [] (po_choices opt)")
  case (Inl e)
  then have "\<not> (distinct (map ch_value (po_choices opt)) \<and>
      (\<forall>c\<in>set (po_choices opt). str_trim (ch_value c) \<noteq> []))"
    using collect_choices_Inr [of key "[]" "po_choices opt"] by auto
  with Inl show ?thesis by (auto simp: validate_option_def)
next
  case (Inr vals)
  then have v: "vals = rev (map ch_value (po_choices opt))"
    "distinct (map ch_value (po_choices opt))"
    "\<forall>c\<in>set (po_choices opt). str_trim (ch_value c) \<noteq> []"
    using collect_choices_Inr [of key "[]" "po_choices opt" vals] by auto
  then show ?thesis
    by (auto simp: validate_option_def Inr known_choice_def split: option.splits)
qed

end
