(* ===== verification/Agent_Inventory.thy ===== *)
theory Agent_Inventory
  imports Agent_Schema Domain_Job Domain_Printer
begin

text \<open>
  The inventory tables of the durable agent store (\<open>crates/agent-storage/src/lib.rs\<close>): settings
  and failure counters, discovered printers with their capability snapshots, physical devices,
  stock, loaded media, targets and target bindings. The named profiles are in \<open>Agent_Profiles\<close>.

  \<^item> The tables of this part are disjoint from those of the job queue, so they are a record of
    their own; tables, constraints and transactions are modelled as in \<open>Agent_Schema\<close>.
  \<^item> An unsigned column is a natural number; a value that does not fit into SQLite's \<open>i64\<close> is
    refused when it is written.
  \<^item> \<open>inv_ext\<close> holds the decoders and encoders of \<open>serde_json\<close> and SHA-256.
  \<^item> The time that \<open>SQLite\<close> writes into \<open>settings.updated_unix_ms\<close> is never read and is left out.
\<close>

section \<open>Rows\<close>

record printer_row =
  pt_printer_id :: string
  pt_native_id :: string
  pt_name :: string
  pt_state :: string
  pt_is_default :: bool
  pt_present :: bool
  pt_observed_unix_ms :: int

record capability_row =
  ca_printer_id :: string
  ca_revision :: string
  ca_capabilities_json :: string
  ca_observed_unix_ms :: int

record exposure_row =
  ex_printer_id :: string
  ex_exposed :: bool
  ex_updated_unix_ms :: int

text \<open>A row of \<open>printer_capability_snapshots\<close> has the fields of the value that is read from it.\<close>

record StoredPrinterProfile =
  sp_printer_id :: string
  sp_revision :: nat
  sp_schema_version :: nat
  sp_portable_json :: string
  sp_native_options_json :: string
  sp_observed_unix_ms :: int

record StoredPrinter =
  st_printer_id :: string
  st_native_id :: string
  st_name :: string
  st_state :: string
  st_is_default :: bool
  st_present :: bool
  st_exposed :: bool
  st_capabilities_json :: string
  st_native_options_json :: string
  st_profile_revision :: nat
  st_observed_unix_ms :: int

record StoredNamedProfile =
  np_profile_id :: string
  np_printer_id :: string
  np_revision :: nat
  np_name :: string
  np_is_default :: bool
  np_options_json :: string
  np_status :: string
  np_native_kind :: string
  np_native_blob_id :: "string option"
  np_native_digest :: "string option"
  np_driver_fingerprint_json :: string
  np_summary_json :: string
  np_stock_id :: "string option"
  np_safe_overrides_json :: string
  np_last_validated_unix_ms :: "int option"
  np_last_test_job_id :: "string option"
  np_published :: bool
  np_uses_current_printer_defaults :: bool
  np_updated_unix_ms :: int

text \<open>A row of \<open>printer_profiles\<close> has the tombstone besides the fields that are read from it.\<close>

record named_profile_row = StoredNamedProfile +
  np_deleted :: bool

record StoredNativeProfileBlob =
  nb_blob_id :: string
  nb_profile_id :: string
  nb_profile_revision :: nat
  nb_native_kind :: string
  nb_schema_version :: nat
  nb_digest :: string
  nb_native_blob :: string
  nb_created_unix_ms :: int

record dependency_row =
  dp_profile_id :: string
  dp_profile_revision :: nat
  dp_dependency_index :: nat
  dp_kind :: string
  dp_value :: string

record StoredCaptureSession =
  cs_session_id :: string
  cs_printer_id :: string
  cs_profile_id :: "string option"
  cs_expected_revision :: "nat option"
  cs_operation :: string
  cs_status :: string
  cs_peer_user_id :: string
  cs_expires_unix_ms :: int
  cs_created_unix_ms :: int

record capture_session_row = StoredCaptureSession +
  cs_token_digest :: string
  cs_completed_unix_ms :: "int option"

record device_row =
  dv_device_id :: string
  dv_display_name :: string
  dv_hardware_fingerprint :: "string option"
  dv_identity_confidence :: string
  dv_metadata_json :: string
  dv_updated_unix_ms :: int

record device_binding_row =
  db_printer_id :: string
  db_device_id :: string
  db_binding_confidence :: string
  db_confirmed_by :: "string option"
  db_updated_unix_ms :: int

record StoredStock =
  sk_stock_id :: string
  sk_name :: string
  sk_sku :: "string option"
  sk_kind :: string
  sk_definition_json :: string
  sk_retired :: bool
  sk_updated_unix_ms :: int

record StoredLoadedMedia =
  lm_device_id :: string
  lm_source :: string
  lm_stock_id :: "string option"
  lm_confidence :: string
  lm_confirmed_unix_ms :: int
  lm_confirmed_by :: "string option"

record StoredTarget =
  tg_target_id :: string
  tg_name :: string
  tg_stock_id :: "string option"
  tg_routing_policy :: string
  tg_published :: bool
  tg_retired :: bool
  tg_updated_unix_ms :: int

record StoredTargetBinding =
  tb_binding_id :: string
  tb_target_id :: string
  tb_agent_id :: string
  tb_printer_id :: string
  tb_profile_id :: string
  tb_profile_revision :: nat
  tb_role :: string
  tb_priority :: nat
  tb_enabled :: bool
  tb_created_unix_ms :: int

section \<open>The inventory\<close>

record inventory =
  iv_settings :: "string \<rightharpoonup> string"
  iv_printers :: "printer_row list"
  iv_capabilities :: "capability_row list"
  iv_exposure :: "exposure_row list"
  iv_snapshots :: "StoredPrinterProfile list"
  iv_profiles :: "named_profile_row list"
  iv_blobs :: "StoredNativeProfileBlob list"
  iv_dependencies :: "dependency_row list"
  iv_sessions :: "capture_session_row list"
  iv_devices :: "device_row list"
  iv_device_bindings :: "device_binding_row list"
  iv_stocks :: "StoredStock list"
  iv_loaded_media :: "StoredLoadedMedia list"
  iv_targets :: "StoredTarget list"
  iv_target_bindings :: "StoredTargetBinding list"

definition empty_inventory :: inventory where
  "empty_inventory = \<lparr>iv_settings = Map.empty, iv_printers = [], iv_capabilities = [],
     iv_exposure = [], iv_snapshots = [], iv_profiles = [], iv_blobs = [], iv_dependencies = [],
     iv_sessions = [], iv_devices = [], iv_device_bindings = [], iv_stocks = [],
     iv_loaded_media = [], iv_targets = [], iv_target_bindings = []\<rparr>"

type_synonym 'a inv_tx = "inventory \<Rightarrow> StorageError + inventory \<times> 'a"
type_synonym 'a inv_op = "inventory \<Rightarrow> inventory \<times> (StorageError + 'a)"

text \<open>The display summary of a driver's defaults, before \<open>serde_json\<close> writes it.\<close>

datatype json_detail = DetailString string | DetailInt int

record ProfileSummary =
  su_paper :: "string option"
  su_source :: "string option"
  su_media :: "string option"
  su_color :: "string option"
  su_duplex :: "string option"
  su_resolution :: "string option"
  su_native :: "(string \<times> string) list"
  su_details :: "(string \<times> json_detail) list"

record inv_ext =
  json_valid :: "string \<Rightarrow> bool"
  json_of_string :: "string \<Rightarrow> string"
  string_of_json :: "string \<Rightarrow> string option"
  value_json_valid :: "string \<Rightarrow> bool"
  job_options_of_json :: "string \<Rightarrow> JobOptions option"
  job_options_to_json :: "JobOptions \<Rightarrow> string option"
  capabilities_json_valid :: "string \<Rightarrow> bool"
  native_options_of_json :: "string \<Rightarrow> (string \<times> NativePrinterOption) list option"
  summary_to_json :: "ProfileSummary \<Rightarrow> string option"
  fingerprint_json_valid :: "string \<Rightarrow> bool"
  summary_json_valid :: "string \<Rightarrow> bool"
  dependencies_of_json :: "string \<Rightarrow> (string \<times> string) list option"
  overrides_json_valid :: "string \<Rightarrow> bool"
  sha256_hex :: "string \<Rightarrow> string"

text \<open>\<open>trim\<close> of SQLite strips blanks; the \<open>CHECK\<close> clauses on names use it.\<close>

definition sql_trim :: "string \<Rightarrow> string" where
  "sql_trim s = rev (dropWhile (\<lambda>c. byte_of c = 32) (rev (dropWhile (\<lambda>c. byte_of c = 32) s)))"

definition some_or :: "'e \<Rightarrow> 'a option \<Rightarrow> 'e + 'a" where
  "some_or e v = (case v of None \<Rightarrow> Inl e | Some x \<Rightarrow> Inr x)"

lemma some_or_simps [simp]: "some_or e None = Inl e" "some_or e (Some x) = Inr x"
  by (simp_all add: some_or_def)

lemma some_or_eq_Inr [result_simps]: "some_or e v = Inr x \<longleftrightarrow> v = Some x"
  by (cases v) simp_all

definition printer_exists :: "string \<Rightarrow> inventory \<Rightarrow> bool" where
  "printer_exists printer_id s = sql_exists (\<lambda>r. pt_printer_id r = printer_id) (iv_printers s)"

section \<open>Settings and failure counters\<close>

definition setting :: "inv_ext \<Rightarrow> string \<Rightarrow> inventory \<Rightarrow> StorageError + string option" where
  "setting y key s =
     (case iv_settings s key of
        None \<Rightarrow> Inr None
      | Some encoded \<Rightarrow> and_then (some_or Json (string_of_json y encoded)) (\<lambda>v. Inr (Some v)))"

text \<open>
  The upsert that both writers of the table execute: the column has a \<open>CHECK (json_valid)\<close>.
\<close>

definition put_setting :: "inv_ext \<Rightarrow> string \<Rightarrow> string \<Rightarrow> inventory \<Rightarrow> StorageError + inventory" where
  "put_setting y key v s =
     (let encoded = json_of_string y v
      in if \<not> json_valid y encoded then Inl Sql
         else Inr (s\<lparr>iv_settings := (iv_settings s)(key \<mapsto> encoded)\<rparr>))"

definition set_setting :: "inv_ext \<Rightarrow> string \<Rightarrow> string \<Rightarrow> unit inv_op" where
  "set_setting y key v = transaction (\<lambda>s. and_then (put_setting y key v s) (\<lambda>s. Inr (s, ())))"

text \<open>\<open>str::parse::<u64>\<close>: an optional plus sign, then at least one digit, without overflow.\<close>

definition digits_value :: "string \<Rightarrow> nat" where
  "digits_value ds = foldl (\<lambda>n c. 10 * n + (byte_of c - 48)) 0 ds"

definition parse_u64 :: "string \<Rightarrow> nat option" where
  "parse_u64 v =
     (let ds = (case v of c # rest \<Rightarrow> if c = CHR ''+'' then rest else v | [] \<Rightarrow> [])
      in if ds \<noteq> [] \<and> list_all is_ascii_digit ds \<and> digits_value ds \<le> u64_max
         then Some (digits_value ds) else None)"

definition crash_count :: "string option \<Rightarrow> nat" where
  "crash_count v = (case v of None \<Rightarrow> 0
     | Some text \<Rightarrow> (case parse_u64 text of None \<Rightarrow> 0 | Some n \<Rightarrow> n))"

definition failure_health :: "inv_ext \<Rightarrow> inventory \<Rightarrow> StorageError + nat \<times> string option" where
  "failure_health y s =
     and_then (setting y ''executor_crashes'' s) (\<lambda>crashes.
     and_then (setting y ''last_runtime_error_code'' s) (\<lambda>code.
     Inr (crash_count crashes, code)))"

text \<open>The recorder ignores a counter that cannot be decoded; the reader reports it.\<close>

definition record_executor_failure :: "inv_ext \<Rightarrow> string \<Rightarrow> unit inv_op" where
  "record_executor_failure y code = transaction (\<lambda>s.
     let current = Option.bind (iv_settings s ''executor_crashes'') (string_of_json y);
         crashes = saturating_add_u64 (crash_count current) (if code = ''executor_crashed'' then 1 else 0)
     in and_then (put_setting y ''executor_crashes'' (show_nat crashes) s) (\<lambda>s.
        and_then (put_setting y ''last_runtime_error_code'' code s) (\<lambda>s. Inr (s, ()))))"

section \<open>Printers\<close>

text \<open>
  \<open>STORED_PRINTER_QUERY\<close>: a printer with its exposure and its latest snapshot, or with the
  capabilities that the discovery reported.
\<close>

definition latest_snapshot :: "string \<Rightarrow> inventory \<Rightarrow> StoredPrinterProfile option" where
  "latest_snapshot printer_id s =
     (let rows = filter (\<lambda>r. sp_printer_id r = printer_id) (iv_snapshots s)
      in find (\<lambda>r. list_all (\<lambda>q. sp_revision q \<le> sp_revision r) rows) rows)"

definition stored_printer_from_row :: "inventory \<Rightarrow> printer_row \<Rightarrow> StoredPrinter" where
  "stored_printer_from_row s p =
     (let printer_id = pt_printer_id p;
          snapshot = latest_snapshot printer_id s;
          legacy = find (\<lambda>r. ca_printer_id r = printer_id \<and> ca_revision r = ''current'') (iv_capabilities s)
      in \<lparr>st_printer_id = printer_id, st_native_id = pt_native_id p, st_name = pt_name p,
          st_state = pt_state p, st_is_default = pt_is_default p, st_present = pt_present p,
          st_exposed = (case sql_find ex_printer_id printer_id (iv_exposure s) of
             None \<Rightarrow> False | Some e \<Rightarrow> ex_exposed e),
          st_capabilities_json = (case snapshot of Some v \<Rightarrow> sp_portable_json v
           | None \<Rightarrow> (case legacy of Some l \<Rightarrow> ca_capabilities_json l | None \<Rightarrow> ''{}'')),
          st_native_options_json = (case snapshot of Some v \<Rightarrow> sp_native_options_json v | None \<Rightarrow> ''{}''),
          st_profile_revision = (case snapshot of Some v \<Rightarrow> sp_revision v | None \<Rightarrow> 0),
          st_observed_unix_ms = pt_observed_unix_ms p\<rparr>)"

definition printer :: "string \<Rightarrow> inventory \<Rightarrow> StoredPrinter option" where
  "printer printer_id s =
     map_option (stored_printer_from_row s) (sql_find pt_printer_id printer_id (iv_printers s))"

definition printers :: "inventory \<Rightarrow> StoredPrinter list" where
  "printers s = map (stored_printer_from_row s)
     (sort_key (\<lambda>p. (pt_name p, pt_printer_id p)) (iv_printers s))"

definition present_printers :: "inventory \<Rightarrow> StoredPrinter list" where
  "present_printers s = map (stored_printer_from_row s)
     (sort_key (\<lambda>p. (pt_name p, pt_printer_id p)) (filter pt_present (iv_printers s)))"

definition present_printer_warning_count :: "inventory \<Rightarrow> StorageError + nat" where
  "present_printer_warning_count s =
     get_u32 (length (filter (\<lambda>p. pt_present p \<and>
       pt_state p \<in> {''offline'', ''error'', ''paper_out''}) (iv_printers s)))"

definition native_printer_id :: "string \<Rightarrow> inventory \<Rightarrow> string option" where
  "native_printer_id printer_id s =
     map_option pt_native_id (sql_find pt_printer_id printer_id (iv_printers s))"

definition upsert_capabilities :: "inv_ext \<Rightarrow> string \<Rightarrow> string \<Rightarrow> int \<Rightarrow> inventory \<Rightarrow>
     StorageError + inventory" where
  "upsert_capabilities y printer_id capabilities_json observed_unix_ms s =
     (if \<not> json_valid y capabilities_json then Inl Sql
      else Inr (s\<lparr>iv_capabilities := sql_upsert (\<lambda>r. (ca_printer_id r, ca_revision r))
        \<lparr>ca_printer_id = printer_id, ca_revision = ''current'',
         ca_capabilities_json = capabilities_json, ca_observed_unix_ms = observed_unix_ms\<rparr>
        (\<lambda>r. r\<lparr>ca_capabilities_json := capabilities_json, ca_observed_unix_ms := observed_unix_ms\<rparr>)
        (iv_capabilities s)\<rparr>))"

definition upsert_printer ::
  "inv_ext \<Rightarrow> string \<Rightarrow> string \<Rightarrow> string \<Rightarrow> string \<Rightarrow> bool \<Rightarrow> string \<Rightarrow> int \<Rightarrow> StoredPrinter inv_op" where
  "upsert_printer y fresh_id native_id name state is_default capabilities_json observed_unix_ms s =
     (if \<not> value_json_valid y capabilities_json then (s, Inl Json)
      else transaction (\<lambda>s.
        let printer_id = (case sql_find pt_native_id native_id (iv_printers s) of
              Some p \<Rightarrow> pt_printer_id p | None \<Rightarrow> fresh_id);
            row = \<lparr>pt_printer_id = printer_id, pt_native_id = native_id, pt_name = name,
              pt_state = state, pt_is_default = is_default, pt_present = True,
              pt_observed_unix_ms = observed_unix_ms\<rparr>;
            s = s\<lparr>iv_printers := sql_upsert pt_printer_id row (\<lambda>_. row) (iv_printers s)\<rparr>
        in and_then (upsert_capabilities y printer_id capabilities_json observed_unix_ms s) (\<lambda>s.
           Inr (s, \<lparr>st_printer_id = printer_id, st_native_id = native_id, st_name = name,
             st_state = state, st_is_default = is_default, st_present = True, st_exposed = False,
             st_capabilities_json = capabilities_json, st_native_options_json = ''{}'',
             st_profile_revision = 0, st_observed_unix_ms = observed_unix_ms\<rparr>))) s)"

definition mark_present :: "string \<Rightarrow> printer_row list \<Rightarrow> printer_row list" where
  "mark_present native_id rows =
     snd (sql_update (\<lambda>p. pt_native_id p = native_id) (\<lambda>p. p\<lparr>pt_present := True\<rparr>) rows)"

definition reconcile_printer_presence :: "string list \<Rightarrow> unit inv_op" where
  "reconcile_printer_presence present_native_ids = transaction (\<lambda>s.
     Inr (s\<lparr>iv_printers := fold mark_present present_native_ids
       (map (\<lambda>p. p\<lparr>pt_present := False\<rparr>) (iv_printers s))\<rparr>, ()))"

definition set_printer_exposed :: "string \<Rightarrow> bool \<Rightarrow> int \<Rightarrow> unit inv_op" where
  "set_printer_exposed printer_id exposed updated_unix_ms s =
     (if \<not> printer_exists printer_id s then (s, Inl (PrinterNotFound printer_id))
      else (s\<lparr>iv_exposure := sql_upsert ex_printer_id
        \<lparr>ex_printer_id = printer_id, ex_exposed = exposed, ex_updated_unix_ms = updated_unix_ms\<rparr>
        (\<lambda>r. r\<lparr>ex_exposed := exposed, ex_updated_unix_ms := updated_unix_ms\<rparr>) (iv_exposure s)\<rparr>, Inr ()))"

definition validated_native_options ::
  "inv_ext \<Rightarrow> string \<Rightarrow> StorageError + (string \<times> NativePrinterOption) list" where
  "validated_native_options y native_options_json =
     and_then (some_or Json (native_options_of_json y native_options_json)) (\<lambda>native_options.
     case validate_capability_profile (draft native_options) of
       Inl e \<Rightarrow> Inl (InvalidPrinterProfile (printer_profile_error_display e))
     | Inr _ \<Rightarrow> Inr native_options)"

definition insert_snapshot ::
  "inv_ext \<Rightarrow> StoredPrinterProfile \<Rightarrow> inventory \<Rightarrow> StorageError + inventory" where
  "insert_snapshot y row s =
     and_then (ensure (sp_revision row \<le> i64_max \<and> 0 < sp_revision row) Sql) (\<lambda>_.
     and_then (ensure (json_valid y (sp_portable_json row) \<and>
       json_valid y (sp_native_options_json row)) Sql) (\<lambda>_.
     and_then (ensure (\<not> sql_exists (\<lambda>r. sp_printer_id r = sp_printer_id row \<and>
       sp_revision r = sp_revision row) (iv_snapshots s)) Sql) (\<lambda>_.
     and_then (ensure (printer_exists (sp_printer_id row) s) Sql) (\<lambda>_.
     Inr (s\<lparr>iv_snapshots := iv_snapshots s @ [row]\<rparr>)))))"

definition store_printer_profile_tx ::
  "inv_ext \<Rightarrow> string \<Rightarrow> nat option \<Rightarrow> string \<Rightarrow> string \<Rightarrow> int \<Rightarrow> StoredPrinterProfile inv_tx" where
  "store_printer_profile_tx y printer_id expected_revision portable_json native_options_json
     observed_unix_ms s =
     (if \<not> printer_exists printer_id s then Inl (PrinterNotFound printer_id)
      else
        let current = latest_snapshot printer_id s;
            current_revision = (case current of None \<Rightarrow> 0 | Some p \<Rightarrow> sp_revision p)
        in if is_some_and expected_revision (\<lambda>expected. expected \<noteq> current_revision)
           then Inl (ProfileRevisionConflict (the expected_revision) current_revision)
           else if is_some_and current (\<lambda>p.
                  sp_schema_version p = PRINTER_PROFILE_SCHEMA_VERSION \<and>
                  sp_portable_json p = portable_json \<and> sp_native_options_json p = native_options_json)
           then Inr (s, the current)
           else
             let row = \<lparr>sp_printer_id = printer_id,
                   sp_revision = saturating_add_u64 current_revision 1,
                   sp_schema_version = PRINTER_PROFILE_SCHEMA_VERSION,
                   sp_portable_json = portable_json, sp_native_options_json = native_options_json,
                   sp_observed_unix_ms = observed_unix_ms\<rparr>
             in and_then (insert_snapshot y row s) (\<lambda>s. Inr (s, row)))"

definition store_printer_profile ::
  "inv_ext \<Rightarrow> string \<Rightarrow> nat option \<Rightarrow> string \<Rightarrow> string \<Rightarrow> int \<Rightarrow> StoredPrinterProfile inv_op" where
  "store_printer_profile y printer_id expected_revision portable_json native_options_json
     observed_unix_ms s =
     (if \<not> capabilities_json_valid y portable_json then (s, Inl Json)
      else case validated_native_options y native_options_json of
        Inl e \<Rightarrow> (s, Inl e)
      | Inr _ \<Rightarrow> transaction (store_printer_profile_tx y printer_id expected_revision portable_json
          native_options_json observed_unix_ms) s)"

section \<open>Devices, stock and targets\<close>

definition upsert_physical_device ::
  "inv_ext \<Rightarrow> device_row \<Rightarrow> unit inv_op" where
  "upsert_physical_device y device s =
     (if \<not> value_json_valid y (dv_metadata_json device) then (s, Inl Json)
      else if \<not> json_valid y (dv_metadata_json device) then (s, Inl Sql)
      else (s\<lparr>iv_devices := sql_upsert dv_device_id device (\<lambda>_. device) (iv_devices s)\<rparr>, Inr ()))"

definition bind_printer_device :: "device_binding_row \<Rightarrow> unit inv_op" where
  "bind_printer_device binding s =
     (if \<not> printer_exists (db_printer_id binding) s \<or>
         \<not> sql_exists (\<lambda>d. dv_device_id d = db_device_id binding) (iv_devices s) then (s, Inl Sql)
      else (s\<lparr>iv_device_bindings :=
        sql_upsert db_printer_id binding (\<lambda>_. binding) (iv_device_bindings s)\<rparr>, Inr ()))"

definition stock_exists :: "string option \<Rightarrow> inventory \<Rightarrow> bool" where
  "stock_exists stock_id s = (case stock_id of None \<Rightarrow> True
     | Some k \<Rightarrow> sql_exists (\<lambda>r. sk_stock_id r = k) (iv_stocks s))"

text \<open>The partial unique index \<open>stocks_sku_active\<close> covers the stock that is not retired.\<close>

definition sku_free :: "StoredStock \<Rightarrow> StoredStock list \<Rightarrow> bool" where
  "sku_free stock rows =
     (sk_sku stock = None \<or> sk_retired stock \<or>
      \<not> sql_exists (\<lambda>r. sk_stock_id r \<noteq> sk_stock_id stock \<and> sk_sku r = sk_sku stock \<and>
           \<not> sk_retired r) rows)"

definition upsert_stock :: "inv_ext \<Rightarrow> StoredStock \<Rightarrow> StoredStock inv_op" where
  "upsert_stock y stock s =
     (let row = stock\<lparr>sk_name := str_trim (sk_name stock)\<rparr>
      in if \<not> value_json_valid y (sk_definition_json stock) then (s, Inl Json)
         else if sk_name row = [] then (s, Inl (InvalidPrinterProfile ''stock name cannot be empty''))
         else if sql_trim (sk_name row) = [] \<or> \<not> json_valid y (sk_definition_json stock) \<or>
           \<not> sku_free row (iv_stocks s) then (s, Inl Sql)
         else (s\<lparr>iv_stocks := sql_upsert sk_stock_id row (\<lambda>_. row) (iv_stocks s)\<rparr>, Inr row))"

definition confirm_loaded_media :: "StoredLoadedMedia \<Rightarrow> unit inv_op" where
  "confirm_loaded_media loaded s =
     (if \<not> sql_exists (\<lambda>d. dv_device_id d = lm_device_id loaded) (iv_devices s) \<or>
         \<not> stock_exists (lm_stock_id loaded) s then (s, Inl Sql)
      else (s\<lparr>iv_loaded_media := sql_upsert (\<lambda>r. (lm_device_id r, lm_source r)) loaded (\<lambda>_. loaded)
        (iv_loaded_media s)\<rparr>, Inr ()))"

definition loaded_media :: "string \<Rightarrow> string \<Rightarrow> inventory \<Rightarrow> StoredLoadedMedia option" where
  "loaded_media device_id source s =
     sql_find (\<lambda>r. (lm_device_id r, lm_source r)) (device_id, source) (iv_loaded_media s)"

definition upsert_target :: "StoredTarget \<Rightarrow> unit inv_op" where
  "upsert_target target s =
     (let row = target\<lparr>tg_name := str_trim (tg_name target)\<rparr>
      in if tg_name row = [] then (s, Inl (InvalidPrinterProfile ''target name cannot be empty''))
         else if sql_trim (tg_name row) = [] \<or> \<not> stock_exists (tg_stock_id target) s then (s, Inl Sql)
         else (s\<lparr>iv_targets := sql_upsert tg_target_id row (\<lambda>_. row) (iv_targets s)\<rparr>, Inr ()))"

definition upsert_target_binding :: "StoredTargetBinding \<Rightarrow> unit inv_op" where
  "upsert_target_binding binding s =
     (if i64_max < tb_profile_revision binding then (s, Inl Sql)
      else if \<not> sql_exists (\<lambda>p. np_profile_id p = tb_profile_id binding \<and>
           np_printer_id p = tb_printer_id binding \<and> np_revision p = tb_profile_revision binding \<and>
           \<not> np_deleted p) (iv_profiles s)
      then (s, Inl (InvalidPrinterProfile (''profile '' @ tb_profile_id binding @ '' revision '' @
             show_nat (tb_profile_revision binding) @ '' was not found for printer '' @
             tb_printer_id binding)))
      else if \<not> sql_exists (\<lambda>t. tg_target_id t = tb_target_id binding) (iv_targets s) \<or>
           \<not> printer_exists (tb_printer_id binding) s then (s, Inl Sql)
      else (s\<lparr>iv_target_bindings := sql_upsert tb_binding_id binding
        (\<lambda>r. binding\<lparr>tb_created_unix_ms := tb_created_unix_ms r\<rparr>) (iv_target_bindings s)\<rparr>, Inr ()))"

end
