(* ===== verification/Agent_Profiles.thy ===== *)
theory Agent_Profiles
  imports Agent_Inventory
begin

text \<open>
  Named print profiles of the durable agent store (\<open>crates/agent-storage/src/lib.rs\<close>): immutable
  revisions with tombstones, the default profile of a printer, the profile that follows the
  driver's current defaults, one-time capture sessions, and the opaque native payloads that a
  capture stores.
\<close>

section \<open>Queries\<close>

text \<open>\<open>revision = (SELECT MAX(latest.revision) ... WHERE latest.profile_id = p.profile_id)\<close>\<close>

definition is_latest :: "named_profile_row list \<Rightarrow> named_profile_row \<Rightarrow> bool" where
  "is_latest rows p =
     list_all (\<lambda>q. np_profile_id q = np_profile_id p \<longrightarrow> np_revision q \<le> np_revision p) rows"

definition is_active :: "named_profile_row list \<Rightarrow> named_profile_row \<Rightarrow> bool" where
  "is_active rows p = (is_latest rows p \<and> \<not> np_deleted p)"

definition named_profile_from_row :: "named_profile_row \<Rightarrow> StoredNamedProfile" where
  "named_profile_from_row r =
     \<lparr>np_profile_id = np_profile_id r, np_printer_id = np_printer_id r, np_revision = np_revision r,
      np_name = np_name r, np_is_default = np_is_default r, np_options_json = np_options_json r,
      np_status = np_status r, np_native_kind = np_native_kind r,
      np_native_blob_id = np_native_blob_id r, np_native_digest = np_native_digest r,
      np_driver_fingerprint_json = np_driver_fingerprint_json r,
      np_summary_json = np_summary_json r, np_stock_id = np_stock_id r,
      np_safe_overrides_json = np_safe_overrides_json r,
      np_last_validated_unix_ms = np_last_validated_unix_ms r,
      np_last_test_job_id = np_last_test_job_id r, np_published = np_published r,
      np_uses_current_printer_defaults = np_uses_current_printer_defaults r,
      np_updated_unix_ms = np_updated_unix_ms r\<rparr>"

definition query_named_profile ::
  "string \<Rightarrow> string \<Rightarrow> inventory \<Rightarrow> StoredNamedProfile option" where
  "query_named_profile printer_id profile_id s =
     map_option named_profile_from_row (find (\<lambda>p. np_printer_id p = printer_id \<and>
       np_profile_id p = profile_id \<and> is_active (iv_profiles s) p) (iv_profiles s))"

text \<open>\<open>named_profile\<close> runs the same query outside a transaction.\<close>

definition named_profile :: "string \<Rightarrow> string \<Rightarrow> inventory \<Rightarrow> StoredNamedProfile option" where
  "named_profile = query_named_profile"

definition named_profiles :: "string \<Rightarrow> inventory \<Rightarrow> StoredNamedProfile list" where
  "named_profiles printer_id s =
     map named_profile_from_row (sort_key (\<lambda>p. (\<not> np_is_default p, np_name p, np_profile_id p))
       (filter (\<lambda>p. np_printer_id p = printer_id \<and> is_active (iv_profiles s) p) (iv_profiles s)))"

definition named_profile_revision ::
  "string \<Rightarrow> string \<Rightarrow> nat \<Rightarrow> inventory \<Rightarrow> StorageError + StoredNamedProfile option" where
  "named_profile_revision printer_id profile_id revision s =
     (if i64_max < revision then Inl Sql
      else Inr (map_option named_profile_from_row (find (\<lambda>p. np_printer_id p = printer_id \<and>
        np_profile_id p = profile_id \<and> np_revision p = revision) (iv_profiles s))))"

definition profile_revision ::
  "string \<Rightarrow> nat \<Rightarrow> inventory \<Rightarrow> StorageError + StoredNamedProfile option" where
  "profile_revision profile_id revision s =
     (if i64_max < revision then Inl Sql
      else Inr (map_option named_profile_from_row (find (\<lambda>p.
        np_profile_id p = profile_id \<and> np_revision p = revision) (iv_profiles s))))"

definition query_current_printer_defaults_profile ::
  "string \<Rightarrow> inventory \<Rightarrow> StoredNamedProfile option" where
  "query_current_printer_defaults_profile printer_id s =
     (let rows = filter (\<lambda>p. np_printer_id p = printer_id \<and> is_active (iv_profiles s) p \<and>
            np_uses_current_printer_defaults p) (iv_profiles s)
      in map_option named_profile_from_row
           (find (\<lambda>p. list_all (\<lambda>q. np_revision q \<le> np_revision p) rows) rows))"

definition profile_dependencies ::
  "string \<Rightarrow> nat \<Rightarrow> inventory \<Rightarrow> StorageError + (string \<times> string) list" where
  "profile_dependencies profile_id revision s =
     (if i64_max < revision then Inl Sql
      else Inr (map (\<lambda>r. (dp_kind r, dp_value r)) (sort_key dp_dependency_index
        (filter (\<lambda>r. dp_profile_id r = profile_id \<and> dp_profile_revision r = revision)
          (iv_dependencies s)))))"

definition native_profile_blob ::
  "string \<Rightarrow> nat \<Rightarrow> inventory \<Rightarrow> StorageError + StoredNativeProfileBlob option" where
  "native_profile_blob profile_id revision s =
     (if i64_max < revision then Inl Sql
      else Inr (find (\<lambda>r. nb_profile_id r = profile_id \<and> nb_profile_revision r = revision)
        (iv_blobs s)))"

section \<open>Revisions\<close>

definition insert_profile_row ::
  "inv_ext \<Rightarrow> named_profile_row \<Rightarrow> inventory \<Rightarrow> StorageError + inventory" where
  "insert_profile_row y row s =
     and_then (ensure (0 < np_revision row \<and> np_revision row \<le> i64_max) Sql) (\<lambda>_.
     and_then (ensure (sql_trim (np_name row) \<noteq> []) Sql) (\<lambda>_.
     and_then (ensure (json_valid y (np_options_json row) \<and>
       json_valid y (np_driver_fingerprint_json row) \<and> json_valid y (np_summary_json row) \<and>
       json_valid y (np_safe_overrides_json row)) Sql) (\<lambda>_.
     and_then (ensure (\<not> sql_exists (\<lambda>r. np_profile_id r = np_profile_id row \<and>
       np_revision r = np_revision row) (iv_profiles s)) Sql) (\<lambda>_.
     and_then (ensure (printer_exists (np_printer_id row) s) Sql) (\<lambda>_.
     Inr (s\<lparr>iv_profiles := iv_profiles s @ [row]\<rparr>))))))"

definition demote_default_profiles :: "string \<Rightarrow> string \<Rightarrow> int \<Rightarrow> inventory \<Rightarrow> inventory" where
  "demote_default_profiles printer_id profile_id updated_unix_ms s =
     s\<lparr>iv_profiles := snd (sql_update
       (\<lambda>p. np_printer_id p = printer_id \<and> np_profile_id p \<noteq> profile_id \<and> np_is_default p \<and>
          is_active (iv_profiles s) p)
       (\<lambda>p. p\<lparr>np_is_default := False, np_updated_unix_ms := updated_unix_ms\<rparr>) (iv_profiles s))\<rparr>"

text \<open>The row that \<open>insert_named_profile_tx\<close> writes: the other columns take their defaults.\<close>

definition plain_profile_row ::
  "string \<Rightarrow> string \<Rightarrow> nat \<Rightarrow> string \<Rightarrow> bool \<Rightarrow> string \<Rightarrow> bool \<Rightarrow> int \<Rightarrow> named_profile_row" where
  "plain_profile_row profile_id printer_id revision name is_default options_json deleted updated_unix_ms =
     \<lparr>np_profile_id = profile_id, np_printer_id = printer_id, np_revision = revision,
      np_name = name, np_is_default = is_default, np_options_json = options_json,
      np_status = ''needs_test'', np_native_kind = ''portable_options'', np_native_blob_id = None,
      np_native_digest = None, np_driver_fingerprint_json = ''{}'', np_summary_json = ''{}'',
      np_stock_id = None, np_safe_overrides_json = ''[]'', np_last_validated_unix_ms = None,
      np_last_test_job_id = None, np_published = False, np_uses_current_printer_defaults = False,
      np_updated_unix_ms = updated_unix_ms, np_deleted = deleted\<rparr>"

definition insert_named_profile_tx ::
  "inv_ext \<Rightarrow> string \<Rightarrow> string \<Rightarrow> nat \<Rightarrow> string \<Rightarrow> bool \<Rightarrow> string \<Rightarrow> bool \<Rightarrow> int \<Rightarrow> inventory \<Rightarrow>
     StorageError + inventory" where
  "insert_named_profile_tx y profile_id printer_id revision name is_default options_json deleted
     updated_unix_ms s =
     insert_profile_row y (plain_profile_row profile_id printer_id revision name is_default
         options_json deleted updated_unix_ms)
       (if is_default then demote_default_profiles printer_id profile_id updated_unix_ms s else s)"

definition insert_named_profile ::
  "inv_ext \<Rightarrow> string \<Rightarrow> string \<Rightarrow> nat \<Rightarrow> string \<Rightarrow> bool \<Rightarrow> string \<Rightarrow> bool \<Rightarrow> int \<Rightarrow> unit inv_op" where
  "insert_named_profile y profile_id printer_id revision name is_default options_json deleted
     updated_unix_ms = transaction (\<lambda>s.
     and_then (insert_named_profile_tx y profile_id printer_id revision (str_trim name) is_default
       options_json deleted updated_unix_ms s) (\<lambda>s. Inr (s, ())))"

definition validate_named_profile :: "inv_ext \<Rightarrow> string \<Rightarrow> string \<Rightarrow> StorageError + unit" where
  "validate_named_profile y name options_json =
     (if str_trim name = [] then Inl (InvalidPrinterProfile ''profile name cannot be empty'')
      else and_then (some_or Json (job_options_of_json y options_json)) (\<lambda>_. Inr ()))"

definition read_profile ::
  "string \<Rightarrow> string \<Rightarrow> string \<Rightarrow> inventory \<times> (StorageError + unit) \<Rightarrow>
     inventory \<times> (StorageError + StoredNamedProfile)" where
  "read_profile printer_id profile_id failed out =
     (case out of (s, Inl e) \<Rightarrow> (s, Inl e)
      | (s, Inr _) \<Rightarrow> (s, some_or (InvalidPrinterProfile failed) (named_profile printer_id profile_id s)))"

definition create_named_profile ::
  "inv_ext \<Rightarrow> string \<Rightarrow> string \<Rightarrow> string \<Rightarrow> bool \<Rightarrow> string \<Rightarrow> int \<Rightarrow> StoredNamedProfile inv_op" where
  "create_named_profile y fresh printer_id name is_default options_json updated_unix_ms s =
     (case validate_named_profile y name options_json of
        Inl e \<Rightarrow> (s, Inl e)
      | Inr _ \<Rightarrow>
          if printer printer_id s = None then (s, Inl (PrinterNotFound printer_id))
          else
            let profile_id = ''prf_'' @ fresh
            in read_profile printer_id profile_id ''profile insert failed''
                 (insert_named_profile y profile_id printer_id 1 name is_default options_json False
                    updated_unix_ms s))"

text \<open>The two operations on an existing profile check the caller's revision first.\<close>

definition expect_revision ::
  "string \<Rightarrow> string \<Rightarrow> nat \<Rightarrow> inventory \<Rightarrow> StorageError + StoredNamedProfile" where
  "expect_revision printer_id profile_id expected_revision s =
     and_then (some_or (InvalidPrinterProfile ''profile was not found'')
       (query_named_profile printer_id profile_id s)) (\<lambda>current.
     if np_revision current \<noteq> expected_revision
     then Inl (ProfileRevisionConflict expected_revision (np_revision current)) else Inr current)"

definition update_named_profile ::
  "inv_ext \<Rightarrow> string \<Rightarrow> string \<Rightarrow> nat \<Rightarrow> string \<Rightarrow> bool \<Rightarrow> string \<Rightarrow> int \<Rightarrow> StoredNamedProfile inv_op" where
  "update_named_profile y printer_id profile_id expected_revision name is_default options_json
     updated_unix_ms s =
     (case validate_named_profile y name options_json of
        Inl e \<Rightarrow> (s, Inl e)
      | Inr _ \<Rightarrow> read_profile printer_id profile_id ''profile update failed'' (transaction (\<lambda>s.
          and_then (expect_revision printer_id profile_id expected_revision s) (\<lambda>current.
          and_then (insert_named_profile_tx y profile_id printer_id (np_revision current + 1)
            (str_trim name) is_default options_json False updated_unix_ms s) (\<lambda>s. Inr (s, ())))) s))"

definition delete_named_profile ::
  "inv_ext \<Rightarrow> string \<Rightarrow> string \<Rightarrow> nat \<Rightarrow> int \<Rightarrow> unit inv_op" where
  "delete_named_profile y printer_id profile_id expected_revision updated_unix_ms = transaction (\<lambda>s.
     and_then (expect_revision printer_id profile_id expected_revision s) (\<lambda>current.
     and_then (insert_named_profile_tx y profile_id printer_id (np_revision current + 1)
       (np_name current) False (np_options_json current) True updated_unix_ms s) (\<lambda>s. Inr (s, ()))))"

section \<open>The profile of the driver's current defaults\<close>

definition has_default :: "string \<Rightarrow> inventory \<Rightarrow> bool" where
  "has_default printer_id s = sql_exists (\<lambda>p. np_printer_id p = printer_id \<and> np_is_default p \<and>
     is_active (iv_profiles s) p) (iv_profiles s)"

definition ensure_current_printer_defaults_profile ::
  "inv_ext \<Rightarrow> string \<Rightarrow> string \<Rightarrow> int \<Rightarrow> StoredNamedProfile inv_op" where
  "ensure_current_printer_defaults_profile y fresh printer_id updated_unix_ms = transaction (\<lambda>s.
     if \<not> printer_exists printer_id s then Inl (PrinterNotFound printer_id)
     else case query_current_printer_defaults_profile printer_id s of
       Some p \<Rightarrow> Inr (s, p)
     | None \<Rightarrow>
         and_then (some_or Json (job_options_to_json y default_options)) (\<lambda>options_json.
         let profile_id = ''prf_'' @ fresh;
             row = (plain_profile_row profile_id printer_id 1 ''Current printer defaults''
               (\<not> has_default printer_id s) options_json False updated_unix_ms)
               \<lparr>np_status := ''ready'', np_uses_current_printer_defaults := True\<rparr>
         in and_then (insert_profile_row y row s) (\<lambda>s.
            and_then (some_or (InvalidPrinterProfile ''profile insert failed'')
              (query_named_profile printer_id profile_id s)) (\<lambda>p. Inr (s, p)))))"

text \<open>\<open>current_driver_defaults_summary\<close>: the selected or default choice of every option.\<close>

definition chosen_value :: "NativePrinterOption \<Rightarrow> string option" where
  "chosen_value opt = (case po_selected_choice opt of Some v \<Rightarrow> Some v | None \<Rightarrow> po_default_choice opt)"

definition display_value :: "NativePrinterOption \<Rightarrow> string \<Rightarrow> string" where
  "display_value opt selected =
     (case find (\<lambda>c. ch_value c = selected) (po_choices opt) of
        Some c \<Rightarrow> ch_display_name c | None \<Rightarrow> selected)"

definition summarise_option :: "string \<times> NativePrinterOption \<Rightarrow> ProfileSummary \<Rightarrow> ProfileSummary" where
  "summarise_option entry summary = (case entry of (key, opt) \<Rightarrow>
     case chosen_value opt of
       None \<Rightarrow> summary
     | Some selected \<Rightarrow>
         let shown = display_value opt selected;
             summary = summary\<lparr>su_native := btree_insert (po_display_name opt) shown (su_native summary)\<rparr>;
             k = to_ascii_lowercase key
         in if k \<in> {''pagesize'', ''pageregion'', ''media''} then summary\<lparr>su_paper := Some shown\<rparr>
            else if k \<in> {''inputslot'', ''media-source''} then summary\<lparr>su_source := Some shown\<rparr>
            else if k \<in> {''mediatype'', ''media-type''} then summary\<lparr>su_media := Some shown\<rparr>
            else if k \<in> {''colormodel'', ''colormode'', ''print-color-mode''}
              then summary\<lparr>su_color := Some shown\<rparr>
            else if k \<in> {''duplex'', ''sides''} then summary\<lparr>su_duplex := Some shown\<rparr>
            else if k \<in> {''resolution'', ''printer-resolution''}
              then summary\<lparr>su_resolution := Some shown\<rparr>
            else summary)"

definition current_driver_defaults_summary ::
  "(string \<times> NativePrinterOption) list \<Rightarrow> int \<Rightarrow> ProfileSummary" where
  "current_driver_defaults_summary options observed_unix_ms =
     fold summarise_option options
       \<lparr>su_paper = None, su_source = None, su_media = None, su_color = None, su_duplex = None,
        su_resolution = None, su_native = [],
        su_details = [(''loaded_media_evidence'', DetailString ''not_reported''),
          (''observed_unix_ms'', DetailInt observed_unix_ms),
          (''settings_origin'', DetailString ''configured_driver_defaults'')]\<rparr>"

definition update_profiles ::
  "(named_profile_row \<Rightarrow> bool) \<Rightarrow> (named_profile_row \<Rightarrow> named_profile_row) \<Rightarrow> inventory \<Rightarrow>
     nat \<times> inventory" where
  "update_profiles p f s =
     (case sql_update p f (iv_profiles s) of (n, rows) \<Rightarrow> (n, s\<lparr>iv_profiles := rows\<rparr>))"

definition refresh_current_printer_defaults_profile ::
  "inv_ext \<Rightarrow> string \<Rightarrow> string \<Rightarrow> string \<Rightarrow> int \<Rightarrow> StoredNamedProfile inv_op" where
  "refresh_current_printer_defaults_profile y fresh printer_id native_options_json observed_unix_ms s =
     (case validated_native_options y native_options_json of
        Inl e \<Rightarrow> (s, Inl e)
      | Inr options \<Rightarrow>
     (case ensure_current_printer_defaults_profile y fresh printer_id observed_unix_ms s of
        (s, Inl e) \<Rightarrow> (s, Inl e)
      | (s, Inr profile) \<Rightarrow>
     (case summary_to_json y (current_driver_defaults_summary options observed_unix_ms) of
        None \<Rightarrow> (s, Inl Json)
      | Some summary_json \<Rightarrow>
          if \<not> json_valid y summary_json then (s, Inl Sql)
          else
            let (changed, s) = update_profiles (\<lambda>p. np_profile_id p = np_profile_id profile \<and>
                  np_printer_id p = printer_id \<and> np_revision p = np_revision profile \<and>
                  np_uses_current_printer_defaults p \<and> \<not> np_deleted p)
                  (\<lambda>p. p\<lparr>np_summary_json := summary_json, np_updated_unix_ms := observed_unix_ms\<rparr>) s
            in if changed \<noteq> 1
               then (s, Inl (InvalidPrinterProfile
                      ''current printer defaults profile could not be refreshed''))
               else (s, some_or (InvalidPrinterProfile ''profile refresh failed'')
                      (named_profile printer_id (np_profile_id profile) s)))))"

section \<open>Validation results\<close>

definition profile_missing :: "string \<Rightarrow> nat \<Rightarrow> StorageError" where
  "profile_missing profile_id revision =
     InvalidPrinterProfile (''profile '' @ profile_id @ '' revision '' @ show_nat revision @
       '' was not found'')"

definition update_revision ::
  "string \<Rightarrow> nat \<Rightarrow> (named_profile_row \<Rightarrow> named_profile_row) \<Rightarrow> unit inv_op" where
  "update_revision profile_id revision f s =
     (if i64_max < revision then (s, Inl Sql)
      else
        let (changed, s) = update_profiles (\<lambda>p. np_profile_id p = profile_id \<and>
              np_revision p = revision \<and> \<not> np_deleted p) f s
        in if changed \<noteq> 1 then (s, Inl (profile_missing profile_id revision)) else (s, Inr ()))"

definition record_profile_validation :: "string \<Rightarrow> nat \<Rightarrow> int \<Rightarrow> unit inv_op" where
  "record_profile_validation profile_id revision validated_unix_ms =
     update_revision profile_id revision (\<lambda>p. p\<lparr>np_last_validated_unix_ms := Some validated_unix_ms,
       np_updated_unix_ms := validated_unix_ms\<rparr>)"

definition record_profile_test_result ::
  "string \<Rightarrow> nat \<Rightarrow> string \<Rightarrow> bool \<Rightarrow> int \<Rightarrow> unit inv_op" where
  "record_profile_test_result profile_id revision job_id passed_native_handoff validated_unix_ms =
     update_revision profile_id revision (\<lambda>p. p\<lparr>
       np_status := (if passed_native_handoff then ''ready'' else ''needs_test''),
       np_last_validated_unix_ms := Some validated_unix_ms, np_last_test_job_id := Some job_id,
       np_published := (if np_uses_current_printer_defaults p then False else passed_native_handoff),
       np_updated_unix_ms := validated_unix_ms\<rparr>)"

section \<open>Capture sessions\<close>

definition MAX_PROFILE_CAPTURE_SESSION_LIFETIME_MS :: int where
  "MAX_PROFILE_CAPTURE_SESSION_LIFETIME_MS = 10 * 60 * 1000"

definition saturating_sub_i64 :: "int \<Rightarrow> int \<Rightarrow> int" where
  "saturating_sub_i64 a b = max (- int i64_max - 1) (min (int i64_max) (a - b))"

definition session_from_row :: "capture_session_row \<Rightarrow> StoredCaptureSession" where
  "session_from_row r =
     \<lparr>cs_session_id = cs_session_id r, cs_printer_id = cs_printer_id r, cs_profile_id = cs_profile_id r,
      cs_expected_revision = cs_expected_revision r, cs_operation = cs_operation r,
      cs_status = cs_status r, cs_peer_user_id = cs_peer_user_id r,
      cs_expires_unix_ms = cs_expires_unix_ms r, cs_created_unix_ms = cs_created_unix_ms r\<rparr>"

definition capture_session :: "string \<Rightarrow> inventory \<Rightarrow> StoredCaptureSession option" where
  "capture_session session_id s =
     map_option session_from_row (sql_find cs_session_id session_id (iv_sessions s))"

definition check_capture_request :: "capture_session_row \<Rightarrow> inventory \<Rightarrow> StorageError + unit" where
  "check_capture_request row s =
     (if printer (cs_printer_id row) s = None then Inl (PrinterNotFound (cs_printer_id row))
      else if cs_operation row \<notin> {''create'', ''edit'', ''clone''} \<or>
        str_trim (cs_token_digest row) = [] \<or> str_trim (cs_peer_user_id row) = [] \<or>
        cs_expires_unix_ms row \<le> cs_created_unix_ms row \<or>
        MAX_PROFILE_CAPTURE_SESSION_LIFETIME_MS <
          saturating_sub_i64 (cs_expires_unix_ms row) (cs_created_unix_ms row)
      then Inl (InvalidPrinterProfile ''invalid profile capture authorization'')
      else if cs_operation row = ''create'' \<and>
        (cs_profile_id row \<noteq> None \<or> cs_expected_revision row \<noteq> None)
      then Inl (InvalidPrinterProfile ''create captures cannot reference an existing profile'')
      else if cs_operation row \<in> {''edit'', ''clone''}
      then (case cs_profile_id row of
          None \<Rightarrow> Inl (InvalidPrinterProfile ''edit and clone captures require a profile'')
        | Some profile_id \<Rightarrow>
            and_then (some_or (InvalidPrinterProfile ''profile was not found'')
              (named_profile (cs_printer_id row) profile_id s)) (\<lambda>current.
            if cs_expected_revision row \<noteq> Some (np_revision current)
            then Inl (ProfileRevisionConflict
              (case cs_expected_revision row of None \<Rightarrow> 0 | Some r \<Rightarrow> r) (np_revision current))
            else Inr ()))
      else Inr ())"

definition create_profile_capture_session ::
  "string \<Rightarrow> string \<Rightarrow> string \<Rightarrow> string option \<Rightarrow> nat option \<Rightarrow> string \<Rightarrow> string \<Rightarrow> int \<Rightarrow> int \<Rightarrow>
     StoredCaptureSession inv_op" where
  "create_profile_capture_session session_id token_digest printer_id profile_id expected_revision
     operation peer_user_id expires_unix_ms created_unix_ms s =
     (let row = \<lparr>cs_session_id = session_id, cs_printer_id = printer_id, cs_profile_id = profile_id,
            cs_expected_revision = expected_revision, cs_operation = operation,
            cs_status = ''authorized'', cs_peer_user_id = peer_user_id,
            cs_expires_unix_ms = expires_unix_ms, cs_created_unix_ms = created_unix_ms,
            cs_token_digest = token_digest, cs_completed_unix_ms = None\<rparr>
      in case check_capture_request row s of
           Inl e \<Rightarrow> (s, Inl e)
         | Inr _ \<Rightarrow>
             if is_some_and expected_revision (\<lambda>r. i64_max < r) \<or>
                sql_exists (\<lambda>r. cs_session_id r = session_id) (iv_sessions s) \<or>
                \<not> printer_exists printer_id s then (s, Inl Sql)
             else
               let s = s\<lparr>iv_sessions := iv_sessions s @ [row]\<rparr>
               in (s, some_or (CaptureSessionNotFound session_id) (capture_session session_id s)))"

record NativeProfileCapture =
  pc_name :: string
  pc_is_default :: bool
  pc_options_json :: string
  pc_status :: string
  pc_native_kind :: string
  pc_native_schema_version :: nat
  pc_native_digest :: string
  pc_native_blob :: string
  pc_driver_fingerprint_json :: string
  pc_summary_json :: string
  pc_stock_id :: "string option"
  pc_dependencies_json :: string
  pc_safe_overrides_json :: string
  pc_published :: bool

definition validate_native_capture :: "inv_ext \<Rightarrow> NativeProfileCapture \<Rightarrow> StorageError + unit" where
  "validate_native_capture y capture =
     and_then (validate_named_profile y (pc_name capture) (pc_options_json capture)) (\<lambda>_.
     if MAX_NATIVE_PROFILE_BLOB_BYTES < length (pc_native_blob capture)
     then Inl (NativeBlobTooLarge MAX_NATIVE_PROFILE_BLOB_BYTES)
     else if pc_native_schema_version capture = 0
     then Inl (InvalidPrinterProfile ''native profile schema version must be positive'')
     else if \<not> fingerprint_json_valid y (pc_driver_fingerprint_json capture) \<or>
       \<not> summary_json_valid y (pc_summary_json capture) \<or>
       dependencies_of_json y (pc_dependencies_json capture) = None \<or>
       \<not> overrides_json_valid y (pc_safe_overrides_json capture) \<or>
       native_kind_of (pc_native_kind capture) = None \<or>
       profile_status_of (pc_status capture) = None then Inl Json
     else if the (profile_status_of (pc_status capture)) \<notin> {Draft, Ready, NeedsTest, InteractiveOnly}
     then Inl (InvalidPrinterProfile ''a newly captured profile has an invalid status'')
     else if \<not> constant_time_str_eq (''sha256:'' @ sha256_hex y (pc_native_blob capture))
       (pc_native_digest capture)
     then Inl (InvalidPrinterProfile ''native profile digest does not match blob'')
     else Inr ())"

definition check_authorization ::
  "capture_session_row \<Rightarrow> string \<Rightarrow> string \<Rightarrow> int \<Rightarrow> StorageError + unit" where
  "check_authorization authorization token_digest peer_user_id committed_unix_ms =
     (if cs_status authorization \<noteq> ''authorized'' \<or>
         cs_expires_unix_ms authorization < committed_unix_ms \<or>
         cs_peer_user_id authorization \<noteq> peer_user_id
      then Inl (CaptureSessionNotAuthorized (cs_session_id authorization))
      else if \<not> constant_time_str_eq (cs_token_digest authorization) token_digest
      then Inl InvalidCaptureToken else Inr ())"

definition insert_blob :: "StoredNativeProfileBlob \<Rightarrow> inventory \<Rightarrow> StorageError + inventory" where
  "insert_blob blob s =
     and_then (ensure (0 < nb_profile_revision blob \<and> 0 < nb_schema_version blob) Sql) (\<lambda>_.
     and_then (ensure (\<not> sql_exists (\<lambda>b. nb_blob_id b = nb_blob_id blob \<or>
       nb_profile_id b = nb_profile_id blob \<and> nb_profile_revision b = nb_profile_revision blob)
       (iv_blobs s)) Sql) (\<lambda>_.
     and_then (ensure (sql_exists (\<lambda>p. np_profile_id p = nb_profile_id blob \<and>
       np_revision p = nb_profile_revision blob) (iv_profiles s)) Sql) (\<lambda>_.
     Inr (s\<lparr>iv_blobs := iv_blobs s @ [blob]\<rparr>))))"

fun insert_dependencies ::
  "string \<Rightarrow> nat \<Rightarrow> nat \<Rightarrow> (string \<times> string) list \<Rightarrow> inventory \<Rightarrow> StorageError + inventory" where
  "insert_dependencies profile_id revision index [] s = Inr s"
| "insert_dependencies profile_id revision index ((kind, v) # rest) s =
     and_then (ensure (\<not> sql_exists (\<lambda>r. dp_profile_id r = profile_id \<and>
       dp_profile_revision r = revision \<and> dp_dependency_index r = index) (iv_dependencies s)) Sql) (\<lambda>_.
     insert_dependencies profile_id revision (Suc index) rest
       (s\<lparr>iv_dependencies := iv_dependencies s @ [\<lparr>dp_profile_id = profile_id,
          dp_profile_revision = revision, dp_dependency_index = index, dp_kind = kind, dp_value = v\<rparr>]\<rparr>))"

definition captured_row ::
  "NativeProfileCapture \<Rightarrow> string \<Rightarrow> string \<Rightarrow> nat \<Rightarrow> bool \<Rightarrow> string \<Rightarrow> int \<Rightarrow> named_profile_row" where
  "captured_row capture profile_id printer_id revision is_default blob_id committed_unix_ms =
     \<lparr>np_profile_id = profile_id, np_printer_id = printer_id, np_revision = revision,
      np_name = str_trim (pc_name capture), np_is_default = is_default,
      np_options_json = pc_options_json capture, np_status = pc_status capture,
      np_native_kind = pc_native_kind capture, np_native_blob_id = Some blob_id,
      np_native_digest = Some (pc_native_digest capture),
      np_driver_fingerprint_json = pc_driver_fingerprint_json capture,
      np_summary_json = pc_summary_json capture, np_stock_id = pc_stock_id capture,
      np_safe_overrides_json = pc_safe_overrides_json capture, np_last_validated_unix_ms = None,
      np_last_test_job_id = None, np_published = pc_published capture,
      np_uses_current_printer_defaults = False, np_updated_unix_ms = committed_unix_ms,
      np_deleted = False\<rparr>"

definition captured_blob ::
  "NativeProfileCapture \<Rightarrow> string \<Rightarrow> nat \<Rightarrow> string \<Rightarrow> int \<Rightarrow> StoredNativeProfileBlob" where
  "captured_blob capture profile_id revision blob_id committed_unix_ms =
     \<lparr>nb_blob_id = blob_id, nb_profile_id = profile_id, nb_profile_revision = revision,
      nb_native_kind = pc_native_kind capture, nb_schema_version = pc_native_schema_version capture,
      nb_digest = pc_native_digest capture, nb_native_blob = pc_native_blob capture,
      nb_created_unix_ms = committed_unix_ms\<rparr>"

text \<open>The writes of a commit, once it is known which revision of which profile is created.\<close>

definition store_capture ::
  "inv_ext \<Rightarrow> capture_session_row \<Rightarrow> NativeProfileCapture \<Rightarrow> string \<Rightarrow> nat \<Rightarrow> bool \<Rightarrow> string \<Rightarrow>
     int \<Rightarrow> inventory \<Rightarrow> StorageError + inventory" where
  "store_capture y authorization capture profile_id revision is_default blob_id committed_unix_ms s =
     and_then (insert_profile_row y
       (captured_row capture profile_id (cs_printer_id authorization) revision is_default blob_id
         committed_unix_ms)
       (if is_default
        then demote_default_profiles (cs_printer_id authorization) profile_id committed_unix_ms s
        else s)) (\<lambda>s.
     and_then (insert_blob (captured_blob capture profile_id revision blob_id committed_unix_ms) s) (\<lambda>s.
     and_then (some_or Json (dependencies_of_json y (pc_dependencies_json capture))) (\<lambda>dependencies.
     and_then (insert_dependencies profile_id revision 0 dependencies s) (\<lambda>s.
     Inr (s\<lparr>iv_sessions := snd (sql_update (\<lambda>r. cs_session_id r = cs_session_id authorization \<and>
       cs_status r = ''authorized'')
       (\<lambda>r. r\<lparr>cs_status := ''committed'', cs_completed_unix_ms := Some committed_unix_ms\<rparr>)
       (iv_sessions s))\<rparr>)))))"

definition captured_revision ::
  "capture_session_row \<Rightarrow> StoredNamedProfile option \<Rightarrow> NativeProfileCapture \<Rightarrow> string \<Rightarrow>
     StorageError + string \<times> nat \<times> bool" where
  "captured_revision authorization current capture fresh_profile_id =
     (let current_revision = (case current of None \<Rightarrow> 0 | Some p \<Rightarrow> np_revision p);
          expected = (case cs_expected_revision authorization of None \<Rightarrow> 0 | Some r \<Rightarrow> r)
      in if expected \<noteq> current_revision then Inl (ProfileRevisionConflict expected current_revision)
         else if cs_operation authorization = ''edit''
         then and_then (some_or (InvalidPrinterProfile ''edit capture requires a profile'')
                (cs_profile_id authorization)) (\<lambda>profile_id.
              Inr (profile_id, current_revision + 1, is_some_and current np_is_default))
         else Inr (fresh_profile_id, 1, pc_is_default capture))"

definition commit_profile_capture ::
  "inv_ext \<Rightarrow> string \<Rightarrow> string \<Rightarrow> string \<Rightarrow> string \<Rightarrow> string \<Rightarrow> NativeProfileCapture \<Rightarrow> int \<Rightarrow>
     StoredNamedProfile inv_op" where
  "commit_profile_capture y fresh_profile_id blob_id session_id token_digest peer_user_id capture
     committed_unix_ms s =
     (case validate_native_capture y capture of
        Inl e \<Rightarrow> (s, Inl e)
      | Inr _ \<Rightarrow> transaction (\<lambda>s.
          and_then (some_or (CaptureSessionNotFound session_id)
            (sql_find cs_session_id session_id (iv_sessions s))) (\<lambda>authorization.
          and_then (check_authorization authorization token_digest peer_user_id committed_unix_ms) (\<lambda>_.
          let current = Option.bind (cs_profile_id authorization)
                (\<lambda>profile_id. query_named_profile (cs_printer_id authorization) profile_id s)
          in and_then (captured_revision authorization current capture fresh_profile_id)
            (\<lambda>(profile_id, revision, is_default).
          and_then (store_capture y authorization capture profile_id revision is_default blob_id
            committed_unix_ms s) (\<lambda>s.
          and_then (some_or (InvalidPrinterProfile ''profile insert failed'')
            (query_named_profile (cs_printer_id authorization) profile_id s)) (\<lambda>stored.
          Inr (s, stored))))))) s)"

definition cancel_profile_capture :: "string \<Rightarrow> string \<Rightarrow> string \<Rightarrow> int \<Rightarrow> unit inv_op" where
  "cancel_profile_capture session_id token_digest peer_user_id cancelled_unix_ms s =
     (case sql_update (\<lambda>r. cs_session_id r = session_id \<and> cs_token_digest r = token_digest \<and>
          cs_peer_user_id r = peer_user_id \<and> cs_status r = ''authorized'' \<and>
          cancelled_unix_ms \<le> cs_expires_unix_ms r)
          (\<lambda>r. r\<lparr>cs_status := ''cancelled'', cs_completed_unix_ms := Some cancelled_unix_ms\<rparr>)
          (iv_sessions s) of
        (changed, rows) \<Rightarrow>
          if changed = 0 then (s, Inl (CaptureSessionNotAuthorized session_id))
          else (s\<lparr>iv_sessions := rows\<rparr>, Inr ()))"

end
