(* ===== verification/Agent_Engine.thy ===== *)
theory Agent_Engine
  imports Agent_Moves Agent_Profiles
begin

text \<open>
  The print engine (\<open>crates/agent-core/src/lib.rs\<close>): the loop that takes runnable jobs from the
  durable store, commits a spool intent, hands the job to the native executor, records the
  outcome, and reconciles what the operating system reports later.

  \<^item> An engine works on the queue database and the inventory. Other connections of the same
    process use the same files. The computation is a sequence of effects; before its \<open>n\<close>-th
    effect the others have changed the two databases by \<open>others_at\<close> and \<open>inventory_at\<close>, and the
    process may die there (\<open>dies_at\<close>), which ends the run with \<open>Stopped\<close>.
  \<^item> The answers of the clock, of the executor and of the identifier generator at the \<open>n\<close>-th
    effect are functions of the parameter \<open>host\<close>; \<open>codec\<close> has the JSON functions of \<open>serde\<close>.
  \<^item> \<open>en_calls\<close> records the native calls, each with the length of the event log at that moment,
    and \<open>en_removed\<close> the files the engine deletes. The program has no such lists; they are what
    the outside world saw.
  \<^item> The sums of times are exact; \<open>i64\<close> overflow of a clock near its maximum is not modelled.
\<close>

section \<open>Values\<close>

datatype AgentError =
    Storage StorageError
  | InvalidOptions
  | InvalidNativeProfile string
  | InvalidState string
  | InvalidTransition JobState JobState
  | Stopped

datatype SafeProfileOverride =
    OverrideBin | OverrideCollate | OverrideColor | OverrideCopies | OverrideDpi | OverrideDuplex
  | OverrideFitToPage | OverrideMedia | OverrideNup | OverridePages | OverridePaper | OverrideRotate

record NativeProfilePayload =
  pp_profile_id :: string
  pp_revision :: nat
  pp_kind :: NativeProfileKind
  pp_schema_version :: nat
  pp_digest :: string
  pp_blob :: string
  pp_safe_overrides :: "SafeProfileOverride list"
  pp_driver_fingerprint :: DriverFingerprint

datatype DurableProfileSnapshot =
    PortableSnapshot string nat
  | NativeSnapshot NativeProfilePayload

text \<open>The field \<open>route_fence\<close> is \<open>None\<close> in every submission of the engine and left out.\<close>

record LocalSubmission =
  ls_job_id :: string
  ls_submission_id :: string
  ls_printer_id :: string
  ls_printer_native_id :: string
  ls_title :: string
  ls_content_path :: string
  ls_content_kind :: string
  ls_options :: JobOptions
  ls_native_profile :: "NativeProfilePayload option"
  ls_printer_native_binding :: "PrinterNativeBindingPin option"
  ls_route_connector_id :: "string option"
  ls_deadline_unix_ms :: int

record NativeJobReference =
  nr_job_id :: string
  nr_printer_native_id :: string
  nr_native_job_id :: string
  nr_deadline_unix_ms :: int

record ExecutorFailure =
  ef_code :: string
  ef_message :: string
  ef_retryable :: bool
  ef_handoff_may_have_succeeded :: bool
  ef_native_code :: "string option"

datatype NativeJobState =
    NativeQueued | NativePrinting | NativeBlocked | NativeCompleted | NativeFailed | NativeCancelled
  | NativeMissing | NativeUnknown

record NativeJobObservation =
  ob_state :: NativeJobState
  ob_native_code :: "string option"
  ob_message :: "string option"

record codec =
  parse_job_options :: "string \<Rightarrow> string + JobOptions"
  json_field :: "string \<Rightarrow> string \<Rightarrow> string"
  failure_json :: "ExecutorFailure \<Rightarrow> string option"
  observation_json :: "NativeJobObservation \<Rightarrow> string option"
  parse_snapshot :: "string \<Rightarrow> string + DurableProfileSnapshot"
  parse_overrides :: "string \<Rightarrow> string + SafeProfileOverride list"
  parse_fingerprint :: "string \<Rightarrow> string + DriverFingerprint"
  kind_error :: "string \<Rightarrow> string"
  options_error :: "JobOptionsError \<Rightarrow> string"

record host =
  clock_at :: "nat \<Rightarrow> int"
  fresh_at :: "nat \<Rightarrow> string"
  expire_scan :: "job_row list \<Rightarrow> job_row list"
  expire_ids :: "nat \<Rightarrow> string \<Rightarrow> string"
  submit_at :: "nat \<Rightarrow> LocalSubmission \<Rightarrow> ExecutorFailure + string"
  observe_at :: "nat \<Rightarrow> NativeJobReference \<Rightarrow> ExecutorFailure + NativeJobObservation"
  cancel_at :: "nat \<Rightarrow> NativeJobReference \<Rightarrow> ExecutorFailure + unit"
  others_at :: "nat \<Rightarrow> agent_db \<Rightarrow> agent_db"
  inventory_at :: "nat \<Rightarrow> inventory \<Rightarrow> inventory"
  dies_at :: "nat \<Rightarrow> bool"

datatype native_call =
    Submit LocalSubmission nat
  | Observe NativeJobReference nat
  | Cancel NativeJobReference nat

record engine =
  en_db :: agent_db
  en_inventory :: inventory
  en_tick :: nat
  en_calls :: "native_call list"
  en_removed :: "string list"

type_synonym 'a eng = "engine \<Rightarrow> engine \<times> (AgentError + 'a)"

section \<open>Effects\<close>

definition pure_ok :: "'a \<Rightarrow> 'a eng" where
  "pure_ok v e = (e, Inr v)"

definition fail :: "AgentError \<Rightarrow> 'a eng" where
  "fail err e = (e, Inl err)"

text \<open>\<open>m?\<close> followed by \<open>f\<close>\<close>

definition then_do :: "'a eng \<Rightarrow> ('a \<Rightarrow> 'b eng) \<Rightarrow> 'b eng" where
  "then_do m f e = (case m e of (e, Inl err) \<Rightarrow> (e, Inl err) | (e, Inr v) \<Rightarrow> f v e)"

definition interrupted :: "host \<Rightarrow> engine \<Rightarrow> engine" where
  "interrupted h e = e\<lparr>en_db := others_at h (en_tick e) (en_db e),
     en_inventory := inventory_at h (en_tick e) (en_inventory e), en_tick := Suc (en_tick e)\<rparr>"

definition effect :: "host \<Rightarrow> (nat \<Rightarrow> 'a eng) \<Rightarrow> 'a eng" where
  "effect h act e =
     (if dies_at h (en_tick e) then (interrupted h e, Inl Stopped)
      else act (en_tick e) (interrupted h e))"

definition on_db :: "host \<Rightarrow> (nat \<Rightarrow> 'a db_op) \<Rightarrow> 'a eng" where
  "on_db h operation = effect h (\<lambda>n e.
     case operation n (en_db e) of (s, out) \<Rightarrow> (e\<lparr>en_db := s\<rparr>, map_sum Storage id out))"

definition on_inventory :: "host \<Rightarrow> 'a inv_op \<Rightarrow> 'a eng" where
  "on_inventory h operation = effect h (\<lambda>n e.
     case operation (en_inventory e) of (s, out) \<Rightarrow> (e\<lparr>en_inventory := s\<rparr>, map_sum Storage id out))"

definition read_db :: "host \<Rightarrow> (agent_db \<Rightarrow> StorageError + 'a) \<Rightarrow> 'a eng" where
  "read_db h query = on_db h (\<lambda>n s. (s, query s))"

definition unix_ms :: "host \<Rightarrow> int eng" where
  "unix_ms h = effect h (\<lambda>n. pure_ok (clock_at h n))"

definition remove_file :: "host \<Rightarrow> string option \<Rightarrow> unit eng" where
  "remove_file h path = (case path of None \<Rightarrow> pure_ok ()
     | Some p \<Rightarrow> effect h (\<lambda>n e. (e\<lparr>en_removed := en_removed e @ [p]\<rparr>, Inr ())))"

definition log_length :: "engine \<Rightarrow> nat" where
  "log_length e = length (job_events (en_db e))"

definition executor_submit :: "host \<Rightarrow> LocalSubmission \<Rightarrow> (ExecutorFailure + string) eng" where
  "executor_submit h submission = effect h (\<lambda>n e.
     (e\<lparr>en_calls := en_calls e @ [Submit submission (log_length e)]\<rparr>, Inr (submit_at h n submission)))"

definition executor_observe ::
  "host \<Rightarrow> NativeJobReference \<Rightarrow> (ExecutorFailure + NativeJobObservation) eng" where
  "executor_observe h reference = effect h (\<lambda>n e.
     (e\<lparr>en_calls := en_calls e @ [Observe reference (log_length e)]\<rparr>, Inr (observe_at h n reference)))"

definition executor_cancel :: "host \<Rightarrow> NativeJobReference \<Rightarrow> (ExecutorFailure + unit) eng" where
  "executor_cancel h reference = effect h (\<lambda>n e.
     (e\<lparr>en_calls := en_calls e @ [Cancel reference (log_length e)]\<rparr>, Inr (cancel_at h n reference)))"

definition to_json :: "string option \<Rightarrow> string eng" where
  "to_json text = (case text of None \<Rightarrow> fail InvalidOptions | Some t \<Rightarrow> pure_ok t)"

section \<open>States\<close>

fun state_name :: "JobState \<Rightarrow> string" where
  "state_name Registered = ''registered''"
| "state_name ContentPending = ''content_pending''"
| "state_name WaitingForAgent = ''waiting_for_agent''"
| "state_name AgentDownloading = ''agent_downloading''"
| "state_name AgentAccepted = ''agent_accepted''"
| "state_name QueuedLocal = ''queued_local''"
| "state_name Preparing = ''preparing''"
| "state_name Rendering = ''rendering''"
| "state_name SpoolIntent = ''spool_intent''"
| "state_name AcceptedBySpooler = ''accepted_by_spooler''"
| "state_name Spooling = ''spooling''"
| "state_name Printing = ''printing''"
| "state_name Blocked = ''blocked''"
| "state_name CompletedReported = ''completed_reported''"
| "state_name DeliveryUncertain = ''delivery_uncertain''"
| "state_name CancelRequested = ''cancel_requested''"
| "state_name Cancelled = ''cancelled''"
| "state_name Expired = ''expired''"
| "state_name FailedRetryable = ''failed_retryable''"
| "state_name FailedTerminal = ''failed_terminal''"

definition all_states :: "JobState list" where
  "all_states = [Registered, ContentPending, WaitingForAgent, AgentDownloading, AgentAccepted,
     QueuedLocal, Preparing, Rendering, SpoolIntent, AcceptedBySpooler, Spooling, Printing, Blocked,
     CompletedReported, DeliveryUncertain, CancelRequested, Cancelled, Expired, FailedRetryable,
     FailedTerminal]"

definition parse_state :: "string \<Rightarrow> AgentError + JobState" where
  "parse_state v = (case find (\<lambda>s. state_name s = v) all_states of
     Some s \<Rightarrow> Inr s | None \<Rightarrow> Inl (InvalidState v))"

fun native_state_name :: "NativeJobState \<Rightarrow> string" where
  "native_state_name NativeQueued = ''queued''"
| "native_state_name NativePrinting = ''printing''"
| "native_state_name NativeBlocked = ''blocked''"
| "native_state_name NativeCompleted = ''completed''"
| "native_state_name NativeFailed = ''failed''"
| "native_state_name NativeCancelled = ''cancelled''"
| "native_state_name NativeMissing = ''missing''"
| "native_state_name NativeUnknown = ''unknown''"

lemma state_name_inject [simp]: "state_name a = state_name b \<longleftrightarrow> a = b"
  by (cases a; cases b) simp_all

lemma parse_state_name [simp]: "parse_state (state_name s) = Inr s"
  by (cases s) (simp_all add: parse_state_def all_states_def)

section \<open>Transitions\<close>

definition DEFAULT_EXECUTION_DEADLINE_MS :: int where "DEFAULT_EXECUTION_DEADLINE_MS = 120000"
definition DEFAULT_OBSERVATION_DEADLINE_MS :: int where "DEFAULT_OBSERVATION_DEADLINE_MS = 30000"
definition DEFAULT_RECONCILIATION_INTERVAL_MS :: int where "DEFAULT_RECONCILIATION_INTERVAL_MS = 2000"
definition DEFAULT_UNCERTAINTY_AFTER_MS :: int where "DEFAULT_UNCERTAINTY_AFTER_MS = 10 * 60 * 1000"
definition DEFAULT_LOCAL_RETRY_DELAY_MS :: int where "DEFAULT_LOCAL_RETRY_DELAY_MS = 2000"

definition transition ::
  "host \<Rightarrow> ext \<Rightarrow> string \<Rightarrow> string \<Rightarrow> JobState \<Rightarrow> string option \<Rightarrow> string \<Rightarrow> string \<Rightarrow> unit eng" where
  "transition h x job_id from_name to reason message details_json =
     (case parse_state from_name of
        Inl err \<Rightarrow> fail err
      | Inr from \<Rightarrow>
          if validate_transition from to \<noteq> Inr () then fail (InvalidTransition from to)
          else then_do (unix_ms h) (\<lambda>now.
            then_do (on_db h (\<lambda>n. append_next_event x (fresh_at h n) job_id (state_name to) reason
              (Some message) details_json now)) (\<lambda>_. pure_ok ())))"

definition transition_if_needed ::
  "host \<Rightarrow> ext \<Rightarrow> LocalJob \<Rightarrow> JobState \<Rightarrow> string option \<Rightarrow> string \<Rightarrow> string \<Rightarrow> unit eng" where
  "transition_if_needed h x job to reason message details_json =
     (if lj_state job = state_name to then pure_ok ()
      else transition h x (lj_job_id job) (lj_state job) to reason message details_json)"

definition mark_uncertain :: "host \<Rightarrow> ext \<Rightarrow> LocalJob \<Rightarrow> string \<Rightarrow> string \<Rightarrow> unit eng" where
  "mark_uncertain h x job message details_json =
     then_do (transition_if_needed h x job DeliveryUncertain (Some ''ambiguous_handoff'') message
       details_json) (\<lambda>_.
     on_db h (\<lambda>n. finish_reconciliation (lj_job_id job)))"

section \<open>The native profile of a job\<close>

definition bad_profile :: "string \<Rightarrow> AgentError + 'a" where
  "bad_profile message = Inl (InvalidNativeProfile message)"

definition revision_text :: "string \<Rightarrow> nat \<Rightarrow> string" where
  "revision_text profile_id revision = ''profile '' @ profile_id @ '' revision '' @ show_nat revision"

definition snapshot_profile ::
  "codec \<Rightarrow> LocalJob \<Rightarrow> string \<Rightarrow> nat \<Rightarrow> string \<Rightarrow> AgentError + NativeProfilePayload option" where
  "snapshot_profile c job profile_id revision encoded =
     (case parse_snapshot c encoded of
        Inl err \<Rightarrow> bad_profile (''job '' @ lj_job_id job @
          '' has an invalid durable profile snapshot: '' @ err)
      | Inr (PortableSnapshot i r) \<Rightarrow>
          if i = profile_id \<and> r = revision then Inr None
          else bad_profile (''job '' @ lj_job_id job @
            '' durable profile snapshot does not match its revision pin'')
      | Inr (NativeSnapshot payload) \<Rightarrow>
          if pp_profile_id payload = profile_id \<and> pp_revision payload = revision
          then Inr (Some payload)
          else bad_profile (''job '' @ lj_job_id job @
            '' durable profile snapshot does not match its revision pin''))"

definition parse_kind :: "codec \<Rightarrow> string \<Rightarrow> nat \<Rightarrow> string \<Rightarrow> AgentError + NativeProfileKind" where
  "parse_kind c profile_id revision kind =
     (case native_kind_of kind of Some k \<Rightarrow> Inr k
      | None \<Rightarrow> bad_profile (revision_text profile_id revision @
          '' has invalid native kind metadata: '' @ kind_error c kind))"

definition payload_matches :: "StoredNamedProfile \<Rightarrow> StoredNativeProfileBlob \<Rightarrow> bool" where
  "payload_matches metadata native =
     (np_native_blob_id metadata = Some (nb_blob_id native) \<and>
      np_native_digest metadata = Some (nb_digest native) \<and>
      np_native_kind metadata = nb_native_kind native)"

definition stored_payload ::
  "codec \<Rightarrow> string \<Rightarrow> nat \<Rightarrow> StoredNamedProfile \<Rightarrow> StoredNativeProfileBlob \<Rightarrow>
     AgentError + NativeProfilePayload option" where
  "stored_payload c profile_id revision metadata native =
     (if \<not> payload_matches metadata native
      then bad_profile (revision_text profile_id revision @
        '' metadata does not match its immutable payload'')
      else and_then (parse_kind c profile_id revision (nb_native_kind native)) (\<lambda>kind.
        case parse_overrides c (np_safe_overrides_json metadata) of
          Inl err \<Rightarrow> bad_profile (revision_text profile_id revision @
            '' has invalid safe override metadata: '' @ err)
        | Inr overrides \<Rightarrow>
        (case parse_fingerprint c (np_driver_fingerprint_json metadata) of
          Inl err \<Rightarrow> bad_profile (revision_text profile_id revision @
            '' has invalid driver metadata: '' @ err)
        | Inr fingerprint \<Rightarrow> Inr (Some
            \<lparr>pp_profile_id = profile_id, pp_revision = revision, pp_kind = kind,
             pp_schema_version = nb_schema_version native, pp_digest = nb_digest native,
             pp_blob = nb_native_blob native, pp_safe_overrides = overrides,
             pp_driver_fingerprint = fingerprint\<rparr>))))"

definition storage_result :: "StorageError + 'a \<Rightarrow> AgentError + 'a" where
  "storage_result = map_sum Storage id"

definition native_profile_for_job ::
  "codec \<Rightarrow> LocalJob \<Rightarrow> inventory \<Rightarrow> AgentError + NativeProfilePayload option" where
  "native_profile_for_job c job s =
     (case (lj_profile_id job, lj_profile_revision job) of
        (None, None) \<Rightarrow> Inr None
      | (Some profile_id, Some revision) \<Rightarrow>
         (case lj_profile_snapshot_json job of
            Some encoded \<Rightarrow> snapshot_profile c job profile_id revision encoded
          | None \<Rightarrow>
              if lj_cloud_managed job
              then bad_profile (''job '' @ lj_job_id job @ '' is missing its durable profile snapshot'')
              else and_then (storage_result
                (named_profile_revision (lj_printer_id job) profile_id revision s)) (\<lambda>found.
              and_then (some_or (InvalidNativeProfile (revision_text profile_id revision @
                '' is missing'')) found) (\<lambda>metadata.
              and_then (parse_kind c profile_id revision (np_native_kind metadata)) (\<lambda>metadata_kind.
              if metadata_kind = PortableOptions then Inr None
              else and_then (storage_result (native_profile_blob profile_id revision s)) (\<lambda>blob.
              and_then (some_or (InvalidNativeProfile (''native payload for '' @
                revision_text profile_id revision @ '' is missing'')) blob) (\<lambda>native.
              stored_payload c profile_id revision metadata native))))))
      | _ \<Rightarrow> bad_profile (''job '' @ lj_job_id job @ '' has an incomplete profile revision pin''))"

definition read_profile_for_job :: "host \<Rightarrow> codec \<Rightarrow> LocalJob \<Rightarrow> NativeProfilePayload option eng" where
  "read_profile_for_job h c job = effect h (\<lambda>n e.
     (e, native_profile_for_job c job (en_inventory e)))"

section \<open>Execution of a job\<close>

definition confidential_content_path :: "string \<Rightarrow> string option" where
  "confidential_content_path path = (if is_confidential_path path then Some path else None)"

definition begin_execution :: "host \<Rightarrow> ext \<Rightarrow> LocalJob \<Rightarrow> unit eng" where
  "begin_execution h x job =
     (case parse_state (lj_state job) of
        Inl err \<Rightarrow> fail err
      | Inr state \<Rightarrow>
          then_do
            (if state = FailedRetryable
             then if lj_cloud_managed job then fail (InvalidTransition FailedRetryable Preparing)
                  else then_do (transition h x (lj_job_id job) (lj_state job) QueuedLocal
                    (Some ''local_retry'')
                    ''Retrying locally queued job after a pre-handoff failure'' ''{}'') (\<lambda>_.
                    pure_ok QueuedLocal)
             else pure_ok state) (\<lambda>state.
          transition h x (lj_job_id job) (state_name state) Preparing None
            ''Validating local job'' ''{}''))"

definition fail_invalid_job_options ::
  "host \<Rightarrow> ext \<Rightarrow> codec \<Rightarrow> LocalJob \<Rightarrow> string \<Rightarrow> unit eng" where
  "fail_invalid_job_options h x c job err =
     transition h x (lj_job_id job) ''preparing'' FailedTerminal (Some ''invalid_print_options'')
       ''Print options failed local safety validation before native handoff''
       (json_field c ''error'' err)"

definition validate_job_options ::
  "host \<Rightarrow> ext \<Rightarrow> codec \<Rightarrow> LocalJob \<Rightarrow> JobOptions option eng" where
  "validate_job_options h x c job =
     (case parse_job_options c (lj_options_json job) of
        Inl err \<Rightarrow> then_do (fail_invalid_job_options h x c job err) (\<lambda>_. pure_ok None)
      | Inr opts \<Rightarrow>
         (case validate_bounds opts of
            Inr _ \<Rightarrow> pure_ok (Some opts)
          | Inl err \<Rightarrow> then_do (fail_invalid_job_options h x c job (options_error c err)) (\<lambda>_.
              pure_ok None)))"

definition submission_of ::
  "LocalJob \<Rightarrow> JobOptions \<Rightarrow> NativeProfilePayload option \<Rightarrow> int \<Rightarrow> LocalSubmission" where
  "submission_of job opts native_profile now =
     \<lparr>ls_job_id = lj_job_id job, ls_submission_id = lj_submission_id job,
      ls_printer_id = lj_printer_id job, ls_printer_native_id = lj_printer_native_id job,
      ls_title = lj_title job, ls_content_path = lj_content_path job,
      ls_content_kind = lj_content_kind job, ls_options = opts,
      ls_native_profile = native_profile,
      ls_printer_native_binding = lj_printer_native_binding job,
      ls_route_connector_id = lj_route_connector_id job,
      ls_deadline_unix_ms = now + DEFAULT_EXECUTION_DEADLINE_MS\<rparr>"

text \<open>The outcome of a handoff is committed before the plaintext of a confidential job is removed.\<close>

definition record_acceptance ::
  "host \<Rightarrow> ext \<Rightarrow> codec \<Rightarrow> string \<Rightarrow> string \<Rightarrow> unit eng" where
  "record_acceptance h x c job_id native_job_id =
     then_do (unix_ms h) (\<lambda>now.
     on_db h (\<lambda>n. record_native_acceptance x (fresh_at h n) job_id native_job_id
       (json_field c ''native_job_id'' native_job_id) now
       (now + DEFAULT_RECONCILIATION_INTERVAL_MS) (now + DEFAULT_UNCERTAINTY_AFTER_MS)))"

definition failure_outcome :: "ExecutorFailure \<Rightarrow> JobState \<times> string" where
  "failure_outcome error =
     (if ef_handoff_may_have_succeeded error then (DeliveryUncertain, ''ambiguous_handoff'')
      else if ef_retryable error then (FailedRetryable, ef_code error)
      else (FailedTerminal, ef_code error))"

definition record_failure ::
  "host \<Rightarrow> ext \<Rightarrow> inv_ext \<Rightarrow> codec \<Rightarrow> LocalJob \<Rightarrow> ExecutorFailure \<Rightarrow> unit eng" where
  "record_failure h x y c job error =
     then_do (on_inventory h (record_executor_failure y (ef_code error))) (\<lambda>_.
     then_do (to_json (failure_json c error)) (\<lambda>details.
     if ef_retryable error \<and> \<not> ef_handoff_may_have_succeeded error \<and> \<not> lj_cloud_managed job
     then then_do (unix_ms h) (\<lambda>now.
       on_db h (\<lambda>n. record_local_retryable_failure x (fresh_at h n) (lj_job_id job)
         (snd (failure_outcome error)) (ef_message error) details now
         (now + DEFAULT_LOCAL_RETRY_DELAY_MS)))
     else transition h x (lj_job_id job) ''spool_intent'' (fst (failure_outcome error))
       (Some (snd (failure_outcome error))) (ef_message error) details))"

definition hand_over ::
  "host \<Rightarrow> ext \<Rightarrow> inv_ext \<Rightarrow> codec \<Rightarrow> LocalJob \<Rightarrow> LocalSubmission \<Rightarrow> unit eng" where
  "hand_over h x y c job submission =
     then_do (executor_submit h submission) (\<lambda>out.
     case out of
       Inr native_job_id \<Rightarrow>
         then_do (record_acceptance h x c (lj_job_id job) native_job_id) (\<lambda>_.
         remove_file h (confidential_content_path (lj_content_path job)))
     | Inl error \<Rightarrow>
         then_do (record_failure h x y c job error) (\<lambda>_.
         if \<not> ef_retryable error
         then remove_file h (confidential_content_path (lj_content_path job)) else pure_ok ()))"

definition commit_intent :: "host \<Rightarrow> ext \<Rightarrow> LocalJob \<Rightarrow> unit eng" where
  "commit_intent h x job =
     then_do
       (if lj_content_kind job = ''pdf''
        then transition h x (lj_job_id job) ''preparing'' Rendering None
          ''Preparing PDF for native submission'' ''{}''
        else pure_ok ()) (\<lambda>_.
     transition h x (lj_job_id job)
       (if lj_content_kind job = ''pdf'' then ''rendering'' else ''preparing'') SpoolIntent None
       ''Persisted native spool intent'' ''{}'')"

definition execute_job :: "host \<Rightarrow> ext \<Rightarrow> inv_ext \<Rightarrow> codec \<Rightarrow> LocalJob \<Rightarrow> unit eng" where
  "execute_job h x y c job =
     then_do (begin_execution h x job) (\<lambda>_.
     then_do (validate_job_options h x c job) (\<lambda>options.
     case options of
       None \<Rightarrow> remove_file h (confidential_content_path (lj_content_path job))
     | Some opts \<Rightarrow>
         then_do (commit_intent h x job) (\<lambda>_.
         then_do (read_profile_for_job h c job) (\<lambda>native_profile.
         then_do (unix_ms h) (\<lambda>now.
         hand_over h x y c job (submission_of job opts native_profile now))))))"

section \<open>Reconciliation\<close>

definition record_attempt ::
  "host \<Rightarrow> ext \<Rightarrow> string \<Rightarrow> string \<Rightarrow> string \<Rightarrow> string \<Rightarrow> string \<Rightarrow> string option \<Rightarrow> int \<Rightarrow> unit eng" where
  "record_attempt h x job_id native_job_id native_state authority details_json error_code now =
     on_db h (\<lambda>n. record_reconciliation_attempt x (fresh_at h n) job_id native_job_id native_state
       authority details_json error_code now (now + DEFAULT_RECONCILIATION_INTERVAL_MS))"

definition finish_item :: "host \<Rightarrow> LocalJob \<Rightarrow> unit eng" where
  "finish_item h job = on_db h (\<lambda>n. finish_reconciliation (lj_job_id job))"

definition apply_native_observation ::
  "host \<Rightarrow> ext \<Rightarrow> codec \<Rightarrow> ReconciliationItem \<Rightarrow> string \<Rightarrow> NativeJobObservation \<Rightarrow> int \<Rightarrow> unit eng" where
  "apply_native_observation h x c item native_job_id observation now =
     then_do (to_json (observation_json c observation)) (\<lambda>details.
     then_do (record_attempt h x (lj_job_id (ri_job item)) native_job_id
       (native_state_name (ob_state observation)) ''native_spooler'' details None now) (\<lambda>_.
     let job = ri_job item in
     case ob_state observation of
       NativeQueued \<Rightarrow>
         if lj_state job \<in> {''accepted_by_spooler'', ''blocked''}
         then transition_if_needed h x job Spooling None ''Native spooler reports the job queued'' details
         else pure_ok ()
     | NativePrinting \<Rightarrow>
         if lj_state job \<in> {''accepted_by_spooler'', ''spooling'', ''blocked''}
         then transition_if_needed h x job Printing None ''Native spooler reports the job printing'' details
         else pure_ok ()
     | NativeBlocked \<Rightarrow> transition_if_needed h x job Blocked (Some ''driver_error'')
         ''Native spooler reports the job blocked'' details
     | NativeCompleted \<Rightarrow>
         then_do (transition_if_needed h x job CompletedReported None
           ''Operating system spooler reported completion; physical output is not proven'' details) (\<lambda>_.
         finish_item h job)
     | NativeFailed \<Rightarrow>
         then_do (transition_if_needed h x job FailedTerminal (Some ''driver_error'')
           ''Native spooler reported terminal failure'' details) (\<lambda>_. finish_item h job)
     | NativeCancelled \<Rightarrow>
         then_do (transition_if_needed h x job Cancelled None
           ''Native spooler reported cancellation'' details) (\<lambda>_. finish_item h job)
     | _ \<Rightarrow>
         if ri_uncertainty_deadline_unix_ms item \<le> now
         then mark_uncertain h x job ''Native spooler could not prove the final job outcome'' details
         else pure_ok ()))"

definition reconcile_cancellation ::
  "host \<Rightarrow> ext \<Rightarrow> codec \<Rightarrow> ReconciliationItem \<Rightarrow> NativeJobReference \<Rightarrow> string \<Rightarrow> int \<Rightarrow> unit eng" where
  "reconcile_cancellation h x c item reference native_job_id now =
     then_do (executor_cancel h reference) (\<lambda>out.
     case out of
       Inr _ \<Rightarrow>
         then_do (record_attempt h x (lj_job_id (ri_job item)) native_job_id ''cancelled'' ''executor''
           ''{}'' None now) (\<lambda>_.
         then_do (transition h x (lj_job_id (ri_job item)) (lj_state (ri_job item)) Cancelled
           (Some ''cancelled_by_user'') ''Operating system accepted cancellation'' ''{}'') (\<lambda>_.
         finish_item h (ri_job item)))
     | Inl error \<Rightarrow>
         then_do (to_json (failure_json c error)) (\<lambda>details.
         then_do (record_attempt h x (lj_job_id (ri_job item)) native_job_id ''cancel_failed''
           ''executor'' details (Some (ef_code error)) now) (\<lambda>_.
         if ri_uncertainty_deadline_unix_ms item \<le> now
         then mark_uncertain h x (ri_job item) ''Cancellation outcome could not be proved'' details
         else pure_ok ())))"

definition reconcile_item ::
  "host \<Rightarrow> ext \<Rightarrow> codec \<Rightarrow> int \<Rightarrow> ReconciliationItem \<Rightarrow> unit eng" where
  "reconcile_item h x c now item =
     (case lj_native_job_id (ri_job item) of
        None \<Rightarrow> mark_uncertain h x (ri_job item)
          ''Native reconciliation schedule has no spooler identifier'' ''{}''
      | Some native_job_id \<Rightarrow>
          let reference = \<lparr>nr_job_id = lj_job_id (ri_job item),
                nr_printer_native_id = lj_printer_native_id (ri_job item),
                nr_native_job_id = native_job_id,
                nr_deadline_unix_ms = now + DEFAULT_OBSERVATION_DEADLINE_MS\<rparr>
          in if ri_cancel_requested item \<or> lj_state (ri_job item) = ''cancel_requested''
             then reconcile_cancellation h x c item reference native_job_id now
             else then_do (executor_observe h reference) (\<lambda>out.
               case out of
                 Inr observation \<Rightarrow> apply_native_observation h x c item native_job_id observation now
               | Inl error \<Rightarrow>
                   then_do (to_json (failure_json c error)) (\<lambda>details.
                   then_do (record_attempt h x (lj_job_id (ri_job item)) native_job_id
                     ''observation_error'' ''executor'' details (Some (ef_code error)) now) (\<lambda>_.
                   if ri_uncertainty_deadline_unix_ms item \<le> now
                   then mark_uncertain h x (ri_job item)
                     ''Native job could not be observed before the uncertainty deadline'' details
                   else pure_ok ()))))"

text \<open>\<open>for v in vs { f(v).await?; }\<close>\<close>

fun for_each :: "('a \<Rightarrow> unit eng) \<Rightarrow> 'a list \<Rightarrow> unit eng" where
  "for_each f [] = pure_ok ()"
| "for_each f (v # vs) = then_do (f v) (\<lambda>_. for_each f vs)"

definition reconcile_due :: "host \<Rightarrow> ext \<Rightarrow> codec \<Rightarrow> nat eng" where
  "reconcile_due h x c =
     then_do (unix_ms h) (\<lambda>now.
     then_do (read_db h (due_reconciliations x now 32)) (\<lambda>items.
     then_do (for_each (reconcile_item h x c now) items) (\<lambda>_.
     pure_ok (length items))))"

definition run_once :: "host \<Rightarrow> ext \<Rightarrow> inv_ext \<Rightarrow> codec \<Rightarrow> nat eng" where
  "run_once h x y c =
     then_do (unix_ms h) (\<lambda>now.
     then_do (on_db h (\<lambda>n. expire_waiting x (expire_scan h) (expire_ids h n) now)) (\<lambda>_.
     then_do (read_db h (runnable_heads x now)) (\<lambda>jobs.
     then_do (for_each (execute_job h x y c) jobs) (\<lambda>_.
     then_do (reconcile_due h x c) (\<lambda>reconciled.
     pure_ok (length jobs + reconciled))))))"

end
