(* ===== verification/Agent_Engine_Correct.thy ===== *)
theory Agent_Engine_Correct
  imports Agent_Engine
begin

text \<open>
  What a run of the print engine does to the durable store, whatever the executor answers,
  whenever the process dies and whatever the other connections do in between. \<open>quiet x j\<close> are
  the steps of the engine for job \<open>j\<close> other than a native submission. \<open>engine_ok\<close> is the
  invariant: every job that can be printed again has a \<open>failed_retryable\<close> event after each of
  its submissions, and every submission was preceded by its committed spool intent.
\<close>

section \<open>Submissions and the log\<close>

fun is_submission :: "native_call \<Rightarrow> bool" where
  "is_submission (Submit _ _) = True"
| "is_submission _ = False"

definition submissions :: "engine \<Rightarrow> native_call list" where
  "submissions e = filter is_submission (en_calls e)"

definition retried :: "string \<Rightarrow> event_row list \<Rightarrow> bool" where
  "retried j evs = list_ex (\<lambda>ev. ev_job_id ev = j \<and> ev_state ev = ''failed_retryable'') evs"

definition last_state :: "string \<Rightarrow> event_row list \<Rightarrow> string option" where
  "last_state j evs = (case rev (filter (\<lambda>ev. ev_job_id ev = j) evs) of
     [] \<Rightarrow> None | ev # _ \<Rightarrow> Some (ev_state ev))"

abbreviation log_of :: "engine \<Rightarrow> event_row list" where
  "log_of e \<equiv> job_events (en_db e)"

definition waiting :: "job_row \<Rightarrow> bool" where
  "waiting r = (jr_state r \<in> {''queued_local'', ''failed_retryable'', ''cloud_accept_pending''})"

text \<open>Every submission of the job was followed by a retryable failure.\<close>

definition ready :: "string \<Rightarrow> engine \<Rightarrow> bool" where
  "ready j e \<longleftrightarrow> (\<forall>sub n. Submit sub n \<in> set (submissions e) \<longrightarrow> ls_job_id sub = j \<longrightarrow>
     retried j (drop n (log_of e)))"

definition spaced :: "native_call list \<Rightarrow> event_row list \<Rightarrow> bool" where
  "spaced calls evs \<longleftrightarrow> (\<forall>i k sub m sub' n. i < k \<longrightarrow> k < length calls \<longrightarrow>
     calls ! i = Submit sub m \<longrightarrow> calls ! k = Submit sub' n \<longrightarrow> ls_job_id sub = ls_job_id sub' \<longrightarrow>
     retried (ls_job_id sub) (drop m (take n evs)))"

definition engine_ok :: "engine \<Rightarrow> bool" where
  "engine_ok e \<longleftrightarrow> db_wf (en_db e) \<and>
     (\<forall>sub n. Submit sub n \<in> set (submissions e) \<longrightarrow> n \<le> length (log_of e) \<and>
        job_exists (ls_job_id sub) (en_db e) \<and>
        last_state (ls_job_id sub) (take n (log_of e)) = Some ''spool_intent'') \<and>
     (\<forall>r\<in>set (jobs (en_db e)). waiting r \<longrightarrow> ready (jr_job_id r) e) \<and>
     spaced (submissions e) (log_of e)"

lemma engine_okD:
  assumes "engine_ok e"
  shows "db_wf (en_db e)" "Submit sub n \<in> set (submissions e) \<Longrightarrow> n \<le> length (log_of e)"
    "Submit sub n \<in> set (submissions e) \<Longrightarrow> job_exists (ls_job_id sub) (en_db e)"
    "Submit sub n \<in> set (submissions e) \<Longrightarrow>
       last_state (ls_job_id sub) (take n (log_of e)) = Some ''spool_intent''"
    "r \<in> set (jobs (en_db e)) \<Longrightarrow> waiting r \<Longrightarrow> ready (jr_job_id r) e"
    "spaced (submissions e) (log_of e)"
  using assms unfolding engine_ok_def by blast+

lemma retried_append [simp]: "retried j (xs @ ys) \<longleftrightarrow> retried j xs \<or> retried j ys"
  by (simp add: retried_def)

lemma ready_grows:
  assumes "ready j e" and "prefix (log_of e) (log_of e')" and "submissions e' = submissions e"
  shows "ready j e'"
proof -
  obtain zs where zs: "log_of e' = log_of e @ zs" using assms(2) by (auto simp: prefix_def)
  show ?thesis
    using assms(1) unfolding ready_def assms(3) zs by simp
qed

lemma spaced_grows:
  assumes ok: "engine_ok e" and log: "log_of e' = log_of e @ zs" and "submissions e' = submissions e"
  shows "spaced (submissions e') (log_of e')"
  unfolding spaced_def assms(3)
proof (intro allI impI)
  fix i k sub m sub' n
  assume *: "i < k" "k < length (submissions e)" "submissions e ! i = Submit sub m"
    "submissions e ! k = Submit sub' n" "ls_job_id sub = ls_job_id sub'"
  then have "retried (ls_job_id sub) (drop m (take n (log_of e)))"
    using engine_okD(6) [OF ok] unfolding spaced_def by blast
  moreover have "n \<le> length (log_of e)"
    using engine_okD(2) [OF ok, of sub' n] * by (metis nth_mem)
  ultimately show "retried (ls_job_id sub) (drop m (take n (log_of e')))" by (simp add: log)
qed

text \<open>What has to be shown of a step that submits nothing.\<close>

lemma engine_ok_quiet:
  assumes ok: "engine_ok e" and same: "submissions e' = submissions e"
    and wf: "db_wf (en_db e')" and ext: "extends (en_db e) (en_db e')"
    and again: "\<And>r'. r' \<in> set (jobs (en_db e')) \<Longrightarrow> waiting r' \<Longrightarrow> job_exists (jr_job_id r') (en_db e) \<Longrightarrow>
      ready (jr_job_id r') e \<or> retried (jr_job_id r') (drop (length (log_of e)) (log_of e'))"
  shows "engine_ok e'"
proof -
  obtain zs where zs: "log_of e' = log_of e @ zs" using ext by (auto simp: extends_def prefix_def)
  have ex: "job_exists j (en_db e')" if "job_exists j (en_db e)" for j
  proof -
    obtain us where "map row_core (jobs (en_db e')) = map row_core (jobs (en_db e)) @ us"
      using ext by (auto simp: extends_def prefix_def)
    then have "set (map row_core (jobs (en_db e))) \<subseteq> set (map row_core (jobs (en_db e')))" by simp
    with that show ?thesis
      by (fastforce simp: job_exists_def sql_exists_iff dest!: row_core_eq(1))
  qed
  have "ready (jr_job_id r') e'" if r': "r' \<in> set (jobs (en_db e'))" "waiting r'" for r'
  proof (cases "job_exists (jr_job_id r') (en_db e)")
    case True
    from again [OF r' True] show ?thesis
    proof
      assume "ready (jr_job_id r') e"
      then show ?thesis by (rule ready_grows) (simp_all add: zs same)
    next
      assume "retried (jr_job_id r') (drop (length (log_of e)) (log_of e'))"
      then show ?thesis
        using engine_okD(2) [OF ok] unfolding ready_def same zs by simp
    qed
  next
    case False
    then show ?thesis using engine_okD(3) [OF ok] unfolding ready_def same by metis
  qed
  moreover have "n \<le> length (log_of e') \<and> job_exists (ls_job_id sub) (en_db e') \<and>
      last_state (ls_job_id sub) (take n (log_of e')) = Some ''spool_intent''"
    if "Submit sub n \<in> set (submissions e')" for sub n
    using engine_okD(2-4) [OF ok that [unfolded same]] ex by (simp add: zs)
  ultimately show ?thesis
    using spaced_grows [OF ok zs same] wf unfolding engine_ok_def by blast
qed

section \<open>Quiet steps\<close>

inductive quiet :: "ext \<Rightarrow> string \<Rightarrow> engine \<Rightarrow> engine \<Rightarrow> bool" for x j where
  idle: "en_db e' = en_db e \<Longrightarrow> submissions e' = submissions e \<Longrightarrow> quiet x j e e'"
| client: "client_step x (en_db e) s' \<Longrightarrow> en_db e' = s' \<Longrightarrow> submissions e' = submissions e \<Longrightarrow> quiet x j e e'"
| event: "append_next_event x eid j st rs ms d t (en_db e) = (s', out) \<Longrightarrow> st \<noteq> ''cloud_accept_pending'' \<Longrightarrow>
    (st = ''queued_local'' \<Longrightarrow> ready j e) \<Longrightarrow> en_db e' = s' \<Longrightarrow> submissions e' = submissions e \<Longrightarrow>
    quiet x j e e'"

lemma quiet_same: "quiet x j e e' \<Longrightarrow> submissions e' = submissions e"
  by (cases rule: quiet.cases) simp_all

lemma quiet_extends: "quiet x j e e' \<Longrightarrow> extends (en_db e) (en_db e')"
proof (induction rule: quiet.induct)
  case (event eid st rs ms d t e s' out e')
  then show ?case using extends_append_next [OF event.hyps(1) extends_refl] by simp
qed (auto intro: client_step_extends)

lemma ready_quiet: "quiet x j e e' \<Longrightarrow> ready k e \<Longrightarrow> ready k e'"
  using quiet_same quiet_extends by (auto simp: extends_def intro: ready_grows)

text \<open>A move into a waiting state from elsewhere is logged as \<open>failed_retryable\<close>.\<close>

lemma moved_back_retried:
  assumes wf: "db_wf s" "db_wf s'" and ext: "extends s s'" and mv: "moves s s'"
    and r': "r' \<in> set (jobs s')" "waiting r'" "job_exists (jr_job_id r') s"
  shows "(\<exists>r\<in>set (jobs s). jr_job_id r = jr_job_id r' \<and> waiting r) \<or>
    retried (jr_job_id r') (drop (length (job_events s)) (job_events s'))"
proof -
  obtain r where r: "r \<in> set (jobs s)" "row_core r = row_core r'"
    "jr_state r = jr_state r' \<or> (jr_state r, jr_state r') \<in> client_moves"
    using mv r'(1,3) unfolding moves_def by blast
  show ?thesis
  proof (cases "waiting r")
    case True
    then show ?thesis using r(1) row_core_eq(1) [OF r(2)] by blast
  next
    case False
    with r(3) r'(2) have st: "jr_state r' = ''failed_retryable''" "jr_state r \<noteq> ''failed_retryable''"
      "\<not> silent_cloud_state r"
      by (auto simp: waiting_def client_moves_def silent_cloud_state_def)
    let ?j = "jr_job_id r'"
    obtain zs where zs: "job_events s' = job_events s @ zs" using ext by (auto simp: extends_def prefix_def)
    have "row_projects s r" "row_projects s' r'"
      using wf r(1) r'(1) by (simp_all add: db_wf_def projection_ok_def)
    then have "ev_state (last (events_of ?j s)) = jr_state r" "events_of ?j s' \<noteq> []"
      "ev_state (last (events_of ?j s')) = ''failed_retryable''"
      using st row_core_eq(1) [OF r(2)] by (auto simp: row_projects_def silent_cloud_state_def)
    moreover have "events_of ?j s' = events_of ?j s @ filter (\<lambda>ev. ev_job_id ev = ?j) zs"
      by (simp add: events_of_def zs)
    ultimately have "filter (\<lambda>ev. ev_job_id ev = ?j) zs \<noteq> []"
      "ev_state (last (filter (\<lambda>ev. ev_job_id ev = ?j) zs)) = ''failed_retryable''"
      using st(2) by (auto simp: last_append split: if_splits)
    then have "retried ?j zs"
      using last_in_set [of "filter (\<lambda>ev. ev_job_id ev = ?j) zs"] by (auto simp: retried_def list_ex_iff)
    then show ?thesis by (simp add: zs)
  qed
qed

lemma quiet_ok:
  assumes "quiet x j e e'" and ok: "engine_ok e"
  shows "engine_ok e'"
  using assms(1)
proof cases
  case idle
  then show ?thesis using ok by (simp add: engine_ok_def ready_def)
next
  case (client s')
  have wf: "db_wf (en_db e')" using client client_step_wf engine_okD(1) [OF ok] by simp
  have ext: "extends (en_db e) (en_db e')" using client client_step_extends by simp
  show ?thesis
  proof (rule engine_ok_quiet [OF ok client(3) wf ext])
    fix r' assume r': "r' \<in> set (jobs (en_db e'))" "waiting r'" "job_exists (jr_job_id r') (en_db e)"
    show "ready (jr_job_id r') e \<or> retried (jr_job_id r') (drop (length (log_of e)) (log_of e'))"
      using moved_back_retried [OF engine_okD(1) [OF ok] wf ext _ r'] engine_okD(5) [OF ok]
        client_step_moves [OF client(1) engine_okD(1) [OF ok]] client(2) by metis
  qed
next
  case (event eid st rs ms d t s' out)
  have wf: "db_wf (en_db e')"
    using append_next_event_wf' [OF event(1) engine_okD(1) [OF ok]] event(2,4) by simp
  have ext: "extends (en_db e) (en_db e')"
    using extends_append_next [OF event(1) extends_refl] event(4) by simp
  show ?thesis
  proof (rule engine_ok_quiet [OF ok event(5) wf ext])
    fix r' assume r': "r' \<in> set (jobs (en_db e'))" "waiting r'"
    from event(1) show "ready (jr_job_id r') e \<or> retried (jr_job_id r') (drop (length (log_of e)) (log_of e'))"
    proof (cases rule: append_next_event_cases)
      case (1 err)
      then show ?thesis using r' engine_okD(5) [OF ok] event(4) by simp
    next
      case (2 s1)
      obtain r where r: "r \<in> set (jobs (en_db e))" "r' = restate j st t r"
        using r'(1) 2(4) event(4) by auto
      show ?thesis
      proof (cases "jr_job_id r = j")
        case True
        then have "st = ''queued_local'' \<or> st = ''failed_retryable''"
          using r'(2) r(2) event(2) by (auto simp: waiting_def)
        then show ?thesis
          using event(3,4) r(2) True 2(4) append_event_tx_frame(2) [OF 2(3)]
          by (auto simp: retried_def)
      next
        case False
        then show ?thesis using r r'(2) engine_okD(5) [OF ok r(1)] by (simp add: waiting_def)
      qed
    qed
  qed
qed

section \<open>A submission\<close>

definition at_intent :: "string \<Rightarrow> engine \<Rightarrow> bool" where
  "at_intent j e \<longleftrightarrow> (\<exists>r\<in>set (jobs (en_db e)). jr_job_id r = j \<and> jr_state r = ''spool_intent'')"

inductive acts :: "ext \<Rightarrow> string \<Rightarrow> engine \<Rightarrow> engine \<Rightarrow> bool" for x j where
  quietly: "quiet x j e e' \<Longrightarrow> acts x j e e'"
| submits: "ready j e \<Longrightarrow> at_intent j e \<Longrightarrow> ls_job_id sub = j \<Longrightarrow>
    acts x j e (e\<lparr>en_calls := en_calls e @ [Submit sub (log_length e)]\<rparr>)"

lemma at_intent_last:
  assumes "db_wf (en_db e)" and "at_intent j e"
  shows "last_state j (log_of e) = Some ''spool_intent''"
proof -
  obtain r where r: "r \<in> set (jobs (en_db e))" "jr_job_id r = j" "jr_state r = ''spool_intent''"
    using assms(2) by (auto simp: at_intent_def)
  then have "row_projects (en_db e) r" using assms(1) by (simp add: db_wf_def projection_ok_def)
  then have "events_of j (en_db e) \<noteq> []" "ev_state (last (events_of j (en_db e))) = ''spool_intent''"
    using r by (auto simp: row_projects_def silent_cloud_state_def)
  then show ?thesis
    unfolding last_state_def events_of_def
    by (cases "filter (\<lambda>ev. ev_job_id ev = j) (log_of e)" rule: rev_cases) auto
qed

lemma acts_ok:
  assumes "acts x j e e'" and ok: "engine_ok e"
  shows "engine_ok e'"
  using assms(1)
proof cases
  case quietly
  then show ?thesis using ok by (rule quiet_ok)
next
  case (submits sub)
  let ?L = "length (log_of e)"
  have db: "en_db e' = en_db e" and calls: "submissions e' = submissions e @ [Submit sub ?L]"
    using submits(1) by (simp_all add: submissions_def log_length_def)
  obtain r0 where r0: "r0 \<in> set (jobs (en_db e))" "jr_job_id r0 = j" "jr_state r0 = ''spool_intent''"
    using submits(3) by (auto simp: at_intent_def)
  have dist: "distinct (map jr_job_id (jobs (en_db e)))"
    using engine_okD(1) [OF ok] by (simp add: db_wf_def jobs_ok_def)
  have "ready (jr_job_id r) e'" if r: "r \<in> set (jobs (en_db e))" "waiting r" for r
  proof -
    have "r \<noteq> r0" using r(2) r0(3) by (auto simp: waiting_def)
    then have "jr_job_id r \<noteq> j" using dist r(1) r0(1,2) by (auto simp: distinct_map inj_on_def)
    then show ?thesis
      using engine_okD(5) [OF ok r] submits(4) unfolding ready_def db calls by auto
  qed
  moreover have "spaced (submissions e') (log_of e')"
    unfolding spaced_def db calls
  proof (intro allI impI)
    fix i k sub1 m sub2 n
    assume *: "i < k" "k < length (submissions e @ [Submit sub ?L])"
      "(submissions e @ [Submit sub ?L]) ! i = Submit sub1 m"
      "(submissions e @ [Submit sub ?L]) ! k = Submit sub2 n" "ls_job_id sub1 = ls_job_id sub2"
    show "retried (ls_job_id sub1) (drop m (take n (log_of e)))"
    proof (cases "k < length (submissions e)")
      case True
      then show ?thesis
        using * engine_okD(6) [OF ok] unfolding spaced_def by (auto simp: nth_append split: if_splits)
    next
      case False
      with * have k: "k = length (submissions e)" "sub2 = sub" "n = ?L" by (auto simp: nth_append)
      with * have "Submit sub1 m \<in> set (submissions e)" by (auto simp: nth_append) (metis nth_mem)
      then show ?thesis
        using submits(2,4) * k unfolding ready_def by auto
    qed
  qed
  moreover have "n \<le> length (log_of e') \<and> job_exists (ls_job_id sub') (en_db e') \<and>
      last_state (ls_job_id sub') (take n (log_of e')) = Some ''spool_intent''"
    if "Submit sub' n \<in> set (submissions e')" for sub' n
    using that engine_okD(2-4) [OF ok, of sub' n] at_intent_last [OF engine_okD(1) [OF ok] submits(3)]
      submits(4) r0 unfolding calls db by (auto simp: job_exists_def sql_exists_iff)
  ultimately show ?thesis
    using engine_okD(1) [OF ok] unfolding engine_ok_def db by blast
qed

lemma acts_ready: "acts x j e e' \<Longrightarrow> k \<noteq> j \<Longrightarrow> ready k e \<Longrightarrow> ready k e'"
proof (induction rule: acts.induct)
  case (submits e sub)
  then show ?case by (auto simp: ready_def submissions_def)
qed (rule ready_quiet)

lemma acts_extends: "acts x j e e' \<Longrightarrow> extends (en_db e) (en_db e')"
  by (induction rule: acts.induct) (auto intro: quiet_extends)

lemma acts_submissions: "acts x j e e' \<Longrightarrow> prefix (submissions e) (submissions e')"
  by (induction rule: acts.induct) (auto simp: submissions_def dest: quiet_same)

section \<open>The parts of a run\<close>

text \<open>
  While the engine executes, the other connections call operations of the store, but none of them
  resolves the handoff of a job that is at its spool intent: that is done between the runs.
\<close>

definition concurrent_step :: "ext \<Rightarrow> agent_db \<Rightarrow> agent_db \<Rightarrow> bool" where
  "concurrent_step x s s' \<longleftrightarrow> client_step x s s' \<and>
     (\<forall>r\<in>set (jobs s). jr_state r = ''spool_intent'' \<longrightarrow>
        (\<exists>r'\<in>set (jobs s'). jr_job_id r' = jr_job_id r \<and> jr_state r' = ''spool_intent''))"

definition orderly :: "ext \<Rightarrow> host \<Rightarrow> bool" where
  "orderly x h \<longleftrightarrow> (\<forall>n s. rtranclp (concurrent_step x) s (others_at h n s)) \<and>
     (\<forall>rows. mset (expire_scan h rows) = mset rows)"

definition steps :: "ext \<Rightarrow> string \<Rightarrow> 'a eng \<Rightarrow> bool" where
  "steps x j m \<longleftrightarrow> (\<forall>e. rtranclp (quiet x j) e (fst (m e)))"

lemma quiet_client_run:
  "rtranclp (client_step x) (en_db e) s' \<Longrightarrow> en_db e' = s' \<Longrightarrow> submissions e' = submissions e \<Longrightarrow>
    rtranclp (quiet x j) e e'"
proof (induction arbitrary: e' rule: rtranclp_induct)
  case base
  then show ?case by (intro r_into_rtranclp quiet.idle)
next
  case (step s1 s2)
  have "rtranclp (quiet x j) e (e\<lparr>en_db := s1\<rparr>)" by (rule step.IH) (simp_all add: submissions_def)
  moreover have "quiet x j (e\<lparr>en_db := s1\<rparr>) e'"
    by (rule quiet.client [where s' = s2]) (use step in \<open>simp_all add: submissions_def\<close>)
  ultimately show ?case by simp
qed

lemma concurrent_client: "rtranclp (concurrent_step x) s s' \<Longrightarrow> rtranclp (client_step x) s s'"
  by (induction rule: rtranclp_induct) (auto simp: concurrent_step_def intro: rtranclp.rtrancl_into_rtrancl)

lemma quiet_interrupted:
  assumes "orderly x h"
  shows "rtranclp (quiet x j) e (interrupted h e)"
  by (rule quiet_client_run [OF concurrent_client])
     (use assms in \<open>auto simp: orderly_def interrupted_def submissions_def\<close>)

lemma at_intent_interrupted:
  assumes "orderly x h" and "at_intent j e"
  shows "at_intent j (interrupted h e)"
proof -
  have keep: "\<exists>r\<in>set (jobs s'). jr_job_id r = j \<and> jr_state r = ''spool_intent''"
    if "rtranclp (concurrent_step x) s s'" "\<exists>r\<in>set (jobs s). jr_job_id r = j \<and> jr_state r = ''spool_intent''"
    for s s'
    using that by (induction rule: rtranclp_induct) (auto simp: concurrent_step_def)
  show ?thesis
    unfolding at_intent_def interrupted_def
    using keep [of "en_db e"] assms by (simp add: orderly_def at_intent_def)
qed

lemma steps_pure [simp]: "steps x j (pure_ok v)" "steps x j (fail err)"
  by (simp_all add: steps_def pure_ok_def fail_def)

lemma steps_then:
  assumes "steps x j m" and "\<And>v. steps x j (f v)"
  shows "steps x j (then_do m f)"
  unfolding steps_def
proof
  fix e
  show "rtranclp (quiet x j) e (fst (then_do m f e))"
    using assms(1) [unfolded steps_def, rule_format, of e] assms(2) [unfolded steps_def, rule_format]
    by (auto simp: then_do_def split: prod.splits sum.splits intro: rtranclp_trans)
qed

lemma steps_effect:
  assumes "orderly x h" and "\<And>n e. rtranclp (quiet x j) e (fst (act n e))"
  shows "steps x j (effect h act)"
  unfolding steps_def
proof
  fix e
  have "rtranclp (quiet x j) e (fst (act n (interrupted h e)))" for n
    by (rule rtranclp_trans [OF quiet_interrupted [OF assms(1)] assms(2)])
  then show "rtranclp (quiet x j) e (fst (effect h act e))"
    using quiet_interrupted [OF assms(1)] by (simp add: effect_def)
qed

lemma idle_run: "en_db e' = en_db e \<Longrightarrow> submissions e' = submissions e \<Longrightarrow> rtranclp (quiet x j) e e'"
  by (intro r_into_rtranclp quiet.idle)

lemma steps_on_db:
  assumes "orderly x h" and "\<And>n s. rtranclp (client_step x) s (fst (operation n s))"
  shows "steps x j (on_db h operation)"
  unfolding on_db_def
  by (rule steps_effect [OF assms(1)], rule quiet_client_run [OF assms(2)])
     (simp_all add: split_beta submissions_def)

lemma steps_idle:
  assumes "orderly x h"
  shows "steps x j (unix_ms h)" "steps x j (remove_file h path)" "steps x j (read_db h query)"
    "steps x j (on_inventory h operation)" "steps x j (read_profile_for_job h c job)"
    "steps x j (executor_observe h reference)" "steps x j (executor_cancel h reference)"
    "steps x j (to_json text)"
  unfolding unix_ms_def remove_file_def read_db_def on_db_def on_inventory_def read_profile_for_job_def
    executor_observe_def executor_cancel_def to_json_def
  by (auto split: option.splits prod.splits
      intro!: steps_effect [OF assms] idle_run simp: submissions_def pure_ok_def)

lemma steps_append:
  assumes "orderly x h" and "st \<noteq> ''cloud_accept_pending''" "st \<noteq> ''queued_local''"
  shows "steps x j (on_db h (\<lambda>n. append_next_event x (fresh_at h n) j st rs ms d t))"
  unfolding on_db_def
proof (rule steps_effect [OF assms(1)], goal_cases)
  case (1 n e)
  obtain s' out where app: "append_next_event x (fresh_at h n) j st rs ms d t (en_db e) = (s', out)" by force
  show ?case
    by (rule r_into_rtranclp, rule quiet.event [OF app assms(2)])
       (use assms(3) in \<open>simp_all add: app submissions_def\<close>)
qed

lemma state_name_waiting:
  "state_name st \<noteq> ''cloud_accept_pending''" "state_name st = ''queued_local'' \<longleftrightarrow> st = QueuedLocal"
  by (cases st; simp)+

lemma steps_transition:
  assumes "orderly x h" and "st \<noteq> QueuedLocal"
  shows "steps x j (transition h x j from st reason message details)"
  unfolding transition_def
  by (auto split: sum.splits intro!: steps_then steps_idle [OF assms(1)] steps_append [OF assms(1)]
      simp: state_name_waiting assms(2))

lemma steps_transition_if_needed:
  assumes "orderly x h" and "st \<noteq> QueuedLocal"
  shows "steps x (lj_job_id job) (transition_if_needed h x job st reason message details)"
  by (simp add: transition_if_needed_def steps_transition [OF assms])

lemma steps_finish: "orderly x h \<Longrightarrow> steps x j (on_db h (\<lambda>n. finish_reconciliation k))"
  by (rule steps_on_db) (auto intro: client_step.reconciled)

lemma steps_mark_uncertain:
  "orderly x h \<Longrightarrow> steps x (lj_job_id job) (mark_uncertain h x job message details)"
  unfolding mark_uncertain_def by (auto intro!: steps_then steps_transition_if_needed steps_finish)

lemma steps_record_attempt:
  "orderly x h \<Longrightarrow> steps x j (record_attempt h x k native st authority details code now)"
  unfolding record_attempt_def by (rule steps_on_db) (auto intro: client_step.attempt)

lemma steps_record_acceptance: "orderly x h \<Longrightarrow> steps x j (record_acceptance h x c k native)"
  unfolding record_acceptance_def
  by (intro steps_then steps_idle steps_on_db r_into_rtranclp client_step.native_accept)

lemma steps_record_failure:
  "orderly x h \<Longrightarrow> steps x (lj_job_id job) (record_failure h x y c job error)"
  unfolding record_failure_def
  by (auto simp: failure_outcome_def intro!: steps_then steps_idle steps_on_db r_into_rtranclp
      client_step.retryable steps_transition)

lemmas engine_steps = steps_idle steps_mark_uncertain steps_record_attempt steps_transition
  steps_transition_if_needed steps_finish

lemma steps_reconcile_item:
  assumes "orderly x h"
  shows "steps x (lj_job_id (ri_job item)) (reconcile_item h x c now item)"
  unfolding reconcile_item_def reconcile_cancellation_def apply_native_observation_def Let_def
    finish_item_def
  by (auto split: option.splits sum.splits NativeJobState.splits
      intro!: steps_then engine_steps [OF assms])

section \<open>The execution of a job\<close>

lemma then_do_eq: "then_do m f e = (case m e of (e, Inl err) \<Rightarrow> (e, Inl err) | (e, Inr v) \<Rightarrow> f v e)"
  by (simp add: then_do_def)

definition ready_steps :: "ext \<Rightarrow> string \<Rightarrow> 'a eng \<Rightarrow> bool" where
  "ready_steps x j m \<longleftrightarrow> (\<forall>e. ready j e \<longrightarrow> rtranclp (quiet x j) e (fst (m e)))"

lemma steps_ready: "steps x j m \<Longrightarrow> ready_steps x j m"
  by (simp add: steps_def ready_steps_def)

lemma ready_run: "rtranclp (quiet x j) e e' \<Longrightarrow> ready k e \<Longrightarrow> ready k e'"
  by (induction rule: rtranclp_induct) (auto intro: ready_quiet)

lemma ready_steps_then:
  assumes "ready_steps x j m" and "\<And>v. ready_steps x j (f v)"
  shows "ready_steps x j (then_do m f)"
  unfolding ready_steps_def
proof (intro allI impI)
  fix e assume e: "ready j e"
  obtain e1 o1 where m: "m e = (e1, o1)" by force
  have q: "rtranclp (quiet x j) e e1" using assms(1) e m by (auto simp: ready_steps_def dest!: spec [of _ e])
  have "rtranclp (quiet x j) e1 (fst (f v e1))" for v
    using assms(2) ready_run [OF q e] by (simp add: ready_steps_def)
  with q show "rtranclp (quiet x j) e (fst (then_do m f e))"
    by (cases o1) (auto simp: then_do_def m intro: rtranclp_trans)
qed

lemma ready_steps_transition:
  assumes "orderly x h"
  shows "ready_steps x j (transition h x j from st reason message details)"
proof (cases "st = QueuedLocal")
  case True
  have append: "ready_steps x j (on_db h (\<lambda>n. append_next_event x (fresh_at h n) j (state_name st) reason
    (Some message) details now))" for now
    unfolding ready_steps_def
  proof (intro allI impI)
    fix e assume e: "ready j e"
    let ?e = "interrupted h e" and ?n = "en_tick e"
    note q = quiet_interrupted [OF assms, of j e]
    obtain s' out where app: "append_next_event x (fresh_at h ?n) j (state_name st) reason (Some message)
      details now (en_db ?e) = (s', out)" by force
    have "quiet x j ?e (?e\<lparr>en_db := s'\<rparr>)"
      by (rule quiet.event [OF app])
         (use ready_run [OF q e] in \<open>simp_all add: submissions_def state_name_waiting\<close>)
    with q show "rtranclp (quiet x j) e (fst (on_db h (\<lambda>n. append_next_event x (fresh_at h n) j (state_name st)
      reason (Some message) details now) e))"
      by (auto simp: on_db_def effect_def app intro: rtranclp.rtrancl_into_rtrancl)
  qed
  show ?thesis
    unfolding transition_def
    by (auto split: sum.splits intro!: ready_steps_then append
        steps_idle [OF assms, THEN steps_ready] steps_pure [THEN steps_ready])
qed (rule steps_ready, rule steps_transition [OF assms])

lemma ready_steps_begin:
  assumes "orderly x h"
  shows "ready_steps x (lj_job_id job) (begin_execution h x job)"
  unfolding begin_execution_def
  by (auto split: sum.splits intro!: ready_steps_then ready_steps_transition [OF assms]
      steps_pure [THEN steps_ready])

lemma steps_validate:
  assumes "orderly x h"
  shows "steps x (lj_job_id job) (validate_job_options h x c job)"
  unfolding validate_job_options_def fail_invalid_job_options_def
  by (auto split: sum.splits intro!: steps_then steps_transition [OF assms])

lemma steps_commit_intent:
  assumes "orderly x h"
  shows "steps x (lj_job_id job) (commit_intent h x job)"
  unfolding commit_intent_def by (auto intro!: steps_then steps_transition [OF assms])

lemma map_sum_Inr: "map_sum f g v = Inr w \<longleftrightarrow> (\<exists>u. v = Inr u \<and> w = g u)"
  by (cases v) auto

lemma transition_Inr:
  assumes "transition h x j from st reason message details e = (e', Inr u)"
  shows "\<exists>r\<in>set (jobs (en_db e')). jr_job_id r = j \<and> jr_state r = state_name st"
proof -
  let ?e1 = "interrupted h (interrupted h e)" and ?now = "clock_at h (en_tick e)"
  from assms obtain s' k where
    app: "append_next_event x (fresh_at h (en_tick (interrupted h e))) j (state_name st) reason (Some message)
      details ?now (en_db ?e1) = (s', Inr k)" and e': "en_db e' = s'"
    by (auto simp: transition_def then_do_def unix_ms_def on_db_def effect_def fail_def pure_ok_def
        map_sum_Inr split: sum.splits if_splits prod.splits)
  from app show ?thesis
  proof (cases rule: append_next_event_cases)
    case (2 s1)
    then obtain r where "r \<in> set (jobs (en_db ?e1))" "jr_job_id r = j"
      by (auto simp: job_exists_def sql_exists_iff)
    then show ?thesis using 2(4) e' by (auto intro!: bexI [of _ r])
  qed simp
qed

lemma commit_intent_Inr:
  assumes "commit_intent h x job e = (e', Inr u)"
  shows "at_intent (lj_job_id job) e'"
  using assms unfolding commit_intent_def then_do_def at_intent_def
  by (auto split: prod.splits sum.splits if_splits dest!: transition_Inr)

lemma acts_quiet_run: "rtranclp (quiet x j) e e' \<Longrightarrow> rtranclp (acts x j) e e'"
  by (erule mono_rtranclp [rule_format, rotated]) (rule acts.quietly)

lemma hand_over_acts:
  assumes h: "orderly x h" and j: "lj_job_id job = j" "ls_job_id sub = j" and e: "ready j e" "at_intent j e"
  shows "rtranclp (acts x j) e (fst (hand_over h x y c job sub e))"
proof (cases "dies_at h (en_tick e)")
  case True
  then show ?thesis
    using acts_quiet_run [OF quiet_interrupted [OF h]]
    by (simp add: hand_over_def then_do_def executor_submit_def effect_def)
next
  case False
  let ?e = "interrupted h e"
  let ?e' = "?e\<lparr>en_calls := en_calls ?e @ [Submit sub (log_length ?e)]\<rparr>"
  have "acts x j ?e ?e'"
    by (rule acts.submits [OF ready_run [OF quiet_interrupted [OF h] e(1)] at_intent_interrupted [OF h e(2)] j(2)])
  then have pre: "rtranclp (acts x j) e ?e'"
    using acts_quiet_run [OF quiet_interrupted [OF h]] by (rule rtranclp.rtrancl_into_rtrancl [rotated])
  let ?rest = "\<lambda>out. case out of
       Inr native_job_id \<Rightarrow>
         then_do (record_acceptance h x c (lj_job_id job) native_job_id) (\<lambda>_.
         remove_file h (confidential_content_path (lj_content_path job)))
     | Inl error \<Rightarrow>
         then_do (record_failure h x y c job error) (\<lambda>_.
         if \<not> ef_retryable error
         then remove_file h (confidential_content_path (lj_content_path job)) else pure_ok ())"
  have "steps x j (?rest out)" for out
    using j(1) by (auto split: sum.splits intro!: steps_then steps_record_acceptance [OF h]
      steps_record_failure [OF h] steps_idle [OF h])
  then have "rtranclp (acts x j) ?e' (fst (?rest out ?e'))" for out
    by (intro acts_quiet_run) (simp add: steps_def)
  moreover have "hand_over h x y c job sub e = ?rest (submit_at h (en_tick e) sub) ?e'"
    using False by (simp add: hand_over_def then_do_def executor_submit_def effect_def)
  ultimately show ?thesis using pre by (simp add: rtranclp_trans)
qed

lemma steps_run: "steps x j m \<Longrightarrow> m e = (e', out) \<Longrightarrow> rtranclp (quiet x j) e e'"
  unfolding steps_def by (metis fst_conv)

lemma execute_job_acts:
  assumes h: "orderly x h" and e: "ready (lj_job_id job) e"
  shows "rtranclp (acts x (lj_job_id job)) e (fst (execute_job h x y c job e))"
proof -
  let ?j = "lj_job_id job"
  obtain e1 o1 where b: "begin_execution h x job e = (e1, o1)" by force
  obtain e2 o2 where v: "validate_job_options h x c job e1 = (e2, o2)" by force
  obtain e3 o3 where i: "commit_intent h x job e2 = (e3, o3)" by force
  obtain e4 o4 where p: "read_profile_for_job h c job e3 = (e4, o4)" by force
  obtain e5 o5 where t: "unix_ms h e4 = (e5, o5)" by force
  have q1: "rtranclp (quiet x ?j) e e1"
    using ready_steps_begin [OF h, of job] e b unfolding ready_steps_def by (metis fst_conv)
  have q2: "rtranclp (quiet x ?j) e e2" using q1 steps_run [OF steps_validate [OF h] v] by (rule rtranclp_trans)
  have q3: "rtranclp (quiet x ?j) e e3" using q2 steps_run [OF steps_commit_intent [OF h] i] by (rule rtranclp_trans)
  have q4: "rtranclp (quiet x ?j) e e4" using q3 steps_run [OF steps_idle(5) [OF h] p] by (rule rtranclp_trans)
  have q5: "rtranclp (quiet x ?j) e e5" using q4 steps_run [OF steps_idle(1) [OF h] t] by (rule rtranclp_trans)
  have rest: "rtranclp (quiet x ?j) e (fst (remove_file h path e2))" for path
    using q2 steps_idle(2) [OF h, of ?j path] by (auto simp: steps_def intro: rtranclp_trans)
  have over: "rtranclp (acts x ?j) e (fst (hand_over h x y c job (submission_of job opts profile now) e5))"
    if "o3 = Inr ()" for opts profile now
  proof -
    have "e4 = interrupted h e3" "e5 = interrupted h e4"
      using p t by (auto simp: read_profile_for_job_def unix_ms_def effect_def pure_ok_def split: if_splits)
    then have "at_intent ?j e5"
      using commit_intent_Inr [OF i [unfolded that]] at_intent_interrupted [OF h] by simp
    then show ?thesis
      by (intro rtranclp_trans [OF acts_quiet_run [OF q5] hand_over_acts [OF h]])
         (simp_all add: submission_of_def ready_run [OF q5 e])
  qed
  show ?thesis
    using q1 q2 q3 q4 q5 rest over
    by (auto simp: execute_job_def then_do_eq b v i p t split: sum.splits option.splits
        intro: acts_quiet_run)
qed

section \<open>A run\<close>

definition works :: "ext \<Rightarrow> string set \<Rightarrow> engine \<Rightarrow> engine \<Rightarrow> bool" where
  "works x J e e' \<longleftrightarrow> (\<exists>j\<in>J. acts x j e e')"

lemma works_acts: "rtranclp (acts x j) e e' \<Longrightarrow> j \<in> J \<Longrightarrow> rtranclp (works x J) e e'"
  by (erule mono_rtranclp [rule_format, rotated]) (auto simp: works_def)

lemma works_steps:
  assumes "steps x j m" "j \<in> J"
  shows "rtranclp (works x J) e (fst (m e))"
  using assms by (auto simp: steps_def intro: works_acts acts_quiet_run)

lemma acts_run_ready: "rtranclp (acts x j) e e' \<Longrightarrow> k \<noteq> j \<Longrightarrow> ready k e \<Longrightarrow> ready k e'"
  by (induction rule: rtranclp_induct) (auto intro: acts_ready)

lemma execute_all_works:
  assumes h: "orderly x h"
  shows "distinct (map lj_job_id js) \<Longrightarrow> lj_job_id ` set js \<subseteq> J \<Longrightarrow> (\<forall>job\<in>set js. ready (lj_job_id job) e) \<Longrightarrow>
    rtranclp (works x J) e (fst (for_each (execute_job h x y c) js e))"
proof (induction js arbitrary: e)
  case (Cons job js)
  let ?run = "execute_job h x y c job e"
  have first: "rtranclp (acts x (lj_job_id job)) e (fst ?run)"
    using Cons.prems by (intro execute_job_acts [OF h]) simp
  have "lj_job_id k \<noteq> lj_job_id job" if "k \<in> set js" for k
    using Cons.prems(1) that by (auto simp: image_iff)
  then have "\<forall>k\<in>set js. ready (lj_job_id k) (fst ?run)"
    using Cons.prems(3) by (auto intro: acts_run_ready [OF first])
  then have "rtranclp (works x J) (fst ?run) (fst (for_each (execute_job h x y c) js (fst ?run)))"
    using Cons.prems by (intro Cons.IH) simp_all
  moreover have "rtranclp (works x J) e (fst ?run)"
    by (rule works_acts [OF first]) (use Cons.prems in simp)
  ultimately show ?case
    by (cases ?run) (auto simp: then_do_eq split: sum.splits intro: rtranclp_trans)
qed (simp add: pure_ok_def)

lemma reconcile_all_works:
  assumes h: "orderly x h"
  shows "(\<lambda>i. lj_job_id (ri_job i)) ` set items \<subseteq> J \<Longrightarrow>
    rtranclp (works x J) e (fst (for_each (reconcile_item h x c now) items e))"
proof (induction items arbitrary: e)
  case (Cons i items)
  let ?run = "reconcile_item h x c now i e"
  have "rtranclp (works x J) e (fst ?run)"
    by (rule works_steps [OF steps_reconcile_item [OF h]]) (use Cons.prems in simp)
  moreover have "rtranclp (works x J) (fst ?run) (fst (for_each (reconcile_item h x c now) items (fst ?run)))"
    using Cons.prems by (intro Cons.IH) simp
  ultimately show ?case
    by (cases ?run) (auto simp: then_do_eq split: sum.splits intro: rtranclp_trans)
qed (simp add: pure_ok_def)

lemma works_ok: "rtranclp (works x J) e e' \<Longrightarrow> engine_ok e \<Longrightarrow> engine_ok e'"
  by (induction rule: rtranclp_induct) (auto simp: works_def intro: acts_ok)

lemma collected_map:
  "map f rows = map Inr vs \<Longrightarrow> (\<And>r v. f r = Inr v \<Longrightarrow> g v = k r) \<Longrightarrow> map g vs = map k rows"
  by (induction rows arbitrary: vs) auto

lemma collected_mem:
  assumes "map f rows = map Inr vs" "v \<in> set vs"
  shows "\<exists>r\<in>set rows. f r = Inr v"
proof -
  have "Inr v \<in> set (map f rows)" unfolding assms(1) using assms(2) by simp
  then show ?thesis by (auto simp: eq_commute)
qed

lemma row_to_job_facts:
  "row_to_job x r = Inr job \<Longrightarrow> lj_job_id job = jr_job_id r \<and> lj_state job = jr_state r \<and>
     lj_cloud_managed job = jr_cloud_managed r"
  by (auto simp: row_to_job_def result_simps)

lemma heads_waiting:
  assumes wf: "db_wf s" and heads: "runnable_heads x now s = Inr js"
  shows "distinct (map lj_job_id js)"
    "job \<in> set js \<Longrightarrow> \<exists>r\<in>set (jobs s). jr_job_id r = lj_job_id job \<and> is_runnable_head now s r"
proof -
  have rows: "map (row_to_job x) (runnable_head_rows now s) = map Inr js"
    using heads by (simp add: runnable_heads_def collect_results_Inr)
  have ids: "map lj_job_id js = map jr_job_id (runnable_head_rows now s)"
    using rows by (rule collected_map) (simp add: row_to_job_facts)
  have "distinct (map jr_job_id (runnable_head_rows now s))"
    using wf unfolding runnable_head_rows_def
    by (auto simp: db_wf_def jobs_ok_def distinct_map intro: inj_on_subset)
  then show "distinct (map lj_job_id js)" by (simp add: ids)
  show "\<exists>r\<in>set (jobs s). jr_job_id r = lj_job_id job \<and> is_runnable_head now s r" if job: "job \<in> set js"
  proof -
    obtain r where "r \<in> set (runnable_head_rows now s)" "row_to_job x r = Inr job"
      using collected_mem [OF rows job] by blast
    then show ?thesis by (intro bexI [of _ r]) (simp_all add: runnable_head_rows_def row_to_job_facts)
  qed
qed

lemma due_observed:
  assumes "due_reconciliations x now n s = Inr items" "i \<in> set items"
  shows "\<exists>r\<in>set (jobs s). jr_job_id r = lj_job_id (ri_job i) \<and> jr_state r = lj_state (ri_job i) \<and>
    jr_state r \<in> set observed_states"
proof -
  let ?pairs = "take (clamp_limit 100 n) (sort_key (\<lambda>(r, j). (rr_next_observe_unix_ms r, jr_job_id j))
         (filter (\<lambda>(r, j). rr_next_observe_unix_ms r \<le> now \<and> jr_state j \<in> set observed_states)
           (concat (map (\<lambda>r. map (Pair r) (filter (\<lambda>j. jr_job_id j = rr_job_id r) (jobs s)))
             (job_reconciliation s)))))"
  have "map (row_to_reconciliation_item x) ?pairs = map Inr items"
    using assms(1) by (simp add: due_reconciliations_def collect_results_Inr)
  from collected_mem [OF this assms(2)] obtain p where p: "p \<in> set ?pairs" "row_to_reconciliation_item x p = Inr i"
    by blast
  have "snd p \<in> set (jobs s)" "jr_state (snd p) \<in> set observed_states"
    using in_set_takeD [OF p(1)] by auto
  moreover have "row_to_job x (snd p) = Inr (ri_job i)"
    using p(2) by (cases p) (auto simp: row_to_reconciliation_item_def result_simps)
  ultimately show ?thesis using row_to_job_facts by (intro bexI [of _ "snd p"]) auto
qed

lemma then_run:
  assumes "rtranclp W e (fst (m e))"
    and "\<And>e' v. m e = (e', Inr v) \<Longrightarrow> rtranclp W e' (fst (f v e'))"
  shows "rtranclp W e (fst (then_do m f e))"
  using assms by (cases "m e"; cases "snd (m e)") (auto simp: then_do_eq intro: rtranclp_trans)

lemma read_db_Inr:
  "read_db h query e = (e', Inr v) \<Longrightarrow> query (en_db e') = Inr v"
  by (auto simp: read_db_def on_db_def effect_def map_sum_Inr split: if_splits)

lemma run_once_works:
  assumes h: "orderly x h" and j0: "j0 \<in> J" and e: "P e"
    and stable: "\<And>e e'. P e \<Longrightarrow> works x J e e' \<Longrightarrow> P e'" and ok: "\<And>e. P e \<Longrightarrow> engine_ok e"
    and heads: "\<And>e r. P e \<Longrightarrow> r \<in> set (jobs (en_db e)) \<Longrightarrow>
      head_candidate r \<or> jr_state r \<in> set observed_states \<Longrightarrow> jr_job_id r \<in> J"
  shows "rtranclp (works x J) e (fst (run_once h x y c e))"
proof -
  have run: "P e'" if "rtranclp (works x J) e e'" "P e" for e e'
    using that by (induction rule: rtranclp_induct) (auto intro: stable)
  have next_P: "P e'" if "steps x j0 m" "m e = (e', out)" "P e" for m :: "'q eng" and e e' out
    using run [OF works_steps [OF that(1) j0, of e] that(3)] that(2) by simp
  note idle = steps_idle [OF h, of j0]
  have reconcile: "rtranclp (works x J) e (fst (reconcile_due h x c e))" if e: "P e" for e
    unfolding reconcile_due_def
  proof (intro then_run works_steps [OF idle(1) j0] works_steps [OF idle(3) j0])
    fix e1 now e2 items
    assume 1: "unix_ms h e = (e1, Inr now)" and 2: "read_db h (due_reconciliations x now 32) e1 = (e2, Inr items)"
    have P: "P e2" using next_P [OF idle(3) 2 next_P [OF idle(1) 1 e]] .
    show "rtranclp (works x J) e2 (fst (for_each (reconcile_item h x c now) items e2))"
      using due_observed [OF read_db_Inr [OF 2]] heads [OF P]
      by (intro reconcile_all_works [OF h]) (metis image_subsetI)
  qed (simp add: pure_ok_def)
  have expire: "steps x j0 (on_db h (\<lambda>n. expire_waiting x (expire_scan h) (expire_ids h n) now))" for now
    using h by (intro steps_on_db [OF h] r_into_rtranclp client_step.expire) (simp add: orderly_def)
  show ?thesis
    unfolding run_once_def
  proof (intro then_run works_steps [OF idle(1) j0] works_steps [OF idle(3) j0] works_steps [OF expire j0])
    fix e1 now e2 k e3 js
    assume 1: "unix_ms h e = (e1, Inr now)"
      and 2: "on_db h (\<lambda>n. expire_waiting x (expire_scan h) (expire_ids h n) now) e1 = (e2, Inr k)"
      and 3: "read_db h (runnable_heads x now) e2 = (e3, Inr js)"
    have P: "P e3" using next_P [OF idle(3) 3 next_P [OF expire 2 next_P [OF idle(1) 1 e]]] .
    note hw = heads_waiting [OF engine_okD(1) [OF ok [OF P]] read_db_Inr [OF 3]]
    have "lj_job_id job \<in> J \<and> ready (lj_job_id job) e3" if job: "job \<in> set js" for job
    proof -
      obtain r where r: "r \<in> set (jobs (en_db e3))" "jr_job_id r = lj_job_id job" "head_candidate r"
        using hw(2) [OF job] by (auto simp: is_runnable_head_def)
      then have "waiting r" by (auto simp: head_candidate_def waiting_def)
      then show ?thesis using heads [OF P r(1)] engine_okD(5) [OF ok [OF P] r(1)] r(2,3) by simp
    qed
    then show exec: "rtranclp (works x J) e3 (fst (for_each (execute_job h x y c) js e3))"
      using hw(1) by (intro execute_all_works [OF h]) auto
    fix e4 u assume "for_each (execute_job h x y c) js e3 = (e4, Inr u)"
    with exec have "P e4" using run [OF _ P] by simp
    then show "rtranclp (works x J) e4 (fst (reconcile_due h x c e4))" by (rule reconcile)
  qed (simp add: pure_ok_def)
qed

end
