(* ===== verification/Agent_Profiles_Correct.thy ===== *)
theory Agent_Profiles_Correct
  imports Agent_Profiles Transition "HOL-Library.Sublist"
begin

text \<open>
  The invariant of the inventory tables and the state machine of their operations. \<open>profiles_ok\<close>
  is about the revisions of the named profiles, \<open>payloads_ok\<close> about the native payloads that belong
  to them. \<open>inventory_grows\<close> says what no operation takes back: the settings of a revision, the
  payloads, and the end of a capture session.
\<close>

section \<open>The revisions of named profiles\<close>

definition settings_of :: "named_profile_row \<Rightarrow> named_profile_row" where
  "settings_of p = p\<lparr>np_is_default := False, np_status := [], np_summary_json := [],
     np_last_validated_unix_ms := None, np_last_test_job_id := None, np_published := False,
     np_updated_unix_ms := 0\<rparr>"

lemma settings_of_eqD:
  assumes "settings_of p = settings_of q"
  shows "np_profile_id p = np_profile_id q" "np_printer_id p = np_printer_id q"
    "np_revision p = np_revision q" "np_name p = np_name q" "np_options_json p = np_options_json q"
    "np_native_kind p = np_native_kind q" "np_native_blob_id p = np_native_blob_id q"
    "np_native_digest p = np_native_digest q" "np_stock_id p = np_stock_id q"
    "np_driver_fingerprint_json p = np_driver_fingerprint_json q"
    "np_safe_overrides_json p = np_safe_overrides_json q"
    "np_uses_current_printer_defaults p = np_uses_current_printer_defaults q"
    "np_deleted p = np_deleted q"
  using assms by (cases p; cases q; simp add: settings_of_def)+

definition numbered :: "named_profile_row list \<Rightarrow> bool" where
  "numbered rows \<longleftrightarrow> distinct (map (\<lambda>p. (np_profile_id p, np_revision p)) rows) \<and>
     (\<forall>p\<in>set rows. 1 \<le> np_revision p \<and> (np_revision p = 1 \<or>
        (\<exists>q\<in>set rows. np_profile_id q = np_profile_id p \<and> np_revision q + 1 = np_revision p)))"

definition one_printer :: "named_profile_row list \<Rightarrow> bool" where
  "one_printer rows \<longleftrightarrow> (\<forall>p\<in>set rows. \<forall>q\<in>set rows. np_profile_id p = np_profile_id q \<longrightarrow>
     np_printer_id p = np_printer_id q)"

definition tombstones_last :: "named_profile_row list \<Rightarrow> bool" where
  "tombstones_last rows \<longleftrightarrow> (\<forall>p\<in>set rows. np_deleted p \<longrightarrow> is_latest rows p)"

text \<open>At most one active profile of a printer has the property \<open>f\<close>.\<close>

definition unique_active :: "(named_profile_row \<Rightarrow> bool) \<Rightarrow> named_profile_row list \<Rightarrow> bool" where
  "unique_active f rows \<longleftrightarrow> (\<forall>p\<in>set rows. \<forall>q\<in>set rows. is_active rows p \<longrightarrow> is_active rows q \<longrightarrow>
     f p \<longrightarrow> f q \<longrightarrow> np_printer_id p = np_printer_id q \<longrightarrow> np_profile_id p = np_profile_id q)"

definition drafts_unpublished :: "named_profile_row list \<Rightarrow> bool" where
  "drafts_unpublished rows \<longleftrightarrow>
     (\<forall>p\<in>set rows. np_uses_current_printer_defaults p \<longrightarrow> \<not> np_published p)"

definition profiles_ok :: "named_profile_row list \<Rightarrow> bool" where
  "profiles_ok rows \<longleftrightarrow> numbered rows \<and> one_printer rows \<and> tombstones_last rows \<and>
     unique_active np_is_default rows \<and> unique_active np_uses_current_printer_defaults rows \<and>
     drafts_unpublished rows"

lemmas profiles_ok_defs = profiles_ok_def numbered_def one_printer_def tombstones_last_def
  unique_active_def drafts_unpublished_def

lemma is_latest_iff:
  "is_latest rows p \<longleftrightarrow>
     (\<forall>q\<in>set rows. np_profile_id q = np_profile_id p \<longrightarrow> np_revision q \<le> np_revision p)"
  by (simp add: is_latest_def list_all_iff)

text \<open>A new revision: the first of a new profile, or the successor of an active one.\<close>

definition extends_profile :: "named_profile_row list \<Rightarrow> named_profile_row \<Rightarrow> bool" where
  "extends_profile rows row \<longleftrightarrow> np_revision row = 1 \<or>
     (\<exists>c\<in>set rows. np_profile_id c = np_profile_id row \<and> np_revision row = np_revision c + 1 \<and>
        is_active rows c \<and> np_printer_id c = np_printer_id row)"

text \<open>Changes of a row that keep its identity keep what is said about the latest revisions.\<close>

locale row_change =
  fixes f :: "named_profile_row \<Rightarrow> named_profile_row"
  assumes settings [simp]: "settings_of (f p) = settings_of p"
    and keeps_default: "np_is_default (f p) \<Longrightarrow> np_is_default p"
    and keeps_unpublished: "np_uses_current_printer_defaults p \<Longrightarrow> \<not> np_published p \<Longrightarrow> \<not> np_published (f p)"
begin

lemma fields [simp]:
  "np_profile_id (f p) = np_profile_id p" "np_printer_id (f p) = np_printer_id p"
  "np_revision (f p) = np_revision p" "np_deleted (f p) = np_deleted p"
  "np_uses_current_printer_defaults (f p) = np_uses_current_printer_defaults p"
  using settings_of_eqD [OF settings [of p]] by simp_all

lemma map_settings: "map settings_of (map f rows) = map settings_of rows"
  by simp

lemma is_latest_map [simp]: "is_latest (map f rows) (f p) = is_latest rows p"
  by (simp add: is_latest_iff)

lemma is_active_map [simp]: "is_active (map f rows) (f p) = is_active rows p"
  by (simp add: is_active_def)

lemma extends_profile_map: "extends_profile (map f rows) row = extends_profile rows row"
  unfolding extends_profile_def set_map bex_simps(7) fields is_active_map ..

lemma unique_active_map:
  assumes "unique_active g rows" and "\<And>p. g (f p) \<Longrightarrow> g p"
  shows "unique_active g (map f rows)"
  using assms(1) unfolding unique_active_def set_map ball_simps(9)
  by (metis assms(2) fields(1,2) is_active_map)

lemma profiles_ok_map:
  assumes ok: "profiles_ok rows"
  shows "profiles_ok (map f rows)"
proof -
  have u: "unique_active np_is_default rows" "unique_active np_uses_current_printer_defaults rows"
    and o: "numbered rows" "one_printer rows" "tombstones_last rows" "drafts_unpublished rows"
    using ok by (simp_all add: profiles_ok_def)
  have "unique_active np_is_default (map f rows)"
    by (rule unique_active_map [OF u(1) keeps_default])
  moreover have "unique_active np_uses_current_printer_defaults (map f rows)"
    by (rule unique_active_map [OF u(2)]) simp
  moreover have "numbered (map f rows)"
    using o(1) by (simp add: numbered_def comp_def)
  moreover have "one_printer (map f rows)"
    using o(2) unfolding one_printer_def set_map ball_simps(9) fields .
  moreover have "tombstones_last (map f rows)"
    using o(3) by (simp add: tombstones_last_def)
  moreover have "drafts_unpublished (map f rows)"
    using o(4) keeps_unpublished by (simp add: drafts_unpublished_def)
  ultimately show ?thesis by (simp add: profiles_ok_def)
qed

end

lemma first_revision:
  assumes ok: "numbered rows" and p: "p \<in> set rows"
  shows "\<exists>q\<in>set rows. np_profile_id q = np_profile_id p \<and> np_revision q = 1"
  using p
proof (induction "np_revision p" arbitrary: p rule: less_induct)
  case less
  show ?case
  proof (cases "np_revision p = 1")
    case False
    then obtain q where "q \<in> set rows" "np_profile_id q = np_profile_id p"
      "np_revision q + 1 = np_revision p"
      using ok less.prems unfolding numbered_def by metis
    with less.hyps [of q] show ?thesis by auto
  qed (use less.prems in auto)
qed

definition new_revision :: "named_profile_row list \<Rightarrow> named_profile_row \<Rightarrow> bool" where
  "new_revision rows row \<longleftrightarrow> profiles_ok rows \<and> extends_profile rows row \<and>
     (np_profile_id row, np_revision row) \<notin> (\<lambda>p. (np_profile_id p, np_revision p)) ` set rows"

lemma revision_above:
  assumes new: "new_revision rows row" and p: "p \<in> set rows" "np_profile_id p = np_profile_id row"
  shows "np_revision p < np_revision row"
proof (cases "np_revision row = 1")
  case True
  have "numbered rows" using new by (simp add: new_revision_def profiles_ok_def)
  from first_revision [OF this p(1)] True new p(2) show ?thesis
    by (auto simp: new_revision_def image_iff)
next
  case False
  then obtain c where "c \<in> set rows" "np_profile_id c = np_profile_id row"
    "np_revision row = np_revision c + 1" "is_latest rows c"
    using new by (auto simp: new_revision_def extends_profile_def is_active_def)
  with p show ?thesis by (auto simp: is_latest_iff)
qed

lemma is_latest_snoc:
  assumes new: "new_revision rows row" and p: "p \<in> set rows"
  shows "is_latest (rows @ [row]) p \<longleftrightarrow> is_latest rows p \<and> np_profile_id p \<noteq> np_profile_id row"
  using revision_above [OF new p] by (fastforce simp: is_latest_iff)

lemma is_latest_new: "new_revision rows row \<Longrightarrow> is_latest (rows @ [row]) row"
  using revision_above by (fastforce simp: is_latest_iff)

lemma unique_active_snoc:
  assumes new: "new_revision rows row" and u: "unique_active f rows"
    and other: "\<And>p. f row \<Longrightarrow> p \<in> set rows \<Longrightarrow> is_active rows p \<Longrightarrow> f p \<Longrightarrow>
      np_printer_id p = np_printer_id row \<Longrightarrow> np_profile_id p = np_profile_id row"
  shows "unique_active f (rows @ [row])"
proof -
  have act: "is_active (rows @ [row]) p \<longleftrightarrow> is_active rows p \<and> np_profile_id p \<noteq> np_profile_id row"
    if "p \<in> set rows" for p
    using is_latest_snoc [OF new that] by (auto simp: is_active_def)
  show ?thesis unfolding unique_active_def
  proof (intro ballI impI)
    fix p q
    assume pq: "p \<in> set (rows @ [row])" "q \<in> set (rows @ [row])" "f p" "f q"
      "is_active (rows @ [row]) p" "is_active (rows @ [row]) q" "np_printer_id p = np_printer_id q"
    then consider "p \<in> set rows" "q \<in> set rows" | "p = row" "q = row"
      | "p = row" "q \<in> set rows" | "q = row" "p \<in> set rows" by auto
    then show "np_profile_id p = np_profile_id q"
      using pq act other u unfolding unique_active_def by cases metis+
  qed
qed

lemma profiles_ok_snoc:
  assumes new: "new_revision rows row"
    and default: "\<And>p. np_is_default row \<Longrightarrow> p \<in> set rows \<Longrightarrow> is_active rows p \<Longrightarrow> np_is_default p \<Longrightarrow>
      np_printer_id p = np_printer_id row \<Longrightarrow> np_profile_id p = np_profile_id row"
    and current: "\<And>p. np_uses_current_printer_defaults row \<Longrightarrow> p \<in> set rows \<Longrightarrow> is_active rows p \<Longrightarrow>
      np_uses_current_printer_defaults p \<Longrightarrow> np_printer_id p = np_printer_id row \<Longrightarrow>
      np_profile_id p = np_profile_id row"
    and published: "np_uses_current_printer_defaults row \<Longrightarrow> \<not> np_published row"
  shows "profiles_ok (rows @ [row])"
proof -
  have ok: "numbered rows" "one_printer rows" "tombstones_last rows" "drafts_unpublished rows"
    and u: "unique_active np_is_default rows" "unique_active np_uses_current_printer_defaults rows"
    using new by (simp_all add: new_revision_def profiles_ok_def)
  have "numbered (rows @ [row])"
    using ok(1) new by (auto simp: numbered_def new_revision_def extends_profile_def)
  moreover have "one_printer (rows @ [row])"
  proof -
    have "np_printer_id p = np_printer_id row" if p: "p \<in> set rows" "np_profile_id p = np_profile_id row" for p
    proof -
      have "np_revision row \<noteq> 1" using revision_above [OF new p] ok(1) p(1) by (auto simp: numbered_def)
      then obtain c where "c \<in> set rows" "np_profile_id c = np_profile_id row"
        "np_printer_id c = np_printer_id row"
        using new by (auto simp: new_revision_def extends_profile_def)
      with ok(2) p show ?thesis unfolding one_printer_def by metis
    qed
    with ok(2) show ?thesis unfolding one_printer_def set_append by (metis Un_iff empty_iff insert_iff list.set)
  qed
  moreover have "tombstones_last (rows @ [row])"
    unfolding tombstones_last_def
  proof (intro ballI impI)
    fix p assume p: "p \<in> set (rows @ [row])" "np_deleted p"
    show "is_latest (rows @ [row]) p"
    proof (cases "p \<in> set rows")
      case True
      then have latest: "is_latest rows p" using ok(3) p(2) by (simp add: tombstones_last_def)
      have "np_profile_id p \<noteq> np_profile_id row"
      proof
        assume id: "np_profile_id p = np_profile_id row"
        have "np_revision row \<noteq> 1" using revision_above [OF new True id] ok(1) True by (auto simp: numbered_def)
        then obtain c where c: "c \<in> set rows" "np_profile_id c = np_profile_id row" "is_active rows c"
          using new by (auto simp: new_revision_def extends_profile_def)
        then have "np_revision c = np_revision p"
          using latest True id by (auto simp: is_active_def is_latest_iff intro: le_antisym)
        then have "c = p" using c(1,2) id True ok(1)
          by (auto simp: numbered_def distinct_map inj_on_def)
        with c(3) p(2) show False by (simp add: is_active_def)
      qed
      with latest is_latest_snoc [OF new True] show ?thesis by simp
    qed (use p is_latest_new [OF new] in auto)
  qed
  moreover have "drafts_unpublished (rows @ [row])"
    using ok(4) published by (auto simp: drafts_unpublished_def)
  moreover have "unique_active np_is_default (rows @ [row])"
    using new u(1) by (rule unique_active_snoc) (rule default)
  moreover have "unique_active np_uses_current_printer_defaults (rows @ [row])"
    using new u(2) by (rule unique_active_snoc) (rule current)
  ultimately show ?thesis by (simp add: profiles_ok_def)
qed

end
