(* ===== verification/Agent_Inventory_Machine.thy ===== *)
theory Agent_Inventory_Machine
  imports Agent_Profiles_Correct
begin

text \<open>
  The inventory as a state machine: one rule for every operation that changes it, the invariant
  \<open>inventory_ok\<close> and the order \<open>inventory_grows\<close>, as an interpretation of \<open>machine\<close>.
\<close>

section \<open>The changes of existing revisions\<close>

lemma row_change_if: "row_change f \<Longrightarrow> row_change (\<lambda>p. if c p then f p else p)"
  by (simp add: row_change_def)

interpretation demotion: row_change "\<lambda>p. p\<lparr>np_is_default := False, np_updated_unix_ms := t\<rparr>" for t
  by unfold_locales (simp_all add: settings_of_def)

interpretation refresh: row_change "\<lambda>p. p\<lparr>np_summary_json := j, np_updated_unix_ms := t\<rparr>" for j t
  by unfold_locales (simp_all add: settings_of_def)

interpretation validation: row_change
  "\<lambda>p. p\<lparr>np_last_validated_unix_ms := Some t, np_updated_unix_ms := t\<rparr>" for t
  by unfold_locales (simp_all add: settings_of_def)

interpretation test_result: row_change "\<lambda>p. p\<lparr>np_status := st, np_last_validated_unix_ms := Some t,
  np_last_test_job_id := Some j,
  np_published := (if np_uses_current_printer_defaults p then False else passed),
  np_updated_unix_ms := t\<rparr>" for st t j passed
  by unfold_locales (simp_all add: settings_of_def)

lemma sql_update_profiles:
  assumes "row_change f"
  shows "map settings_of (snd (sql_update c f rows)) = map settings_of rows"
    "profiles_ok rows \<Longrightarrow> profiles_ok (snd (sql_update c f rows))"
  using row_change.profiles_ok_map [OF row_change_if [OF assms, of c], of rows]
    row_change.map_settings [OF row_change_if [OF assms, of c], of rows]
  by (simp_all add: snd_sql_update)

section \<open>Payloads\<close>

definition same_revision :: "StoredNativeProfileBlob \<Rightarrow> named_profile_row \<Rightarrow> bool" where
  "same_revision b p \<longleftrightarrow> nb_profile_id b = np_profile_id p \<and> nb_profile_revision b = np_revision p"

definition describes :: "StoredNativeProfileBlob \<Rightarrow> named_profile_row \<Rightarrow> bool" where
  "describes b p \<longleftrightarrow> same_revision b p \<and> np_native_blob_id p = Some (nb_blob_id b) \<and>
     np_native_digest p = Some (nb_digest b) \<and> np_native_kind p = nb_native_kind b"

definition payloads_ok :: "inv_ext \<Rightarrow> named_profile_row list \<Rightarrow> StoredNativeProfileBlob list \<Rightarrow> bool" where
  "payloads_ok y rows blobs \<longleftrightarrow>
     distinct (map (\<lambda>b. (nb_profile_id b, nb_profile_revision b)) blobs) \<and>
     (\<forall>b\<in>set blobs. nb_digest b = ''sha256:'' @ sha256_hex y (nb_native_blob b) \<and>
        (\<exists>p\<in>settings_of ` set rows. describes b p)) \<and>
     (\<forall>p\<in>settings_of ` set rows. np_native_kind p \<noteq> ''portable_options'' \<longrightarrow>
        (\<exists>b\<in>set blobs. same_revision b p))"

lemma describes_settings [simp]: "describes b (settings_of p) = describes b p"
  by (simp add: describes_def same_revision_def settings_of_def)

lemma same_revision_settings [simp]: "same_revision b (settings_of p) = same_revision b p"
  by (simp add: same_revision_def settings_of_def)

lemma payloads_ok_cong:
  assumes "map settings_of rows' = map settings_of rows"
  shows "payloads_ok y rows' blobs = payloads_ok y rows blobs"
proof -
  have "settings_of ` set rows' = settings_of ` set rows"
    using arg_cong [where f = set, OF assms] by simp
  then show ?thesis unfolding payloads_ok_def by (simp only:)
qed

lemma payloads_ok_portable:
  "payloads_ok y rows blobs \<Longrightarrow> np_native_kind row = ''portable_options'' \<Longrightarrow>
    payloads_ok y (rows @ [row]) blobs"
  by (auto simp: payloads_ok_def settings_of_def)

lemma payloads_ok_captured:
  assumes "payloads_ok y rows blobs" and "describes b row"
    and "nb_digest b = ''sha256:'' @ sha256_hex y (nb_native_blob b)"
    and "(nb_profile_id b, nb_profile_revision b) \<notin>
      (\<lambda>b. (nb_profile_id b, nb_profile_revision b)) ` set blobs"
  shows "payloads_ok y (rows @ [row]) (blobs @ [b])"
proof -
  have "same_revision b row" using assms(2) by (simp add: describes_def)
  with assms show ?thesis
    unfolding payloads_ok_def set_append image_Un ball_Un bex_Un by (simp add: disj_commute)
qed

section \<open>The invariant\<close>

definition inventory_ok :: "inv_ext \<Rightarrow> inventory \<Rightarrow> bool" where
  "inventory_ok y s \<longleftrightarrow> profiles_ok (iv_profiles s) \<and> payloads_ok y (iv_profiles s) (iv_blobs s) \<and>
     distinct (map cs_session_id (iv_sessions s)) \<and> distinct (map pt_printer_id (iv_printers s))"

definition inventory_grows :: "inventory \<Rightarrow> inventory \<Rightarrow> bool" where
  "inventory_grows s s' \<longleftrightarrow> prefix (map settings_of (iv_profiles s)) (map settings_of (iv_profiles s')) \<and>
     prefix (iv_blobs s) (iv_blobs s') \<and>
     (\<forall>r\<in>set (iv_sessions s). cs_status r \<noteq> ''authorized'' \<longrightarrow> r \<in> set (iv_sessions s'))"

lemma inventory_grows_refl [simp]: "inventory_grows s s"
  by (simp add: inventory_grows_def)

lemma inventory_grows_trans:
  "inventory_grows s s' \<Longrightarrow> inventory_grows s' s'' \<Longrightarrow> inventory_grows s s''"
  unfolding inventory_grows_def by (meson prefix_order.trans)

text \<open>\<open>safe y s s'\<close>: a step from \<open>s\<close> to \<open>s'\<close> keeps the invariant and takes nothing back.\<close>

definition safe :: "inv_ext \<Rightarrow> inventory \<Rightarrow> inventory \<Rightarrow> bool" where
  "safe y s s' \<longleftrightarrow> (inventory_ok y s \<longrightarrow> inventory_ok y s' \<and> inventory_grows s s')"

lemma safe_refl [simp]: "safe y s s" by (simp add: safe_def)

lemma safe_trans: "safe y s s' \<Longrightarrow> safe y s' s'' \<Longrightarrow> safe y s s''"
  unfolding safe_def using inventory_grows_trans by blast

lemma safe_same:
  assumes "iv_profiles s' = iv_profiles s" "iv_blobs s' = iv_blobs s" "iv_sessions s' = iv_sessions s"
    "map pt_printer_id (iv_printers s') = map pt_printer_id (iv_printers s)"
  shows "safe y s s'"
  using assms by (simp add: safe_def inventory_ok_def inventory_grows_def)

lemma safe_tx: "(\<And>s' x. body s = Inr (s', x) \<Longrightarrow> safe y s s') \<Longrightarrow> safe y s (fst (transaction body s))"
  by (rule transaction_invariant) simp_all

lemma safe_rows:
  assumes "row_change f" "iv_profiles s' = snd (sql_update c f (iv_profiles s))"
    "iv_blobs s' = iv_blobs s" "iv_sessions s' = iv_sessions s" "iv_printers s' = iv_printers s"
  shows "safe y s s'"
proof -
  note upd = sql_update_profiles [OF assms(1), where c = c and rows = "iv_profiles s"]
  have "payloads_ok y (iv_profiles s') (iv_blobs s') = payloads_ok y (iv_profiles s) (iv_blobs s)"
    unfolding assms(2,3) by (rule payloads_ok_cong [OF upd(1)])
  with upd assms(2-5) show ?thesis by (simp add: safe_def inventory_ok_def inventory_grows_def)
qed

lemma safe_profile_change: "row_change f \<Longrightarrow> safe y s (snd (update_profiles c f s))"
  by (rule safe_rows [of f _ c]) (auto simp: update_profiles_def split: prod.splits)

section \<open>Operations that leave the profiles alone\<close>

lemma safe_printers:
  assumes "iv_profiles s' = iv_profiles s" "iv_blobs s' = iv_blobs s" "iv_sessions s' = iv_sessions s"
    "iv_printers s' = sql_upsert pt_printer_id row (\<lambda>_. row) (iv_printers s)"
  shows "safe y s s'"
proof -
  have "distinct (map pt_printer_id (iv_printers s)) \<Longrightarrow> distinct (map pt_printer_id (iv_printers s'))"
    unfolding assms(4) by (rule distinct_sql_upsert) simp_all
  with assms(1-3) show ?thesis by (simp add: safe_def inventory_ok_def inventory_grows_def)
qed

lemma safe_upsert_printer: "safe y s (fst (upsert_printer y fresh n nm st d caps t s))"
  unfolding upsert_printer_def
  by (auto simp: Let_def result_simps upsert_capabilities_def split: if_splits
      intro!: safe_tx safe_printers)

lemma mark_present_ids: "map pt_printer_id (mark_present n rows) = map pt_printer_id rows"
  by (simp add: mark_present_def snd_sql_update)

lemma fold_mark_present_ids: "map pt_printer_id (fold mark_present ns rows) = map pt_printer_id rows"
  by (induction ns arbitrary: rows) (simp_all add: mark_present_ids)

lemma safe_quiet:
  "safe y s (fst (set_setting y k v s))"
  "safe y s (fst (record_executor_failure y code s))"
  "safe y s (fst (reconcile_printer_presence ns s))"
  "safe y s (fst (set_printer_exposed p b t s))"
  "safe y s (fst (store_printer_profile y p r pj nj t s))"
  "safe y s (fst (upsert_physical_device y device s))"
  "safe y s (fst (bind_printer_device binding s))"
  "safe y s (fst (upsert_stock y stock s))"
  "safe y s (fst (confirm_loaded_media loaded s))"
  "safe y s (fst (upsert_target target s))"
  "safe y s (fst (upsert_target_binding tb s))"
  unfolding set_setting_def record_executor_failure_def reconcile_printer_presence_def
    set_printer_exposed_def store_printer_profile_def store_printer_profile_tx_def
    upsert_physical_device_def bind_printer_device_def upsert_stock_def confirm_loaded_media_def
    upsert_target_def upsert_target_binding_def
  by (auto simp: Let_def result_simps put_setting_def insert_snapshot_def fold_mark_present_ids comp_def
      split: if_splits sum.splits intro!: safe_tx safe_same)

section \<open>New revisions\<close>

lemma insert_profile_row_Inr:
  assumes "insert_profile_row y row s = Inr s'"
  shows "s' = s\<lparr>iv_profiles := iv_profiles s @ [row]\<rparr>"
    "(np_profile_id row, np_revision row) \<notin> (\<lambda>p. (np_profile_id p, np_revision p)) ` set (iv_profiles s)"
    "printer_exists (np_printer_id row) s" "np_revision row \<le> i64_max"
  using assms by (auto simp: insert_profile_row_def result_simps table_simps image_iff)

text \<open>\<open>sole rows row\<close>: the new row does not compete with another active profile of its printer.\<close>

definition sole :: "(named_profile_row \<Rightarrow> bool) \<Rightarrow> named_profile_row list \<Rightarrow> named_profile_row \<Rightarrow> bool" where
  "sole f rows row \<longleftrightarrow> (f row \<longrightarrow> (\<forall>p\<in>set rows. is_active rows p \<and> f p \<and>
     np_printer_id p = np_printer_id row \<longrightarrow> np_profile_id p = np_profile_id row))"

lemma not_default_sole: "\<not> f row \<Longrightarrow> sole f rows row"
  by (simp add: sole_def)

lemma inserted_profiles_ok:
  assumes ins: "insert_profile_row y row s = Inr s'" and ok: "profiles_ok (iv_profiles s)"
    and ext: "extends_profile (iv_profiles s) row"
    and sole: "sole np_is_default (iv_profiles s) row"
      "sole np_uses_current_printer_defaults (iv_profiles s) row"
    and pub: "np_uses_current_printer_defaults row \<Longrightarrow> \<not> np_published row"
  shows "profiles_ok (iv_profiles s')"
proof -
  have new: "new_revision (iv_profiles s) row"
    using insert_profile_row_Inr(2) [OF ins] ok ext by (simp add: new_revision_def)
  show ?thesis
    unfolding insert_profile_row_Inr(1) [OF ins]
    using profiles_ok_snoc [OF new] sole pub by (simp add: sole_def)
qed

lemma safe_insert:
  assumes ins: "insert_profile_row y row s = Inr s'"
    and ext: "extends_profile (iv_profiles s) row"
    and sole: "sole np_is_default (iv_profiles s) row"
      "sole np_uses_current_printer_defaults (iv_profiles s) row"
    and row: "np_uses_current_printer_defaults row \<Longrightarrow> \<not> np_published row"
      "np_native_kind row = ''portable_options''"
  shows "safe y s s'"
  unfolding safe_def
proof
  assume ok: "inventory_ok y s"
  then have "profiles_ok (iv_profiles s')"
    using inserted_profiles_ok [OF ins _ ext sole row(1)] by (simp add: inventory_ok_def)
  with ok payloads_ok_portable [OF _ row(2), of y "iv_profiles s" "iv_blobs s"]
  show "inventory_ok y s' \<and> inventory_grows s s'"
    unfolding insert_profile_row_Inr(1) [OF ins] by (simp add: inventory_ok_def inventory_grows_def)
qed

text \<open>Demotion leaves no other active default profile of the printer.\<close>

lemma demoted_profiles:
  "iv_profiles (demote_default_profiles printer_id profile_id t s) = map (\<lambda>p.
     if np_printer_id p = printer_id \<and> np_profile_id p \<noteq> profile_id \<and> np_is_default p \<and>
        is_active (iv_profiles s) p
     then p\<lparr>np_is_default := False, np_updated_unix_ms := t\<rparr> else p) (iv_profiles s)"
  by (simp add: demote_default_profiles_def snd_sql_update)

lemma demoted_tables [simp]:
  "iv_blobs (demote_default_profiles printer_id profile_id t s) = iv_blobs s"
  "iv_sessions (demote_default_profiles printer_id profile_id t s) = iv_sessions s"
  by (simp_all add: demote_default_profiles_def)

lemma safe_demote: "safe y s (demote_default_profiles printer_id profile_id t s)"
  by (rule safe_rows [OF demotion.row_change_axioms [of t], of _ _ s]) (simp_all add: demote_default_profiles_def)

lemma demoted_extends:
  "extends_profile (iv_profiles (demote_default_profiles printer_id profile_id t s)) row =
     extends_profile (iv_profiles s) row"
  unfolding demoted_profiles
  by (rule row_change.extends_profile_map, rule row_change_if, rule demotion.row_change_axioms)

lemma demoted_active:
  assumes "p \<in> set (iv_profiles s)"
  shows "is_active (iv_profiles (demote_default_profiles printer_id profile_id t s))
     (if np_printer_id p = printer_id \<and> np_profile_id p \<noteq> profile_id \<and> np_is_default p \<and>
        is_active (iv_profiles s) p
      then p\<lparr>np_is_default := False, np_updated_unix_ms := t\<rparr> else p) = is_active (iv_profiles s) p"
  unfolding demoted_profiles
  by (rule row_change.is_active_map, rule row_change_if, rule demotion.row_change_axioms)

lemma demoted_sole:
  assumes "np_printer_id row = printer_id" "np_profile_id row = profile_id"
  shows "sole np_is_default (iv_profiles (demote_default_profiles printer_id profile_id t s)) row"
  unfolding sole_def
proof (intro impI ballI)
  fix p' assume p': "p' \<in> set (iv_profiles (demote_default_profiles printer_id profile_id t s))"
    "is_active (iv_profiles (demote_default_profiles printer_id profile_id t s)) p' \<and> np_is_default p' \<and>
       np_printer_id p' = np_printer_id row"
  then obtain p where p: "p \<in> set (iv_profiles s)" "p' = (if np_printer_id p = printer_id \<and>
      np_profile_id p \<noteq> profile_id \<and> np_is_default p \<and> is_active (iv_profiles s) p
      then p\<lparr>np_is_default := False, np_updated_unix_ms := t\<rparr> else p)"
    unfolding demoted_profiles by auto
  with p' demoted_active [OF p(1), of printer_id profile_id t] assms
  show "np_profile_id p' = np_profile_id row" by (auto split: if_splits)
qed

definition prepared :: "bool \<Rightarrow> string \<Rightarrow> string \<Rightarrow> int \<Rightarrow> inventory \<Rightarrow> inventory" where
  "prepared is_default printer_id profile_id t s =
     (if is_default then demote_default_profiles printer_id profile_id t s else s)"

lemma prepared_facts:
  "safe y s (prepared d printer_id profile_id t s)"
  "extends_profile (iv_profiles (prepared d printer_id profile_id t s)) row = extends_profile (iv_profiles s) row"
  "np_printer_id row = printer_id \<Longrightarrow> np_profile_id row = profile_id \<Longrightarrow> np_is_default row = d \<Longrightarrow>
    sole np_is_default (iv_profiles (prepared d printer_id profile_id t s)) row"
  "iv_blobs (prepared d printer_id profile_id t s) = iv_blobs s"
  "iv_sessions (prepared d printer_id profile_id t s) = iv_sessions s"
proof -
  show "np_printer_id row = printer_id \<Longrightarrow> np_profile_id row = profile_id \<Longrightarrow> np_is_default row = d \<Longrightarrow>
    sole np_is_default (iv_profiles (prepared d printer_id profile_id t s)) row"
    by (cases d) (simp_all add: prepared_def demoted_sole not_default_sole)
qed (simp_all add: prepared_def safe_demote demoted_extends demoted_tables)

lemma plain_profile_row_sel [simp]:
  "np_profile_id (plain_profile_row i p r n d j del t) = i"
  "np_printer_id (plain_profile_row i p r n d j del t) = p"
  "np_revision (plain_profile_row i p r n d j del t) = r"
  "np_is_default (plain_profile_row i p r n d j del t) = d"
  "np_native_kind (plain_profile_row i p r n d j del t) = ''portable_options''"
  "np_published (plain_profile_row i p r n d j del t) = False"
  "np_uses_current_printer_defaults (plain_profile_row i p r n d j del t) = False"
  by (simp_all add: plain_profile_row_def)

lemma safe_insert_named:
  assumes ins: "insert_named_profile_tx y i p r n d j del t s = Inr s'"
    and ext: "r = 1 \<or> (\<exists>c\<in>set (iv_profiles s). np_profile_id c = i \<and> r = np_revision c + 1 \<and>
      is_active (iv_profiles s) c \<and> np_printer_id c = p)"
  shows "safe y s s'"
proof -
  let ?row = "plain_profile_row i p r n d j del t"
  have run: "insert_profile_row y ?row (prepared d p i t s) = Inr s'"
    using ins by (simp add: insert_named_profile_tx_def prepared_def)
  have "extends_profile (iv_profiles s) ?row" using ext by (simp add: extends_profile_def)
  then have "safe y (prepared d p i t s) s'"
    using prepared_facts(3) [of ?row p i d t s]
    by (intro safe_insert [OF run]) (simp_all add: prepared_facts(2) not_default_sole)
  then show ?thesis by (rule safe_trans [OF prepared_facts(1)])
qed

lemma query_named_profile_Some:
  assumes "query_named_profile printer_id profile_id s = Some v"
  shows "\<exists>c\<in>set (iv_profiles s). v = named_profile_from_row c \<and> np_profile_id c = profile_id \<and>
    np_printer_id c = printer_id \<and> is_active (iv_profiles s) c"
  using assms by (auto simp: query_named_profile_def find_Some_iff)

lemma expect_revision_Inr:
  assumes "expect_revision printer_id profile_id n s = Inr v"
  shows "\<exists>c\<in>set (iv_profiles s). np_profile_id c = profile_id \<and> np_revision v = np_revision c \<and>
    is_active (iv_profiles s) c \<and> np_printer_id c = printer_id"
proof -
  have "query_named_profile printer_id profile_id s = Some v"
    using assms by (auto simp: expect_revision_def result_simps split: if_splits)
  from query_named_profile_Some [OF this] show ?thesis by (auto simp: named_profile_from_row_def)
qed

lemma fst_read_profile [simp]: "fst (read_profile p i msg out) = fst out"
  by (cases out; cases "snd out") (auto simp: read_profile_def)

lemma safe_create: "safe y s (fst (create_named_profile y fresh p n d j t s))"
  by (auto simp: create_named_profile_def insert_named_profile_def Let_def result_simps
      split: sum.splits intro!: safe_tx elim!: safe_insert_named)

lemma safe_next:
  assumes "expect_revision p i r s = Inr c"
    and "insert_named_profile_tx y i p (Suc (np_revision c)) n d j del t s = Inr s'"
  shows "safe y s s'"
  using expect_revision_Inr [OF assms(1)] by (intro safe_insert_named [OF assms(2)]) auto

lemma safe_update: "safe y s (fst (update_named_profile y p i r n d j t s))"
  unfolding update_named_profile_def
  by (auto simp: result_simps split: sum.splits intro!: safe_tx intro: safe_next)

lemma safe_delete: "safe y s (fst (delete_named_profile y p i r t s))"
  unfolding delete_named_profile_def by (auto simp: result_simps intro!: safe_tx intro: safe_next)

section \<open>The driver's defaults and validation results\<close>

lemma greatest_exists:
  fixes f :: "'a \<Rightarrow> nat"
  assumes "rows \<noteq> []"
  shows "\<exists>p\<in>set rows. list_all (\<lambda>q. f q \<le> f p) rows"
proof -
  from assms have "Max (f ` set rows) \<in> f ` set rows" by (intro Max_in) auto
  then obtain p where "p \<in> set rows" "f p = Max (f ` set rows)" by auto
  then show ?thesis by (auto simp: list_all_iff intro!: bexI [of _ p])
qed

lemma no_current_defaults:
  assumes "query_current_printer_defaults_profile printer_id s = None"
  shows "sole np_uses_current_printer_defaults (iv_profiles s) row \<or> np_printer_id row \<noteq> printer_id"
proof -
  let ?rows = "filter (\<lambda>p. np_printer_id p = printer_id \<and> is_active (iv_profiles s) p \<and>
    np_uses_current_printer_defaults p) (iv_profiles s)"
  have "?rows = []"
  proof (rule ccontr)
    assume "?rows \<noteq> []"
    from greatest_exists [OF this, of np_revision] assms show False
      by (auto simp: query_current_printer_defaults_profile_def Let_def find_None_iff)
  qed
  then show ?thesis unfolding sole_def filter_empty_conv by blast
qed

lemma has_no_default: "\<not> has_default (np_printer_id row) s \<Longrightarrow> sole np_is_default (iv_profiles s) row"
  unfolding has_default_def sql_exists_iff sole_def by blast

lemma safe_ensure: "safe y s (fst (ensure_current_printer_defaults_profile y fresh p t s))"
  unfolding ensure_current_printer_defaults_profile_def
proof (rule safe_tx, goal_cases)
  case (1 s' v)
  let ?row = "\<lambda>j. (plain_profile_row (''prf_'' @ fresh) p 1 ''Current printer defaults''
    (\<not> has_default p s) j False t)\<lparr>np_status := ''ready'', np_uses_current_printer_defaults := True\<rparr>"
  show ?case
  proof (cases "query_current_printer_defaults_profile p s")
    case None
    with 1 obtain j where ins: "insert_profile_row y (?row j) s = Inr s'"
      by (auto simp: result_simps Let_def split: if_splits)
    have "sole np_uses_current_printer_defaults (iv_profiles s) (?row j)"
      using no_current_defaults [OF None, of "?row j"] by simp
    moreover have "sole np_is_default (iv_profiles s) (?row j)"
      using has_no_default [of "?row j" s] not_default_sole [of np_is_default "?row j"]
      by (cases "has_default p s") simp_all
    ultimately show ?thesis
      by (intro safe_insert [OF ins]) (simp_all add: extends_profile_def)
  qed (use 1 in \<open>auto split: if_splits\<close>)
qed

lemma safe_revision: "row_change f \<Longrightarrow> safe y s (fst (update_revision i r f s))"
  by (simp add: update_revision_def Let_def split_beta safe_profile_change)

lemma safe_results:
  "safe y s (fst (record_profile_validation i r t s))"
  "safe y s (fst (record_profile_test_result i r j b t s))"
  unfolding record_profile_validation_def record_profile_test_result_def
  by (rule safe_revision, unfold_locales)+

lemma safe_refresh: "safe y s (fst (refresh_current_printer_defaults_profile y fresh p nj t s))"
proof (cases "validated_native_options y nj")
  case (Inr options)
  obtain s1 out where ens: "ensure_current_printer_defaults_profile y fresh p t s = (s1, out)"
    by fastforce
  have s1: "safe y s s1" using safe_ensure [of y s fresh p t] by (simp add: ens)
  have upd: "safe y s (snd (update_profiles c (\<lambda>q. q\<lparr>np_summary_json := sj, np_updated_unix_ms := t\<rparr>) s1))"
    for c sj by (rule safe_trans [OF s1 safe_profile_change]) unfold_locales
  show ?thesis
    using s1 upd unfolding refresh_current_printer_defaults_profile_def Inr ens
    by (simp add: Let_def split_beta split: sum.splits option.splits)
qed (simp add: refresh_current_printer_defaults_profile_def)

section \<open>Capture sessions\<close>

lemma safe_sessions:
  assumes "iv_profiles s' = iv_profiles s" "iv_blobs s' = iv_blobs s" "iv_printers s' = iv_printers s"
    and "distinct (map cs_session_id (iv_sessions s)) \<Longrightarrow> distinct (map cs_session_id (iv_sessions s'))"
    and "\<And>r. r \<in> set (iv_sessions s) \<Longrightarrow> cs_status r \<noteq> ''authorized'' \<Longrightarrow> r \<in> set (iv_sessions s')"
  shows "safe y s s'"
  using assms by (simp add: safe_def inventory_ok_def inventory_grows_def)

lemma safe_close:
  assumes "\<And>r. c r \<Longrightarrow> cs_status r = ''authorized''" "\<And>r. cs_session_id (f r) = cs_session_id r"
  shows "safe y s (s\<lparr>iv_sessions := snd (sql_update c f (iv_sessions s))\<rparr>)"
proof (rule safe_sessions)
  show "distinct (map cs_session_id (iv_sessions (s\<lparr>iv_sessions := snd (sql_update c f (iv_sessions s))\<rparr>)))"
    if "distinct (map cs_session_id (iv_sessions s))"
    using that assms(2) by (simp add: snd_sql_update comp_def if_distrib cong: if_cong)
  show "r \<in> set (iv_sessions (s\<lparr>iv_sessions := snd (sql_update c f (iv_sessions s))\<rparr>))"
    if r: "r \<in> set (iv_sessions s)" "cs_status r \<noteq> ''authorized''" for r
  proof -
    have "r = (if c r then f r else r)" using assms(1) r(2) by auto
    then have "r \<in> (\<lambda>r. if c r then f r else r) ` set (iv_sessions s)" using r(1) by (rule image_eqI)
    then show ?thesis by (simp add: snd_sql_update)
  qed
qed simp_all

lemma safe_create_session:
  "safe y s (fst (create_profile_capture_session i tok p pid er op_name peer ex cr s))"
proof -
  have "safe y s (s\<lparr>iv_sessions := iv_sessions s @ [r]\<rparr>)"
    if "\<not> sql_exists (\<lambda>q. cs_session_id q = cs_session_id r) (iv_sessions s)" for r
    by (rule safe_sessions) (use that in \<open>auto simp: table_simps\<close>)
  then show ?thesis
    by (auto simp: create_profile_capture_session_def Let_def split: sum.splits)
qed

lemma safe_cancel_session: "safe y s (fst (cancel_profile_capture i tok peer t s))"
proof -
  let ?c = "\<lambda>r. cs_session_id r = i \<and> cs_token_digest r = tok \<and> cs_peer_user_id r = peer \<and>
    cs_status r = ''authorized'' \<and> t \<le> cs_expires_unix_ms r"
  let ?f = "\<lambda>r. r\<lparr>cs_status := ''cancelled'', cs_completed_unix_ms := Some t\<rparr>"
  have "safe y s (s\<lparr>iv_sessions := snd (sql_update ?c ?f (iv_sessions s))\<rparr>)"
    by (rule safe_close) simp_all
  then show ?thesis by (simp add: cancel_profile_capture_def split_beta)
qed

lemma insert_blob_Inr:
  assumes "insert_blob b s = Inr s'"
  shows "s' = s\<lparr>iv_blobs := iv_blobs s @ [b]\<rparr>"
    "(nb_profile_id b, nb_profile_revision b) \<notin> (\<lambda>b. (nb_profile_id b, nb_profile_revision b)) ` set (iv_blobs s)"
  using assms by (auto simp: insert_blob_def result_simps table_simps)

lemma safe_captured_row:
  assumes ins: "insert_profile_row y row s = Inr s1" and blob: "insert_blob b s1 = Inr s2"
    and ext: "extends_profile (iv_profiles s) row" and sole: "sole np_is_default (iv_profiles s) row"
    and row: "\<not> np_uses_current_printer_defaults row" and b: "describes b row"
      "nb_digest b = ''sha256:'' @ sha256_hex y (nb_native_blob b)"
  shows "safe y s s2"
  unfolding safe_def
proof
  assume ok: "inventory_ok y s"
  note s1 = insert_profile_row_Inr(1) [OF ins] and s2 = insert_blob_Inr(1) [OF blob]
  have "profiles_ok (iv_profiles s1)"
    using ok inserted_profiles_ok [OF ins _ ext sole] not_default_sole [where f = np_uses_current_printer_defaults, OF row] row
    by (simp add: inventory_ok_def)
  moreover have "payloads_ok y (iv_profiles s1) (iv_blobs s @ [b])"
    using ok insert_blob_Inr(2) [OF blob] payloads_ok_captured [OF _ b, of "iv_profiles s" "iv_blobs s"]
    by (simp add: inventory_ok_def s1)
  ultimately show "inventory_ok y s2 \<and> inventory_grows s s2"
    using ok by (simp add: inventory_ok_def inventory_grows_def s1 s2)
qed

lemma insert_dependencies_tables:
  assumes "insert_dependencies i r k ds s = Inr s'"
  shows "iv_profiles s' = iv_profiles s \<and> iv_blobs s' = iv_blobs s \<and> iv_sessions s' = iv_sessions s \<and>
    iv_printers s' = iv_printers s"
  using assms
proof (induction ds arbitrary: k s)
  case (Cons d ds)
  then show ?case by (cases d) (fastforce simp: result_simps)
qed simp

lemma verified_digest:
  "validate_native_capture y capture = Inr () \<Longrightarrow>
    pc_native_digest capture = ''sha256:'' @ sha256_hex y (pc_native_blob capture)"
  by (auto simp: validate_native_capture_def result_simps constant_time_eq split: if_splits)

lemma store_capture_Inr:
  assumes "store_capture y a capture i r d blob t s = Inr s'"
  obtains s1 s2 s3 ds where
    "insert_profile_row y (captured_row capture i (cs_printer_id a) r d blob t)
       (prepared d (cs_printer_id a) i t s) = Inr s1"
    "insert_blob (captured_blob capture i r blob t) s1 = Inr s2"
    "insert_dependencies i r 0 ds s2 = Inr s3"
    "s' = s3\<lparr>iv_sessions := snd (sql_update (\<lambda>q. cs_session_id q = cs_session_id a \<and>
       cs_status q = ''authorized'')
       (\<lambda>q. q\<lparr>cs_status := ''committed'', cs_completed_unix_ms := Some t\<rparr>) (iv_sessions s3))\<rparr>"
  using assms that by (auto simp: store_capture_def result_simps prepared_def)

lemma store_capture_safe:
  assumes run: "store_capture y a capture i r d blob t s = Inr s'"
    and ok: "validate_native_capture y capture = Inr ()"
    and ext: "extends_profile (iv_profiles s) (captured_row capture i (cs_printer_id a) r d blob t)"
  shows "safe y s s'"
  using run
proof (rule store_capture_Inr)
  let ?row = "captured_row capture i (cs_printer_id a) r d blob t"
  let ?s0 = "prepared d (cs_printer_id a) i t s"
  fix s1 s2 s3 ds
  assume ins: "insert_profile_row y ?row ?s0 = Inr s1"
    and blob: "insert_blob (captured_blob capture i r blob t) s1 = Inr s2"
    and deps: "insert_dependencies i r 0 ds s2 = Inr s3"
    and s': "s' = s3\<lparr>iv_sessions := snd (sql_update (\<lambda>q. cs_session_id q = cs_session_id a \<and>
       cs_status q = ''authorized'')
       (\<lambda>q. q\<lparr>cs_status := ''committed'', cs_completed_unix_ms := Some t\<rparr>) (iv_sessions s3))\<rparr>"
  have "safe y ?s0 s2"
    using verified_digest [OF ok] ext prepared_facts(3) [of ?row "cs_printer_id a" i d t s]
    by (intro safe_captured_row [OF ins blob])
       (simp_all add: prepared_facts(2) captured_row_def captured_blob_def describes_def same_revision_def)
  moreover have "safe y s2 s3"
    using insert_dependencies_tables [OF deps] by (intro safe_same) simp_all
  moreover have "safe y s3 s'" unfolding s' by (rule safe_close) simp_all
  ultimately show ?thesis using prepared_facts(1) safe_trans by metis
qed

lemma captured_revision_Inr:
  assumes "captured_revision a (Option.bind (cs_profile_id a)
      (\<lambda>i. query_named_profile (cs_printer_id a) i s)) capture fresh = Inr (i, r, d)"
  shows "extends_profile (iv_profiles s) (captured_row capture i (cs_printer_id a) r d blob t)"
proof (cases "r = 1")
  case False
  with assms obtain v where v: "query_named_profile (cs_printer_id a) i s = Some v" "r = np_revision v + 1"
    by (auto simp: captured_revision_def Let_def result_simps split: if_splits option.splits)
  from query_named_profile_Some [OF v(1)] v(2) show ?thesis
    by (auto simp: extends_profile_def captured_row_def named_profile_from_row_def)
qed (simp add: extends_profile_def captured_row_def)

text \<open>What a commit that returns a profile has checked and done.\<close>

lemma commit_Inr:
  assumes "commit_profile_capture y fresh blob i tok peer capture t s = (s', Inr v)"
  obtains a pid r d where "sql_find cs_session_id i (iv_sessions s) = Some a"
    "cs_status a = ''authorized''" "t \<le> cs_expires_unix_ms a" "cs_peer_user_id a = peer"
    "cs_token_digest a = tok" "validate_native_capture y capture = Inr ()"
    "store_capture y a capture pid r d blob t s = Inr s'"
    "captured_revision a (Option.bind (cs_profile_id a)
      (\<lambda>i. query_named_profile (cs_printer_id a) i s)) capture fresh = Inr (pid, r, d)"
    "query_named_profile (cs_printer_id a) pid s' = Some v"
proof -
  from assms show thesis
    by (auto simp: commit_profile_capture_def check_authorization_def result_simps Let_def
        constant_time_eq not_less split: sum.splits if_splits intro: that)
qed

lemma safe_commit: "safe y s (fst (commit_profile_capture y fresh blob i tok peer capture t s))"
proof (cases "snd (commit_profile_capture y fresh blob i tok peer capture t s)")
  case (Inl e)
  then show ?thesis
    by (auto simp: commit_profile_capture_def transaction_def split: sum.splits)
next
  case (Inr v)
  then obtain s' where run: "commit_profile_capture y fresh blob i tok peer capture t s = (s', Inr v)"
    by (metis prod.collapse)
  show ?thesis unfolding run fst_conv
    by (rule commit_Inr [OF run], rule store_capture_safe, assumption, assumption,
        rule captured_revision_Inr)
qed

section \<open>The machine\<close>

inductive inventory_step :: "inv_ext \<Rightarrow> inventory \<Rightarrow> inventory \<Rightarrow> bool" for y where
  configure: "inventory_step y s (fst (set_setting y k v s))"
| failure: "inventory_step y s (fst (record_executor_failure y code s))"
| discovered: "inventory_step y s (fst (upsert_printer y fresh n nm st d caps t s))"
| presence: "inventory_step y s (fst (reconcile_printer_presence ns s))"
| expose: "inventory_step y s (fst (set_printer_exposed p b t s))"
| snapshot: "inventory_step y s (fst (store_printer_profile y p er pj nj t s))"
| create_profile: "inventory_step y s (fst (create_named_profile y fresh p n d j t s))"
| update_profile: "inventory_step y s (fst (update_named_profile y p i r n d j t s))"
| delete_profile: "inventory_step y s (fst (delete_named_profile y p i r t s))"
| driver_defaults: "inventory_step y s (fst (ensure_current_printer_defaults_profile y fresh p t s))"
| refresh_defaults: "inventory_step y s (fst (refresh_current_printer_defaults_profile y fresh p nj t s))"
| validated: "inventory_step y s (fst (record_profile_validation i r t s))"
| tested: "inventory_step y s (fst (record_profile_test_result i r j b t s))"
| authorize: "inventory_step y s
    (fst (create_profile_capture_session i tok p pid er op_name peer ex cr s))"
| commit: "inventory_step y s (fst (commit_profile_capture y fresh blob i tok peer capture t s))"
| cancel_capture: "inventory_step y s (fst (cancel_profile_capture i tok peer t s))"
| device: "inventory_step y s (fst (upsert_physical_device y dev s))"
| bind_device: "inventory_step y s (fst (bind_printer_device db s))"
| stock: "inventory_step y s (fst (upsert_stock y sk s))"
| loaded: "inventory_step y s (fst (confirm_loaded_media lm s))"
| target: "inventory_step y s (fst (upsert_target tg s))"
| target_binding: "inventory_step y s (fst (upsert_target_binding tb s))"

lemma inventory_step_safe: "inventory_step y s s' \<Longrightarrow> safe y s s'"
  by (induction rule: inventory_step.induct)
     (rule safe_quiet safe_upsert_printer safe_create safe_update safe_delete safe_ensure safe_refresh
        safe_results safe_create_session safe_commit safe_cancel_session)+

lemma empty_inventory_ok: "inventory_ok y empty_inventory"
  by (simp add: inventory_ok_def empty_inventory_def profiles_ok_defs payloads_ok_def)

interpretation stock_room: machine "\<lambda>s. s = empty_inventory" "inventory_step y" "inventory_ok y"
  inventory_grows for y
proof unfold_locales
  fix s s' s'' :: inventory
  show "s = empty_inventory \<Longrightarrow> inventory_ok y s" by (simp add: empty_inventory_ok)
  show "inventory_step y s s' \<Longrightarrow> inventory_ok y s \<Longrightarrow> inventory_ok y s'"
    using inventory_step_safe by (auto simp: safe_def)
  show "inventory_step y s s' \<Longrightarrow> inventory_ok y s \<Longrightarrow> inventory_grows s s'"
    using inventory_step_safe by (auto simp: safe_def)
  show "inventory_grows s s' \<Longrightarrow> inventory_grows s' s'' \<Longrightarrow> inventory_grows s s''"
    by (rule inventory_grows_trans)
qed simp

end
