(* ===== verification/Agent_Inventory_Props.thy ===== *)
theory Agent_Inventory_Props
  imports Agent_Inventory_Machine
begin

text \<open>
  Properties of the named profiles and capture sessions of the durable agent store, in every
  inventory that its operations reach, with a small installation as witness.
\<close>

section \<open>A small installation\<close>

definition sample_inv_ext :: inv_ext where
  "sample_inv_ext = \<lparr>json_valid = (\<lambda>_. True), json_of_string = id, string_of_json = Some,
     value_json_valid = (\<lambda>_. True), job_options_of_json = (\<lambda>_. Some default_options),
     job_options_to_json = (\<lambda>_. Some ''{}''), capabilities_json_valid = (\<lambda>_. True),
     native_options_of_json = (\<lambda>_. Some []), summary_to_json = (\<lambda>_. Some ''{}''),
     fingerprint_json_valid = (\<lambda>_. True), summary_json_valid = (\<lambda>_. True),
     dependencies_of_json = (\<lambda>_. Some []), overrides_json_valid = (\<lambda>_. True),
     sha256_hex = (\<lambda>b. ''h'' @ b)\<rparr>"

definition sample_capture :: NativeProfileCapture where
  "sample_capture = \<lparr>pc_name = ''Labels'', pc_is_default = True, pc_options_json = ''{}'',
     pc_status = ''ready'', pc_native_kind = ''windows_devmode'', pc_native_schema_version = 1,
     pc_native_digest = ''sha256:hDM'', pc_native_blob = ''DM'', pc_driver_fingerprint_json = ''{}'',
     pc_summary_json = ''{}'', pc_stock_id = None, pc_dependencies_json = ''[]'',
     pc_safe_overrides_json = ''[]'', pc_published = True\<rparr>"

definition with_printer :: inventory where
  "with_printer = fst (upsert_printer sample_inv_ext ''p1'' ''LPT1'' ''Label'' ''idle'' True ''{}'' 1 empty_inventory)"

definition with_profile :: inventory where
  "with_profile =
     fst (create_named_profile sample_inv_ext ''1'' ''p1'' ''Plain'' True ''{}'' 2 with_printer)"

definition with_session :: inventory where
  "with_session = fst (create_profile_capture_session ''s'' ''tok'' ''p1'' None None ''create'' ''uid'' 500 3
     with_profile)"

definition with_capture :: inventory where
  "with_capture = fst (commit_profile_capture sample_inv_ext ''prf_2'' ''b'' ''s'' ''tok'' ''uid'' sample_capture 4
     with_session)"

lemmas sample_inventory_defs = with_printer_def with_profile_def with_session_def with_capture_def

lemma sample_inventory_steps:
  "inventory_step sample_inv_ext empty_inventory with_printer"
  "inventory_step sample_inv_ext with_printer with_profile"
  "inventory_step sample_inv_ext with_profile with_session"
  "inventory_step sample_inv_ext with_session with_capture"
  unfolding sample_inventory_defs by (rule inventory_step.intros)+

lemma sample_inventory_reachable:
  "stock_room.reachable sample_inv_ext with_session" "stock_room.reachable sample_inv_ext with_capture"
proof -
  have "stock_room.reachable sample_inv_ext empty_inventory"
    by (rule stock_room.reachable_init) simp
  then show s: "stock_room.reachable sample_inv_ext with_session"
    using sample_inventory_steps(1-3) by (blast intro: stock_room.reachable_step)
  show "stock_room.reachable sample_inv_ext with_capture"
    by (rule stock_room.reachable_step [OF s sample_inventory_steps(4)])
qed

lemma sample_commit:
  "\<exists>v. commit_profile_capture sample_inv_ext ''prf_2'' ''b'' ''s'' ''tok'' ''uid'' sample_capture 4 with_session =
    (with_capture, Inr v) \<and> np_profile_id v = ''prf_2'' \<and> np_revision v = 1"
proof -
  let ?out = "commit_profile_capture sample_inv_ext ''prf_2'' ''b'' ''s'' ''tok'' ''uid'' sample_capture 4 with_session"
  have "map_sum id (\<lambda>v. (np_profile_id v, np_revision v)) (snd ?out) = Inr (''prf_2'', 1)"
    by code_simp
  then show ?thesis
    by (cases ?out; cases "snd ?out") (auto simp: with_capture_def)
qed

section \<open>Unique defaults and gapless revisions\<close>

lemma named_profiles_unique:
  assumes ok: "profiles_ok (iv_profiles s)" and u: "unique_active f (iv_profiles s)"
    and f: "\<And>r. g (named_profile_from_row r) = f r"
  shows "length (filter g (named_profiles p s)) \<le> 1"
proof -
  let ?rows = "filter (\<lambda>r. (np_printer_id r = p \<and> is_active (iv_profiles s) r) \<and> f r) (iv_profiles s)"
  have d: "distinct (map (\<lambda>r. (np_profile_id r, np_revision r)) (iv_profiles s))"
    using ok by (simp add: profiles_ok_def numbered_def)
  have eq: "q = r" if "q \<in> set ?rows" "r \<in> set ?rows" for q r
  proof -
    have q: "q \<in> set (iv_profiles s)" "f q" "np_printer_id q = p" "is_active (iv_profiles s) q"
      "r \<in> set (iv_profiles s)" "f r" "np_printer_id r = p" "is_active (iv_profiles s) r"
      using that by simp_all
    then have i: "np_profile_id q = np_profile_id r"
      using u [unfolded unique_active_def, rule_format, of q r] by simp
    have "np_revision q \<le> np_revision r \<and> np_revision r \<le> np_revision q"
      using q i by (simp add: is_active_def is_latest_iff)
    then have "(np_profile_id q, np_revision q) = (np_profile_id r, np_revision r)" using i by simp
    then show ?thesis using q(1,5) d unfolding distinct_map inj_on_def by blast
  qed
  have "card (set ?rows) \<le> Suc 0"
    by (rule card_le_Suc0_iff_eq [OF List.finite_set, THEN iffD2], intro ballI, rule eq)
  then have "length ?rows \<le> 1" using distinct_card [of ?rows] d by (simp add: distinct_map)
  then show ?thesis
    unfolding named_profiles_def filter_map length_map length_sort comp_def f filter_sort filter_filter .
qed

lemma revisions_interval:
  assumes "numbered rows"
  shows "np_revision ` {r \<in> set rows. np_profile_id r = i} =
    {1..card {r \<in> set rows. np_profile_id r = i}}"
proof -
  let ?R = "{r \<in> set rows. np_profile_id r = i}"
  have inj: "inj_on np_revision ?R"
    using assms by (auto simp: numbered_def distinct_map inj_on_def)
  have down: "k \<in> np_revision ` ?R" if "n \<in> np_revision ` ?R" "1 \<le> k" "k \<le> n" for n k
    using that(3,1)
  proof (induction rule: inc_induct)
    case (step m)
    then obtain r where r: "r \<in> set rows" "np_profile_id r = i" "np_revision r = Suc m" by auto
    moreover have "np_revision r \<noteq> 1" using r(3) step.hyps that(2) by simp
    ultimately obtain q where "q \<in> set rows" "np_profile_id q = i" "np_revision q = m"
      using assms unfolding numbered_def by fastforce
    then show ?case by (auto intro: image_eqI [of _ _ q])
  qed
  let ?N = "Max (insert 0 (np_revision ` ?R))"
  have "\<exists>n. np_revision ` ?R = {1..n}"
  proof (cases "?R = {}")
    case False
    then have "?N \<in> np_revision ` ?R" by (simp add: Max_in max_def)
    moreover have "n \<le> ?N" if "n \<in> np_revision ` ?R" for n by (rule Max_ge) (use that in auto)
    moreover have "1 \<le> n" if "n \<in> np_revision ` ?R" for n
      using that assms by (auto simp: numbered_def)
    ultimately have "np_revision ` ?R = {1..?N}" using down by fastforce
    then show ?thesis ..
  next
    case True
    then show ?thesis unfolding True by (auto intro: exI [of _ 0])
  qed
  then obtain n where n: "np_revision ` ?R = {1..n}" ..
  then have "card ?R = n" using card_image [OF inj] by simp
  with n show ?thesis by simp
qed

text \<open>C9: in every reachable inventory a printer lists at most one default profile and at most one
  profile of the driver's current defaults, the latter is never published, and the revisions of a
  profile are exactly \<open>1, ..., n\<close>, none twice.\<close>

theorem profile_listing_invariant:
  assumes "stock_room.reachable y s"
  shows "length (filter np_is_default (named_profiles p s)) \<le> 1 \<and>
    length (filter np_uses_current_printer_defaults (named_profiles p s)) \<le> 1 \<and>
    filter (\<lambda>v. np_uses_current_printer_defaults v \<and> np_published v) (named_profiles p s) = [] \<and>
    distinct (map (\<lambda>r. (np_profile_id r, np_revision r)) (iv_profiles s)) \<and>
    np_revision ` {r \<in> set (iv_profiles s). np_profile_id r = i} =
      {1..card {r \<in> set (iv_profiles s). np_profile_id r = i}}"
proof -
  have ok: "profiles_ok (iv_profiles s)"
    using stock_room.reachable_inv [OF assms] by (simp add: inventory_ok_def)
  then have u: "unique_active np_is_default (iv_profiles s)" "numbered (iv_profiles s)"
    "unique_active np_uses_current_printer_defaults (iv_profiles s)" "drafts_unpublished (iv_profiles s)"
    by (simp_all add: profiles_ok_def)
  then have "filter (\<lambda>v. np_uses_current_printer_defaults v \<and> np_published v) (named_profiles p s) = []"
    by (auto simp: named_profiles_def filter_empty_conv drafts_unpublished_def named_profile_from_row_def)
  with u revisions_interval [OF u(2)] named_profiles_unique [OF ok u(1)] named_profiles_unique [OF ok u(3)]
  show ?thesis by (simp add: named_profile_from_row_def numbered_def)
qed

theorem profile_listing_invariant_witness:
  "length (filter np_is_default (named_profiles ''p1'' with_capture)) \<le> 1 \<and>
   length (filter np_uses_current_printer_defaults (named_profiles ''p1'' with_capture)) \<le> 1 \<and>
   map np_profile_id (named_profiles ''p1'' with_capture) = [''prf_2'', ''prf_1'']"
proof -
  have "map np_profile_id (named_profiles ''p1'' with_capture) = [''prf_2'', ''prf_1'']" by code_simp
  then show ?thesis
    using profile_listing_invariant [OF sample_inventory_reachable(2), of "''p1''"] by simp
qed

section \<open>Capture sessions are used once\<close>

lemma closed_session_rejects:
  assumes ok: "inventory_ok y s" and r: "r \<in> set (iv_sessions s)" "cs_status r \<noteq> ''authorized''"
  shows "\<exists>e. commit_profile_capture y fresh blob (cs_session_id r) tok peer capture t s = (s, Inl e)"
    "cancel_profile_capture (cs_session_id r) tok peer t s =
      (s, Inl (CaptureSessionNotAuthorized (cs_session_id r)))"
proof -
  have d: "distinct (map cs_session_id (iv_sessions s))" using ok by (simp add: inventory_ok_def)
  then have "sql_find cs_session_id (cs_session_id r) (iv_sessions s) = Some r"
    using r(1) by (rule sql_find_unique)
  then show "\<exists>e. commit_profile_capture y fresh blob (cs_session_id r) tok peer capture t s = (s, Inl e)"
    using r(2) by (auto simp: commit_profile_capture_def check_authorization_def transaction_def
        some_or_def split: sum.splits)
  have "q = r" if "q \<in> set (iv_sessions s)" "cs_session_id q = cs_session_id r" for q
    using d that r(1) by (auto simp: distinct_map inj_on_def)
  with r(2) show "cancel_profile_capture (cs_session_id r) tok peer t s =
      (s, Inl (CaptureSessionNotAuthorized (cs_session_id r)))"
    by (auto simp: cancel_profile_capture_def sql_update_def Let_def filter_empty_conv)
qed

lemma store_capture_tables:
  assumes "store_capture y a capture i r d blob t s = Inr s'"
  shows "iv_blobs s' = iv_blobs s @ [captured_blob capture i r blob t]"
    "iv_profiles s' = iv_profiles (prepared d (cs_printer_id a) i t s) @
      [captured_row capture i (cs_printer_id a) r d blob t]"
    "iv_sessions s' = snd (sql_update (\<lambda>q. cs_session_id q = cs_session_id a \<and> cs_status q = ''authorized'')
       (\<lambda>q. q\<lparr>cs_status := ''committed'', cs_completed_unix_ms := Some t\<rparr>) (iv_sessions s))"
    "r \<le> i64_max"
proof -
  obtain s1 s2 s3 ds where run: "insert_profile_row y (captured_row capture i (cs_printer_id a) r d blob t)
       (prepared d (cs_printer_id a) i t s) = Inr s1"
    "insert_blob (captured_blob capture i r blob t) s1 = Inr s2"
    "insert_dependencies i r 0 ds s2 = Inr s3"
    and s': "s' = s3\<lparr>iv_sessions := snd (sql_update (\<lambda>q. cs_session_id q = cs_session_id a \<and>
       cs_status q = ''authorized'')
       (\<lambda>q. q\<lparr>cs_status := ''committed'', cs_completed_unix_ms := Some t\<rparr>) (iv_sessions s3))\<rparr>"
    using assms by (rule store_capture_Inr)
  note tables = insert_profile_row_Inr(1) [OF run(1)] insert_blob_Inr(1) [OF run(2)]
    insert_dependencies_tables [OF run(3)] prepared_facts(4,5) s'
  show "iv_blobs s' = iv_blobs s @ [captured_blob capture i r blob t]"
    "iv_profiles s' = iv_profiles (prepared d (cs_printer_id a) i t s) @
      [captured_row capture i (cs_printer_id a) r d blob t]"
    "iv_sessions s' = snd (sql_update (\<lambda>q. cs_session_id q = cs_session_id a \<and> cs_status q = ''authorized'')
       (\<lambda>q. q\<lparr>cs_status := ''committed'', cs_completed_unix_ms := Some t\<rparr>) (iv_sessions s))"
    by (simp_all add: tables)
  show "r \<le> i64_max" using insert_profile_row_Inr(4) [OF run(1)] by (simp add: captured_row_def)
qed

lemma commit_closes:
  assumes "commit_profile_capture y fresh blob i tok peer capture t s = (s', Inr v)"
  shows "\<exists>r\<in>set (iv_sessions s'). cs_session_id r = i \<and> cs_status r = ''committed''"
proof (rule commit_Inr [OF assms])
  fix a pid r d
  assume a: "sql_find cs_session_id i (iv_sessions s) = Some a" "cs_status a = ''authorized''"
    and run: "store_capture y a capture pid r d blob t s = Inr s'"
  show ?thesis
    unfolding store_capture_tables(3) [OF run] snd_sql_update set_map
    by (rule bexI [OF _ imageI [where x = a]]) (use a sql_find_SomeD [OF a(1)] in simp_all)
qed

text \<open>C21: a capture session is used once. A commit succeeds only on a session that is authorized, not
  expired and belongs to the calling user with the right token, and in every later inventory each
  commit or cancellation of that session fails and changes nothing.\<close>

theorem capture_session_single_use:
  assumes "stock_room.reachable y s"
    and run: "commit_profile_capture y fresh blob i tok peer capture t s = (s', Inr v)"
    and later: "rtranclp (inventory_step y) s' s''"
  shows "(\<exists>a. sql_find cs_session_id i (iv_sessions s) = Some a \<and> cs_status a = ''authorized'' \<and>
      t \<le> cs_expires_unix_ms a \<and> cs_peer_user_id a = peer \<and> cs_token_digest a = tok) \<and>
    (\<exists>e. commit_profile_capture y fresh' blob' i tok' peer' capture' t' s'' = (s'', Inl e)) \<and>
    cancel_profile_capture i tok' peer' t' s'' = (s'', Inl (CaptureSessionNotAuthorized i))"
proof -
  have "inventory_step y s s'" using inventory_step.commit [of y s] run by (metis fst_conv)
  then have ok: "inventory_ok y s'" "inventory_ok y s''"
    using assms(1) later stock_room.reachable_step stock_room.reachable_inv stock_room.run_inv by blast+
  obtain r where r: "r \<in> set (iv_sessions s')" "cs_session_id r = i" "cs_status r = ''committed''"
    using commit_closes [OF run] by blast
  then have "r \<in> set (iv_sessions s'')"
    using stock_room.run_grows [OF later ok(1)] by (simp add: inventory_grows_def)
  then have "(\<exists>e. commit_profile_capture y fresh' blob' i tok' peer' capture' t' s'' = (s'', Inl e)) \<and>
    cancel_profile_capture i tok' peer' t' s'' = (s'', Inl (CaptureSessionNotAuthorized i))"
    using closed_session_rejects [OF ok(2)] r(2,3) by auto
  with commit_Inr [OF run] show ?thesis by metis
qed

theorem capture_session_single_use_witness:
  "\<exists>e. commit_profile_capture sample_inv_ext ''prf_3'' ''c'' ''s'' ''tok'' ''uid'' sample_capture 5 with_capture =
    (with_capture, Inl e)"
proof -
  obtain v where v: "commit_profile_capture sample_inv_ext ''prf_2'' ''b'' ''s'' ''tok'' ''uid'' sample_capture 4
    with_session = (with_capture, Inr v)" using sample_commit by blast
  show ?thesis
    using capture_session_single_use [OF sample_inventory_reachable(1) v rtranclp.rtrancl_refl] by blast
qed

section \<open>What a profile revision says never changes\<close>

lemma settings_of_from_row:
  "settings_of r = settings_of q \<longleftrightarrow> np_deleted r = np_deleted q \<and>
    np_profile_id r = np_profile_id q \<and> np_printer_id r = np_printer_id q \<and> np_revision r = np_revision q \<and>
    np_name r = np_name q \<and> np_options_json r = np_options_json q \<and> np_native_kind r = np_native_kind q \<and>
    np_native_blob_id r = np_native_blob_id q \<and> np_native_digest r = np_native_digest q \<and>
    np_stock_id r = np_stock_id q \<and> np_driver_fingerprint_json r = np_driver_fingerprint_json q \<and>
    np_safe_overrides_json r = np_safe_overrides_json q \<and>
    np_uses_current_printer_defaults r = np_uses_current_printer_defaults q"
  by (cases r; cases q) (auto simp: settings_of_def)

text \<open>The columns of a stored revision that a print depends on.\<close>

definition frozen :: "StoredNamedProfile \<Rightarrow> StoredNamedProfile" where
  "frozen v = v\<lparr>np_is_default := False, np_status := [], np_summary_json := [],
     np_last_validated_unix_ms := None, np_last_test_job_id := None, np_published := False,
     np_updated_unix_ms := 0\<rparr>"

lemma frozen_from_row:
  "settings_of r = settings_of q \<Longrightarrow> frozen (named_profile_from_row r) = frozen (named_profile_from_row q)"
  by (simp add: settings_of_from_row frozen_def named_profile_from_row_def)

text \<open>The key \<open>(profile_id, revision)\<close> identifies a row, also among the rows of a later inventory.\<close>

lemma profile_revision_found:
  assumes ok: "profiles_ok (iv_profiles s)" and r: "r \<in> set (iv_profiles s)"
    "np_profile_id r = i" "np_revision r = n" "n \<le> i64_max"
  shows "profile_revision i n s = Inr (Some (named_profile_from_row r))"
proof -
  have "sql_find (\<lambda>p. (np_profile_id p, np_revision p)) (np_profile_id r, np_revision r) (iv_profiles s) = Some r"
    using ok r(1) by (intro sql_find_unique) (simp_all add: profiles_ok_def numbered_def)
  then show ?thesis using r(2-4) by (simp add: profile_revision_def sql_find_def)
qed

lemma profile_revision_Some:
  assumes "profile_revision i n s = Inr (Some v)"
  obtains r where "r \<in> set (iv_profiles s)" "v = named_profile_from_row r" "np_profile_id r = i"
    "np_revision r = n" "n \<le> i64_max"
proof -
  from assms obtain r where r: "find (\<lambda>p. np_profile_id p = i \<and> np_revision p = n) (iv_profiles s) = Some r"
    "v = named_profile_from_row r" and n: "n \<le> i64_max"
    by (auto simp: profile_revision_def split: if_splits)
  from r(1) have "r \<in> set (iv_profiles s)" "np_profile_id r = i" "np_revision r = n"
    by (auto simp: find_Some_iff)
  with r(2) n that show thesis by blast
qed

lemma later_revision:
  assumes "inventory_ok y s" "rtranclp (inventory_step y) s s'" "profile_revision i n s = Inr (Some v)"
  shows "\<exists>v'. profile_revision i n s' = Inr (Some v') \<and> frozen v' = frozen v"
proof -
  obtain r where r: "r \<in> set (iv_profiles s)" "v = named_profile_from_row r" "np_profile_id r = i"
    "np_revision r = n" "n \<le> i64_max" using assms(3) by (rule profile_revision_Some)
  have "set (map settings_of (iv_profiles s)) \<subseteq> set (map settings_of (iv_profiles s'))"
    using stock_room.run_grows [OF assms(2,1)] by (intro set_mono_prefix) (simp add: inventory_grows_def)
  then have "settings_of r \<in> settings_of ` set (iv_profiles s')" using r(1) by auto
  then obtain q where q: "q \<in> set (iv_profiles s')" "settings_of q = settings_of r" by (rule imageE) simp
  have "profile_revision i n s' = Inr (Some (named_profile_from_row q))"
    using stock_room.run_inv [OF assms(2,1)] q(1) settings_of_eqD(1,3) [OF q(2)] r
    by (intro profile_revision_found) (simp_all add: inventory_ok_def)
  then show ?thesis using frozen_from_row [OF q(2)] r(2) by blast
qed

text \<open>C20: a stored profile revision is immutable. What a job that pinned the revision prints with - the
  printer, the options, the native payload reference and digest, the driver fingerprint, the stock
  and the permitted overrides - reads the same in every later inventory, after updates, demotions,
  refreshes and deletion of the profile.\<close>

theorem profile_revision_immutable:
  assumes "stock_room.reachable y s" and "profile_revision i n s = Inr (Some v)"
    and "rtranclp (inventory_step y) s s'"
  shows "\<exists>v'. profile_revision i n s' = Inr (Some v') \<and> frozen v' = frozen v"
  using stock_room.reachable_inv [OF assms(1)] assms(3,2) by (rule later_revision)

lemma sample_default_moves:
  "\<exists>v. profile_revision ''prf_1'' 1 with_session = Inr (Some v) \<and> (np_is_default v, np_name v) = (True, ''Plain'')"
  "\<exists>v. profile_revision ''prf_1'' 1 with_capture = Inr (Some v) \<and> np_is_default v = False"
proof -
  have found: "\<exists>v. x = Inr (Some v) \<and> f v = w" if "map_sum id (map_option f) x = Inr (Some w)" for f x w
    using that by (cases x) auto
  show "\<exists>v. profile_revision ''prf_1'' 1 with_session = Inr (Some v) \<and> (np_is_default v, np_name v) = (True, ''Plain'')"
    by (rule found) code_simp
  show "\<exists>v. profile_revision ''prf_1'' 1 with_capture = Inr (Some v) \<and> np_is_default v = False"
    by (rule found) code_simp
qed

theorem profile_revision_immutable_witness:
  "(\<exists>v. profile_revision ''prf_1'' 1 with_session = Inr (Some v) \<and> np_is_default v) \<and>
   (\<exists>v'. profile_revision ''prf_1'' 1 with_capture = Inr (Some v') \<and> \<not> np_is_default v' \<and>
      np_name v' = ''Plain'')"
proof -
  from sample_default_moves obtain v v' where
    v: "profile_revision ''prf_1'' 1 with_session = Inr (Some v)" "np_is_default v" "np_name v = ''Plain''"
    and v': "profile_revision ''prf_1'' 1 with_capture = Inr (Some v')" "\<not> np_is_default v'" by auto
  have later: "rtranclp (inventory_step sample_inv_ext) with_session with_capture"
    using sample_inventory_steps(4) by (rule r_into_rtranclp)
  have "frozen v' = frozen v"
    using profile_revision_immutable [OF sample_inventory_reachable(1) v(1) later] v'(1) by simp
  then have "np_name v' = ''Plain''" using v(3) by (cases v; cases v') (simp add: frozen_def)
  with v v' show ?thesis by blast
qed

lemma newest_is_stored:
  assumes ok: "profiles_ok (iv_profiles s')" and row: "row \<in> set (iv_profiles s')"
    "is_latest (iv_profiles s') row" "np_profile_id row = i"
    and q: "query_named_profile p i s' = Some v"
  shows "v = named_profile_from_row row"
proof -
  obtain c where c: "c \<in> set (iv_profiles s')" "v = named_profile_from_row c" "np_profile_id c = i"
    "is_latest (iv_profiles s') c"
    using query_named_profile_Some [OF q] by (auto simp: is_active_def)
  have "np_revision c \<le> np_revision row \<and> np_revision row \<le> np_revision c"
    using c row by (simp add: is_latest_iff)
  then have "(np_profile_id c, np_revision c) = (np_profile_id row, np_revision row)"
    using c(3) row(3) by simp
  then have "c = row"
    using ok c(1) row(1) unfolding profiles_ok_def numbered_def distinct_map inj_on_def by blast
  with c(2) show ?thesis by simp
qed

lemma native_profile_blob_found:
  assumes "payloads_ok y rows (iv_blobs s)" and "b \<in> set (iv_blobs s)"
    and "nb_profile_id b = i" "nb_profile_revision b = n" "n \<le> i64_max"
  shows "native_profile_blob i n s = Inr (Some b)"
proof -
  have "sql_find (\<lambda>b. (nb_profile_id b, nb_profile_revision b)) (nb_profile_id b, nb_profile_revision b)
    (iv_blobs s) = Some b"
    using assms(1,2) by (intro sql_find_unique) (simp_all add: payloads_ok_def)
  then show ?thesis using assms(3-) by (simp add: native_profile_blob_def sql_find_def)
qed

lemma commit_stores:
  assumes ok: "inventory_ok y s" "inventory_ok y s'"
    and run: "commit_profile_capture y fresh blob i tok peer capture t s = (s', Inr v)"
  shows "\<exists>pid p r d. v = named_profile_from_row (captured_row capture pid p r d blob t) \<and> r \<le> i64_max \<and>
    captured_row capture pid p r d blob t \<in> set (iv_profiles s') \<and>
    captured_blob capture pid r blob t \<in> set (iv_blobs s') \<and>
    pc_native_digest capture = ''sha256:'' @ sha256_hex y (pc_native_blob capture)"
proof (rule commit_Inr [OF run])
  fix a :: capture_session_row and pid r d
  let ?row = "captured_row capture pid (cs_printer_id a) r d blob t"
  let ?s0 = "prepared d (cs_printer_id a) pid t s"
  assume valid: "validate_native_capture y capture = Inr ()"
    and stored: "store_capture y a capture pid r d blob t s = Inr s'"
    and rev: "captured_revision a (Option.bind (cs_profile_id a)
      (\<lambda>i. query_named_profile (cs_printer_id a) i s)) capture fresh = Inr (pid, r, d)"
    and q: "query_named_profile (cs_printer_id a) pid s' = Some v"
  note tables = store_capture_tables [OF stored]
  have "insert_profile_row y ?row ?s0 \<noteq> Inl e" for e
    using stored by (auto simp: store_capture_def prepared_def and_then_def)
  then obtain s1 where ins: "insert_profile_row y ?row ?s0 = Inr s1" by (metis sum.exhaust)
  have "new_revision (iv_profiles ?s0) ?row"
    using ok(1) prepared_facts(1) [of y s d "cs_printer_id a" pid t] captured_revision_Inr [OF rev]
      insert_profile_row_Inr(2) [OF ins]
    by (simp add: new_revision_def prepared_facts(2) safe_def inventory_ok_def)
  then have "is_latest (iv_profiles s') ?row" unfolding tables(2) by (rule is_latest_new)
  moreover have "?row \<in> set (iv_profiles s')" by (simp add: tables(2))
  ultimately have "v = named_profile_from_row ?row"
    using ok(2) q by (intro newest_is_stored) (simp_all add: inventory_ok_def captured_row_def)
  moreover have "pc_native_digest capture = ''sha256:'' @ sha256_hex y (pc_native_blob capture)"
    using valid by (rule verified_digest)
  moreover have "captured_blob capture pid r blob t \<in> set (iv_blobs s')" by (simp add: tables(1))
  ultimately show ?thesis using \<open>?row \<in> set (iv_profiles s')\<close> tables(4) by blast
qed

text \<open>C22: a committed capture yields a profile revision together with its native payload: the bytes that
  the capture carried, under the digest of exactly these bytes, and in every later inventory both
  are read back unchanged.\<close>

theorem captured_payload_kept:
  assumes "stock_room.reachable y s"
    and run: "commit_profile_capture y fresh blob i tok peer capture t s = (s', Inr v)"
    and later: "rtranclp (inventory_step y) s' s''"
  shows "\<exists>b v'. native_profile_blob (np_profile_id v) (np_revision v) s'' = Inr (Some b) \<and>
      nb_native_blob b = pc_native_blob capture \<and> nb_blob_id b = blob \<and>
      nb_digest b = ''sha256:'' @ sha256_hex y (pc_native_blob capture) \<and>
      profile_revision (np_profile_id v) (np_revision v) s'' = Inr (Some v') \<and> frozen v' = frozen v \<and>
      np_native_digest v' = Some (nb_digest b) \<and> np_name v' = str_trim (pc_name capture)"
proof -
  have "inventory_step y s s'" using inventory_step.commit [of y s] run by (metis fst_conv)
  then have ok: "inventory_ok y s" "inventory_ok y s'" "inventory_ok y s''"
    using assms(1) later stock_room.reachable_step stock_room.reachable_inv stock_room.run_inv by blast+
  obtain pid p r d where v: "v = named_profile_from_row (captured_row capture pid p r d blob t)" "r \<le> i64_max"
    and row: "captured_row capture pid p r d blob t \<in> set (iv_profiles s')"
    and b: "captured_blob capture pid r blob t \<in> set (iv_blobs s')"
    and digest: "pc_native_digest capture = ''sha256:'' @ sha256_hex y (pc_native_blob capture)"
    using commit_stores [OF ok(1,2) run] by blast
  have key: "np_profile_id v = pid" "np_revision v = r"
    by (simp_all add: v(1) captured_row_def named_profile_from_row_def)
  have "profile_revision pid r s' = Inr (Some v)"
    using ok(2) row v by (auto simp: inventory_ok_def captured_row_def intro: profile_revision_found)
  then obtain v' where v': "profile_revision pid r s'' = Inr (Some v')" "frozen v' = frozen v"
    using later_revision [OF ok(2) later] by blast
  have "captured_blob capture pid r blob t \<in> set (iv_blobs s'')"
    using stock_room.run_grows [OF later ok(2)] b by (auto simp: inventory_grows_def dest: set_mono_prefix)
  then have "native_profile_blob pid r s'' = Inr (Some (captured_blob capture pid r blob t))"
    using ok(3) v(2) by (intro native_profile_blob_found [of y "iv_profiles s''"]) (simp_all add: inventory_ok_def captured_blob_def)
  moreover have "np_native_digest v' = np_native_digest v" "np_name v' = np_name v"
    using v'(2) by (cases v; cases v'; simp add: frozen_def)+
  ultimately show ?thesis
    unfolding key using v' digest
    by (auto simp: captured_blob_def v(1) captured_row_def named_profile_from_row_def)
qed

theorem captured_payload_kept_witness:
  "\<exists>b v. native_profile_blob ''prf_2'' 1 with_capture = Inr (Some b) \<and> nb_native_blob b = ''DM'' \<and>
     profile_revision ''prf_2'' 1 with_capture = Inr (Some v) \<and> np_native_digest v = Some (nb_digest b)"
proof -
  obtain v where v: "commit_profile_capture sample_inv_ext ''prf_2'' ''b'' ''s'' ''tok'' ''uid'' sample_capture 4
    with_session = (with_capture, Inr v)" "np_profile_id v = ''prf_2''" "np_revision v = 1"
    using sample_commit by blast
  show ?thesis
    using captured_payload_kept [OF sample_inventory_reachable(1) v(1) rtranclp.rtrancl_refl, unfolded v(2,3)]
    by (auto simp: sample_capture_def)
qed

end
