(* ===== verification/Agent_Engine_Props.thy ===== *)
theory Agent_Engine_Props
  imports Agent_Engine_Correct Agent_Inventory_Props
begin

text \<open>
  Properties of the print engine over all its runs: the engine, the clients of the store and the
  clients of the inventory take turns, and every run may be disturbed and cut short.
\<close>

section \<open>The machine\<close>

inductive engine_step :: "ext \<Rightarrow> inv_ext \<Rightarrow> codec \<Rightarrow> engine \<Rightarrow> engine \<Rightarrow> bool" for x y c where
  run: "orderly x h \<Longrightarrow> engine_step x y c e (fst (run_once h x y c e))"
| client: "client_step x (en_db e) s' \<Longrightarrow> engine_step x y c e (e\<lparr>en_db := s'\<rparr>)"
| manage: "inventory_step y (en_inventory e) s' \<Longrightarrow> engine_step x y c e (e\<lparr>en_inventory := s'\<rparr>)"

definition fresh_engine :: "engine \<Rightarrow> bool" where
  "fresh_engine e \<longleftrightarrow> en_db e = empty_db \<and> en_calls e = []"

definition engine_grows :: "engine \<Rightarrow> engine \<Rightarrow> bool" where
  "engine_grows e e' \<longleftrightarrow> extends (en_db e) (en_db e') \<and> prefix (submissions e) (submissions e')"

lemma engine_grows_trans: "engine_grows e e1 \<Longrightarrow> engine_grows e1 e2 \<Longrightarrow> engine_grows e e2"
  by (auto simp: engine_grows_def intro: extends_trans prefix_order.trans)

lemma works_grows: "rtranclp (works x J) e e' \<Longrightarrow> engine_grows e e'"
proof (induction rule: rtranclp_induct)
  case (step e1 e2)
  then have "engine_grows e1 e2"
    by (auto simp: works_def engine_grows_def intro: acts_extends acts_submissions)
  with step.IH show ?case by (rule engine_grows_trans)
qed (simp add: engine_grows_def)

lemma client_works: "client_step x (en_db e) s' \<Longrightarrow> j \<in> J \<Longrightarrow> works x J e (e\<lparr>en_db := s'\<rparr>)"
  by (auto simp: works_def submissions_def intro!: bexI acts.quietly intro: quiet.client)

lemma manage_works: "j \<in> J \<Longrightarrow> works x J e (e\<lparr>en_inventory := s'\<rparr>)"
  by (auto simp: works_def submissions_def intro!: bexI acts.quietly quiet.idle)

lemma engine_step_works:
  assumes "engine_step x y c e e'" and "engine_ok e"
  shows "rtranclp (works x UNIV) e e'"
  using assms
proof (induction rule: engine_step.induct)
  case (run h e)
  show ?case
    by (rule run_once_works [OF run.hyps UNIV_I, where P = engine_ok])
       (use run in \<open>auto simp: works_def intro: acts_ok\<close>)
qed (auto intro: client_works manage_works)

interpretation press: machine fresh_engine "engine_step x y c" engine_ok engine_grows for x y c
proof unfold_locales
  fix e e' e'' :: engine
  show "fresh_engine e \<Longrightarrow> engine_ok e"
    by (simp add: fresh_engine_def engine_ok_def submissions_def spaced_def db_wf_empty)
  show "engine_step x y c e e' \<Longrightarrow> engine_ok e \<Longrightarrow> engine_ok e'"
    using engine_step_works works_ok by blast
  show "engine_step x y c e e' \<Longrightarrow> engine_ok e \<Longrightarrow> engine_grows e e'"
    using engine_step_works works_grows by blast
  show "engine_grows e e" by (simp add: engine_grows_def)
  show "engine_grows e e' \<Longrightarrow> engine_grows e' e'' \<Longrightarrow> engine_grows e e''"
    by (rule engine_grows_trans)
qed

section \<open>No unaccounted second submission\<close>


section \<open>Jobs whose execution was cut short\<close>

definition cut_short :: "string \<Rightarrow> string \<Rightarrow> string \<Rightarrow> engine \<Rightarrow> bool" where
  "cut_short k p st e \<longleftrightarrow> engine_ok e \<and> (\<exists>r\<in>set (jobs (en_db e)). jr_job_id r = k \<and> jr_printer_id r = p \<and> jr_state r = st)"

lemma cut_short_works:
  assumes e: "cut_short k p st e" and st: "st \<in> {''preparing'', ''rendering''}" and w: "works x (- {k}) e e'"
  shows "cut_short k p st e'"
proof -
  obtain r where r: "r \<in> set (jobs (en_db e))" "jr_job_id r = k" "jr_printer_id r = p" "jr_state r = st"
    and ok: "engine_ok e" using e by (auto simp: cut_short_def)
  obtain j where j: "j \<noteq> k" "acts x j e e'" using w by (auto simp: works_def)
  have ok': "engine_ok e'" by (rule acts_ok [OF j(2) ok])
  have "\<exists>r'\<in>set (jobs (en_db e')). row_core r' = row_core r \<and> jr_state r' = st"
    using j(2)
  proof cases
    case quietly
    then show ?thesis
    proof cases
      case (client s')
      have "set (map row_core (jobs (en_db e))) \<subseteq> set (map row_core (jobs (en_db e')))"
        using client_step_extends [OF client(1)] client(2) by (intro set_mono_prefix) (simp add: extends_def)
      then have "row_core r \<in> set (map row_core (jobs (en_db e')))" using r(1) by auto
      then obtain r' where r': "r' \<in> set (jobs (en_db e'))" "row_core r' = row_core r" by auto
      have "moves (en_db e) (en_db e')" using client_step_moves [OF client(1) engine_okD(1) [OF ok]] client(2) by simp
      moreover have "job_exists (jr_job_id r') (en_db e)"
        using r row_core_eq(1) [OF r'(2)] by (auto simp: job_exists_def sql_exists_iff)
      ultimately obtain q where q: "q \<in> set (jobs (en_db e))" "row_core q = row_core r'"
        "jr_state q = jr_state r' \<or> (jr_state q, jr_state r') \<in> client_moves"
        using r'(1) unfolding moves_def by blast
      have "jr_job_id q = jr_job_id r" using row_core_eq(1) [OF q(2)] row_core_eq(1) [OF r'(2)] by simp
      then have "q = r"
        using engine_okD(1) [OF ok] q(1) r(1) by (auto simp: db_wf_def jobs_ok_def distinct_map inj_on_def)
      then show ?thesis using q(3) r' r(4) st by (auto simp: client_moves_def intro!: bexI [of _ r'])
    next
      case (event eid st' rs ms d t s' out)
      from event(1) show ?thesis
      proof (cases rule: append_next_event_cases)
        case (2 s1)
        then show ?thesis using r j(1) event(4) by (auto intro!: bexI [of _ r])
      qed (use r event(4) in \<open>auto intro!: bexI [of _ r]\<close>)
    qed (use r in auto)
  qed (use r in auto)
  then show ?thesis
    using ok' r unfolding cut_short_def by (metis row_core_eq(1,2))
qed

lemma cut_short_run:
  assumes "rtranclp (engine_step x y c) e e'" and "cut_short k p st e" and st: "st \<in> {''preparing'', ''rendering''}"
  shows "cut_short k p st e'"
  using assms(1,2)
proof (induction rule: rtranclp_induct)
  case (step e1 e2)
  have e1: "cut_short k p st e1" by (rule step.IH [OF step.prems])
  have stable: "cut_short k p st e'" if "rtranclp (works x (- {k})) e1 e'" for e'
    using that e1 by (induction rule: rtranclp_induct) (auto intro: cut_short_works [OF _ st])
  obtain j0 where j0: "j0 \<in> - {k}" using ex_new_if_finite [of "{k}"] infinite_UNIV_listI by auto
  from step.hyps(2) show ?case
  proof cases
    case (run h)
    show ?thesis unfolding run(1)
    proof (rule stable, rule run_once_works [where P = "cut_short k p st", OF run(2) j0 e1])
      fix e e' assume "cut_short k p st e" "works x (- {k}) e e'"
      then show "cut_short k p st e'" by (rule cut_short_works [OF _ st])
    next
      fix e assume "cut_short k p st e"
      then show "engine_ok e" by (simp add: cut_short_def)
    next
      fix e r assume e: "cut_short k p st e" and r: "r \<in> set (jobs (en_db e))"
        "head_candidate r \<or> jr_state r \<in> set observed_states"
      then obtain q where q: "q \<in> set (jobs (en_db e))" "jr_job_id q = k" "jr_state q = st"
        by (auto simp: cut_short_def)
      have "q \<noteq> r" using q(3) r(2) st by (auto simp: head_candidate_def observed_states_def)
      then show "jr_job_id r \<in> - {k}"
        using e q r(1) by (auto simp: cut_short_def engine_ok_def db_wf_def jobs_ok_def distinct_map inj_on_def)
    qed
  next
    case (client s')
    show ?thesis unfolding client(1)
      by (rule stable, rule r_into_rtranclp, rule client_works [OF client(2) j0])
  next
    case (manage s')
    show ?thesis unfolding manage(1) by (rule stable, rule r_into_rtranclp, rule manage_works [OF j0])
  qed
qed

text \<open>C34: a job whose execution was cut short before its spool intent is never printed and blocks its
  printer. Once the process has died with a job in \<open>preparing\<close> or \<open>rendering\<close>, the job keeps that
  state through all later runs, restarts and operations of the store, and no job of its printer
  is ever a runnable head again.\<close>

theorem interrupted_execution_never_resumes:
  assumes "press.reachable x y c e" and r: "r \<in> set (jobs (en_db e))" "jr_state r \<in> {''preparing'', ''rendering''}"
    and later: "rtranclp (engine_step x y c) e e'"
  shows "\<exists>r'\<in>set (jobs (en_db e')). jr_job_id r' = jr_job_id r \<and> jr_state r' = jr_state r \<and>
    (\<forall>q\<in>set (jobs (en_db e')). \<forall>now. jr_printer_id q = jr_printer_id r \<longrightarrow> \<not> is_runnable_head now (en_db e') q)"
proof -
  have "cut_short (jr_job_id r) (jr_printer_id r) (jr_state r) e"
    using press.reachable_inv [OF assms(1)] r(1) by (auto simp: cut_short_def)
  from cut_short_run [OF later this r(2)] obtain r' where r': "r' \<in> set (jobs (en_db e'))"
    "jr_job_id r' = jr_job_id r" "jr_printer_id r' = jr_printer_id r" "jr_state r' = jr_state r"
    by (auto simp: cut_short_def)
  then have "executing r'" using r(2) by (auto simp: executing_def executing_states_def)
  with r' have "\<not> is_runnable_head now (en_db e') q" if "jr_printer_id q = jr_printer_id r" for q now
    using that by (auto simp: is_runnable_head_def sql_exists_iff)
  with r' show ?thesis by blast
qed

section \<open>A small engine\<close>

definition sample_codec :: codec where
  "sample_codec = \<lparr>parse_job_options = (\<lambda>_. Inr default_options), json_field = (\<lambda>k v. ''{}''),
     failure_json = (\<lambda>_. Some ''{}''), observation_json = (\<lambda>_. Some ''{}''),
     parse_snapshot = (\<lambda>_. Inl ''no snapshot''), parse_overrides = (\<lambda>_. Inr []),
     parse_fingerprint = (\<lambda>_. Inl ''no fingerprint''), kind_error = id, options_error = (\<lambda>_. ''bad'')\<rparr>"

definition sample_host :: host where
  "sample_host = \<lparr>clock_at = (\<lambda>n. 10 + int n), fresh_at = (\<lambda>n. replicate n (CHR ''x'') @ ''v''),
     expire_scan = id, expire_ids = (\<lambda>n j. j), submit_at = (\<lambda>n sub. Inr ''native1''),
     observe_at = (\<lambda>n ref. Inr \<lparr>ob_state = NativeQueued, ob_native_code = None, ob_message = None\<rparr>),
     cancel_at = (\<lambda>n ref. Inr ()), others_at = (\<lambda>n s. s), inventory_at = (\<lambda>n s. s),
     dies_at = (\<lambda>n. False)\<rparr>"

definition engine0 :: engine where
  "engine0 = \<lparr>en_db = empty_db, en_inventory = empty_inventory, en_tick = 0, en_calls = [], en_removed = []\<rparr>"

definition engine1 :: engine where
  "engine1 = engine0\<lparr>en_db := sample_db\<rparr>"

text \<open>A retryable failure, then a success; and a process that dies while preparing.\<close>

definition failing_host :: host where
  "failing_host = sample_host\<lparr>submit_at := (\<lambda>n sub. Inl \<lparr>ef_code = ''offline'', ef_message = ''offline'',
     ef_retryable = True, ef_handoff_may_have_succeeded = False, ef_native_code = None\<rparr>)\<rparr>"

definition later_host :: host where
  "later_host = sample_host\<lparr>clock_at := (\<lambda>n. 5000 + int n)\<rparr>"

definition engine2 :: engine where
  "engine2 = fst (run_once failing_host sample_ext sample_inv_ext sample_codec engine1)"

definition engine3 :: engine where
  "engine3 = fst (run_once later_host sample_ext sample_inv_ext sample_codec engine2)"

definition dying_host :: host where
  "dying_host = sample_host\<lparr>dies_at := (\<lambda>n. n = 5)\<rparr>"

definition stopped_engine :: engine where
  "stopped_engine = fst (run_once dying_host sample_ext sample_inv_ext sample_codec engine1)"

lemma sample_orderly:
  "orderly x failing_host" "orderly x later_host" "orderly x dying_host"
  by (simp_all add: orderly_def failing_host_def later_host_def dying_host_def sample_host_def)

lemma engine1_reachable: "press.reachable sample_ext y c engine1"
proof -
  have "press.reachable sample_ext y c engine0"
    by (rule press.reachable_init) (simp add: fresh_engine_def engine0_def)
  moreover have "engine_step sample_ext y c engine0 engine1"
    unfolding engine1_def sample_db_def
    using engine_step.client [OF client_step.accept [of sample_ext "en_db engine0"]]
    by (simp add: engine0_def)
  ultimately show ?thesis by (rule press.reachable_step)
qed

lemma run_reachable:
  assumes "press.reachable x y c e" and "orderly x h"
  shows "press.reachable x y c (fst (run_once h x y c e))"
  by (rule press.reachable_step [OF assms(1) engine_step.run [OF assms(2)]])

lemma sample_engines_reachable:
  "press.reachable sample_ext sample_inv_ext sample_codec engine3"
  "press.reachable sample_ext sample_inv_ext sample_codec stopped_engine"
  unfolding engine3_def engine2_def stopped_engine_def
  by (intro run_reachable engine1_reachable sample_orderly)+

text \<open>The job of a call, and of the calls of a list.\<close>

definition submitted_job :: "native_call \<Rightarrow> string" where
  "submitted_job call = (case call of Submit sub n \<Rightarrow> ls_job_id sub | _ \<Rightarrow> [])"

lemma submitted_job_Cons: "submitted_job call = b # bs \<Longrightarrow> \<exists>sub n. call = Submit sub n \<and> ls_job_id sub = b # bs"
  by (cases call) (simp_all add: submitted_job_def)

lemma engine3_calls: "map submitted_job (submissions engine3) = [''job1'', ''job1'']"
  by code_simp


theorem interrupted_execution_never_resumes_witness:
  "\<exists>r\<in>set (jobs (en_db stopped_engine)). jr_state r = ''preparing'' \<and>
     (\<forall>now. \<not> is_runnable_head now (en_db stopped_engine) r)"
proof -
  have "map jr_state (jobs (en_db stopped_engine)) = [''preparing'']" by code_simp
  then obtain r where r: "jobs (en_db stopped_engine) = [r]" "jr_state r = ''preparing''"
    by (auto simp: map_eq_Cons_conv)
  show ?thesis
    using interrupted_execution_never_resumes [OF sample_engines_reachable(2), of r stopped_engine] r by auto
qed

end
