(* ===== verification/Document_Cache.thy ===== *)
theory Document_Cache
  imports Agent_Schema
begin

text \<open>
  The persistent cache of document resources: the table \<open>document_resources\<close> of the agent
  store (agent-storage/src/lib.rs) and the cache that keeps files beside it
  (agent-core/src/document_resources.rs).

  \<^item> \<open>DocumentResourceCache\<close> is the state: the two bounds, the rows of the table and the files
    below the cache's root, by relative path. An operation returns the new state with its
    result, since an error does not undo the statements and file operations before it.
  \<^item> \<open>sha256\<close> (the hexadecimal digest) and \<open>doc_io\<close> (which file operations fail) are
    parameters.
  \<^item> The functions are those of one thread that holds the locks of the cache; the protocol
    between threads that miss the same digest is modelled in \<open>Single_Flight\<close>.
\<close>

section \<open>The table\<close>

record doc_row =
  dr_digest :: string
  dr_media_type :: string
  dr_byte_length :: int
  dr_relative_path :: string
  dr_verified_unix_ms :: int
  dr_last_accessed_unix_ms :: int
  dr_reference_count :: int
  dr_evicting :: bool

record StoredDocumentResource =
  sd_digest :: string
  sd_media_type :: string
  sd_byte_length :: nat
  sd_relative_path :: string
  sd_verified_unix_ms :: int
  sd_last_accessed_unix_ms :: int
  sd_reference_count :: nat

definition map_document_resource :: "doc_row \<Rightarrow> StorageError + StoredDocumentResource" where
  "map_document_resource row =
     and_then (get_u64 (dr_byte_length row)) (\<lambda>byte_length.
     and_then (get_u64 (dr_reference_count row)) (\<lambda>reference_count.
     Inr \<lparr>sd_digest = dr_digest row, sd_media_type = dr_media_type row,
       sd_byte_length = byte_length, sd_relative_path = dr_relative_path row,
       sd_verified_unix_ms = dr_verified_unix_ms row,
       sd_last_accessed_unix_ms = dr_last_accessed_unix_ms row,
       sd_reference_count = reference_count\<rparr>))"

text \<open>\<open>i64::try_from(n).unwrap_or(i64::MAX)\<close>\<close>

definition clamp_i64 :: "nat \<Rightarrow> int" where
  "clamp_i64 n = int (min n i64_max)"

text \<open>The \<open>CHECK\<close> constraints of the table; SQLite's \<open>trim\<close> removes spaces.\<close>

definition doc_row_checks :: "doc_row \<Rightarrow> bool" where
  "doc_row_checks r =
     (length (dr_digest r) = 64 \<and> list_all is_lower_hex (dr_digest r) \<and>
      \<not> list_all (\<lambda>c. c = CHR '' '') (dr_media_type r) \<and> 0 \<le> dr_byte_length r \<and>
      \<not> list_all (\<lambda>c. c = CHR '' '') (dr_relative_path r) \<and> 0 \<le> dr_reference_count r)"

definition doc_row_of :: "StoredDocumentResource \<Rightarrow> doc_row" where
  "doc_row_of resource =
     \<lparr>dr_digest = sd_digest resource, dr_media_type = sd_media_type resource,
      dr_byte_length = clamp_i64 (sd_byte_length resource),
      dr_relative_path = sd_relative_path resource,
      dr_verified_unix_ms = sd_verified_unix_ms resource,
      dr_last_accessed_unix_ms = sd_last_accessed_unix_ms resource,
      dr_reference_count = clamp_i64 (sd_reference_count resource), dr_evicting = False\<rparr>"

definition upsert_document_resource ::
  "StoredDocumentResource \<Rightarrow> doc_row list \<Rightarrow> StorageError + doc_row list" where
  "upsert_document_resource resource rows =
     (let row = doc_row_of resource in
      and_then (ensure (doc_row_checks row) Sql) (\<lambda>_.
      and_then (ensure (\<not> sql_exists (\<lambda>r. dr_relative_path r = dr_relative_path row \<and>
        dr_digest r \<noteq> dr_digest row) rows) Sql) (\<lambda>_.
      Inr (sql_upsert dr_digest row
        (\<lambda>r. row\<lparr>dr_reference_count := dr_reference_count r\<rparr>) rows))))"

definition document_resource ::
  "string \<Rightarrow> doc_row list \<Rightarrow> StorageError + StoredDocumentResource option" where
  "document_resource digest rows =
     opt_result map_document_resource (sql_find dr_digest digest rows)"

text \<open>An update that must hit a row.\<close>

definition doc_update ::
  "string \<Rightarrow> (doc_row \<Rightarrow> bool) \<Rightarrow> (doc_row \<Rightarrow> doc_row) \<Rightarrow> doc_row list \<Rightarrow> StorageError + doc_row list"
  where
  "doc_update digest guard change rows =
     (let (changed, rows') = sql_update (\<lambda>r. dr_digest r = digest \<and> guard r) change rows
      in if changed = 0 then Inl (DocumentResourceNotFound digest) else Inr rows')"

definition touch_document_resource ::
  "string \<Rightarrow> int \<Rightarrow> doc_row list \<Rightarrow> StorageError + doc_row list" where
  "touch_document_resource digest now =
     doc_update digest (\<lambda>_. True) (\<lambda>r. r\<lparr>dr_last_accessed_unix_ms := now\<rparr>)"

definition retain_document_resource :: "string \<Rightarrow> doc_row list \<Rightarrow> StorageError + doc_row list" where
  "retain_document_resource digest =
     doc_update digest (\<lambda>r. \<not> dr_evicting r) (\<lambda>r. r\<lparr>dr_reference_count := dr_reference_count r + 1\<rparr>)"

definition release_document_resource :: "string \<Rightarrow> doc_row list \<Rightarrow> StorageError + doc_row list" where
  "release_document_resource digest =
     doc_update digest (\<lambda>r. 0 < dr_reference_count r)
       (\<lambda>r. r\<lparr>dr_reference_count := dr_reference_count r - 1\<rparr>)"

definition document_resource_usage :: "doc_row list \<Rightarrow> StorageError + nat" where
  "document_resource_usage rows =
     (let value = sum_list (map dr_byte_length rows)
      in if int i64_max < value then Inl Sql else Inr (nat value))"

definition unreferenced_document_resources_lru ::
  "doc_row list \<Rightarrow> StorageError + StoredDocumentResource list" where
  "unreferenced_document_resources_lru rows =
     collect_results (map map_document_resource
       (sort_key (\<lambda>r. (dr_last_accessed_unix_ms r, dr_digest r))
         (filter (\<lambda>r. dr_reference_count r = 0) rows)))"

definition recent_document_resources ::
  "nat \<Rightarrow> doc_row list \<Rightarrow> StorageError + StoredDocumentResource list" where
  "recent_document_resources limit rows =
     collect_results (map map_document_resource (take (min limit i64_max)
       (sort_key (\<lambda>r. (- dr_last_accessed_unix_ms r, dr_digest r))
         (filter (\<lambda>r. \<not> dr_evicting r) rows))))"

definition delete_unreferenced_document_resource :: "string \<Rightarrow> doc_row list \<Rightarrow> doc_row list" where
  "delete_unreferenced_document_resource digest =
     sql_delete (\<lambda>r. dr_digest r = digest \<and> dr_reference_count r = 0)"

definition claim_document_resource_eviction :: "string \<Rightarrow> doc_row list \<Rightarrow> bool \<times> doc_row list" where
  "claim_document_resource_eviction digest rows =
     (let (changed, rows') = sql_update
        (\<lambda>r. dr_digest r = digest \<and> dr_reference_count r = 0 \<and> \<not> dr_evicting r)
        (\<lambda>r. r\<lparr>dr_evicting := True\<rparr>) rows
      in (changed = 1, rows'))"

definition cancel_document_resource_eviction :: "string \<Rightarrow> doc_row list \<Rightarrow> doc_row list" where
  "cancel_document_resource_eviction digest rows =
     snd (sql_update (\<lambda>r. dr_digest r = digest) (\<lambda>r. r\<lparr>dr_evicting := False\<rparr>) rows)"

definition finish_document_resource_eviction :: "string \<Rightarrow> doc_row list \<Rightarrow> doc_row list" where
  "finish_document_resource_eviction digest =
     sql_delete (\<lambda>r. dr_digest r = digest \<and> dr_reference_count r = 0 \<and> dr_evicting r)"

definition reset_document_resource_transient_state :: "doc_row list \<Rightarrow> doc_row list" where
  "reset_document_resource_transient_state =
     map (\<lambda>r. r\<lparr>dr_reference_count := 0, dr_evicting := False\<rparr>)"

section \<open>The cache\<close>

datatype ResourceCacheError =
    InvalidDescriptor
  | Limit
  | DigestMismatch
  | Acquisition string
  | Io
  | Storage StorageError
  | Synchronization

record NodeResourceDescriptor =
  nd_digest :: string
  nd_media_type :: string
  nd_byte_length :: nat

text \<open>
  Which file operations fail, by relative path: reading, removing, writing and publishing the
  temporary file, and syncing the directory after the file was published.
\<close>

record doc_io =
  io_read_error :: "string \<Rightarrow> bool"
  io_remove_error :: "string \<Rightarrow> bool"
  io_write_error :: "string \<Rightarrow> bool"
  io_sync_error :: "string \<Rightarrow> bool"

record DocumentResourceCache =
  dc_maximum_bytes :: nat
  dc_maximum_resource_bytes :: nat
  dc_rows :: "doc_row list"
  dc_files :: "string \<Rightarrow> string option"

type_synonym 'a dc_op = "DocumentResourceCache \<Rightarrow> DocumentResourceCache \<times> (ResourceCacheError + 'a)"

definition dc_bind :: "'a dc_op \<Rightarrow> ('a \<Rightarrow> 'b dc_op) \<Rightarrow> 'b dc_op" where
  "dc_bind op k c = (case op c of (c', Inl e) \<Rightarrow> (c', Inl e) | (c', Inr x) \<Rightarrow> k x c')"

definition dc_query :: "(doc_row list \<Rightarrow> StorageError + 'a) \<Rightarrow> 'a dc_op" where
  "dc_query q c = (case q (dc_rows c) of Inl e \<Rightarrow> (c, Inl (Storage e)) | Inr x \<Rightarrow> (c, Inr x))"

definition dc_execute :: "(doc_row list \<Rightarrow> StorageError + doc_row list) \<Rightarrow> unit dc_op" where
  "dc_execute q c = (case q (dc_rows c) of
     Inl e \<Rightarrow> (c, Inl (Storage e)) | Inr rows \<Rightarrow> (c\<lparr>dc_rows := rows\<rparr>, Inr ()))"

definition validate_descriptor ::
  "NodeResourceDescriptor \<Rightarrow> nat \<Rightarrow> ResourceCacheError + unit" where
  "validate_descriptor descriptor maximum_resource_bytes =
     (if length (nd_digest descriptor) \<noteq> 64 \<or> \<not> list_all is_lower_hex (nd_digest descriptor) \<or>
         nd_media_type descriptor = [] \<or> maximum_resource_bytes < nd_byte_length descriptor
      then Inl InvalidDescriptor else Inr ())"

definition relative_path :: "string \<Rightarrow> string" where
  "relative_path digest = ''sha256/'' @ take 2 digest @ ''/'' @ to_ascii_lowercase digest"

definition bytes_match :: "(string \<Rightarrow> string) \<Rightarrow> NodeResourceDescriptor \<Rightarrow> string \<Rightarrow> bool" where
  "bytes_match sha256 descriptor bytes =
     (length bytes = nd_byte_length descriptor \<and>
      sha256 bytes = to_ascii_lowercase (nd_digest descriptor))"

definition verify_file ::
  "(string \<Rightarrow> string) \<Rightarrow> doc_io \<Rightarrow> string \<Rightarrow> NodeResourceDescriptor \<Rightarrow> bool dc_op" where
  "verify_file sha256 io path descriptor c =
     (c, if io_read_error io path then Inl Io
         else Inr (case dc_files c path of
           None \<Rightarrow> False
         | Some bytes \<Rightarrow> bytes_match sha256 descriptor bytes))"

definition remove_cached_file :: "doc_io \<Rightarrow> string \<Rightarrow> DocumentResourceCache \<Rightarrow> DocumentResourceCache" where
  "remove_cached_file io path c =
     (if io_remove_error io path then c else c\<lparr>dc_files := (dc_files c)(path := None)\<rparr>)"

text \<open>
  The body of the two eviction loops for one candidate: claim the row, remove the file, then
  delete the row, or give the claim back if the file could not be removed. A file that is
  already gone counts as removed. The result says whether the row was claimed.
\<close>

definition evict_one :: "doc_io \<Rightarrow> StoredDocumentResource \<Rightarrow> bool dc_op" where
  "evict_one io resource c =
     (let digest = sd_digest resource; path = sd_relative_path resource;
          (claimed, rows) = claim_document_resource_eviction digest (dc_rows c)
      in if \<not> claimed then (c\<lparr>dc_rows := rows\<rparr>, Inr False)
         else if io_remove_error io path
         then (c\<lparr>dc_rows := cancel_document_resource_eviction digest rows\<rparr>, Inl Io)
         else (c\<lparr>dc_rows := finish_document_resource_eviction digest rows,
                 dc_files := (dc_files c)(path := None)\<rparr>, Inr True))"

fun evict_loop :: "doc_io \<Rightarrow> nat \<Rightarrow> StoredDocumentResource list \<Rightarrow> nat \<Rightarrow> nat dc_op" where
  "evict_loop io incoming [] usage c = (c, Inr usage)"
| "evict_loop io incoming (resource # resources) usage c =
     (if saturating_add_u64 usage incoming \<le> dc_maximum_bytes c then (c, Inr usage)
      else dc_bind (evict_one io resource) (\<lambda>evicted.
        evict_loop io incoming resources
          (if evicted then usage - sd_byte_length resource else usage)) c)"

definition evict_for :: "doc_io \<Rightarrow> nat \<Rightarrow> unit dc_op" where
  "evict_for io incoming =
     dc_bind (dc_query document_resource_usage) (\<lambda>usage.
     dc_bind (dc_query unreferenced_document_resources_lru) (\<lambda>candidates.
     dc_bind (evict_loop io incoming candidates usage) (\<lambda>usage c.
     if dc_maximum_bytes c < saturating_add_u64 usage incoming then (c, Inl Limit)
     else (c, Inr ()))))"

fun reconcile_loop ::
  "(string \<Rightarrow> string) \<Rightarrow> doc_io \<Rightarrow> StoredDocumentResource list \<Rightarrow> unit dc_op" where
  "reconcile_loop sha256 io [] c = (c, Inr ())"
| "reconcile_loop sha256 io (resource # resources) c =
     dc_bind (verify_file sha256 io (sd_relative_path resource)
       \<lparr>nd_digest = sd_digest resource, nd_media_type = sd_media_type resource,
        nd_byte_length = sd_byte_length resource\<rparr>) (\<lambda>intact.
     dc_bind (if intact then (\<lambda>c. (c, Inr False)) else evict_one io resource) (\<lambda>_.
     reconcile_loop sha256 io resources)) c"

definition reconcile :: "(string \<Rightarrow> string) \<Rightarrow> doc_io \<Rightarrow> unit dc_op" where
  "reconcile sha256 io =
     dc_bind (dc_query unreferenced_document_resources_lru) (\<lambda>resources.
     dc_bind (reconcile_loop sha256 io resources) (\<lambda>_.
     evict_for io 0))"

text \<open>Opening the cache on the rows and files that a previous process left.\<close>

definition open_cache ::
  "(string \<Rightarrow> string) \<Rightarrow> doc_io \<Rightarrow> nat \<Rightarrow> nat \<Rightarrow> doc_row list \<Rightarrow> (string \<Rightarrow> string option) \<Rightarrow>
     ResourceCacheError + DocumentResourceCache" where
  "open_cache sha256 io maximum_bytes maximum_resource_bytes rows files =
     (if maximum_bytes = 0 \<or> maximum_resource_bytes = 0 then Inl Limit
      else case reconcile sha256 io
          \<lparr>dc_maximum_bytes = maximum_bytes, dc_maximum_resource_bytes = maximum_resource_bytes,
           dc_rows = reset_document_resource_transient_state rows, dc_files = files\<rparr> of
        (_, Inl e) \<Rightarrow> Inl e
      | (c, Inr _) \<Rightarrow> Inr c)"

definition cached_verified ::
  "(string \<Rightarrow> string) \<Rightarrow> doc_io \<Rightarrow> NodeResourceDescriptor \<Rightarrow> int \<Rightarrow> string option dc_op" where
  "cached_verified sha256 io descriptor now =
     dc_bind (dc_query (document_resource (nd_digest descriptor))) (\<lambda>found.
     case found of
       None \<Rightarrow> (\<lambda>c. (c, Inr None))
     | Some metadata \<Rightarrow>
         let path = sd_relative_path metadata in
         dc_bind (if sd_byte_length metadata = nd_byte_length descriptor \<and>
                     sd_media_type metadata = nd_media_type descriptor
                  then verify_file sha256 io path descriptor else (\<lambda>c. (c, Inr False))) (\<lambda>intact.
         if intact
         then dc_bind (dc_execute (touch_document_resource (nd_digest descriptor) now))
                (\<lambda>_ c. (c, Inr (Some path)))
         else if 0 < sd_reference_count metadata then (\<lambda>c. (c, Inl DigestMismatch))
         else (\<lambda>c. dc_bind (dc_execute (\<lambda>rows. Inr
                (delete_unreferenced_document_resource (nd_digest descriptor) rows)))
                (\<lambda>_ c. (c, Inr None)) (remove_cached_file io path c))))"

text \<open>What the caller's \<open>acquire\<close> gives: an error, a reader that fails, or a stream of bytes.\<close>

datatype acquisition = AcquireFailed string | ReadFailed | Stream string

definition stored_resource_of :: "NodeResourceDescriptor \<Rightarrow> int \<Rightarrow> StoredDocumentResource" where
  "stored_resource_of descriptor now =
     \<lparr>sd_digest = to_ascii_lowercase (nd_digest descriptor),
      sd_media_type = nd_media_type descriptor, sd_byte_length = nd_byte_length descriptor,
      sd_relative_path = relative_path (nd_digest descriptor), sd_verified_unix_ms = now,
      sd_last_accessed_unix_ms = now, sd_reference_count = 0\<rparr>"

definition publish ::
  "doc_io \<Rightarrow> NodeResourceDescriptor \<Rightarrow> string \<Rightarrow> int \<Rightarrow> string dc_op" where
  "publish io descriptor bytes now c =
     (let path = relative_path (nd_digest descriptor) in
      if io_write_error io path then (c, Inl Io)
      else
        let c = c\<lparr>dc_files := (dc_files c)(path := Some bytes)\<rparr> in
        if io_sync_error io path then (c, Inl Io)
        else case upsert_document_resource (stored_resource_of descriptor now) (dc_rows c) of
          Inl e \<Rightarrow> (remove_cached_file io path c, Inl (Storage e))
        | Inr rows \<Rightarrow> (c\<lparr>dc_rows := rows\<rparr>, Inr path))"

definition store_acquired ::
  "(string \<Rightarrow> string) \<Rightarrow> doc_io \<Rightarrow> NodeResourceDescriptor \<Rightarrow> acquisition \<Rightarrow> int \<Rightarrow> string dc_op" where
  "store_acquired sha256 io descriptor acquired now c =
     (case acquired of
        AcquireFailed message \<Rightarrow> (c, Inl (Acquisition message))
      | ReadFailed \<Rightarrow> (c, Inl Io)
      | Stream stream \<Rightarrow>
          let read_limit = saturating_add_u64
                (min (nd_byte_length descriptor) (dc_maximum_resource_bytes c)) 1;
              bytes = take read_limit stream
          in if \<not> bytes_match sha256 descriptor bytes then (c, Inl DigestMismatch)
             else dc_bind (evict_for io (nd_byte_length descriptor))
               (\<lambda>_. publish io descriptor bytes now) c)"

text \<open>
  \<open>resolve\<close> of a thread that leads the acquisition. \<open>show_error\<close> is the \<open>Display\<close> text of an
  error, in which the leader reports a failure.
\<close>

definition resolve ::
  "(ResourceCacheError \<Rightarrow> string) \<Rightarrow> (string \<Rightarrow> string) \<Rightarrow> doc_io \<Rightarrow> NodeResourceDescriptor \<Rightarrow>
     acquisition \<Rightarrow> int \<Rightarrow> string dc_op" where
  "resolve show_error sha256 io descriptor acquired now c =
     (case validate_descriptor descriptor (dc_maximum_resource_bytes c) of
        Inl e \<Rightarrow> (c, Inl e)
      | Inr _ \<Rightarrow> dc_bind (cached_verified sha256 io descriptor now) (\<lambda>found.
          case found of
            Some path \<Rightarrow> (\<lambda>c. (c, Inr path))
          | None \<Rightarrow> (\<lambda>c. case store_acquired sha256 io descriptor acquired now c of
              (c', Inl e) \<Rightarrow> (c', Inl (Acquisition (show_error e)))
            | (c', Inr path) \<Rightarrow> (c', Inr path))) c)"

definition resolve_existing ::
  "(string \<Rightarrow> string) \<Rightarrow> doc_io \<Rightarrow> NodeResourceDescriptor \<Rightarrow> int \<Rightarrow> string option dc_op" where
  "resolve_existing sha256 io descriptor now c =
     (case validate_descriptor descriptor (dc_maximum_resource_bytes c) of
        Inl e \<Rightarrow> (c, Inl e)
      | Inr _ \<Rightarrow> cached_verified sha256 io descriptor now c)"

definition pin :: "string \<Rightarrow> unit dc_op" where
  "pin digest = dc_execute (retain_document_resource digest)"

definition unpin :: "string \<Rightarrow> unit dc_op" where
  "unpin digest = dc_execute (release_document_resource digest)"

fun verify_entries ::
  "(string \<Rightarrow> string) \<Rightarrow> doc_io \<Rightarrow> StoredDocumentResource list \<Rightarrow> string list dc_op" where
  "verify_entries sha256 io [] c = (c, Inr [])"
| "verify_entries sha256 io (entry # entries) c =
     dc_bind (verify_file sha256 io (sd_relative_path entry)
       \<lparr>nd_digest = sd_digest entry, nd_media_type = sd_media_type entry,
        nd_byte_length = sd_byte_length entry\<rparr>) (\<lambda>intact.
     dc_bind (verify_entries sha256 io entries) (\<lambda>rest c.
     (c, Inr (if intact then sd_digest entry # rest else rest)))) c"

definition verified_digests :: "(string \<Rightarrow> string) \<Rightarrow> doc_io \<Rightarrow> nat \<Rightarrow> string list dc_op" where
  "verified_digests sha256 io limit =
     dc_bind (dc_query (recent_document_resources (min limit 256))) (verify_entries sha256 io)"

text \<open>
  \<open>resolve_document_images\<close>: every image of a document, in the order of its resource identifiers.
  \<open>packet_ok\<close> is the verdict of the renderer's \<open>validate_packet\<close> on the document, \<open>acquire\<close> what the
  caller's closure gives for the resource, and \<open>reread_error\<close> the paths whose file cannot be read
  back after it was resolved.
\<close>

datatype Resource = Image string string nat

definition image_descriptor :: "Resource \<Rightarrow> NodeResourceDescriptor option" where
  "image_descriptor resource = (case resource of Image digest media_type byte_length \<Rightarrow>
     if media_type \<noteq> ''image/jpeg'' then None
     else map_option (\<lambda>hex. \<lparr>nd_digest = to_ascii_lowercase hex, nd_media_type = media_type,
       nd_byte_length = byte_length\<rparr>) (strip_prefix digest ''sha256:''))"

definition read_image ::
  "(string \<Rightarrow> string) \<Rightarrow> (string \<Rightarrow> bool) \<Rightarrow> NodeResourceDescriptor \<Rightarrow> string \<Rightarrow> string dc_op" where
  "read_image sha256 reread_error descriptor path c =
     (c, if reread_error path then Inl Io
         else case dc_files c path of
           None \<Rightarrow> Inl Io
         | Some bytes \<Rightarrow>
             if length bytes \<noteq> nd_byte_length descriptor \<or> sha256 bytes \<noteq> nd_digest descriptor
             then Inl DigestMismatch else Inr bytes)"

fun resolve_images ::
  "(ResourceCacheError \<Rightarrow> string) \<Rightarrow> (string \<Rightarrow> string) \<Rightarrow> doc_io \<Rightarrow> (string \<Rightarrow> bool) \<Rightarrow>
     (string \<Rightarrow> acquisition) \<Rightarrow> int \<Rightarrow> (string \<times> Resource) list \<Rightarrow> (string \<times> string) list \<Rightarrow>
     (string \<times> string) list dc_op" where
  "resolve_images show_error sha256 io reread_error acquire now [] resolved c = (c, Inr resolved)"
| "resolve_images show_error sha256 io reread_error acquire now ((resource_id, resource) # rest) resolved c =
     (case image_descriptor resource of
        None \<Rightarrow> (c, Inl InvalidDescriptor)
      | Some descriptor \<Rightarrow>
          dc_bind (resolve show_error sha256 io descriptor (acquire resource_id) now) (\<lambda>path.
          dc_bind (read_image sha256 reread_error descriptor path) (\<lambda>bytes.
          resolve_images show_error sha256 io reread_error acquire now rest
            (resolved @ [(resource_id, bytes)]))) c)"

definition resolve_document_images ::
  "(ResourceCacheError \<Rightarrow> string) \<Rightarrow> (string \<Rightarrow> string) \<Rightarrow> doc_io \<Rightarrow> (string \<Rightarrow> bool) \<Rightarrow> bool \<Rightarrow>
     (string \<times> Resource) list \<Rightarrow> (string \<Rightarrow> acquisition) \<Rightarrow> int \<Rightarrow> (string \<times> string) list dc_op" where
  "resolve_document_images show_error sha256 io reread_error packet_ok resources acquire now c =
     (if \<not> packet_ok then (c, Inl InvalidDescriptor)
      else resolve_images show_error sha256 io reread_error acquire now resources [] c)"

end
