(* ===== verification/Document_Cache_Effects.thy ===== *)
theory Document_Cache_Effects
  imports Document_Cache
begin

text \<open>
  What the operations of the document resource cache do to a cache that is in order. Eviction
  is reduced to \<open>dropped D c\<close>, the cache \<open>c\<close> without the resources whose digest is in \<open>D\<close>,
  rows and files; a lookup to \<open>touched\<close> and \<open>discarded\<close>.
\<close>

section \<open>The invariant\<close>

definition rows_ok :: "doc_row list \<Rightarrow> bool" where
  "rows_ok rows \<longleftrightarrow> distinct (map dr_digest rows) \<and>
     (\<forall>r\<in>set rows. doc_row_checks r \<and> dr_relative_path r = relative_path (dr_digest r) \<and>
        \<not> dr_evicting r)"

definition usage_of :: "doc_row list \<Rightarrow> nat" where
  "usage_of rows = nat (sum_list (map dr_byte_length rows))"

definition dc_wf :: "DocumentResourceCache \<Rightarrow> bool" where
  "dc_wf c \<longleftrightarrow> rows_ok (dc_rows c) \<and> usage_of (dc_rows c) \<le> dc_maximum_bytes c \<and>
     dc_maximum_bytes c < u64_max"

lemma lower_hex_lowercase: "list_all is_lower_hex d \<Longrightarrow> to_ascii_lowercase d = d"
  by (induction d) (auto simp: to_ascii_lowercase_def is_lower_hex_def is_ascii_digit_def)

lemma relative_path_inj:
  assumes "relative_path d = relative_path d'" and "list_all is_lower_hex d" "list_all is_lower_hex d'"
    and "length d = length d'"
  shows "d = d'"
  using assms by (simp add: relative_path_def lower_hex_lowercase)

lemma rows_okD:
  assumes "rows_ok rows" and "r \<in> set rows"
  shows "list_all is_lower_hex (dr_digest r)" "length (dr_digest r) = 64"
    "dr_relative_path r = relative_path (dr_digest r)" "\<not> dr_evicting r" "0 \<le> dr_byte_length r"
    "0 \<le> dr_reference_count r"
  using assms by (auto simp: rows_ok_def doc_row_checks_def)

lemma row_path_iff:
  assumes "rows_ok rows" "r \<in> set rows" "q \<in> set rows"
  shows "relative_path (dr_digest r) = relative_path (dr_digest q) \<longleftrightarrow> dr_digest r = dr_digest q"
  using relative_path_inj [of "dr_digest r" "dr_digest q"] rows_okD [OF assms(1,2)]
    rows_okD [OF assms(1,3)] by metis

lemma map_document_resource_ok:
  assumes "0 \<le> dr_byte_length r" "0 \<le> dr_reference_count r"
  shows "map_document_resource r = Inr \<lparr>sd_digest = dr_digest r, sd_media_type = dr_media_type r,
    sd_byte_length = nat (dr_byte_length r), sd_relative_path = dr_relative_path r,
    sd_verified_unix_ms = dr_verified_unix_ms r,
    sd_last_accessed_unix_ms = dr_last_accessed_unix_ms r,
    sd_reference_count = nat (dr_reference_count r)\<rparr>"
  using assms by (simp add: map_document_resource_def get_u64_def)

definition resource_of :: "doc_row \<Rightarrow> StoredDocumentResource" where
  "resource_of r = \<lparr>sd_digest = dr_digest r, sd_media_type = dr_media_type r,
    sd_byte_length = nat (dr_byte_length r), sd_relative_path = dr_relative_path r,
    sd_verified_unix_ms = dr_verified_unix_ms r,
    sd_last_accessed_unix_ms = dr_last_accessed_unix_ms r,
    sd_reference_count = nat (dr_reference_count r)\<rparr>"

lemma resources_of_rows:
  assumes "rows_ok rows" "set qs \<subseteq> set rows"
  shows "collect_results (map map_document_resource qs) = Inr (map resource_of qs)"
proof -
  have "map map_document_resource qs = map Inr (map resource_of qs)"
    using assms rows_okD(5,6) [OF assms(1)]
    by (auto simp: map_document_resource_ok resource_of_def)
  then show ?thesis by (simp only: collect_results_Inr)
qed

section \<open>Dropping resources\<close>

definition dropped :: "string set \<Rightarrow> DocumentResourceCache \<Rightarrow> DocumentResourceCache" where
  "dropped D c = c\<lparr>dc_rows := filter (\<lambda>r. dr_digest r \<notin> D) (dc_rows c),
     dc_files := (\<lambda>p. if p \<in> relative_path ` D then None else dc_files c p)\<rparr>"

lemma dropped_empty [simp]: "dropped {} c = c"
  by (simp add: dropped_def)

lemma dropped_dropped: "dropped D (dropped E c) = dropped (D \<union> E) c"
  by (rule DocumentResourceCache.equality) (auto simp: dropped_def fun_eq_iff intro!: filter_cong)

lemma dropped_maximum [simp]:
  "dc_maximum_bytes (dropped D c) = dc_maximum_bytes c"
  "dc_maximum_resource_bytes (dropped D c) = dc_maximum_resource_bytes c"
  by (simp_all add: dropped_def)

lemma rows_ok_filter: "rows_ok rows \<Longrightarrow> rows_ok (filter p rows)"
  by (auto simp: rows_ok_def distinct_map inj_on_def)

lemma rows_ok_dropped: "rows_ok (dc_rows c) \<Longrightarrow> rows_ok (dc_rows (dropped D c))"
  by (simp add: dropped_def rows_ok_filter)

lemma usage_nonneg: "rows_ok rows \<Longrightarrow> 0 \<le> sum_list (map dr_byte_length rows)"
  by (rule sum_list_nonneg) (auto dest: rows_okD(5))

lemma rows_ok_Cons: "rows_ok (r # rows) \<Longrightarrow> rows_ok rows"
  by (simp add: rows_ok_def)

lemma usage_filter_le: "rows_ok rows \<Longrightarrow> usage_of (filter p rows) \<le> usage_of rows"
proof -
  assume "rows_ok rows"
  then have "\<forall>r\<in>set rows. 0 \<le> dr_byte_length r" by (auto dest: rows_okD(5))
  then have "sum_list (map dr_byte_length (filter p rows)) \<le> sum_list (map dr_byte_length rows)"
    by (induction rows) auto
  then show ?thesis by (simp add: usage_of_def)
qed

lemma usage_drop_one:
  assumes "rows_ok rows" "r \<in> set rows"
  shows "usage_of (filter (\<lambda>q. dr_digest q \<noteq> dr_digest r) rows) =
    usage_of rows - nat (dr_byte_length r)"
proof -
  have "sum_list (map dr_byte_length (filter (\<lambda>q. dr_digest q \<noteq> dr_digest r) rows)) =
      sum_list (map dr_byte_length rows) - dr_byte_length r"
    using assms
  proof (induction rows)
    case (Cons q rows)
    show ?case
    proof (cases "q = r")
      case True
      then have "filter (\<lambda>q. dr_digest q \<noteq> dr_digest r) rows = rows"
        using Cons.prems(1) by (auto simp: rows_ok_def filter_id_conv image_iff)
      with True show ?thesis by simp
    next
      case False
      then have "r \<in> set rows" "dr_digest q \<noteq> dr_digest r"
        using Cons.prems by (auto simp: rows_ok_def image_iff)
      with Cons.IH [OF rows_ok_Cons [OF Cons.prems(1)]] show ?thesis by simp
    qed
  qed simp
  then show ?thesis
    using rows_okD(5) [OF assms] by (simp add: usage_of_def nat_diff_distrib')
qed

section \<open>Eviction\<close>

lemma claim_then_finish:
  assumes "\<forall>q\<in>set rows. \<not> dr_evicting q"
    and "\<forall>q\<in>set rows. dr_digest q = d \<longrightarrow> dr_reference_count q = 0"
  shows "finish_document_resource_eviction d (snd (claim_document_resource_eviction d rows)) =
      filter (\<lambda>q. dr_digest q \<noteq> d) rows"
    "cancel_document_resource_eviction d (snd (claim_document_resource_eviction d rows)) = rows"
proof -
  let ?f = "\<lambda>q. if dr_digest q = d \<and> dr_reference_count q = 0 \<and> \<not> dr_evicting q
    then q\<lparr>dr_evicting := True\<rparr> else q"
  have claim: "snd (claim_document_resource_eviction d rows) = map ?f rows"
    by (simp add: claim_document_resource_eviction_def sql_update_def)
  show "finish_document_resource_eviction d (snd (claim_document_resource_eviction d rows)) =
      filter (\<lambda>q. dr_digest q \<noteq> d) rows"
    unfolding claim finish_document_resource_eviction_def sql_delete_def
    using assms by (induction rows) simp_all
  have "?f q\<lparr>dr_evicting := False\<rparr> = q" if "q \<in> set rows" for q
  proof -
    have "\<not> dr_evicting q" using assms(1) that by blast
    then show ?thesis by (cases q) simp
  qed
  then have "(if dr_digest (?f q) = d then ?f q\<lparr>dr_evicting := False\<rparr> else ?f q) = q"
    if "q \<in> set rows" for q using that by simp
  then show "cancel_document_resource_eviction d (snd (claim_document_resource_eviction d rows)) = rows"
    unfolding claim cancel_document_resource_eviction_def sql_update_def snd_conv map_map o_def
    by (rule map_idI)
qed

lemma evict_one_effect:
  assumes ok: "rows_ok (dc_rows c)" and r: "r \<in> set (dc_rows c)" and free: "dr_reference_count r = 0"
  shows "evict_one io (resource_of r) c =
    (if io_remove_error io (dr_relative_path r) then (c, Inl Io)
     else (dropped {dr_digest r} c, Inr True))"
proof -
  let ?d = "dr_digest r"
  have dist: "distinct (map dr_digest (dc_rows c))" using ok by (simp add: rows_ok_def)
  have "filter (\<lambda>q. dr_digest q = ?d \<and> dr_reference_count q = 0 \<and> \<not> dr_evicting q) (dc_rows c) = [r]"
    using filter_unique_key [OF dist, of ?d "\<lambda>q. dr_reference_count q = 0 \<and> \<not> dr_evicting q"]
      sql_find_unique [OF dist r] free rows_okD(4) [OF ok r] by simp
  then have claimed: "fst (claim_document_resource_eviction ?d (dc_rows c))"
    by (simp add: claim_document_resource_eviction_def sql_update_def)
  have same: "dr_reference_count q = 0" if "q \<in> set (dc_rows c)" "dr_digest q = ?d" for q
    using dist that r free by (auto simp: distinct_map inj_on_def)
  have "\<forall>q\<in>set (dc_rows c). \<not> dr_evicting q"
    "\<forall>q\<in>set (dc_rows c). dr_digest q = ?d \<longrightarrow> dr_reference_count q = 0"
    using rows_okD(4) [OF ok] same by blast+
  note steps = claim_then_finish [OF this]
  show ?thesis
    using claimed steps rows_okD(3) [OF ok r]
    by (auto simp: evict_one_def Let_def resource_of_def split_beta dropped_def fun_eq_iff
        intro!: DocumentResourceCache.equality)
qed

text \<open>The candidates of an eviction, in the order of the loop.\<close>

definition lru_rows :: "doc_row list \<Rightarrow> doc_row list" where
  "lru_rows rows = sort_key (\<lambda>r. (dr_last_accessed_unix_ms r, dr_digest r))
     (filter (\<lambda>r. dr_reference_count r = 0) rows)"

definition fits :: "nat \<Rightarrow> DocumentResourceCache \<Rightarrow> bool" where
  "fits incoming c \<longleftrightarrow> saturating_add_u64 (usage_of (dc_rows c)) incoming \<le> dc_maximum_bytes c"

lemma evict_loop_effect:
  assumes "rows_ok (dc_rows c)" and "set qs \<subseteq> set (dc_rows c)" and "distinct (map dr_digest qs)"
    and "\<And>q. q \<in> set qs \<Longrightarrow> dr_reference_count q = 0"
  shows "\<exists>k out. evict_loop io incoming (map resource_of qs) (usage_of (dc_rows c)) c =
      (dropped (dr_digest ` set (take k qs)) c, out) \<and>
      (\<forall>u. out = Inr u \<longrightarrow> u = usage_of (dc_rows (dropped (dr_digest ` set (take k qs)) c)) \<and>
        (fits incoming (dropped (dr_digest ` set (take k qs)) c) \<or> length qs \<le> k)) \<and>
      (\<forall>i<k. \<not> fits incoming (dropped (dr_digest ` set (take i qs)) c))"
  using assms
proof (induction qs arbitrary: c)
  case Nil
  then show ?case by (auto intro!: exI [of _ 0])
next
  case (Cons q qs)
  let ?c1 = "dropped {dr_digest q} c"
  have q: "q \<in> set (dc_rows c)" "dr_reference_count q = 0" using Cons.prems by auto
  note one = evict_one_effect [OF Cons.prems(1) q, of io]
  show ?case
  proof (cases "fits incoming c")
    case True
    then show ?thesis by (auto simp: fits_def intro!: exI [of _ 0])
  next
    case False
    show ?thesis
    proof (cases "io_remove_error io (dr_relative_path q)")
      case True
      then show ?thesis
        using False by (intro exI [of _ 0]) (simp add: fits_def one dc_bind_def)
    next
      case ok: False
      have u: "usage_of (dc_rows c) - sd_byte_length (resource_of q) = usage_of (dc_rows ?c1)"
        using usage_drop_one [OF Cons.prems(1) q(1)] by (simp add: resource_of_def dropped_def)
      have sub: "set qs \<subseteq> set (dc_rows ?c1)"
        using Cons.prems(2,3) by (auto simp: dropped_def image_iff)
      have "distinct (map dr_digest qs)" "\<And>q. q \<in> set qs \<Longrightarrow> dr_reference_count q = 0"
        using Cons.prems(3,4) by simp_all
      from Cons.IH [OF rows_ok_dropped [OF Cons.prems(1)] sub this]
      obtain k out where loop: "evict_loop io incoming (map resource_of qs) (usage_of (dc_rows ?c1)) ?c1 =
          (dropped (dr_digest ` set (take k qs)) ?c1, out)"
        and out: "\<forall>u. out = Inr u \<longrightarrow> u = usage_of (dc_rows (dropped (dr_digest ` set (take k qs)) ?c1)) \<and>
          (fits incoming (dropped (dr_digest ` set (take k qs)) ?c1) \<or> length qs \<le> k)"
        and before: "\<forall>i<k. \<not> fits incoming (dropped (dr_digest ` set (take i qs)) ?c1)"
        by blast
      have drop: "dropped (dr_digest ` set (take i qs)) ?c1 =
          dropped (dr_digest ` set (take (Suc i) (q # qs))) c" for i
        by (simp add: dropped_dropped)
      have "evict_loop io incoming (map resource_of (q # qs)) (usage_of (dc_rows c)) c =
          (dropped (dr_digest ` set (take (Suc k) (q # qs))) c, out)"
        using False ok loop u by (simp add: fits_def one dc_bind_def drop)
      moreover have "\<not> fits incoming (dropped (dr_digest ` set (take i (q # qs))) c)" if "i < Suc k" for i
        using that before False drop by (cases i) simp_all
      ultimately show ?thesis using out unfolding drop by (intro exI [of _ "Suc k"]) auto
    qed
  qed
qed

lemma lru_rows_facts:
  assumes "rows_ok rows"
  shows "set (lru_rows rows) = {r \<in> set rows. dr_reference_count r = 0}"
    "distinct (map dr_digest (lru_rows rows))"
proof -
  show "set (lru_rows rows) = {r \<in> set rows. dr_reference_count r = 0}"
    by (auto simp: lru_rows_def)
  then have "inj_on dr_digest (set (lru_rows rows))"
    using assms by (auto simp: rows_ok_def distinct_map inj_on_def)
  moreover have "distinct (lru_rows rows)"
    using assms by (auto simp: lru_rows_def rows_ok_def distinct_map)
  ultimately show "distinct (map dr_digest (lru_rows rows))" by (simp add: distinct_map)
qed

lemma evict_for_effect:
  assumes ok: "rows_ok (dc_rows c)"
  obtains k out where
    "evict_for io incoming c = (dropped (dr_digest ` set (take k (lru_rows (dc_rows c)))) c, out)"
    "out = Inr () \<Longrightarrow> fits incoming (dropped (dr_digest ` set (take k (lru_rows (dc_rows c)))) c)"
    "\<And>i. i < k \<Longrightarrow> \<not> fits incoming (dropped (dr_digest ` set (take i (lru_rows (dc_rows c)))) c)"
proof (cases "document_resource_usage (dc_rows c)")
  case (Inl e)
  show thesis
    by (rule that [of 0 "Inl (Storage e)"]) (simp_all add: evict_for_def dc_bind_def dc_query_def Inl)
next
  case (Inr u)
  let ?qs = "lru_rows (dc_rows c)"
  have u: "u = usage_of (dc_rows c)"
    using Inr by (auto simp: document_resource_usage_def usage_of_def Let_def split: if_splits)
  have cand: "unreferenced_document_resources_lru (dc_rows c) = Inr (map resource_of ?qs)"
    unfolding unreferenced_document_resources_lru_def lru_rows_def [symmetric]
    by (rule resources_of_rows [OF ok]) (use lru_rows_facts(1) [OF ok] in auto)
  have "set ?qs \<subseteq> set (dc_rows c)" "\<And>q. q \<in> set ?qs \<Longrightarrow> dr_reference_count q = 0"
    using lru_rows_facts(1) [OF ok] by auto
  from evict_loop_effect [OF ok this(1) lru_rows_facts(2) [OF ok] this(2), of io incoming]
  obtain k out where loop: "evict_loop io incoming (map resource_of ?qs) (usage_of (dc_rows c)) c =
      (dropped (dr_digest ` set (take k ?qs)) c, out)"
    and out: "\<forall>u. out = Inr u \<longrightarrow> u = usage_of (dc_rows (dropped (dr_digest ` set (take k ?qs)) c)) \<and>
        (fits incoming (dropped (dr_digest ` set (take k ?qs)) c) \<or> length ?qs \<le> k)"
    and before: "\<forall>i<k. \<not> fits incoming (dropped (dr_digest ` set (take i ?qs)) c)"
    by blast
  show thesis
  proof (cases out)
    case Inl': (Inl e)
    show thesis
      by (rule that [of k "Inl e"])
         (use before in \<open>simp_all add: evict_for_def dc_bind_def dc_query_def Inr cand loop Inl' u\<close>)
  next
    case Inr': (Inr v)
    have v: "v = usage_of (dc_rows (dropped (dr_digest ` set (take k ?qs)) c))" using out Inr' by simp
    show thesis
      by (rule that [of k "if fits incoming (dropped (dr_digest ` set (take k ?qs)) c)
            then Inr () else Inl Limit"])
         (use before in \<open>simp_all add: evict_for_def dc_bind_def dc_query_def Inr cand loop Inr' v
            fits_def u split: if_splits\<close>)
  qed
qed

section \<open>Looking up and publishing\<close>

definition touched :: "string \<Rightarrow> int \<Rightarrow> DocumentResourceCache \<Rightarrow> DocumentResourceCache" where
  "touched d now c = c\<lparr>dc_rows := map (\<lambda>r. if dr_digest r = d
     then r\<lparr>dr_last_accessed_unix_ms := now\<rparr> else r) (dc_rows c)\<rparr>"

definition discarded :: "doc_io \<Rightarrow> string \<Rightarrow> DocumentResourceCache \<Rightarrow> DocumentResourceCache" where
  "discarded io d c = remove_cached_file io (relative_path d)
     (c\<lparr>dc_rows := filter (\<lambda>r. dr_digest r \<noteq> d) (dc_rows c)\<rparr>)"

lemma cached_verified_cases:
  assumes ok: "rows_ok (dc_rows c)"
  obtains (failed) e where "cached_verified sha io desc now c = (c, Inl e)"
  | (absent) "cached_verified sha io desc now c = (c, Inr None)"
      "\<forall>r\<in>set (dc_rows c). dr_digest r \<noteq> nd_digest desc"
  | (hit) r bytes where "cached_verified sha io desc now c =
        (touched (nd_digest desc) now c, Inr (Some (relative_path (nd_digest desc))))"
      "r \<in> set (dc_rows c)" "dr_digest r = nd_digest desc"
      "dc_files c (relative_path (nd_digest desc)) = Some bytes" "bytes_match sha desc bytes"
  | (corrupt) r where "cached_verified sha io desc now c = (discarded io (nd_digest desc) c, Inr None)"
      "r \<in> set (dc_rows c)" "dr_digest r = nd_digest desc" "dr_reference_count r = 0"
proof (cases "sql_find dr_digest (nd_digest desc) (dc_rows c)")
  case None
  show thesis
  proof (rule absent)
    show "cached_verified sha io desc now c = (c, Inr None)"
      by (simp add: cached_verified_def dc_bind_def dc_query_def document_resource_def
          opt_result_def None)
    show "\<forall>r\<in>set (dc_rows c). dr_digest r \<noteq> nd_digest desc"
      using None unfolding sql_find_None by (metis imageI)
  qed
next
  case (Some r)
  let ?d = "nd_digest desc"
  have r: "r \<in> set (dc_rows c)" "dr_digest r = ?d" using sql_find_SomeD [OF Some] by auto
  note okr = rows_okD [OF ok r(1)]
  have doc: "document_resource ?d (dc_rows c) = Inr (Some (resource_of r))"
    using Some okr map_document_resource_ok [of r]
    by (simp add: document_resource_def opt_result_def resource_of_def)
  have path: "sd_relative_path (resource_of r) = relative_path ?d"
    using okr(3) r(2) by (simp add: resource_of_def)
  let ?meta = "sd_byte_length (resource_of r) = nd_byte_length desc \<and>
    sd_media_type (resource_of r) = nd_media_type desc"
  have touch: "dc_execute (touch_document_resource ?d now) c = (touched ?d now c, Inr ())"
    using r by (auto simp: dc_execute_def touch_document_resource_def doc_update_def sql_update_def
        touched_def filter_empty_conv)
  consider (io) "?meta" "io_read_error io (relative_path ?d)"
    | (good) bytes where "?meta" "\<not> io_read_error io (relative_path ?d)"
        "dc_files c (relative_path ?d) = Some bytes" "bytes_match sha desc bytes"
    | (bad) "\<not> (?meta \<and> (\<exists>bytes. dc_files c (relative_path ?d) = Some bytes \<and> bytes_match sha desc bytes))"
        "?meta \<longrightarrow> \<not> io_read_error io (relative_path ?d)" by blast
  then show thesis
  proof cases
    case io
    then show thesis
      by (intro failed [of Io]) (simp add: cached_verified_def dc_bind_def dc_query_def doc path
          verify_file_def Let_def)
  next
    case good
    then show thesis
      by (intro hit [of r bytes] r) (simp_all add: cached_verified_def dc_bind_def dc_query_def doc
          path verify_file_def touch Let_def)
  next
    case bad
    have intact: "(if ?meta then verify_file sha io (relative_path ?d) desc else (\<lambda>c. (c, Inr False))) c =
        (c, Inr False)"
      using bad by (auto simp: verify_file_def split: option.splits)
    have run: "cached_verified sha io desc now c =
        (if 0 < sd_reference_count (resource_of r) then (c, Inl DigestMismatch)
         else let c = remove_cached_file io (relative_path ?d) c in
           (c\<lparr>dc_rows := delete_unreferenced_document_resource ?d (dc_rows c)\<rparr>, Inr None))"
      using intact by (simp add: cached_verified_def dc_bind_def dc_query_def doc path Let_def dc_execute_def)
    show thesis
    proof (cases "dr_reference_count r = 0")
      case True
      have "filter (\<lambda>q. \<not> (dr_digest q = ?d \<and> dr_reference_count q = 0)) (dc_rows c) =
          filter (\<lambda>q. dr_digest q \<noteq> ?d) (dc_rows c)"
        using ok r True by (auto simp: rows_ok_def distinct_map inj_on_def intro!: filter_cong)
      then have "cached_verified sha io desc now c = (discarded io ?d c, Inr None)"
        unfolding run using True
        by (simp add: resource_of_def discarded_def remove_cached_file_def Let_def
            delete_unreferenced_document_resource_def sql_delete_def)
      then show thesis by (rule corrupt [OF _ r True])
    next
      case False
      then have "0 < sd_reference_count (resource_of r)" using okr(6) by (simp add: resource_of_def)
      then show thesis by (intro failed [of DigestMismatch]) (simp add: run)
    qed
  qed
qed

end
