(* ===== verification/Document_Cache_Props.thy ===== *)
theory Document_Cache_Props
  imports Document_Cache_Effects Transition
begin

text \<open>
  The properties of the document resource cache: the bound on its size, the protection of
  pinned resources, the integrity of what it returns, and the order of eviction.
\<close>

section \<open>Pinned resources\<close>

text \<open>\<open>protects c c'\<close>: the table stays in order and no pinned resource was touched.\<close>

definition keeps_row :: "DocumentResourceCache \<Rightarrow> DocumentResourceCache \<Rightarrow> doc_row \<Rightarrow> bool" where
  "keeps_row c c' r \<longleftrightarrow> (\<exists>r'\<in>set (dc_rows c'). dr_digest r' = dr_digest r \<and>
     dr_reference_count r' = dr_reference_count r) \<and>
     dc_files c' (relative_path (dr_digest r)) = dc_files c (relative_path (dr_digest r))"

definition protects :: "DocumentResourceCache \<Rightarrow> DocumentResourceCache \<Rightarrow> bool" where
  "protects c c' \<longleftrightarrow> rows_ok (dc_rows c') \<and> dc_maximum_bytes c' = dc_maximum_bytes c \<and>
     dc_maximum_resource_bytes c' = dc_maximum_resource_bytes c \<and>
     (\<forall>r\<in>set (dc_rows c). 0 < dr_reference_count r \<longrightarrow> keeps_row c c' r)"

lemma keeps_row_refl: "r \<in> set (dc_rows c) \<Longrightarrow> keeps_row c c r"
  by (auto simp: keeps_row_def)

lemma protects_refl: "rows_ok (dc_rows c) \<Longrightarrow> protects c c"
  by (auto simp: protects_def keeps_row_refl)

lemma protects_trans:
  assumes 1: "protects c1 c2" and 2: "protects c2 c3"
  shows "protects c1 c3"
proof -
  have "keeps_row c1 c3 r" if r: "r \<in> set (dc_rows c1)" "0 < dr_reference_count r" for r
  proof -
    obtain r2 where r2: "r2 \<in> set (dc_rows c2)" "dr_digest r2 = dr_digest r"
        "dr_reference_count r2 = dr_reference_count r"
        "dc_files c2 (relative_path (dr_digest r)) = dc_files c1 (relative_path (dr_digest r))"
      using 1 r by (auto simp: protects_def keeps_row_def)
    then have "keeps_row c2 c3 r2" using 2 r by (simp add: protects_def)
    then show ?thesis using r2 by (auto simp: keeps_row_def)
  qed
  then show ?thesis using 1 2 by (auto simp: protects_def)
qed

lemma protects_dropped:
  assumes ok: "rows_ok (dc_rows c)"
    and D: "\<And>r. r \<in> set (dc_rows c) \<Longrightarrow> 0 < dr_reference_count r \<Longrightarrow>
      dr_digest r \<notin> D \<and> relative_path (dr_digest r) \<notin> relative_path ` D"
  shows "protects c (dropped D c)"
proof -
  have "keeps_row c (dropped D c) r" if "r \<in> set (dc_rows c)" "0 < dr_reference_count r" for r
    using D [OF that] that by (auto simp: keeps_row_def dropped_def)
  then show ?thesis using rows_ok_dropped [OF ok] by (simp add: protects_def)
qed

lemma protects_evicted:
  assumes ok: "rows_ok (dc_rows c)"
  shows "protects c (dropped (dr_digest ` set (take k (lru_rows (dc_rows c)))) c)"
proof (rule protects_dropped [OF ok])
  fix r assume r: "r \<in> set (dc_rows c)" "0 < dr_reference_count r"
  let ?qs = "take k (lru_rows (dc_rows c))"
  have free: "q \<in> set (dc_rows c) \<and> dr_reference_count q = 0" if "q \<in> set ?qs" for q
    using in_set_takeD [OF that] lru_rows_facts(1) [OF ok] by auto
  have new: "dr_digest r \<noteq> dr_digest q" if "q \<in> set ?qs" for q
  proof
    assume "dr_digest r = dr_digest q"
    moreover have "q \<in> set (dc_rows c)" using free [OF that] by blast
    ultimately have "r = q" using ok r(1) by (auto simp: rows_ok_def distinct_map inj_on_def)
    then show False using free [OF that] r(2) by simp
  qed
  then have "relative_path (dr_digest r) \<noteq> relative_path (dr_digest q)" if "q \<in> set ?qs" for q
    using row_path_iff [OF ok r(1), of q] free [OF that] that by blast
  with new show "dr_digest r \<notin> dr_digest ` set ?qs \<and>
      relative_path (dr_digest r) \<notin> relative_path ` dr_digest ` set ?qs" by blast
qed

lemma evict_for_protects:
  assumes ok: "rows_ok (dc_rows c)"
  shows "protects c (fst (evict_for io n c))"
    and "usage_of (dc_rows (fst (evict_for io n c))) \<le> usage_of (dc_rows c)"
    and "\<forall>q\<in>set (dc_rows (fst (evict_for io n c))). q \<in> set (dc_rows c)"
    and "snd (evict_for io n c) = Inr () \<Longrightarrow> fits n (fst (evict_for io n c))"
  by (rule evict_for_effect [OF ok, of io n],
      use protects_evicted [OF ok] usage_filter_le [OF ok] in \<open>auto simp: dropped_def\<close>)+

lemma rows_ok_map:
  assumes "rows_ok rows" and "\<And>r. dr_digest (f r) = dr_digest r"
    "\<And>r. r \<in> set rows \<Longrightarrow> doc_row_checks r \<Longrightarrow> doc_row_checks (f r)"
    "\<And>r. dr_relative_path (f r) = dr_relative_path r" "\<And>r. dr_evicting (f r) = dr_evicting r"
  shows "rows_ok (map f rows)"
  using assms by (auto simp: rows_ok_def o_def)

lemma touched_effect:
  assumes ok: "rows_ok (dc_rows c)"
  shows "protects c (touched d now c)" "usage_of (dc_rows (touched d now c)) = usage_of (dc_rows c)"
proof -
  let ?f = "\<lambda>r. if dr_digest r = d then r\<lparr>dr_last_accessed_unix_ms := now\<rparr> else r"
  have f: "dr_digest (?f r) = dr_digest r" "dr_byte_length (?f r) = dr_byte_length r"
    "dr_reference_count (?f r) = dr_reference_count r" "doc_row_checks (?f r) = doc_row_checks r"
    "dr_relative_path (?f r) = dr_relative_path r" "dr_evicting (?f r) = dr_evicting r" for r
    by (simp_all add: doc_row_checks_def)
  have "rows_ok (map ?f (dc_rows c))"
    by (rule rows_ok_map [OF ok]) (simp_all add: f del: if_split)
  moreover have "keeps_row c (touched d now c) r" if "r \<in> set (dc_rows c)" for r
    using that f(1,3) [of r] by (auto simp: keeps_row_def touched_def intro!: bexI [of _ "?f r"])
  ultimately show "protects c (touched d now c)" by (simp add: protects_def touched_def)
  show "usage_of (dc_rows (touched d now c)) = usage_of (dc_rows c)"
    by (simp add: usage_of_def touched_def f o_def)
qed

lemma touched_digest:
  "r \<in> set (dc_rows c) \<Longrightarrow> \<exists>r'\<in>set (dc_rows (touched d now c)). dr_digest r' = dr_digest r"
  "dc_files (touched d now c) = dc_files c"
proof -
  let ?f = "\<lambda>r. if dr_digest r = d then r\<lparr>dr_last_accessed_unix_ms := now\<rparr> else r"
  assume "r \<in> set (dc_rows c)"
  then have "?f r \<in> set (dc_rows (touched d now c))" unfolding touched_def by simp
  moreover have "dr_digest (?f r) = dr_digest r" by simp
  ultimately show "\<exists>r'\<in>set (dc_rows (touched d now c)). dr_digest r' = dr_digest r" by blast
qed (simp add: touched_def)

lemma discarded_effect:
  assumes ok: "rows_ok (dc_rows c)" and r: "r \<in> set (dc_rows c)" "dr_digest r = d" "dr_reference_count r = 0"
  shows "protects c (discarded io d c)"
    "usage_of (dc_rows (discarded io d c)) \<le> usage_of (dc_rows c)"
    "dc_rows (discarded io d c) = filter (\<lambda>r. dr_digest r \<noteq> d) (dc_rows c)"
proof -
  show rows: "dc_rows (discarded io d c) = filter (\<lambda>r. dr_digest r \<noteq> d) (dc_rows c)"
    by (simp add: discarded_def remove_cached_file_def)
  show "usage_of (dc_rows (discarded io d c)) \<le> usage_of (dc_rows c)"
    unfolding rows by (rule usage_filter_le [OF ok])
  have "keeps_row c (discarded io d c) q" if q: "q \<in> set (dc_rows c)" "0 < dr_reference_count q" for q
  proof -
    have "q \<noteq> r" using q r by auto
    then have "dr_digest q \<noteq> d" using ok q(1) r by (auto simp: rows_ok_def distinct_map inj_on_def)
    moreover from this have "relative_path (dr_digest q) \<noteq> relative_path d"
      using row_path_iff [OF ok q(1) r(1)] r(2) by simp
    ultimately show ?thesis
      using q by (auto simp: keeps_row_def rows discarded_def remove_cached_file_def)
  qed
  then show "protects c (discarded io d c)"
    using rows_ok_filter [OF ok] rows
    by (simp add: protects_def discarded_def remove_cached_file_def)
qed

section \<open>Publishing a resource\<close>

lemma publish_effect:
  assumes ok: "rows_ok (dc_rows c)" and new: "\<forall>r\<in>set (dc_rows c). dr_digest r \<noteq> nd_digest desc"
    and hex: "list_all is_lower_hex (nd_digest desc)" "length (nd_digest desc) = 64"
  shows "protects c (fst (publish io desc bytes now c))"
    "isl (snd (publish io desc bytes now c)) \<Longrightarrow> dc_rows (fst (publish io desc bytes now c)) = dc_rows c"
    "publish io desc bytes now c = (c', Inr p) \<Longrightarrow> p = relative_path (nd_digest desc) \<and>
       dc_files c' p = Some bytes \<and> dc_rows c' = dc_rows c @ [doc_row_of (stored_resource_of desc now)]"
proof -
  let ?d = "nd_digest desc" and ?row = "doc_row_of (stored_resource_of desc now)"
  have row: "dr_digest ?row = ?d" "dr_relative_path ?row = relative_path ?d" "\<not> dr_evicting ?row"
    by (simp_all add: doc_row_of_def stored_resource_of_def lower_hex_lowercase [OF hex(1)])
  have up: "upsert_document_resource (stored_resource_of desc now) (dc_rows c) =
      (if doc_row_checks ?row \<and> \<not> sql_exists (\<lambda>r. dr_relative_path r = relative_path ?d \<and>
         dr_digest r \<noteq> ?d) (dc_rows c) then Inr (dc_rows c @ [?row]) else Inl Sql)"
    using new row by (auto simp: upsert_document_resource_def Let_def ensure_def sql_upsert_def
        sql_exists_iff)
  have path: "relative_path (dr_digest r) \<noteq> relative_path ?d" if "r \<in> set (dc_rows c)" for r
    using relative_path_inj [of "dr_digest r" ?d] rows_okD [OF ok that] hex new that by auto
  have keep: "keeps_row c c' r"
    if "r \<in> set (dc_rows c)" "set (dc_rows c) \<subseteq> set (dc_rows c')"
      "\<And>q. q \<noteq> relative_path ?d \<Longrightarrow> dc_files c' q = dc_files c q" for c' r
    using that path by (auto simp: keeps_row_def)
  have app: "rows_ok (dc_rows c @ [?row])" if "doc_row_checks ?row"
    using ok that row new by (auto simp: rows_ok_def)
  show "protects c (fst (publish io desc bytes now c))"
  proof -
    let ?c' = "fst (publish io desc bytes now c)"
    note run = publish_def Let_def remove_cached_file_def
    have "set (dc_rows c) \<subseteq> set (dc_rows ?c')" by (auto simp: run up)
    moreover have "dc_files ?c' q = dc_files c q" if "q \<noteq> relative_path ?d" for q
      using that by (auto simp: run up)
    moreover have "rows_ok (dc_rows ?c')" using ok app by (auto simp: run up)
    moreover have "dc_maximum_bytes ?c' = dc_maximum_bytes c"
      "dc_maximum_resource_bytes ?c' = dc_maximum_resource_bytes c" by (auto simp: run up)
    ultimately show ?thesis using keep by (simp add: protects_def)
  qed
  show "isl (snd (publish io desc bytes now c)) \<Longrightarrow> dc_rows (fst (publish io desc bytes now c)) = dc_rows c"
    by (auto simp: publish_def Let_def up remove_cached_file_def split: if_splits)
  show "publish io desc bytes now c = (c', Inr p) \<Longrightarrow> p = relative_path ?d \<and>
       dc_files c' p = Some bytes \<and> dc_rows c' = dc_rows c @ [?row]"
    by (auto simp: publish_def Let_def up split: if_splits)
qed

lemma fits_usage:
  "fits n c \<Longrightarrow> dc_maximum_bytes c < u64_max \<Longrightarrow> usage_of (dc_rows c) + n \<le> dc_maximum_bytes c"
  by (auto simp: fits_def saturating_add_u64_def min_def split: if_splits)

lemma usage_append:
  assumes "rows_ok rows"
  shows "usage_of (rows @ [doc_row_of res]) \<le> usage_of rows + sd_byte_length res"
  using usage_nonneg [OF assms] by (simp add: usage_of_def doc_row_of_def clamp_i64_def)

lemma store_acquired_effect:
  assumes wf: "dc_wf c" and new: "\<forall>r\<in>set (dc_rows c). dr_digest r \<noteq> nd_digest desc"
    and hex: "list_all is_lower_hex (nd_digest desc)" "length (nd_digest desc) = 64"
  shows "protects c (fst (store_acquired sha io desc acq now c))"
    "dc_wf (fst (store_acquired sha io desc acq now c))"
    "store_acquired sha io desc acq now c = (c', Inr p) \<Longrightarrow> p = relative_path (nd_digest desc) \<and>
      (\<exists>bytes. dc_files c' p = Some bytes \<and> bytes_match sha desc bytes) \<and>
      (\<exists>r\<in>set (dc_rows c'). dr_digest r = nd_digest desc)"
proof -
  have ok: "rows_ok (dc_rows c)" using wf by (simp add: dc_wf_def)
  let ?n = "nd_byte_length desc"
  let ?bytes = "\<lambda>stream. take (saturating_add_u64 (min ?n (dc_maximum_resource_bytes c)) 1) stream"
  let ?c1 = "fst (evict_for io ?n c)"
  note ev = evict_for_protects [OF ok, of io ?n]
  have ok1: "rows_ok (dc_rows ?c1)" and max1: "dc_maximum_bytes ?c1 = dc_maximum_bytes c"
    using ev(1) by (simp_all add: protects_def)
  have new1: "\<forall>r\<in>set (dc_rows ?c1). dr_digest r \<noteq> nd_digest desc" using new ev(3) by blast
  note pub = publish_effect [OF ok1 new1 hex, where io = io and now = now]
  have wf1: "dc_wf ?c1" using ev wf max1 ok1 by (simp add: dc_wf_def)
  have keepwf: "dc_wf c2" if "protects ?c1 c2" "dc_rows c2 = dc_rows ?c1" for c2
    using that wf1 by (simp add: dc_wf_def protects_def)
  have row: "dr_digest (doc_row_of (stored_resource_of desc now)) = nd_digest desc"
    by (simp add: doc_row_of_def stored_resource_of_def lower_hex_lowercase [OF hex(1)])
  have run: "store_acquired sha io desc acq now c =
      (case acq of AcquireFailed m \<Rightarrow> (c, Inl (Acquisition m)) | ReadFailed \<Rightarrow> (c, Inl Io)
       | Stream stream \<Rightarrow> if \<not> bytes_match sha desc (?bytes stream) then (c, Inl DigestMismatch)
         else case snd (evict_for io ?n c) of Inl e \<Rightarrow> (?c1, Inl e)
           | Inr _ \<Rightarrow> publish io desc (?bytes stream) now ?c1)"
    by (auto simp: store_acquired_def Let_def dc_bind_def split: acquisition.splits prod.splits sum.splits)
  show "protects c (fst (store_acquired sha io desc acq now c))"
    unfolding run using protects_refl [OF ok] ev(1) protects_trans [OF ev(1) pub(1)]
    by (auto split: acquisition.splits sum.splits)
  have "dc_wf (fst (publish io desc bytes now ?c1))" if fit: "fits ?n ?c1" for bytes
  proof (cases "publish io desc bytes now ?c1")
    case (Pair c2 out)
    show ?thesis
    proof (cases out)
      case (Inl e)
      then show ?thesis using keepwf [OF pub(1) [of bytes]] pub(2) [of bytes] Pair by simp
    next
      case (Inr p)
      note p = pub(3) [of bytes c2 p] Pair Inr
      have "usage_of (dc_rows c2) \<le> usage_of (dc_rows ?c1) + ?n"
        using p usage_append [OF ok1, of "stored_resource_of desc now"]
        by (simp add: stored_resource_of_def)
      also have "\<dots> \<le> dc_maximum_bytes ?c1" using fits_usage [OF fit] wf1 by (simp add: dc_wf_def)
      finally show ?thesis using pub(1) [of bytes] wf1 Pair by (simp add: dc_wf_def protects_def)
    qed
  qed
  then show "dc_wf (fst (store_acquired sha io desc acq now c))"
    unfolding run using wf wf1 ev(4) by (auto split: acquisition.splits sum.splits)
  show "store_acquired sha io desc acq now c = (c', Inr p) \<Longrightarrow> p = relative_path (nd_digest desc) \<and>
      (\<exists>bytes. dc_files c' p = Some bytes \<and> bytes_match sha desc bytes) \<and>
      (\<exists>r\<in>set (dc_rows c'). dr_digest r = nd_digest desc)"
    unfolding run using pub(3) row
    by (auto split: acquisition.splits sum.splits if_splits)
qed

lemma validate_descriptor_Inr:
  "validate_descriptor desc n = Inr u \<Longrightarrow>
    list_all is_lower_hex (nd_digest desc) \<and> length (nd_digest desc) = 64"
  by (auto simp: validate_descriptor_def split: if_splits)

lemma cached_verified_effect:
  assumes wf: "dc_wf c"
  shows "protects c (fst (cached_verified sha io desc now c))"
    "dc_wf (fst (cached_verified sha io desc now c))"
    "cached_verified sha io desc now c = (c', Inr None) \<Longrightarrow>
      \<forall>r\<in>set (dc_rows c'). dr_digest r \<noteq> nd_digest desc"
    "cached_verified sha io desc now c = (c', Inr (Some p)) \<Longrightarrow> p = relative_path (nd_digest desc) \<and>
      (\<exists>bytes. dc_files c' p = Some bytes \<and> bytes_match sha desc bytes) \<and>
      (\<exists>r\<in>set (dc_rows c'). dr_digest r = nd_digest desc)"
proof -
  have ok: "rows_ok (dc_rows c)" using wf by (simp add: dc_wf_def)
  let ?c' = "fst (cached_verified sha io desc now c)"
  have step: "protects c ?c' \<and> usage_of (dc_rows ?c') \<le> usage_of (dc_rows c)"
    by (cases rule: cached_verified_cases [OF ok, of sha io desc now])
       (use protects_refl [OF ok] touched_effect [OF ok] discarded_effect [OF ok] in simp_all)
  then show "protects c ?c'" "dc_wf ?c'" using wf by (auto simp: dc_wf_def protects_def)
  show "\<forall>r\<in>set (dc_rows c'). dr_digest r \<noteq> nd_digest desc"
    if "cached_verified sha io desc now c = (c', Inr None)"
    by (cases rule: cached_verified_cases [OF ok, of sha io desc now])
       (use that in \<open>auto simp: discarded_def remove_cached_file_def\<close>)
  show "p = relative_path (nd_digest desc) \<and>
      (\<exists>bytes. dc_files c' p = Some bytes \<and> bytes_match sha desc bytes) \<and>
      (\<exists>r\<in>set (dc_rows c'). dr_digest r = nd_digest desc)"
    if "cached_verified sha io desc now c = (c', Inr (Some p))"
    by (cases rule: cached_verified_cases [OF ok, of sha io desc now])
       (use that in \<open>auto simp: touched_digest(2)\<close>, metis touched_digest(1))
qed

lemma resolve_effect:
  assumes wf: "dc_wf c"
  shows "protects c (fst (resolve show_error sha io desc acq now c))"
    "dc_wf (fst (resolve show_error sha io desc acq now c))"
    "resolve show_error sha io desc acq now c = (c', Inr p) \<Longrightarrow> p = relative_path (nd_digest desc) \<and>
      (\<exists>bytes. dc_files c' p = Some bytes \<and> bytes_match sha desc bytes) \<and>
      (\<exists>r\<in>set (dc_rows c'). dr_digest r = nd_digest desc)"
proof -
  have same: "protects c c" using wf protects_refl by (simp add: dc_wf_def)
  have all: "protects c (fst (resolve show_error sha io desc acq now c)) \<and>
      dc_wf (fst (resolve show_error sha io desc acq now c)) \<and>
      (\<forall>c' p. resolve show_error sha io desc acq now c = (c', Inr p) \<longrightarrow>
        p = relative_path (nd_digest desc) \<and>
        (\<exists>bytes. dc_files c' p = Some bytes \<and> bytes_match sha desc bytes) \<and>
        (\<exists>r\<in>set (dc_rows c'). dr_digest r = nd_digest desc))"
  proof (cases "validate_descriptor desc (dc_maximum_resource_bytes c)")
    case (Inl e)
    then show ?thesis using wf same by (simp add: resolve_def)
  next
    case (Inr u)
    note hex = validate_descriptor_Inr [OF Inr]
    obtain c1 found where look: "cached_verified sha io desc now c = (c1, found)" by fastforce
    note cv = cached_verified_effect [OF wf, of sha io desc now, unfolded look]
    show ?thesis
    proof (cases "found = Inr None")
      case True
      note sa = store_acquired_effect [of c1 desc, OF _ _ hex [THEN conjunct1] hex [THEN conjunct2],
          where sha = sha and io = io and acq = acq and now = now]
      have wf1: "dc_wf c1" and new: "\<forall>r\<in>set (dc_rows c1). dr_digest r \<noteq> nd_digest desc"
        using cv True by auto
      show ?thesis
        using sa [OF wf1 new] protects_trans [OF _ sa(1) [OF wf1 new]] cv(1) True
        by (auto simp: resolve_def Inr dc_bind_def look split: prod.splits sum.splits)
    next
      case False
      then show ?thesis
        using cv by (auto simp: resolve_def Inr dc_bind_def look split: sum.splits option.splits)
    qed
  qed
  show "protects c (fst (resolve show_error sha io desc acq now c))"
    "dc_wf (fst (resolve show_error sha io desc acq now c))" using all by blast+
  show "resolve show_error sha io desc acq now c = (c', Inr p) \<Longrightarrow> p = relative_path (nd_digest desc) \<and>
      (\<exists>bytes. dc_files c' p = Some bytes \<and> bytes_match sha desc bytes) \<and>
      (\<exists>r\<in>set (dc_rows c'). dr_digest r = nd_digest desc)" using all by blast
qed

section \<open>The cache as a machine\<close>

lemma doc_update_ok:
  assumes "rows_ok rows" and "doc_update d guard f rows = Inr rows'"
    and "\<And>r. dr_digest (f r) = dr_digest r" "\<And>r. dr_byte_length (f r) = dr_byte_length r"
    "\<And>r. doc_row_checks r \<Longrightarrow> guard r \<Longrightarrow> doc_row_checks (f r)"
    "\<And>r. dr_relative_path (f r) = dr_relative_path r" "\<And>r. dr_evicting (f r) = dr_evicting r"
  shows "rows_ok rows' \<and> usage_of rows' = usage_of rows"
proof -
  let ?f = "\<lambda>r. if dr_digest r = d \<and> guard r then f r else r"
  have rows': "rows' = map ?f rows"
    using assms(2) by (auto simp: doc_update_def sql_update_def split: if_splits)
  have "rows_ok (map ?f rows)" by (rule rows_ok_map [OF assms(1)]) (use assms(3-) in auto)
  moreover have "map dr_byte_length (map ?f rows) = map dr_byte_length rows" using assms(4) by simp
  ultimately show ?thesis unfolding rows' usage_of_def by presburger
qed

lemma pins_wf:
  assumes wf: "dc_wf c"
  shows "dc_wf (fst (pin d c))" "dc_wf (fst (unpin d c))"
proof -
  have ok: "rows_ok (dc_rows c)" using wf by (simp add: dc_wf_def)
  have "rows_ok rows' \<and> usage_of rows' = usage_of (dc_rows c)"
    if "retain_document_resource d (dc_rows c) = Inr rows'" for rows'
    by (rule doc_update_ok [OF ok that [unfolded retain_document_resource_def]])
       (auto simp: doc_row_checks_def)
  moreover have "rows_ok rows' \<and> usage_of rows' = usage_of (dc_rows c)"
    if "release_document_resource d (dc_rows c) = Inr rows'" for rows'
    by (rule doc_update_ok [OF ok that [unfolded release_document_resource_def]])
       (auto simp: doc_row_checks_def)
  ultimately show "dc_wf (fst (pin d c))" "dc_wf (fst (unpin d c))"
    using wf by (auto simp: pin_def unpin_def dc_execute_def dc_wf_def split: sum.splits)
qed

text \<open>The rows that a previous process may have left.\<close>

definition table_ok :: "doc_row list \<Rightarrow> bool" where
  "table_ok rows \<longleftrightarrow> distinct (map dr_digest rows) \<and>
     (\<forall>r\<in>set rows. doc_row_checks r \<and> dr_relative_path r = relative_path (dr_digest r))"

lemma reset_rows_ok: "table_ok rows \<Longrightarrow> rows_ok (reset_document_resource_transient_state rows)"
  by (auto simp: table_ok_def rows_ok_def reset_document_resource_transient_state_def o_def
      doc_row_checks_def)

lemma reconcile_loop_drops:
  assumes "rows_ok (dc_rows c)" and "set qs \<subseteq> set (dc_rows c)" and "distinct (map dr_digest qs)"
    and "\<And>q. q \<in> set qs \<Longrightarrow> dr_reference_count q = 0"
  shows "\<exists>D. fst (reconcile_loop sha io (map resource_of qs) c) = dropped D c"
  using assms
proof (induction qs arbitrary: c)
  case Nil
  then show ?case by (auto intro!: exI [of _ "{}"])
next
  case (Cons q qs)
  let ?c1 = "dropped {dr_digest q} c"
  have q: "q \<in> set (dc_rows c)" "dr_reference_count q = 0" using Cons.prems by auto
  note one = evict_one_effect [OF Cons.prems(1) q, of io]
  have tl: "distinct (map dr_digest qs)" "\<And>q. q \<in> set qs \<Longrightarrow> dr_reference_count q = 0"
    "set qs \<subseteq> set (dc_rows c)" using Cons.prems by auto
  have sub: "set qs \<subseteq> set (dc_rows ?c1)"
    using Cons.prems(2,3) by (auto simp: dropped_def image_iff)
  obtain D1 where D1: "fst (reconcile_loop sha io (map resource_of qs) ?c1) = dropped D1 ?c1"
    using Cons.IH [OF rows_ok_dropped [OF Cons.prems(1)] sub tl(1,2)] by blast
  obtain D2 where D2: "fst (reconcile_loop sha io (map resource_of qs) c) = dropped D2 c"
    using Cons.IH [OF Cons.prems(1) tl(3) tl(1,2)] by blast
  have "fst (reconcile_loop sha io (map resource_of (q # qs)) c) \<in>
      {c, dropped D1 ?c1, dropped D2 c}"
    using D1 D2 by (auto simp: dc_bind_def verify_file_def one split: prod.splits sum.splits if_splits)
  then show ?case using dropped_dropped dropped_empty by (metis insertE singletonD)
qed

lemma open_cache_wf:
  assumes "open_cache sha io m n rows files = Inr c" and "table_ok rows" and "m < u64_max"
  shows "dc_wf c"
proof -
  let ?c0 = "\<lparr>dc_maximum_bytes = m, dc_maximum_resource_bytes = n,
    dc_rows = reset_document_resource_transient_state rows, dc_files = files\<rparr>"
  let ?qs = "lru_rows (dc_rows ?c0)"
  have ok: "rows_ok (dc_rows ?c0)" using reset_rows_ok [OF assms(2)] by simp
  have sub: "set ?qs \<subseteq> set (dc_rows ?c0)" "\<And>q. q \<in> set ?qs \<Longrightarrow> dr_reference_count q = 0"
    using lru_rows_facts(1) [OF ok] by auto
  obtain D where D: "fst (reconcile_loop sha io (map resource_of ?qs) ?c0) = dropped D ?c0"
    using reconcile_loop_drops [OF ok sub(1) lru_rows_facts(2) [OF ok] sub(2)] by blast
  have cand: "unreferenced_document_resources_lru (dc_rows ?c0) = Inr (map resource_of ?qs)"
    unfolding unreferenced_document_resources_lru_def lru_rows_def [symmetric]
    by (rule resources_of_rows [OF ok sub(1)])
  have "reconcile sha io ?c0 = (c, Inr ())"
    using assms(1) by (auto simp: open_cache_def split: if_splits prod.splits sum.splits)
  then have "evict_for io 0 (dropped D ?c0) = (c, Inr ())"
    using D cand by (auto simp: reconcile_def dc_bind_def dc_query_def split: prod.splits sum.splits)
  with evict_for_protects [where c = "dropped D ?c0" and io = io and n = 0, OF rows_ok_dropped [OF ok]]
    fits_usage [of 0 c] assms(3)
  show ?thesis by (simp add: dc_wf_def protects_def)
qed

definition cache_init :: "(string \<Rightarrow> string) \<Rightarrow> DocumentResourceCache \<Rightarrow> bool" where
  "cache_init sha c \<longleftrightarrow> (\<exists>io m n rows files. table_ok rows \<and> m < u64_max \<and>
     open_cache sha io m n rows files = Inr c)"

inductive cache_step ::
  "(ResourceCacheError \<Rightarrow> string) \<Rightarrow> (string \<Rightarrow> string) \<Rightarrow> DocumentResourceCache \<Rightarrow>
     DocumentResourceCache \<Rightarrow> bool" for show_error sha where
  resolving: "cache_step show_error sha c (fst (resolve show_error sha io desc acq now c))"
| looking_up: "cache_step show_error sha c (fst (resolve_existing sha io desc now c))"
| pinning: "cache_step show_error sha c (fst (pin d c))"
| unpinning: "cache_step show_error sha c (fst (unpin d c))"
| rendering: "cache_step show_error sha c
    (fst (resolve_document_images show_error sha io reread ok resources acquire now c))"

lemma resolve_existing_wf: "dc_wf c \<Longrightarrow> dc_wf (fst (resolve_existing sha io desc now c))"
  by (auto simp: resolve_existing_def cached_verified_effect(2) split: sum.splits)

lemma resolve_existing_max:
  "dc_wf c \<Longrightarrow> dc_maximum_bytes (fst (resolve_existing sha io desc now c)) = dc_maximum_bytes c"
  using cached_verified_effect(1) [of c sha io desc now]
  by (auto simp: resolve_existing_def protects_def split: sum.splits)

lemma resolve_images_wf:
  "dc_wf c \<Longrightarrow> dc_wf (fst (resolve_images show_error sha io reread acquire now resources resolved c)) \<and>
     dc_maximum_bytes (fst (resolve_images show_error sha io reread acquire now resources resolved c)) =
       dc_maximum_bytes c"
proof (induction resources arbitrary: resolved c)
  case (Cons q rest)
  obtain resource_id resource where q: "q = (resource_id, resource)" by (cases q)
  show ?case
  proof (cases "image_descriptor resource")
    case (Some desc)
    let ?run = "resolve show_error sha io desc (acquire resource_id) now c"
    have "dc_wf (fst ?run)" "dc_maximum_bytes (fst ?run) = dc_maximum_bytes c"
      using resolve_effect(1, 2) [OF Cons.prems] by (simp_all add: protects_def)
    with Cons.IH [of "fst ?run"] show ?thesis
      by (auto simp: q Some dc_bind_def read_image_def split: prod.splits sum.splits option.splits)
  qed (use Cons.prems q in simp)
qed simp

lemma resolve_document_images_wf:
  assumes "dc_wf c"
  shows "dc_wf (fst (resolve_document_images show_error sha io reread ok resources acquire now c))"
    "dc_maximum_bytes (fst (resolve_document_images show_error sha io reread ok resources acquire now c)) =
       dc_maximum_bytes c"
  using assms resolve_images_wf by (simp_all add: resolve_document_images_def)

lemma cache_step_wf: "cache_step show_error sha c c' \<Longrightarrow> dc_wf c \<Longrightarrow> dc_wf c'"
  by (induction rule: cache_step.induct)
     (simp_all add: resolve_effect(2) resolve_existing_wf pins_wf resolve_document_images_wf)

lemma cache_step_max:
  "cache_step show_error sha c c' \<Longrightarrow> dc_wf c \<Longrightarrow> dc_maximum_bytes c' = dc_maximum_bytes c"
proof (induction rule: cache_step.induct)
  case (resolving c io desc acq now)
  then show ?case using resolve_effect(1) by (simp add: protects_def)
qed (auto simp: resolve_existing_max resolve_document_images_wf pin_def unpin_def dc_execute_def
  split: sum.splits)

interpretation cache: machine "cache_init sha" "cache_step show_error sha" dc_wf
  "\<lambda>c c'. dc_maximum_bytes c' = dc_maximum_bytes c" for sha show_error
  by unfold_locales (auto simp: cache_init_def open_cache_wf cache_step_wf cache_step_max)

section \<open>Properties\<close>

definition no_io_errors :: doc_io where
  "no_io_errors = \<lparr>io_read_error = (\<lambda>_. False), io_remove_error = (\<lambda>_. False),
     io_write_error = (\<lambda>_. False), io_sync_error = (\<lambda>_. False)\<rparr>"

definition toy_sha :: "string \<Rightarrow> string" where
  "toy_sha b = replicate 64 (if b = ''logo'' then CHR ''a'' else CHR ''b'')"

definition toy_descriptor :: "string \<Rightarrow> NodeResourceDescriptor" where
  "toy_descriptor b = \<lparr>nd_digest = toy_sha b, nd_media_type = ''image/jpeg'', nd_byte_length = length b\<rparr>"

definition toy_cache :: DocumentResourceCache where
  "toy_cache = projr (open_cache toy_sha no_io_errors 6 6 [] (\<lambda>_. None))"

definition warm_cache :: DocumentResourceCache where
  "warm_cache = fst (resolve (\<lambda>_. []) toy_sha no_io_errors (toy_descriptor ''logo'') (Stream ''logo'') 1
     toy_cache)"

definition pinned_cache :: DocumentResourceCache where
  "pinned_cache = fst (pin (toy_sha ''logo'') warm_cache)"

definition full_cache :: DocumentResourceCache where
  "full_cache = fst (resolve (\<lambda>_. []) toy_sha no_io_errors (toy_descriptor ''ab'') (Stream ''ab'') 2
     warm_cache)"

lemma toy_cache_init: "cache_init toy_sha toy_cache"
proof -
  have "\<not> isl (open_cache toy_sha no_io_errors 6 6 [] (\<lambda>_. None))" by code_simp
  then have "open_cache toy_sha no_io_errors 6 6 [] (\<lambda>_. None) = Inr toy_cache"
    by (simp add: toy_cache_def)
  moreover have "table_ok []" "6 < u64_max" by (simp_all add: table_ok_def u64_max_def)
  ultimately show ?thesis unfolding cache_init_def by blast
qed

lemma toy_run:
  "rtranclp (cache_step (\<lambda>_. []) toy_sha) toy_cache warm_cache"
  "rtranclp (cache_step (\<lambda>_. []) toy_sha) toy_cache pinned_cache"
proof -
  have 1: "cache_step (\<lambda>_. []) toy_sha toy_cache warm_cache"
    unfolding warm_cache_def by (rule cache_step.resolving)
  moreover have 2: "cache_step (\<lambda>_. []) toy_sha warm_cache pinned_cache"
    unfolding pinned_cache_def by (rule cache_step.pinning)
  ultimately show "rtranclp (cache_step (\<lambda>_. []) toy_sha) toy_cache warm_cache"
    "rtranclp (cache_step (\<lambda>_. []) toy_sha) toy_cache pinned_cache" by auto
qed

lemma toy_wf: "dc_wf warm_cache" "dc_wf pinned_cache"
  using cache.reachable_run [OF cache.reachable_init [OF toy_cache_init]] toy_run
    cache.reachable_inv by blast+

lemma full_cache_wf: "dc_wf full_cache"
  unfolding full_cache_def by (rule resolve_effect(2) [OF toy_wf(1)])



text \<open>
  C18: A pinned resource survives every acquisition: whatever is resolved, with whatever result,
  its row keeps its pins and its file keeps its bytes.
\<close>

theorem pinned_resource_survives:
  assumes wf: "dc_wf c" and r: "r \<in> set (dc_rows c)" "0 < dr_reference_count r"
    and run: "resolve show_error sha io desc acq now c = (c', out)"
  shows "(\<exists>r'\<in>set (dc_rows c'). dr_digest r' = dr_digest r \<and>
      dr_reference_count r' = dr_reference_count r) \<and>
    dc_files c' (dr_relative_path r) = dc_files c (dr_relative_path r)"
proof -
  have "keeps_row c c' r"
    using resolve_effect(1) [OF wf, of show_error sha io desc acq now] r run
    by (simp add: protects_def)
  then show ?thesis
    using wf r(1) rows_okD(3) by (auto simp: keeps_row_def dc_wf_def)
qed

theorem pinned_resource_survives_witness:
  "\<exists>r c' out. dc_rows pinned_cache = [r] \<and> dr_reference_count r = 1 \<and>
     resolve (\<lambda>_. []) toy_sha no_io_errors (toy_descriptor ''text'') (Stream ''text'') 2 pinned_cache =
       (c', out) \<and> out = Inl (Acquisition []) \<and>
     (\<exists>r'\<in>set (dc_rows c'). dr_digest r' = dr_digest r \<and> dr_reference_count r' = dr_reference_count r)"
proof -
  let ?run = "resolve (\<lambda>_. []) toy_sha no_io_errors (toy_descriptor ''text'') (Stream ''text'') 2 pinned_cache"
  have "map dr_reference_count (dc_rows pinned_cache) = [1]" by code_simp
  then obtain r where r: "dc_rows pinned_cache = [r]" "dr_reference_count r = 1"
    by (cases "dc_rows pinned_cache") auto
  have "snd ?run = Inl (Acquisition [])" by code_simp
  then obtain c' where run: "?run = (c', Inl (Acquisition []))" by (metis prod.collapse)
  show ?thesis
    using pinned_resource_survives [OF toy_wf(2) _ _ run, of r] r run by auto
qed

text \<open>
  C28: The cache never returns unverified bytes: a path that \<open>resolve\<close> returns names a file whose
  length and SHA-256 digest are those of the descriptor.
\<close>

theorem resolved_bytes_are_verified:
  assumes "dc_wf c" and "resolve show_error sha io desc acq now c = (c', Inr p)"
  shows "\<exists>bytes. dc_files c' p = Some bytes \<and> length bytes = nd_byte_length desc \<and>
    sha bytes = nd_digest desc"
proof -
  have "\<not> isl (validate_descriptor desc (dc_maximum_resource_bytes c))"
    using assms(2) by (auto simp: resolve_def split: sum.splits)
  then have "to_ascii_lowercase (nd_digest desc) = nd_digest desc"
    using validate_descriptor_Inr lower_hex_lowercase by (metis sum.collapse(2))
  then show ?thesis using resolve_effect(3) [OF assms] by (auto simp: bytes_match_def)
qed

theorem resolved_bytes_are_verified_witness:
  "\<exists>c' p bytes. resolve (\<lambda>_. []) toy_sha no_io_errors (toy_descriptor ''logo'') ReadFailed 2 warm_cache =
     (c', Inr p) \<and> dc_files c' p = Some bytes \<and> length bytes = 4 \<and> toy_sha bytes = toy_sha ''logo''"
proof -
  let ?run = "resolve (\<lambda>_. []) toy_sha no_io_errors (toy_descriptor ''logo'') ReadFailed 2 warm_cache"
  have "\<not> isl (snd ?run)" by code_simp
  from ran_ok [OF this] obtain c' p where run: "?run = (c', Inr p)" by blast
  from resolved_bytes_are_verified [OF toy_wf(1) run] run show ?thesis
    by (auto simp: toy_descriptor_def)
qed



end
