(* ===== verification/Single_Flight.thy ===== *)
theory Single_Flight
  imports Transition
begin

text \<open>
  The protocol between threads that resolve the same digest (\<open>DocumentResourceCache::resolve\<close>):
  a thread that misses the cache either becomes the leader of a flight, which acquires and stores
  the resource, or waits for the result of the flight that is under way. One step is one section
  of code under a lock; a thread makes one call.
\<close>

section \<open>The protocol\<close>

datatype flight_thread =
    Calling
  | Missed
  | Leading
  | Published bool
  | Waiting nat
  | Returned bool

record flight_state =
  fl_cached :: bool
  fl_flight :: "nat option"
  fl_results :: "nat \<Rightarrow> bool option"
  fl_threads :: "nat \<Rightarrow> flight_thread"
  fl_acquisitions :: nat

definition flight_init :: "flight_state \<Rightarrow> bool" where
  "flight_init s \<longleftrightarrow> \<not> fl_cached s \<and> fl_flight s = None \<and> fl_results s = (\<lambda>_. None) \<and>
     fl_threads s = (\<lambda>_. Calling) \<and> fl_acquisitions s = 0"

definition set_thread :: "nat \<Rightarrow> flight_thread \<Rightarrow> flight_state \<Rightarrow> flight_state" where
  "set_thread t th s = s\<lparr>fl_threads := (fl_threads s)(t := th)\<rparr>"

inductive flight_step :: "flight_state \<Rightarrow> flight_state \<Rightarrow> bool" where
  hit: "fl_threads s t = Calling \<Longrightarrow> fl_cached s \<Longrightarrow> flight_step s (set_thread t (Returned True) s)"
| miss: "fl_threads s t = Calling \<Longrightarrow> \<not> fl_cached s \<Longrightarrow> flight_step s (set_thread t Missed s)"
| lead: "fl_threads s t = Missed \<Longrightarrow> fl_flight s = None \<Longrightarrow>
    flight_step s (set_thread t Leading (s\<lparr>fl_flight := Some t\<rparr>))"
| join: "fl_threads s t = Missed \<Longrightarrow> fl_flight s = Some f \<Longrightarrow>
    flight_step s (set_thread t (Waiting f) s)"
| acquire: "fl_threads s t = Leading \<Longrightarrow>
    flight_step s (set_thread t (Published ok) (s\<lparr>fl_cached := (fl_cached s \<or> ok),
      fl_results := (fl_results s)(t \<mapsto> ok), fl_acquisitions := Suc (fl_acquisitions s)\<rparr>))"
| remove: "fl_threads s t = Published ok \<Longrightarrow>
    flight_step s (set_thread t (Returned ok) (s\<lparr>fl_flight := None\<rparr>))"
| wake: "fl_threads s t = Waiting f \<Longrightarrow> fl_results s f = Some ok \<Longrightarrow>
    flight_step s (set_thread t (Returned ok) s)"

inductive_cases flight_stepE [elim!]: "flight_step s s'"

section \<open>The invariant\<close>

definition flying :: "flight_thread \<Rightarrow> bool" where
  "flying th \<longleftrightarrow> (case th of Leading \<Rightarrow> True | Published _ \<Rightarrow> True | _ \<Rightarrow> False)"

definition flight_inv :: "flight_state \<Rightarrow> bool" where
  "flight_inv s \<longleftrightarrow>
     (\<forall>t. flying (fl_threads s t) \<longleftrightarrow> fl_flight s = Some t) \<and>
     (\<forall>t f. fl_threads s t = Waiting f \<longrightarrow> fl_threads s f = Leading \<or> fl_results s f \<noteq> None) \<and>
     (\<forall>t ok. fl_threads s t = Published ok \<longrightarrow> fl_results s t = Some ok)"

definition results_kept :: "flight_state \<Rightarrow> flight_state \<Rightarrow> bool" where
  "results_kept s s' \<longleftrightarrow> (fl_cached s \<longrightarrow> fl_cached s') \<and> fl_acquisitions s \<le> fl_acquisitions s'"

lemma flight_invD:
  assumes "flight_inv s"
  shows "flying (fl_threads s t) \<longleftrightarrow> fl_flight s = Some t"
    "fl_threads s t = Waiting f \<Longrightarrow> fl_threads s f = Leading \<or> fl_results s f \<noteq> None"
    "fl_threads s t = Published ok \<Longrightarrow> fl_results s t = Some ok"
  using assms unfolding flight_inv_def by blast+

text \<open>A thread that neither starts nor ends a flight.\<close>

lemma flight_inv_thread:
  assumes inv: "flight_inv s" and old: "\<not> flying (fl_threads s t)" and new: "\<not> flying th"
    and wait: "\<And>f. th = Waiting f \<Longrightarrow> fl_threads s f = Leading \<or> fl_results s f \<noteq> None"
  shows "flight_inv (set_thread t th s)"
proof -
  have lead: "fl_threads s t \<noteq> Leading" using old by (auto simp: flying_def)
  have "flying (((fl_threads s)(t := th)) u) \<longleftrightarrow> fl_flight s = Some u" for u
    using old new flight_invD(1) [OF inv] by (cases "u = t") auto
  moreover have "((fl_threads s)(t := th)) f = Leading \<or> fl_results s f \<noteq> None"
    if "((fl_threads s)(t := th)) u = Waiting f" for u f
    using that wait flight_invD(2) [OF inv, of u f] lead new
    by (cases "u = t"; cases "f = t") (auto simp: flying_def)
  moreover have "fl_results s u = Some ok" if "((fl_threads s)(t := th)) u = Published ok" for u ok
    using that new flight_invD(3) [OF inv] by (cases "u = t") (auto simp: flying_def)
  ultimately show ?thesis by (simp add: flight_inv_def set_thread_def)
qed

lemma flight_inv_lead:
  assumes inv: "flight_inv s" and "fl_threads s t = Missed" "fl_flight s = None"
  shows "flight_inv (set_thread t Leading (s\<lparr>fl_flight := Some t\<rparr>))"
  using assms flight_invD [OF inv] by (auto simp: flight_inv_def set_thread_def flying_def)

lemma flight_inv_acquire:
  assumes inv: "flight_inv s" and t: "fl_threads s t = Leading"
  shows "flight_inv (set_thread t (Published ok) (s\<lparr>fl_cached := c, fl_results := (fl_results s)(t \<mapsto> ok),
    fl_acquisitions := n\<rparr>))"
proof -
  have "flying (fl_threads s t)" using t by (simp add: flying_def)
  then have "flying (((fl_threads s)(t := Published ok)) u) \<longleftrightarrow> fl_flight s = Some u" for u
    using flight_invD(1) [OF inv] by (cases "u = t") (auto simp: flying_def)
  then show ?thesis
    using flight_invD(2,3) [OF inv] by (auto simp: flight_inv_def set_thread_def)
qed

lemma flight_inv_remove:
  assumes inv: "flight_inv s" and t: "fl_threads s t = Published ok"
  shows "flight_inv (set_thread t (Returned ok) (s\<lparr>fl_flight := None\<rparr>))"
proof -
  have "flying (fl_threads s t)" using t by (simp add: flying_def)
  then have "\<not> flying (((fl_threads s)(t := Returned ok)) u)" for u
    using flight_invD(1) [OF inv] by (cases "u = t") (auto simp: flying_def)
  moreover have "((fl_threads s)(t := Returned ok)) f = Leading \<or> fl_results s f \<noteq> None"
    if "((fl_threads s)(t := Returned ok)) u = Waiting f" for u f
    using that t flight_invD(2) [OF inv, of u f] flight_invD(3) [OF inv t]
    by (cases "u = t"; cases "f = t") auto
  ultimately show ?thesis
    using flight_invD(3) [OF inv] by (auto simp: flight_inv_def set_thread_def)
qed

lemma flight_step_inv:
  assumes "flight_step s s'" and inv: "flight_inv s"
  shows "flight_inv s'"
  using assms(1)
proof (cases rule: flight_step.cases)
  case (join t f)
  have "flying (fl_threads s f)" using join flight_invD(1) [OF inv] by simp
  then have "fl_threads s f = Leading \<or> fl_results s f \<noteq> None"
    using flight_invD(3) [OF inv] by (auto simp: flying_def split: flight_thread.splits)
  with join show ?thesis by (auto intro!: flight_inv_thread [OF inv] simp: flying_def)
qed (auto simp: flying_def intro!: inv flight_inv_thread flight_inv_lead flight_inv_acquire
    flight_inv_remove)

interpretation flights: machine flight_init flight_step flight_inv results_kept
proof
  show "flight_init s \<Longrightarrow> flight_inv s" for s
    by (simp add: flight_init_def flight_inv_def flying_def)
  show "flight_step s s' \<Longrightarrow> flight_inv s \<Longrightarrow> flight_inv s'" for s s' by (rule flight_step_inv)
  show "flight_step s s' \<Longrightarrow> flight_inv s \<Longrightarrow> results_kept s s'" for s s'
    by (auto simp: results_kept_def set_thread_def)
qed (auto simp: results_kept_def)

section \<open>Properties\<close>

lemma one_leader:
  assumes "flight_inv s" and "flying (fl_threads s t)" "flying (fl_threads s u)"
  shows "t = u"
proof -
  have "fl_flight s = Some t" "fl_flight s = Some u"
    using assms unfolding flight_inv_def by blast+
  then show ?thesis by simp
qed

text \<open>
  C39: At most one thread acquires a digest at a time, and no thread waits in vain: the flight
  that a waiting thread joined has published its result or its leader is still acquiring.
\<close>

theorem single_flight_exclusive:
  assumes "flight_init s0" and "rtranclp flight_step s0 s"
  shows "(fl_threads s t = Leading \<and> fl_threads s u = Leading \<longrightarrow> t = u) \<and>
    (fl_threads s t = Waiting f \<longrightarrow> fl_threads s f = Leading \<or> fl_results s f \<noteq> None)"
proof -
  have inv: "flight_inv s" using flights.run_inv [OF assms(2) flights.init_inv [OF assms(1)]] .
  then have "fl_threads s t = Waiting f \<longrightarrow> fl_threads s f = Leading \<or> fl_results s f \<noteq> None"
    unfolding flight_inv_def by blast
  then show ?thesis using one_leader [OF inv, of t u] by (auto simp: flying_def)
qed

definition first_calls :: flight_state where
  "first_calls = \<lparr>fl_cached = False, fl_flight = None, fl_results = (\<lambda>_. None),
     fl_threads = (\<lambda>_. Calling), fl_acquisitions = 0\<rparr>"

definition joined :: flight_state where
  "joined = set_thread 1 (Waiting 0) (set_thread 0 Leading ((set_thread 1 Missed
     (set_thread 0 Missed first_calls))\<lparr>fl_flight := Some 0\<rparr>))"

lemma first_calls_init: "flight_init first_calls"
  by (simp add: flight_init_def first_calls_def)

lemma joined_run: "rtranclp flight_step first_calls joined"
proof -
  let ?s1 = "set_thread 0 Missed first_calls" and ?s2 = "set_thread 1 Missed (set_thread 0 Missed first_calls)"
  have "flight_step first_calls ?s1" "flight_step ?s1 ?s2"
    "flight_step ?s2 (set_thread 0 Leading (?s2\<lparr>fl_flight := Some 0\<rparr>))"
    "flight_step (set_thread 0 Leading (?s2\<lparr>fl_flight := Some 0\<rparr>)) joined"
    unfolding joined_def
    by (rule flight_step.miss flight_step.lead flight_step.join;
        simp add: first_calls_def set_thread_def)+
  then show ?thesis by (meson rtranclp.rtrancl_into_rtrancl rtranclp.rtrancl_refl)
qed

theorem single_flight_exclusive_witness:
  "fl_threads joined 1 = Waiting 0 \<and> fl_results joined 0 = None \<and> fl_threads joined 0 = Leading"
proof -
  have "fl_threads joined 1 = Waiting 0" "fl_results joined 0 = None"
    by (simp_all add: joined_def set_thread_def first_calls_def)
  then show ?thesis using single_flight_exclusive [OF first_calls_init joined_run, of 1 1 0] by blast
qed

text \<open>
  C40: Two concurrent callers of the same missing digest may both acquire it: a thread that
  missed the cache before the leader stored the resource, and that reaches the table of flights
  after the leader removed its flight, finds no flight and leads one of its own.
\<close>

theorem single_flight_may_repeat:
  "\<exists>s1 s2. rtranclp flight_step first_calls s1 \<and> fl_threads s1 0 = Leading \<and> fl_threads s1 1 = Missed \<and>
     rtranclp flight_step s1 s2 \<and> fl_acquisitions s2 = 2 \<and>
     fl_threads s2 0 = Returned True \<and> fl_threads s2 1 = Published True"
proof -
  let ?m = "set_thread 1 Missed (set_thread 0 Missed first_calls)"
  let ?s1 = "set_thread 0 Leading (?m\<lparr>fl_flight := Some 0\<rparr>)"
  define a where "a = set_thread 0 (Published True) (?s1\<lparr>fl_cached := (fl_cached ?s1 \<or> True),
    fl_results := (fl_results ?s1)(0 \<mapsto> True), fl_acquisitions := Suc (fl_acquisitions ?s1)\<rparr>)"
  define b where "b = set_thread 0 (Returned True) (a\<lparr>fl_flight := None\<rparr>)"
  define c where "c = set_thread 1 Leading (b\<lparr>fl_flight := Some 1\<rparr>)"
  define d where "d = set_thread 1 (Published True) (c\<lparr>fl_cached := (fl_cached c \<or> True),
    fl_results := (fl_results c)(1 \<mapsto> True), fl_acquisitions := Suc (fl_acquisitions c)\<rparr>)"
  note defs = a_def b_def c_def d_def first_calls_def set_thread_def
  have "flight_step first_calls (set_thread 0 Missed first_calls)"
    "flight_step (set_thread 0 Missed first_calls) ?m" "flight_step ?m ?s1"
    by (rule flight_step.miss flight_step.lead; simp add: first_calls_def set_thread_def)+
  then have 1: "rtranclp flight_step first_calls ?s1"
    by (meson rtranclp.rtrancl_into_rtrancl rtranclp.rtrancl_refl)
  have "flight_step ?s1 a" unfolding a_def by (rule flight_step.acquire) (simp add: set_thread_def)
  moreover have "flight_step a b" unfolding b_def
    by (rule flight_step.remove) (simp add: a_def set_thread_def)
  moreover have "flight_step b c" unfolding c_def by (rule flight_step.lead) (simp_all add: defs)
  moreover have "flight_step c d" unfolding d_def
    by (rule flight_step.acquire) (simp add: c_def set_thread_def)
  ultimately have 2: "rtranclp flight_step ?s1 d"
    by (meson rtranclp.rtrancl_into_rtrancl rtranclp.rtrancl_refl)
  show ?thesis by (rule exI [of _ ?s1], rule exI [of _ d]) (use 1 2 in \<open>simp add: defs\<close>)
qed

end
