(* ===== verification/Typed_Id.thy ===== *)
theory Typed_Id
  imports Prelude
begin

text \<open>
  Typed identifiers (\<open>src/crates/domain/src/id.rs\<close>): the macro \<open>typed_id!\<close>, for every prefix it
  is instantiated with. A ULID is an opaque value; how it is printed and parsed are parameters.
\<close>

datatype ParseTypedIdError = ParseTypedIdError string string

definition typed_id_prefixes :: "string list" where
  "typed_id_prefixes = [''wsp'', ''env'', ''agt'', ''ptr'', ''dev'', ''prf'', ''npb'', ''stk'',
     ''tgt'', ''bnd'', ''pcs'', ''job'', ''evt'']"

definition typed_id_display :: "('u \<Rightarrow> string) \<Rightarrow> string \<Rightarrow> 'u \<Rightarrow> string" where
  "typed_id_display show_ulid prefix u = prefix @ ''_'' @ show_ulid u"

definition typed_id_from_str ::
  "(string \<Rightarrow> 'u option) \<Rightarrow> string \<Rightarrow> string \<Rightarrow> ParseTypedIdError + 'u" where
  "typed_id_from_str parse_ulid prefix v =
     and_then
       (case strip_prefix v (prefix @ ''_'') of
          Some encoded \<Rightarrow> Inr encoded
        | None \<Rightarrow> if CHR ''_'' \<in> set v then Inl (ParseTypedIdError v prefix) else Inr v)
       (\<lambda>encoded. case parse_ulid encoded of
          Some u \<Rightarrow> Inr u
        | None \<Rightarrow> Inl (ParseTypedIdError v prefix))"

end
