(* ===== verification/Route_Document.thy ===== *)
theory Route_Document
  imports Ordered_Map Typed_Id Domain_Printer
begin

text \<open>
  The document of the route coordinator (\<open>src/crates/node-runtime/src/route_coordinator.rs\<close>): the
  printer routes of the installation, the unresolved reservations of native handoff, the journal
  of handoff evidence and the replay barriers of consumed cloud reservations.

  A \<open>Uuid\<close> is its sixteen bytes and a \<open>DateTime\<close> is a number of nanoseconds. \<open>route_ext\<close> holds
  what the coordinator calls outside the repository: SHA-256, the text of a UUID, the ULID
  parser, chrono's conversions and serde. The bytes of the journal file are a type parameter.
\<close>

section \<open>Data\<close>

definition DOCUMENT_VERSION :: nat where "DOCUMENT_VERSION = 1"
definition MAX_ROUTES :: nat where "MAX_ROUTES = 512"
definition MAX_HANDOFFS :: nat where "MAX_HANDOFFS = 512"
definition MAX_CONSUMED_AUTHORITATIVE_ROUTES :: nat where
  "MAX_CONSUMED_AUTHORITATIVE_ROUTES = 4096"
definition MAX_ACKNOWLEDGED_CONNECTORS :: nat where "MAX_ACKNOWLEDGED_CONNECTORS = 512"
definition MAX_TOPOLOGY_CHANGES :: nat where "MAX_TOPOLOGY_CHANGES = 512"
definition OBSERVATION_SEQUENCE_RESERVATION :: nat where "OBSERVATION_SEQUENCE_RESERVATION = 512"
definition RESERVATION_LIFETIME_MS :: int where "RESERVATION_LIFETIME_MS = 2 * 60 * 1000"

datatype NativeHandoffOutcome = Accepted | RejectedBeforeHandoff | Ambiguous

datatype AmbiguousHandoffResolution = ReleaseForRetry | ConfirmAccepted

datatype PhysicalIdentityEvidenceKind =
    IppPrinterUuid
  | DeviceSerial
  | UsbSerial
  | CertificateKey
  | NetworkMac
  | NetworkEndpoint
  | ManufacturerModel
  | CapabilityFingerprint
  | DriverFingerprintKind

datatype IdentityEvidenceStrength = Strong | Medium | Weak

datatype IdentityConfidence = Verified | High | Possible | Conflict | Unknown

datatype TopologyChange = Added | Changed | Removed | Reconciled

record PhysicalIdentityEvidence =
  ev_kind :: PhysicalIdentityEvidenceKind
  ev_value_sha256 :: string
  ev_strength :: IdentityEvidenceStrength

text \<open>What the coordinator reads of a discovered printer.\<close>

record DiscoveredPrinter =
  dp_native_id :: string
  dp_driver_fingerprint :: "DriverFingerprint option"
  dp_identity_evidence :: "PhysicalIdentityEvidence list"

record RouteTopologyChange =
  tc_local_route_key :: string
  tc_topology_revision :: nat
  tc_observed_at :: int
  tc_change :: TopologyChange

record PrinterRouteSnapshot =
  ps_local_route_key :: string
  ps_inventory_revision :: nat
  ps_topology_revision :: nat
  ps_observed_at :: int
  ps_identity_evidence :: "PhysicalIdentityEvidence list"
  ps_identity_confidence :: IdentityConfidence
  ps_topology_change :: "TopologyChange option"
  ps_profile_observed_at :: "int option"
  ps_stock_observed_at :: "int option"

record DurableRoute =
  rt_route_id :: string
  rt_coordination_key :: string
  rt_coordination_conflict :: bool
  rt_native_fingerprint :: string
  rt_generation :: nat
  rt_present :: bool
  rt_identity_evidence :: "PhysicalIdentityEvidence list"
  rt_identity_confidence :: IdentityConfidence

record DurableReservation =
  rv_server_route_id :: "string option"
  rv_local_route_key :: string
  rv_reservation_id :: string
  rv_connector_id :: string
  rv_job_id :: string
  rv_generation :: nat
  rv_fencing_token :: string
  rv_expires_unix_ms :: int

record DurableHandoff =
  ho_sequence :: nat
  ho_connector_id :: string
  ho_server_route_id :: "string option"
  ho_local_route_key :: string
  ho_job_id :: string
  ho_reservation_id :: string
  ho_fencing_generation :: nat
  ho_fencing_token :: string
  ho_observed_at :: int
  ho_outcome :: NativeHandoffOutcome
  ho_native_job_id :: "string option"

record ConsumedAuthoritativeRoute =
  cn_connector_id :: string
  cn_server_route_id :: string
  cn_local_route_key :: string
  cn_job_id :: string
  cn_generation :: nat
  cn_reservation_id :: string
  cn_fencing_token :: string
  cn_observed_at :: int
  cn_outcome :: NativeHandoffOutcome
  cn_native_job_id :: "string option"

record CoordinatorDocument =
  cd_version :: nat
  cd_installation_namespace :: string
  cd_topology_revision :: nat
  cd_handoff_sequence :: nat
  cd_observation_sequence :: nat
  cd_routes :: "(string, DurableRoute) btree"
  cd_reservations :: "(string, DurableReservation) btree"
  cd_consumed_authoritative_routes :: "(string, ConsumedAuthoritativeRoute) btree"
  cd_acknowledged_handoff_sequences :: "(string, nat) btree"
  cd_handoffs :: "DurableHandoff list"
  cd_topology_changes :: "RouteTopologyChange list"

record RouteReservation =
  fr_local_route_key :: string
  fr_server_route_id :: "string option"
  fr_coordination_key :: string
  fr_reservation_id :: string
  fr_generation :: nat
  fr_fencing_token :: string

record CloudRouteReservation =
  cl_route_id :: string
  cl_local_route_key :: string
  cl_reservation_id :: string
  cl_generation :: nat
  cl_fencing_token :: string
  cl_lease_expires_at :: int

record AuthoritativeRouteRegistration =
  ar_reservation :: RouteReservation
  ar_newly_registered :: bool

record AuthoritativeHandoffResolution =
  ah_outcome :: NativeHandoffOutcome
  ah_native_job_id :: "string option"
  ah_observed_at :: int

record LocalHandoffCommit =
  lc_job_id :: string
  lc_state :: string
  lc_native_job_id :: "string option"
  lc_ambiguity_confirmed :: bool

record LocalHandoffResolutionTarget =
  lt_ambiguity_id :: string
  lt_local_route_key :: string
  lt_reservation_id :: string
  lt_generation :: nat
  lt_outcome :: NativeHandoffOutcome

record LocalHandoffEvidence =
  le_sequence :: nat
  le_job_id :: string
  le_ambiguity_id :: string
  le_observed_at :: int
  le_outcome :: NativeHandoffOutcome
  le_native_job_id :: "string option"

record NativeHandoffEvidence =
  ne_sequence :: nat
  ne_route_id :: "string option"
  ne_local_route_key :: string
  ne_job_id :: nat
  ne_reservation_id :: string
  ne_fencing_generation :: nat
  ne_fencing_token :: string
  ne_observed_at :: int
  ne_outcome :: NativeHandoffOutcome
  ne_native_job_id :: "string option"

record 'b route_ext =
  sha256_hex :: "string \<Rightarrow> string"
  uuid_to_string :: "string \<Rightarrow> string"
  parse_ulid :: "string \<Rightarrow> nat option"
  timestamp_millis :: "int \<Rightarrow> int"
  from_timestamp_millis :: "int \<Rightarrow> int option"
  driver_to_vec :: "DriverFingerprint \<Rightarrow> string option"
  evidence_to_vec :: "PhysicalIdentityEvidence list \<Rightarrow> string option"
  document_to_vec :: "CoordinatorDocument \<Rightarrow> 'b option"
  document_to_vec_pretty :: "CoordinatorDocument \<Rightarrow> 'b option"
  document_from_slice :: "'b \<Rightarrow> CoordinatorDocument option"

text \<open>The errors: one value for each message of the sources.\<close>

datatype RouteError =
    FailStopped
  | CrossedNativeHandoff
  | ReservedByAnother
  | JournalFull
  | ConflictingReservations
  | InvalidCloudReservation
  | CrossedForAuthority
  | GenerationConsumed
  | GenerationStale
  | UnknownLocalRoute
  | UnresolvedReservation
  | BarrierJournalFull
  | NoLongerActive
  | StaleFencingToken
  | ReservationDisappeared
  | EvidenceMismatch
  | AcknowledgementJournalFull
  | CommitBatchTooLarge
  | ResolvedDifferently
  | NoActiveFence
  | NotAmbiguous
  | ConflictingOwners
  | SequenceExhausted
  | JournalWriteFailed
  | JournalNotCommitted
  | JournalOutcomeAmbiguous
  | HandoffNotDurable RouteError
  | JournalReadFailed
  | JournalParseFailed
  | UnsupportedVersion nat
  | ExceedsSupportedBounds
  | InvalidReplayBarrier

section \<open>Keys and evidence\<close>

text \<open>\<open>u64::to_be_bytes\<close>, and the length prefix of a digest input.\<close>

definition to_be_bytes :: "nat \<Rightarrow> string" where
  "to_be_bytes n = map (\<lambda>i. char_of (n div 256 ^ i mod 256)) [7, 6, 5, 4, 3, 2, 1, 0]"

definition length_prefixed :: "string \<Rightarrow> string" where
  "length_prefixed v = to_be_bytes (min u64_max (length v)) @ v"

definition route_id :: "'b route_ext \<Rightarrow> CoordinatorDocument \<Rightarrow> string \<Rightarrow> string" where
  "route_id x d native_id =
     ''rte_'' @ take 32 (sha256_hex x
       (''piqae-route-v1'' @ [CHR 0x00] @ cd_installation_namespace d @ native_id))"

definition local_ambiguity_id ::
  "'b route_ext \<Rightarrow> string \<Rightarrow> string \<Rightarrow> string \<Rightarrow> string \<Rightarrow> nat \<Rightarrow> string" where
  "local_ambiguity_id x connector_id job_id local_route_key reservation_id generation =
     ''amb_'' @ take 32 (sha256_hex x
       (''piqae-local-ambiguity-v1'' @ [CHR 0x00] @
        concat (map length_prefixed [connector_id, job_id, local_route_key]) @
        reservation_id @ to_be_bytes generation))"

definition authoritative_route_key ::
  "'b route_ext \<Rightarrow> string \<Rightarrow> string \<Rightarrow> string \<Rightarrow> string \<Rightarrow> string" where
  "authoritative_route_key x connector_id server_route_id local_route_key job_id =
     sha256_hex x (concat (map length_prefixed
       [connector_id, server_route_id, local_route_key, job_id]))"

definition trim_front :: "nat \<Rightarrow> 'a list \<Rightarrow> 'a list" where
  "trim_front limit xs = (if length xs > limit then drop (length xs - limit) xs else xs)"

text \<open>The discriminant \<open>kind as u8\<close>.\<close>

definition kind_as_u8 :: "PhysicalIdentityEvidenceKind \<Rightarrow> nat" where
  "kind_as_u8 k = (case k of
     IppPrinterUuid \<Rightarrow> 0 | DeviceSerial \<Rightarrow> 1 | UsbSerial \<Rightarrow> 2 | CertificateKey \<Rightarrow> 3
   | NetworkMac \<Rightarrow> 4 | NetworkEndpoint \<Rightarrow> 5 | ManufacturerModel \<Rightarrow> 6
   | CapabilityFingerprint \<Rightarrow> 7 | DriverFingerprintKind \<Rightarrow> 8)"

text \<open>\<open>Vec::dedup_by\<close>: a run of equal elements is reduced to its first.\<close>

fun dedup_by :: "('a \<Rightarrow> 'a \<Rightarrow> bool) \<Rightarrow> 'a list \<Rightarrow> 'a list" where
  "dedup_by eq (a # b # zs) =
     (if eq b a then dedup_by eq (a # zs) else a # dedup_by eq (b # zs))"
| "dedup_by eq zs = zs"

definition canonical_evidence ::
  "'b route_ext \<Rightarrow> DiscoveredPrinter \<Rightarrow> PhysicalIdentityEvidence list" where
  "canonical_evidence x printer =
     (let evidence = filter (\<lambda>item. length (ev_value_sha256 item) = 64 \<and>
            list_all is_ascii_hexdigit (ev_value_sha256 item)) (dp_identity_evidence printer);
          evidence = evidence @
            (case dp_driver_fingerprint printer of
               None \<Rightarrow> []
             | Some driver \<Rightarrow>
                 (case driver_to_vec x driver of
                    None \<Rightarrow> []
                  | Some encoded \<Rightarrow> [\<lparr>ev_kind = DriverFingerprintKind,
                      ev_value_sha256 = sha256_hex x encoded, ev_strength = Medium\<rparr>]));
          evidence = sort_key (\<lambda>item. (kind_as_u8 (ev_kind item), ev_value_sha256 item)) evidence;
          evidence = dedup_by (\<lambda>l r. ev_kind l = ev_kind r \<and>
            ev_value_sha256 l = ev_value_sha256 r) evidence
      in take 16 evidence)"

definition is_endpoint :: "PhysicalIdentityEvidence \<Rightarrow> bool" where
  "is_endpoint item = (ev_strength item = Medium \<and> ev_kind item = NetworkEndpoint)"

definition is_device_description :: "PhysicalIdentityEvidence \<Rightarrow> bool" where
  "is_device_description item =
     (ev_strength item = Medium \<and>
      (ev_kind item = ManufacturerModel \<or> ev_kind item = CapabilityFingerprint))"

definition identity_confidence :: "PhysicalIdentityEvidence list \<Rightarrow> IdentityConfidence" where
  "identity_confidence evidence =
     (let has_strong = list_ex (\<lambda>item. ev_strength item = Strong) evidence;
          has_endpoint = list_ex is_endpoint evidence;
          has_device_description = list_ex is_device_description evidence;
          has_medium = list_ex (\<lambda>item. ev_strength item = Medium) evidence
      in if has_strong \<or> has_endpoint \<and> has_device_description then High
         else if has_medium then Possible
         else Unknown)"

definition topology_fingerprint ::
  "'b route_ext \<Rightarrow> PhysicalIdentityEvidence list \<Rightarrow> string" where
  "topology_fingerprint x evidence =
     sha256_hex x (case evidence_to_vec x evidence of None \<Rightarrow> [] | Some bytes \<Rightarrow> bytes)"

definition physical_coordination_key ::
  "'b route_ext \<Rightarrow> string \<Rightarrow> PhysicalIdentityEvidence list \<Rightarrow> string" where
  "physical_coordination_key x local_route_key evidence =
     (let strong = dedup_by (=) (sort (map (\<lambda>item. (kind_as_u8 (ev_kind item), ev_value_sha256 item))
            (filter (\<lambda>item. ev_strength item = Strong) evidence)));
          endpoints = filter is_endpoint evidence;
          device_descriptions = filter is_device_description evidence
      in case strong of
           [identity] \<Rightarrow>
             ''pgrp_'' @ take 32 (sha256_hex x
               (''piqae-physical-coordination-v1'' @ [CHR 0x00] @ [char_of (fst identity)] @
                snd identity))
         | _ \<Rightarrow>
             (case endpoints of
                [endpoint] \<Rightarrow>
                  if device_descriptions \<noteq> [] then
                    ''pgrp_'' @ take 32 (sha256_hex x
                      (''piqae-physical-coordination-v1'' @ [CHR 0x00] @ ''medium'' @ [CHR 0x00] @
                       ev_value_sha256 endpoint @
                       concat (map (\<lambda>description. char_of (kind_as_u8 (ev_kind description)) #
                         ev_value_sha256 description) device_descriptions)))
                  else local_route_key
              | _ \<Rightarrow> local_route_key))"

end
