(* ===== verification/Route_Coordinator.thy ===== *)
theory Route_Coordinator
  imports Route_Document
begin

text \<open>
  The operations of the route coordinator (\<open>RouteCoordinator\<close> in
  \<open>src/crates/node-runtime/src/route_coordinator.rs\<close>).

  An operation on the document is a function of type \<open>'a doc_op\<close>: it returns the document as the
  code leaves it, also when it fails, and the result. The coordinator is its document, its
  observation counters, the \<open>poisoned\<close> flag and the bytes of the journal file. What happens to a
  write of the journal (\<open>durable_file::replace_json\<close>) is an argument of each operation, and so
  are the UUIDs it draws.
\<close>

type_synonym 'a doc_op = "CoordinatorDocument \<Rightarrow> CoordinatorDocument \<times> (RouteError + 'a)"

section \<open>Routes and exclusion domains\<close>

definition record_topology_change ::
  "string \<Rightarrow> TopologyChange \<Rightarrow> int \<Rightarrow> CoordinatorDocument \<Rightarrow> CoordinatorDocument" where
  "record_topology_change rid change observed_at d =
     d\<lparr>cd_topology_changes := trim_front MAX_TOPOLOGY_CHANGES (cd_topology_changes d @
        [\<lparr>tc_local_route_key = rid, tc_topology_revision = cd_topology_revision d,
          tc_observed_at = observed_at, tc_change = change\<rparr>])\<rparr>"

definition bump_topology :: "CoordinatorDocument \<Rightarrow> CoordinatorDocument" where
  "bump_topology d = d\<lparr>cd_topology_revision := saturating_add_u64 (cd_topology_revision d) 1\<rparr>"

definition route_requires_retention :: "CoordinatorDocument \<Rightarrow> DurableRoute \<Rightarrow> bool" where
  "route_requires_retention d route =
     (list_ex (\<lambda>reservation. rv_local_route_key reservation = rt_route_id route)
        (btree_values (cd_reservations d)) \<or>
      list_ex (\<lambda>handoff. ho_local_route_key handoff = rt_route_id route \<and>
        ho_outcome handoff = Ambiguous) (cd_handoffs d))"

definition prune_absent_routes :: "CoordinatorDocument \<Rightarrow> CoordinatorDocument" where
  "prune_absent_routes d =
     (let retained_route_ids = map rt_route_id
            (filter (\<lambda>route. \<not> rt_present route \<and> route_requires_retention d route)
              (btree_values (cd_routes d)))
      in d\<lparr>cd_routes := btree_retain
            (\<lambda>route. rt_present route \<or> rt_route_id route \<in> set retained_route_ids)
            (cd_routes d)\<rparr>)"

text \<open>
  \<open>occupied_by_desired\<close> of \<open>reconcile_coordination_keys\<close>, at one desired key: the occupied
  domains of the routes that desire it, and the domains of the reservations whose local route
  desires it.
\<close>

definition desired_key :: "'b route_ext \<Rightarrow> DurableRoute \<Rightarrow> string" where
  "desired_key x route = physical_coordination_key x (rt_route_id route) (rt_identity_evidence route)"

definition occupied_by_desired ::
  "'b route_ext \<Rightarrow> CoordinatorDocument \<Rightarrow> string \<Rightarrow> string list" where
  "occupied_by_desired x d desired =
     remdups
       (map rt_coordination_key
          (filter (\<lambda>route. contains_key (rt_coordination_key route) (cd_reservations d) \<and>
             desired_key x route = desired) (btree_values (cd_routes d))) @
        map fst
          (filter (\<lambda>(active_key, reservation).
             is_some_and (find_value (\<lambda>route. rt_route_id route = rv_local_route_key reservation)
               (cd_routes d)) (\<lambda>route. desired_key x route = desired)) (cd_reservations d)))"

definition regroup_route ::
  "'b route_ext \<Rightarrow> CoordinatorDocument \<Rightarrow> DurableRoute \<Rightarrow> DurableRoute" where
  "regroup_route x d route =
     (let desired = desired_key x route
      in case occupied_by_desired x d desired of
           [] \<Rightarrow> route\<lparr>rt_coordination_key := desired, rt_coordination_conflict := False\<rparr>
         | [active_key] \<Rightarrow>
             route\<lparr>rt_coordination_key := active_key, rt_coordination_conflict := False\<rparr>
         | _ \<Rightarrow>
             if contains_key (rt_coordination_key route) (cd_reservations d)
             then route\<lparr>rt_coordination_conflict := True\<rparr>
             else route\<lparr>rt_coordination_conflict := True, rt_coordination_key := desired\<rparr>)"

definition reconcile_coordination_keys ::
  "'b route_ext \<Rightarrow> CoordinatorDocument \<Rightarrow> CoordinatorDocument" where
  "reconcile_coordination_keys x d =
     d\<lparr>cd_routes := map (\<lambda>(native_id, route). (native_id, regroup_route x d route)) (cd_routes d)\<rparr>"

definition coordination_key :: "CoordinatorDocument \<Rightarrow> string \<Rightarrow> string option" where
  "coordination_key d native_id =
     (case map_of (cd_routes d) native_id of
        None \<Rightarrow> None
      | Some route \<Rightarrow> if rt_present route then Some (rt_coordination_key route) else None)"

text \<open>
  The loop of \<open>reconcile\<close> over the discovered printers: the document, the number of accepted
  unprotected routes, the present native ids and the snapshots.
\<close>

type_synonym reconcile_loop_state =
  "CoordinatorDocument \<times> nat \<times> string list \<times> (string, PrinterRouteSnapshot) btree"

definition topology_change_of ::
  "CoordinatorDocument \<Rightarrow> string \<Rightarrow> string \<Rightarrow> TopologyChange option" where
  "topology_change_of d native_id fingerprint =
     (case map_of (cd_routes d) native_id of
        None \<Rightarrow> Some Added
      | Some route \<Rightarrow>
          if \<not> rt_present route \<or> rt_native_fingerprint route \<noteq> fingerprint
          then Some Changed else None)"

definition observed_route ::
  "'b route_ext \<Rightarrow> CoordinatorDocument \<Rightarrow> DiscoveredPrinter \<Rightarrow> DurableRoute" where
  "observed_route x d printer =
     (let rid = route_id x d (dp_native_id printer);
          evidence = canonical_evidence x printer;
          previous = map_of (cd_routes d) (dp_native_id printer)
      in \<lparr>rt_route_id = rid,
          rt_coordination_key = (case previous of
             None \<Rightarrow> physical_coordination_key x rid evidence
           | Some route \<Rightarrow> rt_coordination_key route),
          rt_coordination_conflict = False,
          rt_native_fingerprint = topology_fingerprint x evidence,
          rt_generation = (case previous of None \<Rightarrow> 0 | Some route \<Rightarrow> rt_generation route),
          rt_present = True,
          rt_identity_evidence = evidence,
          rt_identity_confidence = identity_confidence evidence\<rparr>)"

definition observe_document ::
  "'b route_ext \<Rightarrow> int \<Rightarrow> DiscoveredPrinter \<Rightarrow> CoordinatorDocument \<Rightarrow> CoordinatorDocument" where
  "observe_document x observed_at printer d =
     (let route = observed_route x d printer;
          change = topology_change_of d (dp_native_id printer) (rt_native_fingerprint route);
          d = (if change \<noteq> None then bump_topology d else d);
          d = d\<lparr>cd_routes := btree_insert (dp_native_id printer) route (cd_routes d)\<rparr>
      in case change of
           None \<Rightarrow> d
         | Some change \<Rightarrow> record_topology_change (rt_route_id route) change observed_at d)"

definition observe_printer ::
  "'b route_ext \<Rightarrow> nat \<Rightarrow> int \<Rightarrow> string list \<Rightarrow> nat \<Rightarrow> DiscoveredPrinter \<Rightarrow>
     reconcile_loop_state \<Rightarrow> reconcile_loop_state" where
  "observe_printer x inventory_revision observed_at protected_ids available printer = (\<lambda>(d, accepted, present, snapshots).
     (let native_id = dp_native_id printer;
          unprotected = (native_id \<notin> set protected_ids)
      in if native_id \<in> set present then (d, accepted, present, snapshots)
         else if unprotected \<and> accepted \<ge> available then (d, accepted, present, snapshots)
         else
           (let route = observed_route x d printer;
                d' = observe_document x observed_at printer d
            in (d', if unprotected then accepted + 1 else accepted, native_id # present,
                btree_insert native_id
                  \<lparr>ps_local_route_key = rt_route_id route,
                   ps_inventory_revision = inventory_revision,
                   ps_topology_revision = cd_topology_revision d',
                   ps_observed_at = observed_at,
                   ps_identity_evidence = rt_identity_evidence route,
                   ps_identity_confidence = rt_identity_confidence route,
                   ps_topology_change =
                     topology_change_of d native_id (rt_native_fingerprint route),
                   ps_profile_observed_at = Some observed_at,
                   ps_stock_observed_at = None\<rparr> snapshots))))"

definition mark_absent :: "DurableRoute \<Rightarrow> DurableRoute" where
  "mark_absent route = route\<lparr>rt_present := False\<rparr>"

definition remove_route ::
  "int \<Rightarrow> string \<times> string \<Rightarrow> CoordinatorDocument \<Rightarrow> CoordinatorDocument" where
  "remove_route observed_at = (\<lambda>(native_id, rid) d.
     (let d = bump_topology d;
          d = (case map_of (cd_routes d) native_id of
                 None \<Rightarrow> d
               | Some route \<Rightarrow>
                   d\<lparr>cd_routes := btree_insert native_id (mark_absent route) (cd_routes d)\<rparr>)
      in record_topology_change rid Removed observed_at d))"

definition removed_routes :: "string list \<Rightarrow> CoordinatorDocument \<Rightarrow> (string \<times> string) list" where
  "removed_routes present d =
     map (\<lambda>(native_id, route). (native_id, rt_route_id route))
       (filter (\<lambda>(native_id, route). rt_present route \<and> native_id \<notin> set present) (cd_routes d))"

definition protected_native_ids :: "CoordinatorDocument \<Rightarrow> string list" where
  "protected_native_ids d = map fst (filter (\<lambda>(_, route). route_requires_retention d route) (cd_routes d))"

definition reconcile_document ::
  "'b route_ext \<Rightarrow> DiscoveredPrinter list \<Rightarrow> nat \<Rightarrow> int \<Rightarrow> CoordinatorDocument \<Rightarrow>
     CoordinatorDocument \<times> (string, PrinterRouteSnapshot) btree" where
  "reconcile_document x printers inventory_revision observed_at d0 =
     (let d = prune_absent_routes d0;
          protected_ids = protected_native_ids d;
          available = MAX_ROUTES - length protected_ids;
          (d, _, present, snapshots) =
            fold (observe_printer x inventory_revision observed_at protected_ids available)
              printers (d, 0, [], []);
          d = fold (remove_route observed_at) (removed_routes present d) d
      in (reconcile_coordination_keys x (prune_absent_routes d), snapshots))"

section \<open>Reservations\<close>

definition crossed :: "string \<Rightarrow> string \<Rightarrow> DurableHandoff \<Rightarrow> bool" where
  "crossed connector_id job_id handoff =
     (ho_connector_id handoff = connector_id \<and> ho_job_id handoff = job_id \<and>
      (ho_outcome handoff = Accepted \<or> ho_outcome handoff = Ambiguous))"

text \<open>\<open>values_mut().find(..)\<close> with an increment: the new generation and the routes.\<close>

fun bump_generation ::
  "string \<Rightarrow> (string, DurableRoute) btree \<Rightarrow> nat \<times> (string, DurableRoute) btree" where
  "bump_generation rid [] = (1, [])"
| "bump_generation rid ((native_id, route) # routes) =
     (if rt_route_id route = rid
      then let generation = saturating_add_u64 (rt_generation route) 1
           in (generation, (native_id, route\<lparr>rt_generation := generation\<rparr>) # routes)
      else let (generation, routes') = bump_generation rid routes
           in (generation, (native_id, route) # routes'))"

definition saturating_add_i64 :: "int \<Rightarrow> int \<Rightarrow> int" where
  "saturating_add_i64 a b = max (- int i64_max - 1) (min (int i64_max) (a + b))"

definition handle_of :: "string \<Rightarrow> string \<Rightarrow> DurableReservation \<Rightarrow> RouteReservation" where
  "handle_of local_route_key key reservation =
     \<lparr>fr_local_route_key = local_route_key,
      fr_server_route_id = rv_server_route_id reservation,
      fr_coordination_key = key,
      fr_reservation_id = rv_reservation_id reservation,
      fr_generation = rv_generation reservation,
      fr_fencing_token = rv_fencing_token reservation\<rparr>"

text \<open>The exclusion domain of a native queue: a queue that is not known is its own domain.\<close>

definition exclusion_domain :: "'b route_ext \<Rightarrow> CoordinatorDocument \<Rightarrow> string \<Rightarrow> string" where
  "exclusion_domain x d native_id =
     (case map_of (cd_routes d) native_id of
        None \<Rightarrow> route_id x d native_id
      | Some route \<Rightarrow> rt_coordination_key route)"

definition local_durable ::
  "'b route_ext \<Rightarrow> string \<times> string \<Rightarrow> string \<Rightarrow> string \<Rightarrow> string \<Rightarrow> nat \<Rightarrow> int \<Rightarrow> DurableReservation" where
  "local_durable x uuids connector_id rid job_id generation now_unix_ms =
     \<lparr>rv_server_route_id = None, rv_local_route_key = rid, rv_reservation_id = fst uuids,
      rv_connector_id = connector_id, rv_job_id = job_id, rv_generation = generation,
      rv_fencing_token = uuid_to_string x (snd uuids),
      rv_expires_unix_ms = saturating_add_i64 now_unix_ms RESERVATION_LIFETIME_MS\<rparr>"

definition reserve_inner ::
  "'b route_ext \<Rightarrow> string \<times> string \<Rightarrow> string \<Rightarrow> string \<Rightarrow> string \<Rightarrow> int \<Rightarrow>
     RouteReservation doc_op" where
  "reserve_inner x uuids connector_id native_id job_id now_unix_ms d =
     (let rid = route_id x d native_id;
          key = exclusion_domain x d native_id
      in if list_ex (crossed connector_id job_id) (rev (cd_handoffs d)) then (d, Inl CrossedNativeHandoff)
         else case map_of (cd_reservations d) key of
           Some existing \<Rightarrow>
             if rv_job_id existing = job_id \<and> rv_connector_id existing = connector_id
             then (d, Inr (handle_of rid key existing))
             else (d, Inl ReservedByAnother)
         | None \<Rightarrow>
             if length (cd_handoffs d) + length (cd_reservations d) \<ge> MAX_HANDOFFS
             then (d, Inl JournalFull)
             else if is_some_and (map_of (cd_routes d) native_id) rt_coordination_conflict
             then (d, Inl ConflictingReservations)
             else
               (let (generation, routes) = bump_generation rid (cd_routes d);
                    reservation = local_durable x uuids connector_id rid job_id generation now_unix_ms
                in (d\<lparr>cd_routes := routes,
                       cd_reservations := btree_insert key reservation (cd_reservations d)\<rparr>,
                    Inr (handle_of rid key reservation))))"

definition invalid_cloud_reservation ::
  "string \<Rightarrow> CloudRouteReservation \<Rightarrow> int \<Rightarrow> bool" where
  "invalid_cloud_reservation expected_route reservation now =
     (cl_local_route_key reservation \<noteq> expected_route \<or> cl_route_id reservation = [] \<or>
      cl_generation reservation = 0 \<or> cl_fencing_token reservation = [] \<or>
      length (cl_fencing_token reservation) > 512 \<or> cl_lease_expires_at reservation \<le> now)"

text \<open>The barrier keys of the active cloud reservations that are not consumed yet.\<close>

definition active_unconsumed :: "'b route_ext \<Rightarrow> CoordinatorDocument \<Rightarrow> string list" where
  "active_unconsumed x d =
     remdups (List.map_filter (\<lambda>active.
       case rv_server_route_id active of
         None \<Rightarrow> None
       | Some server_route_id \<Rightarrow>
           (let key = authoritative_route_key x (rv_connector_id active) server_route_id
                  (rv_local_route_key active) (rv_job_id active)
            in if contains_key key (cd_consumed_authoritative_routes d) then None else Some key))
       (btree_values (cd_reservations d)))"

definition same_cloud_fence ::
  "string \<Rightarrow> string \<Rightarrow> CloudRouteReservation \<Rightarrow> DurableReservation \<Rightarrow> bool" where
  "same_cloud_fence connector_id job_id reservation existing =
     (rv_connector_id existing = connector_id \<and> rv_job_id existing = job_id \<and>
      rv_reservation_id existing = cl_reservation_id reservation \<and>
      rv_generation existing = cl_generation reservation \<and>
      rv_fencing_token existing = cl_fencing_token reservation \<and>
      rv_server_route_id existing = Some (cl_route_id reservation))"

definition crossed_for_authority :: "string \<Rightarrow> string \<Rightarrow> ConsumedAuthoritativeRoute \<Rightarrow> bool" where
  "crossed_for_authority connector_id job_id consumed =
     (cn_connector_id consumed = connector_id \<and> cn_job_id consumed = job_id \<and>
      cn_outcome consumed = Accepted)"

text \<open>The checks against the replay barriers and the handoff journal.\<close>

definition check_replay ::
  "'b route_ext \<Rightarrow> string \<Rightarrow> string \<Rightarrow> CloudRouteReservation \<Rightarrow> CoordinatorDocument \<Rightarrow>
     RouteError + unit" where
  "check_replay x connector_id job_id reservation d =
     (let consumed_key = authoritative_route_key x connector_id (cl_route_id reservation)
            (cl_local_route_key reservation) job_id;
          generations = map ho_fencing_generation (filter (\<lambda>handoff.
            ho_connector_id handoff = connector_id \<and> ho_job_id handoff = job_id) (cd_handoffs d))
      in if list_ex (crossed_for_authority connector_id job_id)
            (btree_values (cd_consumed_authoritative_routes d)) then Inl CrossedForAuthority
         else if is_some_and (map_of (cd_consumed_authoritative_routes d) consumed_key)
            (\<lambda>consumed. cn_outcome consumed = Accepted \<or>
               cl_generation reservation \<le> cn_generation consumed) then Inl GenerationConsumed
         else if list_ex (crossed connector_id job_id) (cd_handoffs d)
           then Inl CrossedNativeHandoff
         else if generations \<noteq> [] \<and> cl_generation reservation \<le> Max (set generations)
           then Inl GenerationStale
         else Inr ())"

definition barrier_has_room ::
  "'b route_ext \<Rightarrow> string \<Rightarrow> CoordinatorDocument \<Rightarrow> bool" where
  "barrier_has_room x consumed_key d =
     (contains_key consumed_key (cd_consumed_authoritative_routes d) \<or>
      consumed_key \<in> set (active_unconsumed x d) \<or>
      length (cd_consumed_authoritative_routes d) + length (active_unconsumed x d)
        < MAX_CONSUMED_AUTHORITATIVE_ROUTES)"

definition cloud_durable ::
  "'b route_ext \<Rightarrow> string \<Rightarrow> string \<Rightarrow> string \<Rightarrow> CloudRouteReservation \<Rightarrow> DurableReservation" where
  "cloud_durable x connector_id expected_route job_id reservation =
     \<lparr>rv_server_route_id = Some (cl_route_id reservation), rv_local_route_key = expected_route,
      rv_reservation_id = cl_reservation_id reservation, rv_connector_id = connector_id,
      rv_job_id = job_id, rv_generation = cl_generation reservation,
      rv_fencing_token = cl_fencing_token reservation,
      rv_expires_unix_ms = timestamp_millis x (cl_lease_expires_at reservation)\<rparr>"

definition register_authoritative_inner ::
  "'b route_ext \<Rightarrow> string \<Rightarrow> string \<Rightarrow> string \<Rightarrow> CloudRouteReservation \<Rightarrow> int \<Rightarrow>
     AuthoritativeRouteRegistration doc_op" where
  "register_authoritative_inner x connector_id native_id job_id reservation now d =
     (let expected_route = route_id x d native_id;
          consumed_key = authoritative_route_key x connector_id (cl_route_id reservation)
            (cl_local_route_key reservation) job_id
      in if invalid_cloud_reservation expected_route reservation now
         then (d, Inl InvalidCloudReservation)
         else case check_replay x connector_id job_id reservation d of
           Inl e \<Rightarrow> (d, Inl e)
         | Inr _ \<Rightarrow>
         (case find_value (\<lambda>route. rt_route_id route = expected_route) (cd_routes d) of
           None \<Rightarrow> (d, Inl UnknownLocalRoute)
         | Some route \<Rightarrow>
         (case map_of (cd_reservations d) (rt_coordination_key route) of
           Some existing \<Rightarrow>
             if same_cloud_fence connector_id job_id reservation existing
             then (d, Inr \<lparr>ar_reservation =
                     handle_of expected_route (rt_coordination_key route) existing,
                   ar_newly_registered = False\<rparr>)
             else (d, Inl UnresolvedReservation)
         | None \<Rightarrow>
             if rt_coordination_conflict route then (d, Inl ConflictingReservations)
             else if \<not> barrier_has_room x consumed_key d then (d, Inl BarrierJournalFull)
             else
               (let durable = cloud_durable x connector_id expected_route job_id reservation
                in (d\<lparr>cd_reservations :=
                       btree_insert (rt_coordination_key route) durable (cd_reservations d)\<rparr>,
                    Inr \<lparr>ar_reservation =
                       handle_of expected_route (rt_coordination_key route) durable,
                     ar_newly_registered = True\<rparr>)))))"

definition reservations_for ::
  "(DurableReservation \<Rightarrow> bool) \<Rightarrow> string \<Rightarrow> CoordinatorDocument \<Rightarrow> (string \<times> RouteReservation) list" where
  "reservations_for kind connector_id d =
     map (\<lambda>(key, reservation).
        (rv_job_id reservation, handle_of (rv_local_route_key reservation) key reservation))
       (filter (\<lambda>(key, reservation).
          rv_connector_id reservation = connector_id \<and> kind reservation) (cd_reservations d))"

definition authoritative_reservations_for_connector ::
  "string \<Rightarrow> CoordinatorDocument \<Rightarrow> (string \<times> RouteReservation) list" where
  "authoritative_reservations_for_connector =
     reservations_for (\<lambda>reservation. rv_server_route_id reservation \<noteq> None)"

definition local_reservations_for_connector ::
  "string \<Rightarrow> CoordinatorDocument \<Rightarrow> (string \<times> RouteReservation) list" where
  "local_reservations_for_connector =
     reservations_for (\<lambda>reservation. rv_server_route_id reservation = None)"

definition authoritative_owner_for_job ::
  "string \<Rightarrow> CoordinatorDocument \<Rightarrow> RouteError + string option" where
  "authoritative_owner_for_job job_id d =
     (let owners = remdups (map rv_connector_id (filter (\<lambda>reservation.
            rv_job_id reservation = job_id \<and> rv_server_route_id reservation \<noteq> None)
            (btree_values (cd_reservations d))))
      in case owners of
           [] \<Rightarrow> Inr None
         | [owner] \<Rightarrow> Inr (Some owner)
         | _ \<Rightarrow> Inl ConflictingOwners)"

definition cloud_proof_for_job ::
  "'b route_ext \<Rightarrow> string \<Rightarrow> string \<Rightarrow> CoordinatorDocument \<Rightarrow> CloudRouteReservation option" where
  "cloud_proof_for_job x connector_id job_id d =
     Option.bind (find_value (\<lambda>reservation. rv_connector_id reservation = connector_id \<and>
       rv_job_id reservation = job_id) (cd_reservations d)) (\<lambda>reservation.
     Option.bind (rv_server_route_id reservation) (\<lambda>server_route_id.
     Option.bind (from_timestamp_millis x (rv_expires_unix_ms reservation)) (\<lambda>expires.
     Some \<lparr>cl_route_id = server_route_id, cl_local_route_key = rv_local_route_key reservation,
       cl_reservation_id = rv_reservation_id reservation, cl_generation = rv_generation reservation,
       cl_fencing_token = rv_fencing_token reservation, cl_lease_expires_at = expires\<rparr>)))"

definition matches_cloud_proof ::
  "'b route_ext \<Rightarrow> RouteReservation \<Rightarrow> string \<Rightarrow> nat \<Rightarrow> string \<Rightarrow> bool" where
  "matches_cloud_proof x handle reservation_id generation fencing_token =
     (fr_server_route_id handle \<noteq> None \<and>
      uuid_to_string x (fr_reservation_id handle) = reservation_id \<and>
      fr_generation handle = generation \<and> fr_fencing_token handle = fencing_token)"

section \<open>Handoffs\<close>

definition validate_fence :: "RouteReservation \<Rightarrow> CoordinatorDocument \<Rightarrow> RouteError + unit" where
  "validate_fence handle d =
     (case map_of (cd_reservations d) (fr_coordination_key handle) of
        None \<Rightarrow> Inl NoLongerActive
      | Some current \<Rightarrow>
          if rv_reservation_id current \<noteq> fr_reservation_id handle \<or>
             rv_generation current \<noteq> fr_generation handle \<or>
             rv_fencing_token current \<noteq> fr_fencing_token handle \<or>
             rv_server_route_id current \<noteq> fr_server_route_id handle
          then Inl StaleFencingToken else Inr ())"

definition consumed_of ::
  "DurableReservation \<Rightarrow> string \<Rightarrow> NativeHandoffOutcome \<Rightarrow> string option \<Rightarrow> int \<Rightarrow>
     ConsumedAuthoritativeRoute" where
  "consumed_of reservation server_route_id outcome native_job_id observed_at =
     \<lparr>cn_connector_id = rv_connector_id reservation, cn_server_route_id = server_route_id,
      cn_local_route_key = rv_local_route_key reservation, cn_job_id = rv_job_id reservation,
      cn_generation = rv_generation reservation, cn_reservation_id = rv_reservation_id reservation,
      cn_fencing_token = rv_fencing_token reservation, cn_observed_at = observed_at,
      cn_outcome = outcome, cn_native_job_id = native_job_id\<rparr>"

definition record_consumed_authoritative_route ::
  "'b route_ext \<Rightarrow> DurableReservation \<Rightarrow> NativeHandoffOutcome \<Rightarrow> string option \<Rightarrow> int \<Rightarrow>
     unit doc_op" where
  "record_consumed_authoritative_route x reservation outcome native_job_id observed_at d =
     (case rv_server_route_id reservation of
        None \<Rightarrow> (d, Inr ())
      | Some server_route_id \<Rightarrow>
          (let key = authoritative_route_key x (rv_connector_id reservation) server_route_id
                 (rv_local_route_key reservation) (rv_job_id reservation);
               consumed = consumed_of reservation server_route_id outcome native_job_id observed_at;
               barriers = cd_consumed_authoritative_routes d
           in if \<not> contains_key key barriers \<and>
                 length barriers \<ge> MAX_CONSUMED_AUTHORITATIVE_ROUTES
              then (d, Inl BarrierJournalFull)
              else if is_some_and (map_of barriers key)
                 (\<lambda>existing. cn_generation existing \<ge> cn_generation consumed)
              then (d, Inr ())
              else (d\<lparr>cd_consumed_authoritative_routes := btree_insert key consumed barriers\<rparr>,
                    Inr ())))"

definition handoff_of ::
  "nat \<Rightarrow> string \<Rightarrow> string \<Rightarrow> RouteReservation \<Rightarrow> string \<Rightarrow> NativeHandoffOutcome \<Rightarrow> string option \<Rightarrow>
     int \<Rightarrow> DurableHandoff" where
  "handoff_of sequence connector_id job_id handle fencing_token outcome native_job_id observed_at =
     \<lparr>ho_sequence = sequence, ho_connector_id = connector_id,
      ho_server_route_id = fr_server_route_id handle,
      ho_local_route_key = fr_local_route_key handle, ho_job_id = job_id,
      ho_reservation_id = fr_reservation_id handle, ho_fencing_generation = fr_generation handle,
      ho_fencing_token = fencing_token, ho_observed_at = observed_at, ho_outcome = outcome,
      ho_native_job_id = native_job_id\<rparr>"

definition push_handoff ::
  "string \<Rightarrow> string \<Rightarrow> RouteReservation \<Rightarrow> string \<Rightarrow> NativeHandoffOutcome \<Rightarrow> string option \<Rightarrow> int \<Rightarrow>
     CoordinatorDocument \<Rightarrow> CoordinatorDocument" where
  "push_handoff connector_id job_id handle fencing_token outcome native_job_id observed_at d =
     (let sequence = saturating_add_u64 (cd_handoff_sequence d) 1
      in d\<lparr>cd_handoff_sequence := sequence,
           cd_handoffs := cd_handoffs d @ [handoff_of sequence connector_id job_id handle
             fencing_token outcome native_job_id observed_at]\<rparr>)"

definition finish_inner ::
  "'b route_ext \<Rightarrow> string \<Rightarrow> string \<Rightarrow> RouteReservation \<Rightarrow> NativeHandoffOutcome \<Rightarrow>
     string option \<Rightarrow> int \<Rightarrow> unit doc_op" where
  "finish_inner x connector_id job_id handle outcome native_job_id observed_at d =
     (case validate_fence handle d of
        Inl e \<Rightarrow> (d, Inl e)
      | Inr _ \<Rightarrow>
     (case map_of (cd_reservations d) (fr_coordination_key handle) of
        None \<Rightarrow> (d, Inl ReservationDisappeared)
      | Some active \<Rightarrow>
          if rv_connector_id active \<noteq> connector_id \<or> rv_job_id active \<noteq> job_id
          then (d, Inl EvidenceMismatch)
          else
            (let d = push_handoff connector_id job_id handle (rv_fencing_token active) outcome
                   native_job_id observed_at d
             in if outcome = Ambiguous then (d, Inr ())
                else case record_consumed_authoritative_route x active outcome native_job_id
                       observed_at d of
                  (d, Inl e) \<Rightarrow> (d, Inl e)
                | (d, Inr _) \<Rightarrow>
                    (d\<lparr>cd_reservations :=
                       btree_remove (fr_coordination_key handle) (cd_reservations d)\<rparr>, Inr ()))))"

definition has_handoff_for_reservation ::
  "string \<Rightarrow> string \<Rightarrow> RouteReservation \<Rightarrow> CoordinatorDocument \<Rightarrow> bool" where
  "has_handoff_for_reservation connector_id job_id handle d =
     list_ex (\<lambda>handoff. ho_connector_id handoff = connector_id \<and> ho_job_id handoff = job_id \<and>
       ho_reservation_id handoff = fr_reservation_id handle \<and>
       ho_fencing_generation handoff = fr_generation handle \<and>
       ho_local_route_key handoff = fr_local_route_key handle) (cd_handoffs d)"

definition local_handoff_resolution_target ::
  "'b route_ext \<Rightarrow> string \<Rightarrow> string \<Rightarrow> CoordinatorDocument \<Rightarrow> LocalHandoffResolutionTarget option" where
  "local_handoff_resolution_target x connector_id job_id d =
     map_option (\<lambda>handoff.
       \<lparr>lt_ambiguity_id = local_ambiguity_id x (ho_connector_id handoff) (ho_job_id handoff)
          (ho_local_route_key handoff) (ho_reservation_id handoff) (ho_fencing_generation handoff),
        lt_local_route_key = ho_local_route_key handoff,
        lt_reservation_id = ho_reservation_id handoff,
        lt_generation = ho_fencing_generation handoff,
        lt_outcome = ho_outcome handoff\<rparr>)
     (find (\<lambda>handoff. ho_connector_id handoff = connector_id \<and> ho_job_id handoff = job_id \<and>
        ho_server_route_id handoff = None) (rev (cd_handoffs d)))"

definition authoritative_handoff_for_proof ::
  "'b route_ext \<Rightarrow> string \<Rightarrow> string \<Rightarrow> string \<Rightarrow> nat \<Rightarrow> string \<Rightarrow> CoordinatorDocument \<Rightarrow>
     AuthoritativeHandoffResolution option" where
  "authoritative_handoff_for_proof x connector_id job_id reservation_id generation fencing_token d =
     (case find (\<lambda>handoff. ho_connector_id handoff = connector_id \<and> ho_job_id handoff = job_id \<and>
             uuid_to_string x (ho_reservation_id handoff) = reservation_id \<and>
             ho_fencing_generation handoff = generation \<and>
             ho_fencing_token handoff = fencing_token) (rev (cd_handoffs d)) of
        Some handoff \<Rightarrow> Some \<lparr>ah_outcome = ho_outcome handoff,
          ah_native_job_id = ho_native_job_id handoff, ah_observed_at = ho_observed_at handoff\<rparr>
      | None \<Rightarrow>
          map_option (\<lambda>consumed. \<lparr>ah_outcome = cn_outcome consumed,
              ah_native_job_id = cn_native_job_id consumed,
              ah_observed_at = cn_observed_at consumed\<rparr>)
            (find_value (\<lambda>consumed. cn_connector_id consumed = connector_id \<and>
               cn_job_id consumed = job_id \<and>
               uuid_to_string x (cn_reservation_id consumed) = reservation_id \<and>
               cn_generation consumed = generation \<and>
               cn_fencing_token consumed = fencing_token) (cd_consumed_authoritative_routes d)))"

definition keep_unacknowledged :: "string \<Rightarrow> nat \<Rightarrow> DurableHandoff \<Rightarrow> bool" where
  "keep_unacknowledged connector_id through_sequence handoff =
     (ho_connector_id handoff \<noteq> connector_id \<or> ho_sequence handoff > through_sequence \<or>
      ho_outcome handoff = Ambiguous)"

definition acknowledge_inner :: "string \<Rightarrow> nat \<Rightarrow> unit doc_op" where
  "acknowledge_inner connector_id through_sequence d =
     (let cursors = cd_acknowledged_handoff_sequences d
      in if \<not> contains_key connector_id cursors \<and> length cursors \<ge> MAX_ACKNOWLEDGED_CONNECTORS
         then (d, Inl AcknowledgementJournalFull)
         else (d\<lparr>cd_acknowledged_handoff_sequences := btree_insert connector_id
                   (case map_of cursors connector_id of
                      None \<Rightarrow> through_sequence
                    | Some current \<Rightarrow> max current through_sequence) cursors,
                 cd_handoffs := filter (keep_unacknowledged connector_id through_sequence)
                   (cd_handoffs d)\<rparr>, Inr ()))"

definition handoffs_for_connector ::
  "'b route_ext \<Rightarrow> string \<Rightarrow> nat \<Rightarrow> CoordinatorDocument \<Rightarrow> NativeHandoffEvidence list" where
  "handoffs_for_connector x connector_id after_sequence d =
     take 100 (List.map_filter (\<lambda>handoff.
       case typed_id_from_str (parse_ulid x) ''job'' (ho_job_id handoff) of
         Inl _ \<Rightarrow> None
       | Inr job_id \<Rightarrow> Some
           \<lparr>ne_sequence = ho_sequence handoff, ne_route_id = ho_server_route_id handoff,
            ne_local_route_key = ho_local_route_key handoff, ne_job_id = job_id,
            ne_reservation_id = ho_reservation_id handoff,
            ne_fencing_generation = ho_fencing_generation handoff,
            ne_fencing_token = ho_fencing_token handoff, ne_observed_at = ho_observed_at handoff,
            ne_outcome = ho_outcome handoff, ne_native_job_id = ho_native_job_id handoff\<rparr>)
       (filter (\<lambda>handoff. ho_connector_id handoff = connector_id \<and>
          ho_sequence handoff > after_sequence) (cd_handoffs d)))"

definition local_handoffs_for_connector ::
  "'b route_ext \<Rightarrow> string \<Rightarrow> CoordinatorDocument \<Rightarrow> LocalHandoffEvidence list" where
  "local_handoffs_for_connector x connector_id d =
     map (\<lambda>handoff.
       \<lparr>le_sequence = ho_sequence handoff, le_job_id = ho_job_id handoff,
        le_ambiguity_id = local_ambiguity_id x (ho_connector_id handoff) (ho_job_id handoff)
          (ho_local_route_key handoff) (ho_reservation_id handoff) (ho_fencing_generation handoff),
        le_observed_at = ho_observed_at handoff, le_outcome = ho_outcome handoff,
        le_native_job_id = ho_native_job_id handoff\<rparr>)
     (filter (\<lambda>handoff. ho_connector_id handoff = connector_id \<and>
        ho_server_route_id handoff = None) (cd_handoffs d))"

definition accepted_projection_states :: "string list" where
  "accepted_projection_states =
     [''accepted_by_spooler'', ''spooling'', ''printing'', ''completed_reported'', ''blocked'',
      ''cancel_requested'', ''delivery_uncertain'']"

definition durably_projected :: "DurableHandoff \<Rightarrow> LocalHandoffCommit \<Rightarrow> bool" where
  "durably_projected handoff commit =
     (case ho_outcome handoff of
        Accepted \<Rightarrow>
          (let accepted_state = (lc_state commit \<in>
                 set (accepted_projection_states @ [''cancelled'', ''failed_terminal'']));
               confirmed_without_native_id = (lc_state commit = ''delivery_uncertain'' \<and>
                 ho_native_job_id handoff = None \<and> lc_ambiguity_confirmed commit)
           in accepted_state \<and> lc_native_job_id commit = ho_native_job_id handoff \<and>
              (ho_native_job_id handoff \<noteq> None \<or> lc_state commit \<noteq> ''delivery_uncertain'' \<or>
               confirmed_without_native_id))
      | RejectedBeforeHandoff \<Rightarrow>
          lc_state commit \<in>
            set [''failed_retryable'', ''failed_terminal'', ''cancelled'', ''expired''] \<or>
          lc_native_job_id commit \<noteq> None \<and> lc_state commit \<in> set accepted_projection_states
      | Ambiguous \<Rightarrow> False)"

definition keep_unprojected :: "string \<Rightarrow> LocalHandoffCommit list \<Rightarrow> DurableHandoff \<Rightarrow> bool" where
  "keep_unprojected connector_id commits handoff =
     (if ho_connector_id handoff \<noteq> connector_id \<or> ho_server_route_id handoff \<noteq> None \<or>
         ho_outcome handoff = Ambiguous then True
      else case find (\<lambda>commit. lc_job_id commit = ho_job_id handoff) (rev commits) of
        None \<Rightarrow> True
      | Some commit \<Rightarrow> \<not> durably_projected handoff commit)"

definition resolved_outcome_of :: "AmbiguousHandoffResolution \<Rightarrow> NativeHandoffOutcome" where
  "resolved_outcome_of resolution = (case resolution of
     ReleaseForRetry \<Rightarrow> RejectedBeforeHandoff | ConfirmAccepted \<Rightarrow> Accepted)"

text \<open>The identity of an attempt, as a consumed route, a handoff and a reservation carry it.\<close>

record attempt =
  at_connector_id :: string
  at_job_id :: string
  at_local_route_key :: string
  at_reservation_id :: string
  at_generation :: nat

definition consumed_attempt :: "ConsumedAuthoritativeRoute \<Rightarrow> attempt" where
  "consumed_attempt consumed = \<lparr>at_connector_id = cn_connector_id consumed,
     at_job_id = cn_job_id consumed, at_local_route_key = cn_local_route_key consumed,
     at_reservation_id = cn_reservation_id consumed, at_generation = cn_generation consumed\<rparr>"

definition handoff_attempt :: "DurableHandoff \<Rightarrow> attempt" where
  "handoff_attempt handoff = \<lparr>at_connector_id = ho_connector_id handoff,
     at_job_id = ho_job_id handoff, at_local_route_key = ho_local_route_key handoff,
     at_reservation_id = ho_reservation_id handoff, at_generation = ho_fencing_generation handoff\<rparr>"

definition reservation_attempt :: "DurableReservation \<Rightarrow> attempt" where
  "reservation_attempt reservation = \<lparr>at_connector_id = rv_connector_id reservation,
     at_job_id = rv_job_id reservation, at_local_route_key = rv_local_route_key reservation,
     at_reservation_id = rv_reservation_id reservation, at_generation = rv_generation reservation\<rparr>"

text \<open>\<open>iter_mut().rev().find(..)\<close> with an update: the last match is changed.\<close>

fun update_first :: "('a \<Rightarrow> bool) \<Rightarrow> ('a \<Rightarrow> 'a) \<Rightarrow> 'a list \<Rightarrow> 'a list" where
  "update_first p f [] = []"
| "update_first p f (a # zs) = (if p a then f a # zs else a # update_first p f zs)"

definition update_last :: "('a \<Rightarrow> bool) \<Rightarrow> ('a \<Rightarrow> 'a) \<Rightarrow> 'a list \<Rightarrow> 'a list" where
  "update_last p f zs = rev (update_first p f (rev zs))"

definition resolution_replay ::
  "attempt \<Rightarrow> NativeHandoffOutcome \<Rightarrow> CoordinatorDocument \<Rightarrow> (RouteError + unit) option" where
  "resolution_replay att resolved_outcome d =
     (case find_value (\<lambda>consumed. consumed_attempt consumed = att)
             (cd_consumed_authoritative_routes d) of
        Some consumed \<Rightarrow>
          Some (ensure (cn_outcome consumed = resolved_outcome) ResolvedDifferently)
      | None \<Rightarrow>
          (case find (\<lambda>handoff. handoff_attempt handoff = att) (rev (cd_handoffs d)) of
             None \<Rightarrow> None
           | Some existing \<Rightarrow>
               if ho_outcome existing = Ambiguous then None
               else Some (ensure (ho_outcome existing = resolved_outcome) ResolvedDifferently)))"

definition resolve_ambiguous_handoff_inner ::
  "'b route_ext \<Rightarrow> attempt \<Rightarrow> AmbiguousHandoffResolution \<Rightarrow> unit doc_op" where
  "resolve_ambiguous_handoff_inner x att resolution d =
     (let resolved_outcome = resolved_outcome_of resolution;
          is_ambiguous = (\<lambda>handoff. handoff_attempt handoff = att \<and> ho_outcome handoff = Ambiguous)
      in case resolution_replay att resolved_outcome d of
        Some result \<Rightarrow> (d, result)
      | None \<Rightarrow>
     (case find (\<lambda>(key, reservation). reservation_attempt reservation = att) (cd_reservations d) of
        None \<Rightarrow> (d, Inl NoActiveFence)
      | Some (key, active) \<Rightarrow>
     (case find is_ambiguous (rev (cd_handoffs d)) of
        None \<Rightarrow> (d, Inl NotAmbiguous)
      | Some handoff \<Rightarrow>
          (let d = d\<lparr>cd_handoffs := update_last is_ambiguous
                 (\<lambda>handoff. handoff\<lparr>ho_outcome := resolved_outcome\<rparr>) (cd_handoffs d)\<rparr>
           in case record_consumed_authoritative_route x active resolved_outcome
                 (ho_native_job_id handoff) (ho_observed_at handoff) d of
                (d, Inl e) \<Rightarrow> (d, Inl e)
              | (d, Inr _) \<Rightarrow>
                  (let d = d\<lparr>cd_reservations := btree_remove key (cd_reservations d)\<rparr>;
                       acknowledged = (case map_of (cd_acknowledged_handoff_sequences d)
                           (at_connector_id att) of None \<Rightarrow> 0 | Some n \<Rightarrow> n)
                   in if ho_sequence handoff \<le> acknowledged
                      then (d\<lparr>cd_handoffs := filter (\<lambda>h. ho_sequence h \<noteq> ho_sequence handoff)
                              (cd_handoffs d)\<rparr>, Inr ())
                      else (d, Inr ()))))))"

end
