(* ===== verification/Route_Journal.thy ===== *)
theory Route_Journal
  imports Route_Coordinator
begin

text \<open>
  The route coordinator with its journal file: the public operations, each of which checks the
  \<open>poisoned\<close> flag, changes the document and replaces the file
  (\<open>src/crates/node-runtime/src/route_coordinator.rs\<close> and \<open>durable_file.rs\<close>).

  A change is meant to be all or nothing: an operation that returns without an error has its
  document in the file, one that fails either leaves document and file as they were or stops the
  coordinator for good. The lemmas about this are in \<open>Route_Machine\<close>, \<open>Route_Reservations\<close> and
  \<open>Route_Props\<close>.
\<close>

section \<open>The journal file\<close>

text \<open>
  What becomes of a replacement of the file: \<open>replace_json\<close> fails in a step before the rename, or
  when the directory is synced after it. \<open>ji_readable\<close> is whether the file can be read back.
\<close>

datatype replace_outcome = Replaced | FailedBeforeReplace | FailedAfterReplace

record journal_io =
  ji_replace :: replace_outcome
  ji_readable :: bool

definition replace_json :: "journal_io \<Rightarrow> 'b \<Rightarrow> 'b option \<Rightarrow> 'b option \<times> (RouteError + unit)" where
  "replace_json io bytes file =
     (case ji_replace io of
        Replaced \<Rightarrow> (Some bytes, Inr ())
      | FailedBeforeReplace \<Rightarrow> (file, Inl JournalWriteFailed)
      | FailedAfterReplace \<Rightarrow> (Some bytes, Inl JournalWriteFailed))"

record 'b coordinator =
  rc_document :: CoordinatorDocument
  rc_next_observation_sequence :: nat
  rc_reserved_observation_sequence :: nat
  rc_poisoned :: bool
  rc_file :: "'b option"

type_synonym ('b, 'a) route_op = "'b coordinator \<Rightarrow> 'b coordinator \<times> (RouteError + 'a)"

definition ensure_operational :: "'b coordinator \<Rightarrow> RouteError + unit" where
  "ensure_operational c = (if rc_poisoned c then Inl FailStopped else Inr ())"

definition persist :: "'b route_ext \<Rightarrow> journal_io \<Rightarrow> ('b, unit) route_op" where
  "persist x io c =
     (case document_to_vec_pretty x (rc_document c) of
        None \<Rightarrow> (c, Inl JournalWriteFailed)
      | Some bytes \<Rightarrow>
          (case replace_json io bytes (rc_file c) of
             (file, result) \<Rightarrow> (c\<lparr>rc_file := file\<rparr>, result)))"

definition documents_match ::
  "'b route_ext \<Rightarrow> CoordinatorDocument \<Rightarrow> CoordinatorDocument \<Rightarrow> bool" where
  "documents_match x l r =
     (case (document_to_vec x l, document_to_vec x r) of
        (Some l, Some r) \<Rightarrow> l = r
      | _ \<Rightarrow> False)"

definition read_journal ::
  "'b route_ext \<Rightarrow> journal_io \<Rightarrow> 'b option \<Rightarrow> CoordinatorDocument option" where
  "read_journal x io file =
     (if ji_readable io then Option.bind file (document_from_slice x) else None)"

definition commit_document_change ::
  "'b route_ext \<Rightarrow> journal_io \<Rightarrow> CoordinatorDocument \<Rightarrow> ('b, unit) route_op" where
  "commit_document_change x io previous c =
     (case persist x io c of
        (c, Inr _) \<Rightarrow> (c, Inr ())
      | (c, Inl _) \<Rightarrow>
          (let attempted = rc_document c;
               c = (case read_journal x io (rc_file c) of
                      Some disk \<Rightarrow>
                        if documents_match x disk previous then c\<lparr>rc_document := previous\<rparr>
                        else if documents_match x disk attempted
                        then c\<lparr>rc_document := disk, rc_poisoned := True\<rparr>
                        else c\<lparr>rc_document := disk, rc_poisoned := True\<rparr>
                    | None \<Rightarrow> c\<lparr>rc_document := previous, rc_poisoned := True\<rparr>)
           in (c, Inl (if rc_poisoned c then JournalOutcomeAmbiguous else JournalNotCommitted))))"

text \<open>
  The shape that \<open>reserve\<close>, \<open>register_authoritative\<close>, \<open>finish\<close>, \<open>acknowledge_handoffs\<close> and
  \<open>resolve_ambiguous_handoff\<close> share: the document is put back when the inner operation fails, and
  committed when it succeeds.
\<close>

definition journaled :: "'b route_ext \<Rightarrow> journal_io \<Rightarrow> 'a doc_op \<Rightarrow> ('b, 'a) route_op" where
  "journaled x io inner c =
     (case ensure_operational c of
        Inl e \<Rightarrow> (c, Inl e)
      | Inr _ \<Rightarrow>
          (let previous = rc_document c
           in case inner (rc_document c) of
                (d, Inl e) \<Rightarrow> (c\<lparr>rc_document := previous\<rparr>, Inl e)
              | (d, Inr result) \<Rightarrow>
                  (case commit_document_change x io previous (c\<lparr>rc_document := d\<rparr>) of
                     (c, Inl e) \<Rightarrow> (c, Inl e)
                   | (c, Inr _) \<Rightarrow> (c, Inr result))))"

section \<open>The operations\<close>

definition empty_document :: "string \<Rightarrow> CoordinatorDocument" where
  "empty_document namespace =
     \<lparr>cd_version = DOCUMENT_VERSION, cd_installation_namespace = namespace,
      cd_topology_revision = 0, cd_handoff_sequence = 0, cd_observation_sequence = 0,
      cd_routes = [], cd_reservations = [], cd_consumed_authoritative_routes = [],
      cd_acknowledged_handoff_sequences = [], cd_handoffs = [], cd_topology_changes = []\<rparr>"

definition within_bounds :: "CoordinatorDocument \<Rightarrow> bool" where
  "within_bounds d =
     (length (cd_handoffs d) \<le> MAX_HANDOFFS \<and>
      length (cd_topology_changes d) \<le> MAX_TOPOLOGY_CHANGES \<and>
      length (cd_consumed_authoritative_routes d) \<le> MAX_CONSUMED_AUTHORITATIVE_ROUTES \<and>
      length (cd_acknowledged_handoff_sequences d) \<le> MAX_ACKNOWLEDGED_CONNECTORS)"

definition barrier_invalid ::
  "'b route_ext \<Rightarrow> string \<times> ConsumedAuthoritativeRoute \<Rightarrow> bool" where
  "barrier_invalid x = (\<lambda>(key, route).
     cn_generation route = 0 \<or> cn_server_route_id route = [] \<or> cn_local_route_key route = [] \<or>
     cn_job_id route = [] \<or> cn_connector_id route = [] \<or> cn_fencing_token route = [] \<or>
     key \<noteq> authoritative_route_key x (cn_connector_id route) (cn_server_route_id route)
       (cn_local_route_key route) (cn_job_id route))"

definition check_document :: "'b route_ext \<Rightarrow> CoordinatorDocument \<Rightarrow> RouteError + nat" where
  "check_document x d =
     (if cd_version d \<noteq> DOCUMENT_VERSION then Inl (UnsupportedVersion (cd_version d))
      else if \<not> within_bounds d then Inl ExceedsSupportedBounds
      else if list_ex (barrier_invalid x) (cd_consumed_authoritative_routes d)
      then Inl InvalidReplayBarrier
      else case checked_add_u64 (cd_observation_sequence d) 1 of
        None \<Rightarrow> Inl SequenceExhausted
      | Some next \<Rightarrow> Inr next)"

definition load_document ::
  "'b route_ext \<Rightarrow> journal_io \<Rightarrow> string \<Rightarrow> 'b option \<Rightarrow> RouteError + CoordinatorDocument" where
  "load_document x io namespace file =
     (if \<not> ji_readable io then Inl JournalReadFailed
      else case file of
        None \<Rightarrow> Inr (empty_document namespace)
      | Some bytes \<Rightarrow>
          (case document_from_slice x bytes of
             None \<Rightarrow> Inl JournalParseFailed
           | Some d \<Rightarrow> Inr d))"

text \<open>\<open>open\<close> gives the file it leaves behind and the coordinator.\<close>

definition open_coordinator ::
  "'b route_ext \<Rightarrow> journal_io \<Rightarrow> string \<Rightarrow> 'b option \<Rightarrow> 'b option \<times> (RouteError + 'b coordinator)" where
  "open_coordinator x io namespace file =
     (case and_then (load_document x io namespace file) (\<lambda>d.
            and_then (check_document x d) (\<lambda>next. Inr (d, next))) of
        Inl e \<Rightarrow> (file, Inl e)
      | Inr (d, next) \<Rightarrow>
          (let d' = prune_absent_routes (reconcile_coordination_keys x d);
               c = \<lparr>rc_document = d', rc_next_observation_sequence = next,
                    rc_reserved_observation_sequence = cd_observation_sequence d,
                    rc_poisoned = False, rc_file = file\<rparr>
           in if length (cd_routes d') > MAX_ROUTES then (file, Inl ExceedsSupportedBounds)
              else case persist x io c of
                (c, Inl e) \<Rightarrow> (rc_file c, Inl e)
              | (c, Inr _) \<Rightarrow> (rc_file c, Inr c)))"

definition reconcile_routes ::
  "'b route_ext \<Rightarrow> journal_io \<Rightarrow> DiscoveredPrinter list \<Rightarrow> nat \<Rightarrow> int \<Rightarrow>
     ('b, (string, PrinterRouteSnapshot) btree) route_op" where
  "reconcile_routes x io printers inventory_revision observed_at c =
     (case ensure_operational c of
        Inl e \<Rightarrow> (c, Inl e)
      | Inr _ \<Rightarrow>
          (case reconcile_document x printers inventory_revision observed_at (rc_document c) of
             (d, snapshots) \<Rightarrow>
               (case persist x io (c\<lparr>rc_document := d\<rparr>) of
                  (c, Inl e) \<Rightarrow> (c, Inl e)
                | (c, Inr _) \<Rightarrow> (c, Inr snapshots))))"

text \<open>The range of observation numbers is reserved in the file before one of them is returned.\<close>

definition reserve_observations ::
  "'b route_ext \<Rightarrow> journal_io \<Rightarrow> nat \<Rightarrow> nat \<Rightarrow> ('b, unit) route_op" where
  "reserve_observations x io bounded allocated_through c =
     (if allocated_through > rc_reserved_observation_sequence c then
        (case checked_add_u64 (cd_observation_sequence (rc_document c))
                (max OBSERVATION_SEQUENCE_RESERVATION bounded) of
           None \<Rightarrow> (c, Inl SequenceExhausted)
         | Some reserved_through \<Rightarrow>
             (case persist x io (c\<lparr>rc_document :=
                     rc_document c\<lparr>cd_observation_sequence := reserved_through\<rparr>\<rparr>) of
                (c, Inl e) \<Rightarrow> (c, Inl e)
              | (c, Inr _) \<Rightarrow>
                  (c\<lparr>rc_reserved_observation_sequence := reserved_through\<rparr>, Inr ())))
      else (c, Inr ()))"

definition allocate_observation_sequences ::
  "'b route_ext \<Rightarrow> journal_io \<Rightarrow> nat \<Rightarrow> ('b, nat list) route_op" where
  "allocate_observation_sequences x io count c =
     (case ensure_operational c of
        Inl e \<Rightarrow> (c, Inl e)
      | Inr _ \<Rightarrow>
          (let bounded = min count MAX_ROUTES
           in if bounded = 0 then (c, Inr [])
              else case checked_add_u64 (rc_next_observation_sequence c) (bounded - 1) of
                None \<Rightarrow> (c, Inl SequenceExhausted)
              | Some allocated_through \<Rightarrow>
                  (case reserve_observations x io bounded allocated_through c of
                     (c, Inl e) \<Rightarrow> (c, Inl e)
                   | (c, Inr _) \<Rightarrow>
                       (let start = rc_next_observation_sequence c
                        in case checked_add_u64 allocated_through 1 of
                             None \<Rightarrow> (c, Inl SequenceExhausted)
                           | Some next \<Rightarrow> (c\<lparr>rc_next_observation_sequence := next\<rparr>,
                               Inr [start ..< Suc allocated_through])))))"

definition reserve ::
  "'b route_ext \<Rightarrow> journal_io \<Rightarrow> string \<times> string \<Rightarrow> string \<Rightarrow> string \<Rightarrow> string \<Rightarrow> int \<Rightarrow>
     ('b, RouteReservation) route_op" where
  "reserve x io uuids connector_id native_id job_id now_unix_ms =
     journaled x io (reserve_inner x uuids connector_id native_id job_id now_unix_ms)"

definition register_authoritative ::
  "'b route_ext \<Rightarrow> journal_io \<Rightarrow> string \<Rightarrow> string \<Rightarrow> string \<Rightarrow> CloudRouteReservation \<Rightarrow> int \<Rightarrow>
     ('b, AuthoritativeRouteRegistration) route_op" where
  "register_authoritative x io connector_id native_id job_id reservation now =
     journaled x io (register_authoritative_inner x connector_id native_id job_id reservation now)"

definition validate :: "RouteReservation \<Rightarrow> 'b coordinator \<Rightarrow> RouteError + unit" where
  "validate handle c =
     and_then (ensure_operational c) (\<lambda>_. validate_fence handle (rc_document c))"

definition finish ::
  "'b route_ext \<Rightarrow> journal_io \<Rightarrow> string \<Rightarrow> string \<Rightarrow> RouteReservation \<Rightarrow> NativeHandoffOutcome \<Rightarrow>
     string option \<Rightarrow> int \<Rightarrow> ('b, unit) route_op" where
  "finish x io connector_id job_id handle outcome native_job_id observed_at =
     journaled x io (finish_inner x connector_id job_id handle outcome native_job_id observed_at)"

definition finish_runtime ::
  "'b route_ext \<Rightarrow> journal_io \<Rightarrow> journal_io \<Rightarrow> string \<Rightarrow> string \<Rightarrow> RouteReservation \<Rightarrow>
     NativeHandoffOutcome \<Rightarrow> string option \<Rightarrow> int \<Rightarrow> ('b, unit) route_op" where
  "finish_runtime x io1 io2 connector_id job_id handle outcome native_job_id observed_at c =
     (case finish x io1 connector_id job_id handle outcome native_job_id observed_at c of
        (c, Inr _) \<Rightarrow> (c, Inr ())
      | (c, Inl first_error) \<Rightarrow>
          if rc_poisoned c then (c\<lparr>rc_poisoned := True\<rparr>, Inl (HandoffNotDurable first_error))
          else case finish x io2 connector_id job_id handle outcome native_job_id observed_at c of
            (c, Inr _) \<Rightarrow> (c, Inr ())
          | (c, Inl _) \<Rightarrow> (c\<lparr>rc_poisoned := True\<rparr>, Inl (HandoffNotDurable first_error)))"

definition acknowledge_handoffs ::
  "'b route_ext \<Rightarrow> journal_io \<Rightarrow> string \<Rightarrow> nat \<Rightarrow> ('b, unit) route_op" where
  "acknowledge_handoffs x io connector_id through_sequence =
     journaled x io (acknowledge_inner connector_id through_sequence)"

definition compact_local_terminal_handoffs ::
  "'b route_ext \<Rightarrow> journal_io \<Rightarrow> string \<Rightarrow> LocalHandoffCommit list \<Rightarrow> ('b, nat) route_op" where
  "compact_local_terminal_handoffs x io connector_id commits c =
     (case ensure_operational c of
        Inl e \<Rightarrow> (c, Inl e)
      | Inr _ \<Rightarrow>
          if length commits > MAX_HANDOFFS then (c, Inl CommitBatchTooLarge)
          else
            (let previous = rc_document c;
                 before = length (cd_handoffs previous);
                 d = previous\<lparr>cd_handoffs :=
                   filter (keep_unprojected connector_id commits) (cd_handoffs previous)\<rparr>;
                 removed = before - length (cd_handoffs d)
             in if removed = 0 then (c\<lparr>rc_document := d\<rparr>, Inr 0)
                else case commit_document_change x io previous (c\<lparr>rc_document := d\<rparr>) of
                  (c, Inl e) \<Rightarrow> (c, Inl e)
                | (c, Inr _) \<Rightarrow> (c, Inr removed)))"

definition resolve_ambiguous_handoff ::
  "'b route_ext \<Rightarrow> journal_io \<Rightarrow> attempt \<Rightarrow> AmbiguousHandoffResolution \<Rightarrow> ('b, unit) route_op" where
  "resolve_ambiguous_handoff x io att resolution =
     journaled x io (resolve_ambiguous_handoff_inner x att resolution)"

end
