(* ===== verification/Route_Fences.thy ===== *)
theory Route_Fences
  imports Route_Coordinator
begin

text \<open>
  The invariant of the route coordinator's document and its preservation. \<open>W\<close> is the set of the
  identifiers in use (native queues, connectors, jobs and server routes), on which the digests
  that make keys are assumed free of collisions.

  \<^item> Every unresolved reservation (a fence) names the exclusion domain of its own OS route, unless
    that route is marked conflicted, and no OS route carries two fences.
  \<^item> A fence of a cloud reservation is newer than the replay barrier of its job route, and
    there is room to record its barrier when it ends.
\<close>

section \<open>The invariant\<close>

definition collision_free :: "'b route_ext \<Rightarrow> string set \<Rightarrow> CoordinatorDocument \<Rightarrow> bool" where
  "collision_free x W d \<longleftrightarrow> [] \<notin> W \<and> inj_on (route_id x d) W \<and>
     inj_on (\<lambda>(c, s, l, j). authoritative_route_key x c s l j) (W \<times> W \<times> route_id x d ` W \<times> W)"

definition fence_view :: "DurableRoute \<Rightarrow> string \<times> string \<times> bool" where
  "fence_view route = (rt_route_id route, rt_coordination_key route, rt_coordination_conflict route)"

definition route_views :: "CoordinatorDocument \<Rightarrow> (string \<times> string \<times> string \<times> bool) set" where
  "route_views d = (\<lambda>(n, route). (n, fence_view route)) ` set (cd_routes d)"

definition fence_barrier :: "'b route_ext \<Rightarrow> DurableReservation \<Rightarrow> string option" where
  "fence_barrier x r = map_option (\<lambda>s. authoritative_route_key x (rv_connector_id r) s
     (rv_local_route_key r) (rv_job_id r)) (rv_server_route_id r)"

definition active_barriers :: "'b route_ext \<Rightarrow> CoordinatorDocument \<Rightarrow> string set" where
  "active_barriers x d = {k. \<exists>e\<in>set (cd_reservations d). fence_barrier x (snd e) = Some k}"

definition routes_ok :: "'b route_ext \<Rightarrow> string set \<Rightarrow> CoordinatorDocument \<Rightarrow> bool" where
  "routes_ok x W d \<longleftrightarrow> btree_ok (cd_routes d) \<and>
     (\<forall>n i k b. (n, i, k, b) \<in> route_views d \<longrightarrow> n \<in> W \<and> i = route_id x d n)"

definition fence_ok :: "'b route_ext \<Rightarrow> string set \<Rightarrow> CoordinatorDocument \<Rightarrow> DurableReservation \<Rightarrow> bool" where
  "fence_ok x W d r \<longleftrightarrow> rv_local_route_key r \<in> route_id x d ` W \<and> rv_connector_id r \<in> W \<and>
     rv_job_id r \<in> W \<and>
     (\<forall>s. rv_server_route_id r = Some s \<longrightarrow>
        s \<in> W \<and> rv_generation r \<noteq> 0 \<and> rv_fencing_token r \<noteq> [])"

text \<open>A fence on a route that is not in the document is keyed by the route itself.\<close>

definition fences_ok :: "'b route_ext \<Rightarrow> string set \<Rightarrow> CoordinatorDocument \<Rightarrow> bool" where
  "fences_ok x W d \<longleftrightarrow> btree_ok (cd_reservations d) \<and>
     (\<forall>K r. (K, r) \<in> set (cd_reservations d) \<longrightarrow> fence_ok x W d r) \<and>
     (\<forall>K r K' r'. (K, r) \<in> set (cd_reservations d) \<longrightarrow> (K', r') \<in> set (cd_reservations d) \<longrightarrow>
        rv_local_route_key r = rv_local_route_key r' \<longrightarrow> K = K') \<and>
     (\<forall>K r. (K, r) \<in> set (cd_reservations d) \<longrightarrow>
        rv_local_route_key r \<notin> (fst \<circ> snd) ` route_views d \<longrightarrow> K = rv_local_route_key r)"

definition routes_fenced :: "CoordinatorDocument \<Rightarrow> bool" where
  "routes_fenced d \<longleftrightarrow> (\<forall>K r n k b. (K, r) \<in> set (cd_reservations d) \<longrightarrow>
     (n, rv_local_route_key r, k, b) \<in> route_views d \<longrightarrow> k = K \<or> b)"

definition barrier_ok ::
  "'b route_ext \<Rightarrow> string set \<Rightarrow> CoordinatorDocument \<Rightarrow> string \<Rightarrow> ConsumedAuthoritativeRoute \<Rightarrow> bool" where
  "barrier_ok x W d k b \<longleftrightarrow> cn_connector_id b \<in> W \<and> cn_server_route_id b \<in> W \<and>
     cn_local_route_key b \<in> route_id x d ` W \<and> cn_job_id b \<in> W \<and>
     cn_generation b \<noteq> 0 \<and> cn_fencing_token b \<noteq> [] \<and>
     k = authoritative_route_key x (cn_connector_id b) (cn_server_route_id b)
       (cn_local_route_key b) (cn_job_id b)"

definition barriers_ok :: "'b route_ext \<Rightarrow> string set \<Rightarrow> CoordinatorDocument \<Rightarrow> bool" where
  "barriers_ok x W d \<longleftrightarrow> btree_ok (cd_consumed_authoritative_routes d) \<and>
     (\<forall>k b. (k, b) \<in> set (cd_consumed_authoritative_routes d) \<longrightarrow> barrier_ok x W d k b) \<and>
     (\<forall>K r k b. (K, r) \<in> set (cd_reservations d) \<longrightarrow> fence_barrier x r = Some k \<longrightarrow>
        (k, b) \<in> set (cd_consumed_authoritative_routes d) \<longrightarrow>
        cn_outcome b \<noteq> Accepted \<and> cn_generation b < rv_generation r) \<and>
     card (fst ` set (cd_consumed_authoritative_routes d) \<union> active_barriers x d)
       \<le> MAX_CONSUMED_AUTHORITATIVE_ROUTES"

definition journal_ok :: "CoordinatorDocument \<Rightarrow> bool" where
  "journal_ok d \<longleftrightarrow> cd_version d = DOCUMENT_VERSION \<and>
     btree_ok (cd_acknowledged_handoff_sequences d) \<and>
     length (cd_acknowledged_handoff_sequences d) \<le> MAX_ACKNOWLEDGED_CONNECTORS \<and>
     length (cd_topology_changes d) \<le> MAX_TOPOLOGY_CHANGES"

text \<open>\<open>doc_base\<close> is what also holds between the steps of \<open>reconcile\<close>.\<close>

definition doc_base :: "'b route_ext \<Rightarrow> string set \<Rightarrow> CoordinatorDocument \<Rightarrow> bool" where
  "doc_base x W d \<longleftrightarrow> collision_free x W d \<and> routes_ok x W d \<and> fences_ok x W d \<and>
     barriers_ok x W d \<and> journal_ok d"

definition doc_inv :: "'b route_ext \<Rightarrow> string set \<Rightarrow> CoordinatorDocument \<Rightarrow> bool" where
  "doc_inv x W d \<longleftrightarrow> doc_base x W d \<and> routes_fenced d \<and> length (cd_routes d) \<le> MAX_ROUTES"

text \<open>What no operation takes back: the replay barriers, their generations and acceptance.\<close>

definition barriers_kept :: "CoordinatorDocument \<Rightarrow> CoordinatorDocument \<Rightarrow> bool" where
  "barriers_kept d d' \<longleftrightarrow>
     cd_installation_namespace d' = cd_installation_namespace d \<and>
     (\<forall>k b. (k, b) \<in> set (cd_consumed_authoritative_routes d) \<longrightarrow>
        (\<exists>b'. (k, b') \<in> set (cd_consumed_authoritative_routes d') \<and>
          cn_generation b \<le> cn_generation b' \<and> (cn_outcome b = Accepted \<longrightarrow> b' = b)))"

lemma barriers_kept_refl [simp]: "barriers_kept d d"
  by (auto simp: barriers_kept_def)

lemma barriers_kept_trans:
  assumes "barriers_kept d d'" "barriers_kept d' d''"
  shows "barriers_kept d d''"
proof -
  have "\<exists>b''. (k, b'') \<in> set (cd_consumed_authoritative_routes d'') \<and>
      cn_generation b \<le> cn_generation b'' \<and> (cn_outcome b = Accepted \<longrightarrow> b'' = b)"
    if mem: "(k, b) \<in> set (cd_consumed_authoritative_routes d)" for k b
  proof -
    obtain b' where b': "(k, b') \<in> set (cd_consumed_authoritative_routes d')"
      "cn_generation b \<le> cn_generation b'" "cn_outcome b = Accepted \<longrightarrow> b' = b"
      using assms(1) mem unfolding barriers_kept_def by blast
    obtain b'' where "(k, b'') \<in> set (cd_consumed_authoritative_routes d'')"
      "cn_generation b' \<le> cn_generation b''" "cn_outcome b' = Accepted \<longrightarrow> b'' = b'"
      using assms(2) b'(1) unfolding barriers_kept_def by blast
    with b' show ?thesis by (intro exI [of _ b'']) auto
  qed
  then show ?thesis using assms unfolding barriers_kept_def by auto
qed

text \<open>The digest of a native queue depends on the installation only.\<close>

lemma route_id_namespace:
  "cd_installation_namespace d' = cd_installation_namespace d \<Longrightarrow> route_id x d' = route_id x d"
  by (simp add: route_id_def fun_eq_iff)

lemma route_id_update [simp]:
  "route_id x (d\<lparr>cd_routes := m\<rparr>) = route_id x d"
  "route_id x (d\<lparr>cd_reservations := fs\<rparr>) = route_id x d"
  "route_id x (d\<lparr>cd_handoffs := hs\<rparr>) = route_id x d"
  "route_id x (d\<lparr>cd_handoff_sequence := n\<rparr>) = route_id x d"
  "route_id x (d\<lparr>cd_consumed_authoritative_routes := bs\<rparr>) = route_id x d"
  "route_id x (d\<lparr>cd_acknowledged_handoff_sequences := acks\<rparr>) = route_id x d"
  "route_id x (d\<lparr>cd_topology_changes := ts\<rparr>) = route_id x d"
  "route_id x (d\<lparr>cd_topology_revision := n\<rparr>) = route_id x d"
  "route_id x (d\<lparr>cd_observation_sequence := n\<rparr>) = route_id x d"
  by (simp_all add: route_id_def fun_eq_iff)

lemma find_route:
  assumes ok: "routes_ok x W d" and free: "collision_free x W d" and mem: "(n, route) \<in> set (cd_routes d)"
  shows "find_value (\<lambda>r. rt_route_id r = rt_route_id route) (cd_routes d) = Some route"
proof (cases "find_value (\<lambda>r. rt_route_id r = rt_route_id route) (cd_routes d)")
  case None
  with mem show ?thesis by (auto simp: find_value_None)
next
  case (Some r)
  then obtain m where m: "(m, r) \<in> set (cd_routes d)" and id: "rt_route_id r = rt_route_id route"
    by (auto dest: find_value_SomeD)
  have "m \<in> W \<and> rt_route_id r = route_id x d m" "n \<in> W \<and> rt_route_id route = route_id x d n"
    using ok m mem by (force simp: routes_ok_def route_views_def fence_view_def)+
  then have "m = n" using free id by (auto simp: collision_free_def inj_on_def)
  moreover have "btree_ok (cd_routes d)" using ok by (simp add: routes_ok_def)
  ultimately show ?thesis using m mem Some
    by (metis btree_get_iff option.inject)
qed

section \<open>Topology\<close>

text \<open>A change of the routes only: reservations, barriers and the journal stay.\<close>

definition same_journal :: "CoordinatorDocument \<Rightarrow> CoordinatorDocument \<Rightarrow> bool" where
  "same_journal d d' \<longleftrightarrow> cd_version d' = cd_version d \<and>
     cd_installation_namespace d' = cd_installation_namespace d \<and>
     cd_reservations d' = cd_reservations d \<and>
     cd_consumed_authoritative_routes d' = cd_consumed_authoritative_routes d \<and>
     cd_acknowledged_handoff_sequences d' = cd_acknowledged_handoff_sequences d \<and>
     cd_handoffs d' = cd_handoffs d \<and> cd_handoff_sequence d' = cd_handoff_sequence d \<and>
     cd_observation_sequence d' = cd_observation_sequence d"

lemma same_journal_refl [simp]: "same_journal d d"
  by (simp add: same_journal_def)

lemma same_journal_trans: "same_journal d d' \<Longrightarrow> same_journal d' d'' \<Longrightarrow> same_journal d d''"
  by (simp add: same_journal_def)

lemma same_journal_kept: "same_journal d d' \<Longrightarrow> barriers_kept d d'"
  by (auto simp: same_journal_def barriers_kept_def)

lemma routes_okD:
  assumes "routes_ok x W d" "(n, route) \<in> set (cd_routes d)"
  shows "n \<in> W" "rt_route_id route = route_id x d n"
  using assms by (force simp: routes_ok_def route_views_def fence_view_def)+

lemma routes_okI:
  assumes "btree_ok (cd_routes d)"
    and "\<And>n route. (n, route) \<in> set (cd_routes d) \<Longrightarrow> n \<in> W \<and> rt_route_id route = route_id x d n"
  shows "routes_ok x W d"
  using assms by (force simp: routes_ok_def route_views_def fence_view_def)

lemma route_views_ids: "(fst \<circ> snd) ` route_views d = rt_route_id ` snd ` set (cd_routes d)"
  by (force simp: route_views_def fence_view_def)

lemma fences_okD:
  assumes "fences_ok x W d" "(K, r) \<in> set (cd_reservations d)"
  shows "fence_ok x W d r"
    and "(K', r') \<in> set (cd_reservations d) \<Longrightarrow>
      rv_local_route_key r = rv_local_route_key r' \<Longrightarrow> K = K'"
    and "rv_local_route_key r \<notin> rt_route_id ` snd ` set (cd_routes d) \<Longrightarrow> K = rv_local_route_key r"
  using assms unfolding fences_ok_def route_views_ids by blast+

lemma fences_okI:
  assumes "btree_ok (cd_reservations d)"
    and "\<And>K r. (K, r) \<in> set (cd_reservations d) \<Longrightarrow> fence_ok x W d r"
    and "\<And>K r K' r'. (K, r) \<in> set (cd_reservations d) \<Longrightarrow> (K', r') \<in> set (cd_reservations d) \<Longrightarrow>
      rv_local_route_key r = rv_local_route_key r' \<Longrightarrow> K = K'"
    and "\<And>K r. (K, r) \<in> set (cd_reservations d) \<Longrightarrow>
      rv_local_route_key r \<notin> rt_route_id ` snd ` set (cd_routes d) \<Longrightarrow> K = rv_local_route_key r"
  shows "fences_ok x W d"
  using assms unfolding fences_ok_def route_views_ids by blast

lemma doc_base_routes:
  assumes base: "doc_base x W d" and same: "same_journal d d'"
    and routes: "routes_ok x W d'"
    and covers: "\<And>e. e \<in> set (cd_reservations d) \<Longrightarrow>
      rv_local_route_key (snd e) \<in> rt_route_id ` snd ` set (cd_routes d) \<Longrightarrow>
      rv_local_route_key (snd e) \<in> rt_route_id ` snd ` set (cd_routes d')"
    and changes: "length (cd_topology_changes d') \<le> MAX_TOPOLOGY_CHANGES"
  shows "doc_base x W d'"
proof -
  note eqs = same [unfolded same_journal_def]
  have rid: "route_id x d' = route_id x d" using eqs by (intro route_id_namespace) simp
  have base': "collision_free x W d" "fences_ok x W d" "barriers_ok x W d" "journal_ok d"
    using base by (simp_all add: doc_base_def)
  have "collision_free x W d'" using base'(1) by (simp add: collision_free_def rid)
  moreover have "fences_ok x W d'"
  proof (rule fences_okI)
    show "btree_ok (cd_reservations d')" using base'(2) eqs by (simp add: fences_ok_def)
    fix K r assume "(K, r) \<in> set (cd_reservations d')"
    then have Kr: "(K, r) \<in> set (cd_reservations d)" using eqs by simp
    show "fence_ok x W d' r" using fences_okD(1) [OF base'(2) Kr] by (simp add: fence_ok_def rid)
    show "K = K'" if "(K', r') \<in> set (cd_reservations d')"
      "rv_local_route_key r = rv_local_route_key r'" for K' r'
      using fences_okD(2) [OF base'(2) Kr] that eqs by simp
    show "K = rv_local_route_key r"
      if "rv_local_route_key r \<notin> rt_route_id ` snd ` set (cd_routes d')"
      using fences_okD(3) [OF base'(2) Kr] covers [OF Kr] that by auto
  qed
  moreover have "barriers_ok x W d'" using base'(3) eqs
    by (simp add: barriers_ok_def barrier_ok_def active_barriers_def rid)
  moreover have "journal_ok d'" using base'(4) eqs changes by (simp add: journal_ok_def)
  ultimately show ?thesis using routes by (simp add: doc_base_def)
qed

lemma length_trim_front: "length (trim_front limit xs) \<le> limit"
  by (simp add: trim_front_def)

lemma same_journal_record [simp]:
  "same_journal d (record_topology_change rid change at d') = same_journal d d'"
  "same_journal d (bump_topology d') = same_journal d d'"
  by (simp_all add: same_journal_def record_topology_change_def bump_topology_def)

lemma cd_routes_record [simp]:
  "cd_routes (record_topology_change rid change at d) = cd_routes d"
  "cd_routes (bump_topology d) = cd_routes d"
  by (simp_all add: record_topology_change_def bump_topology_def)

lemma changes_bounded:
  "length (cd_topology_changes (record_topology_change rid change at d)) \<le> MAX_TOPOLOGY_CHANGES"
  "length (cd_topology_changes (bump_topology d)) = length (cd_topology_changes d)"
  by (simp_all add: record_topology_change_def bump_topology_def length_trim_front)

lemma prune_same: "same_journal d (prune_absent_routes d)"
  by (simp add: prune_absent_routes_def same_journal_def Let_def)

lemma prune_subset: "set (cd_routes (prune_absent_routes d)) \<subseteq> set (cd_routes d)"
  by (auto simp: prune_absent_routes_def Let_def btree_simps)

lemma prune_length: "length (cd_routes (prune_absent_routes d)) \<le> length (cd_routes d)"
  by (simp add: prune_absent_routes_def Let_def length_btree_retain_le)

text \<open>A route that an unresolved fence names is never pruned.\<close>

lemma prune_keeps:
  assumes "e \<in> set (cd_reservations d)" "(n, route) \<in> set (cd_routes d)"
    and "rt_route_id route = rv_local_route_key (snd e)"
  shows "(n, route) \<in> set (cd_routes (prune_absent_routes d))"
proof (cases "rt_present route")
  case True
  with assms(2) show ?thesis by (simp add: prune_absent_routes_def Let_def btree_simps)
next
  case False
  have "route_requires_retention d route"
    using assms(1,3) by (force simp: route_requires_retention_def list_ex_iff btree_simps)
  then have "route \<in> set (filter (\<lambda>route. \<not> rt_present route \<and> route_requires_retention d route)
      (btree_values (cd_routes d)))"
    using assms(2) False by (force simp: btree_simps)
  with assms(2) show ?thesis
    by (simp add: prune_absent_routes_def Let_def btree_simps)
qed

lemma routes_ok_subset:
  assumes "routes_ok x W d" "same_journal d d'" "set (cd_routes d') \<subseteq> set (cd_routes d)" "btree_ok (cd_routes d')"
  shows "routes_ok x W d'"
proof -
  have "route_id x d' = route_id x d"
    using assms(2) by (intro route_id_namespace) (simp add: same_journal_def)
  moreover have "btree_ok (cd_routes d')" by (rule assms(4))
  ultimately show ?thesis using routes_okD [OF assms(1)] assms(3) by (intro routes_okI) auto
qed

lemma doc_base_prune:
  assumes "doc_base x W d"
  shows "doc_base x W (prune_absent_routes d)"
proof (rule doc_base_routes [OF assms prune_same])
  have ok: "routes_ok x W d" using assms by (simp add: doc_base_def)
  then show "routes_ok x W (prune_absent_routes d)"
    by (rule routes_ok_subset [OF _ prune_same prune_subset])
       (use ok in \<open>simp add: routes_ok_def prune_absent_routes_def Let_def\<close>)
  show "length (cd_topology_changes (prune_absent_routes d)) \<le> MAX_TOPOLOGY_CHANGES"
    using assms by (simp add: doc_base_def journal_ok_def prune_absent_routes_def Let_def)
  fix e assume e: "e \<in> set (cd_reservations d)"
    and "rv_local_route_key (snd e) \<in> rt_route_id ` snd ` set (cd_routes d)"
  then obtain n route where "(n, route) \<in> set (cd_routes d)"
    "rt_route_id route = rv_local_route_key (snd e)" by auto
  with prune_keeps [OF e this] show "rv_local_route_key (snd e) \<in>
      rt_route_id ` snd ` set (cd_routes (prune_absent_routes d))" by force
qed

text \<open>An entry of the routes is added or replaced, under the digest of its native queue.\<close>

lemma doc_base_insert:
  assumes base: "doc_base x W d" and n: "n \<in> W" "rt_route_id route = route_id x d n"
    and same: "same_journal d d'" and routes: "cd_routes d' = btree_insert n route (cd_routes d)"
    and changes: "length (cd_topology_changes d') \<le> MAX_TOPOLOGY_CHANGES"
  shows "doc_base x W d'"
proof (rule doc_base_routes [OF base same _ _ changes])
  have ok: "routes_ok x W d" "btree_ok (cd_routes d)" using base by (simp_all add: doc_base_def routes_ok_def)
  have rid: "route_id x d' = route_id x d"
    using same by (intro route_id_namespace) (simp add: same_journal_def)
  have set: "set (cd_routes d') = insert (n, route) {e \<in> set (cd_routes d). fst e \<noteq> n}"
    using routes set_btree_insert [OF ok(2)] by simp
  have "m \<in> W \<and> rt_route_id r = route_id x d m" if "(m, r) \<in> set (cd_routes d')" for m r
    using that n routes_okD [OF ok(1)] by (auto simp: set)
  then show "routes_ok x W d'" using ok(2) by (intro routes_okI) (auto simp: rid routes)
  fix e assume "rv_local_route_key (snd e) \<in> rt_route_id ` snd ` set (cd_routes d)"
  then obtain m r where m: "(m, r) \<in> set (cd_routes d)" "rv_local_route_key (snd e) = rt_route_id r"
    by auto
  have "rt_route_id r = rt_route_id route" if "m = n" using routes_okD(2) [OF ok(1) m(1)] that n(2) by simp
  with m show "rv_local_route_key (snd e) \<in> rt_route_id ` snd ` set (cd_routes d')"
    by (cases "m = n") (force simp: set)+
qed

lemma doc_base_observe:
  assumes "doc_base x W d" "dp_native_id printer \<in> W"
  shows "doc_base x W (observe_document x at printer d)" and
    "same_journal d (observe_document x at printer d)"
proof -
  let ?change = "topology_change_of d (dp_native_id printer)
    (rt_native_fingerprint (observed_route x d printer))"
  have bounded: "length (cd_topology_changes d) \<le> MAX_TOPOLOGY_CHANGES"
    using assms(1) by (simp add: doc_base_def journal_ok_def)
  show same: "same_journal d (observe_document x at printer d)"
    by (cases ?change) (simp_all add: observe_document_def Let_def, simp_all add: same_journal_def bump_topology_def)
  show "doc_base x W (observe_document x at printer d)"
  proof (rule doc_base_insert [OF assms _ same])
    show "rt_route_id (observed_route x d printer) = route_id x d (dp_native_id printer)"
      by (simp add: observed_route_def Let_def)
    show "cd_routes (observe_document x at printer d) =
        btree_insert (dp_native_id printer) (observed_route x d printer) (cd_routes d)"
      by (cases ?change) (simp_all add: observe_document_def Let_def)
    show "length (cd_topology_changes (observe_document x at printer d)) \<le> MAX_TOPOLOGY_CHANGES"
      using bounded by (cases ?change) (simp_all add: observe_document_def Let_def changes_bounded)
  qed
qed

lemma doc_base_observe_all:
  assumes "doc_base x W d" "\<And>p. p \<in> set printers \<Longrightarrow> dp_native_id p \<in> W"
    and "fold (observe_printer x inventory at prot avail) printers (d, s) = (d', s')"
  shows "doc_base x W d' \<and> same_journal d d'"
  using assms
proof (induction printers arbitrary: d s)
  case (Cons p printers)
  obtain d1 s1 where step: "observe_printer x inventory at prot avail p (d, s) = (d1, s1)" by (rule prod.exhaust)
  have "d1 = d \<or> d1 = observe_document x at p d"
    using step by (auto simp: observe_printer_def Let_def split: prod.splits if_splits)
  then have d1: "doc_base x W d1 \<and> same_journal d d1"
    using doc_base_observe [OF Cons.prems(1)] Cons.prems(1,2) by auto
  have "doc_base x W d' \<and> same_journal d1 d'"
    using Cons.IH [of d1 s1] d1 Cons.prems(2,3) step by simp
  then show ?case using d1 same_journal_trans by blast
qed simp

lemma doc_base_remove:
  assumes "doc_base x W d"
  shows "doc_base x W (remove_route at e d) \<and> same_journal d (remove_route at e d)"
proof -
  obtain n rid where e: "e = (n, rid)" by force
  show ?thesis
  proof (cases "map_of (cd_routes d) n")
    case None
    have same: "same_journal d (remove_route at e d)"
      using None by (simp add: remove_route_def e Let_def)
    have "cd_routes (remove_route at e d) = cd_routes d"
      using None by (simp add: remove_route_def e Let_def)
    moreover have "route_id x (remove_route at e d) = route_id x d"
      using same by (intro route_id_namespace) (simp add: same_journal_def)
    ultimately have "doc_base x W (remove_route at e d)"
      using assms
      by (intro doc_base_routes [OF assms same])
         (simp_all add: doc_base_def routes_ok_def route_views_def remove_route_def e Let_def changes_bounded)
    with same show ?thesis by simp
  next
    case (Some route)
    have mem: "(n, route) \<in> set (cd_routes d)" using Some by (rule map_of_SomeD)
    have same: "same_journal d (remove_route at e d)"
      using Some by (simp add: remove_route_def e Let_def)
        (simp add: same_journal_def bump_topology_def)
    have "doc_base x W (remove_route at e d)"
    proof (rule doc_base_insert [OF assms _ _ same])
      show "n \<in> W" "rt_route_id (mark_absent route) = route_id x d n"
        using routes_okD [OF _ mem] assms by (auto simp: doc_base_def mark_absent_def)
      show "cd_routes (remove_route at e d) = btree_insert n (mark_absent route) (cd_routes d)"
        using Some by (simp add: remove_route_def e Let_def)
      show "length (cd_topology_changes (remove_route at e d)) \<le> MAX_TOPOLOGY_CHANGES"
        by (simp add: remove_route_def e Let_def changes_bounded)
    qed
    with same show ?thesis by simp
  qed
qed

lemma doc_base_remove_all:
  "doc_base x W d \<Longrightarrow>
    doc_base x W (fold (remove_route at) es d) \<and> same_journal d (fold (remove_route at) es d)"
proof (induction es arbitrary: d)
  case (Cons e es)
  have one: "doc_base x W (remove_route at e d)" "same_journal d (remove_route at e d)"
    using doc_base_remove [OF Cons.prems] by simp_all
  show ?case using Cons.IH [OF one(1)] same_journal_trans [OF one(2)] by simp
qed simp

text \<open>
  Regrouping keeps the fences: the domain of an unresolved reservation is one of the domains that
  its own route sees as occupied, so the route either takes it or becomes conflicted.
\<close>

lemma occupied_own:
  assumes base: "doc_base x W d" and K: "(K, r) \<in> set (cd_reservations d)"
    and route: "(n, route) \<in> set (cd_routes d)" and id: "rt_route_id route = rv_local_route_key r"
  shows "K \<in> set (occupied_by_desired x d (desired_key x route))"
proof -
  have "find_value (\<lambda>q. rt_route_id q = rv_local_route_key r) (cd_routes d) = Some route"
    using base by (auto simp: doc_base_def id intro: find_route [OF _ _ route, unfolded id])
  then have "(K, r) \<in> set (filter (\<lambda>(active_key, reservation).
      is_some_and (find_value (\<lambda>q. rt_route_id q = rv_local_route_key reservation) (cd_routes d))
        (\<lambda>q. desired_key x q = desired_key x route)) (cd_reservations d))"
    using K by simp
  then have "K \<in> fst ` set (filter (\<lambda>(active_key, reservation).
      is_some_and (find_value (\<lambda>q. rt_route_id q = rv_local_route_key reservation) (cd_routes d))
        (\<lambda>q. desired_key x q = desired_key x route)) (cd_reservations d))"
    by (rule rev_image_eqI) simp
  then show ?thesis unfolding occupied_by_desired_def set_remdups set_append set_map by (rule UnI2)
qed

lemma regroup_id [simp]: "rt_route_id (regroup_route x d route) = rt_route_id route"
  by (simp add: regroup_route_def Let_def split: list.splits)

lemma regroup_fenced:
  assumes "K \<in> set (occupied_by_desired x d (desired_key x route))"
  shows "rt_coordination_key (regroup_route x d route) = K \<or>
    rt_coordination_conflict (regroup_route x d route)"
  using assms by (auto simp: regroup_route_def Let_def split: list.splits)

lemma regroup_safe:
  assumes base: "doc_base x W d"
  shows "doc_base x W (reconcile_coordination_keys x d)" "routes_fenced (reconcile_coordination_keys x d)"
    "same_journal d (reconcile_coordination_keys x d)"
    "length (cd_routes (reconcile_coordination_keys x d)) = length (cd_routes d)"
proof -
  let ?d = "reconcile_coordination_keys x d"
  have set: "set (cd_routes ?d) = (\<lambda>(n, route). (n, regroup_route x d route)) ` set (cd_routes d)"
    by (simp add: reconcile_coordination_keys_def)
  show same: "same_journal d ?d"
    by (simp add: same_journal_def reconcile_coordination_keys_def)
  have ids: "rt_route_id ` snd ` set (cd_routes ?d) = rt_route_id ` snd ` set (cd_routes d)"
    unfolding set image_image by (rule image_cong) auto
  have "routes_ok x W ?d"
  proof -
    have ok: "routes_ok x W d" using base by (simp add: doc_base_def)
    then show ?thesis
      using routes_okD [OF ok]
      by (intro routes_okI) (auto simp: reconcile_coordination_keys_def routes_ok_def)
  qed
  then show "doc_base x W ?d"
    using base by (intro doc_base_routes [OF base same])
      (simp_all add: ids, simp add: doc_base_def journal_ok_def reconcile_coordination_keys_def)
  show "routes_fenced ?d"
    unfolding routes_fenced_def
  proof (intro allI impI)
    fix K r n k b
    assume K: "(K, r) \<in> set (cd_reservations ?d)" and v: "(n, rv_local_route_key r, k, b) \<in> route_views ?d"
    then obtain route where route: "(n, route) \<in> set (cd_routes d)" "rt_route_id route = rv_local_route_key r"
      and kb: "k = rt_coordination_key (regroup_route x d route)"
        "b = rt_coordination_conflict (regroup_route x d route)"
      by (auto simp: route_views_def set fence_view_def)
    have "(K, r) \<in> set (cd_reservations d)" using K by (simp add: reconcile_coordination_keys_def)
    then show "k = K \<or> b"
      using regroup_fenced [OF occupied_own [OF base _ route]] kb by simp
  qed
  show "length (cd_routes ?d) = length (cd_routes d)" by (simp add: reconcile_coordination_keys_def)
qed

section \<open>The number of routes\<close>

text \<open>
  \<open>reconcile\<close> keeps the routes that an unresolved fence or an ambiguous handoff protects and
  fills the rest of the capacity with the printers that are present.
\<close>

definition loop_ok :: "string list \<Rightarrow> nat \<Rightarrow> CoordinatorDocument \<Rightarrow> reconcile_loop_state \<Rightarrow> bool" where
  "loop_ok prot avail d0 = (\<lambda>(d, acc, present, snaps).
     btree_ok (cd_routes d) \<and> card (set present - set prot) \<le> acc \<and> acc \<le> avail \<and>
     (\<forall>n route. (n, route) \<in> set (cd_routes d) \<longrightarrow>
        (if n \<in> set present then rt_present route else (n, route) \<in> set (cd_routes d0))))"

lemma cd_routes_observe:
  "cd_routes (observe_document x at printer d) =
    btree_insert (dp_native_id printer) (observed_route x d printer) (cd_routes d)"
  by (cases "topology_change_of d (dp_native_id printer) (rt_native_fingerprint (observed_route x d printer))")
     (simp_all add: observe_document_def Let_def)

lemma loop_ok_step:
  assumes "loop_ok prot avail d0 st"
  shows "loop_ok prot avail d0 (observe_printer x inventory at prot avail printer st)"
proof -
  obtain d acc present snaps where st: "st = (d, acc, present, snaps)" by (cases st) auto
  let ?n = "dp_native_id printer"
  show ?thesis
  proof (cases "?n \<in> set present \<or> ?n \<notin> set prot \<and> acc \<ge> avail")
    case True
    then have "observe_printer x inventory at prot avail printer st = st"
      by (auto simp: observe_printer_def st Let_def)
    with assms show ?thesis by simp
  next
    case False
    have ok: "btree_ok (cd_routes d)" using assms by (simp add: loop_ok_def st)
    have "rt_present (observed_route x d printer)" by (simp add: observed_route_def Let_def)
    then have "if n \<in> set (?n # present) then rt_present route else (n, route) \<in> set (cd_routes d0)"
      if "(n, route) \<in> set (cd_routes (observe_document x at printer d))" for n route
      using that assms by (auto simp: cd_routes_observe set_btree_insert [OF ok] loop_ok_def st split: if_splits)
    moreover have "card (set (?n # present) - set prot) \<le> (if ?n \<notin> set prot then acc + 1 else acc)"
    proof (cases "?n \<in> set prot")
      case True
      then show ?thesis using assms by (simp add: loop_ok_def st insert_Diff_if)
    next
      case out: False
      have "card (insert ?n (set present - set prot)) \<le> Suc (card (set present - set prot))"
        by (rule card_insert_le_m1) simp_all
      with out assms show ?thesis by (simp add: loop_ok_def st insert_Diff_if)
    qed
    moreover have "(if ?n \<notin> set prot then acc + 1 else acc) \<le> avail"
      using False assms by (auto simp: loop_ok_def st)
    ultimately show ?thesis
      using False ok by (auto simp: observe_printer_def st Let_def loop_ok_def cd_routes_observe)
  qed
qed

lemma loop_ok_fold:
  "loop_ok prot avail d0 st \<Longrightarrow>
    loop_ok prot avail d0 (fold (observe_printer x inventory at prot avail) printers st)"
proof (induction printers arbitrary: st)
  case (Cons p printers)
  show ?case using Cons.IH [OF loop_ok_step [OF Cons.prems]] by simp
qed simp

lemma remove_route_routes:
  assumes ok: "btree_ok (cd_routes d)"
  shows "btree_ok (cd_routes (remove_route at e d))"
    and "(n, route) \<in> set (cd_routes (remove_route at e d)) \<Longrightarrow>
      \<exists>r. (n, r) \<in> set (cd_routes d) \<and> route = (if n = fst e then mark_absent r else r)"
proof -
  obtain m rid where e: "e = (m, rid)" by (rule prod.exhaust)
  have routes: "cd_routes (remove_route at e d) = (case map_of (cd_routes d) m of None \<Rightarrow> cd_routes d
      | Some r \<Rightarrow> btree_insert m (mark_absent r) (cd_routes d))"
    by (simp add: remove_route_def e Let_def split: option.splits)
  show "btree_ok (cd_routes (remove_route at e d))" using ok by (simp add: routes split: option.splits)
  assume mem: "(n, route) \<in> set (cd_routes (remove_route at e d))"
  show "\<exists>r. (n, r) \<in> set (cd_routes d) \<and> route = (if n = fst e then mark_absent r else r)"
  proof (cases "map_of (cd_routes d) m")
    case None
    then have "(n, route) \<in> set (cd_routes d)" using mem by (simp add: routes)
    moreover have "n \<noteq> m" using None calculation by (force simp: map_of_eq_None_iff)
    ultimately show ?thesis by (auto simp: e)
  next
    case (Some r)
    then have "(n, route) \<in> set (btree_insert m (mark_absent r) (cd_routes d))"
      using mem by (simp add: routes)
    then show ?thesis using map_of_SomeD [OF Some] by (auto simp: set_btree_insert [OF ok] e)
  qed
qed

lemma mark_absent_idem [simp]: "mark_absent (mark_absent r) = mark_absent r"
  by (simp add: mark_absent_def)

lemma remove_all_routes:
  "btree_ok (cd_routes d) \<Longrightarrow> (n, route) \<in> set (cd_routes (fold (remove_route at) es d)) \<Longrightarrow>
    \<exists>r. (n, r) \<in> set (cd_routes d) \<and> route = (if n \<in> fst ` set es then mark_absent r else r)"
proof (induction es arbitrary: d)
  case (Cons e es)
  obtain r1 where r1: "(n, r1) \<in> set (cd_routes (remove_route at e d))"
    "route = (if n \<in> fst ` set es then mark_absent r1 else r1)"
    using Cons.IH [OF remove_route_routes(1) [OF Cons.prems(1), of at e]] Cons.prems(2) by auto
  obtain r where "(n, r) \<in> set (cd_routes d)" "r1 = (if n = fst e then mark_absent r else r)"
    using remove_route_routes(2) [OF Cons.prems(1) r1(1)] by blast
  with r1(2) show ?case by (intro exI [of _ r]) auto
qed simp

lemma pruned_requires:
  assumes "(n, route) \<in> set (cd_routes (prune_absent_routes d))"
  shows "(n, route) \<in> set (cd_routes d) \<and> (rt_present route \<or> route_requires_retention d route)"
proof -
  have "(n, route) \<in> set (cd_routes d)" using assms prune_subset by blast
  moreover have "rt_present route \<or> (\<exists>q. rt_route_id q = rt_route_id route \<and> route_requires_retention d q)"
    using assms by (auto simp: prune_absent_routes_def Let_def btree_simps)
  ultimately show ?thesis by (auto simp: route_requires_retention_def)
qed

lemma reconcile_keys:
  assumes ok: "btree_ok (cd_routes d0)" and loop: "loop_ok (protected_native_ids d0) avail d0 (d1, acc, present, snaps)"
    and same: "same_journal d0 (fold (remove_route at) (removed_routes present d1) d1)"
    and mem: "(n, route) \<in> set (cd_routes (prune_absent_routes
      (fold (remove_route at) (removed_routes present d1) d1)))"
  shows "n \<in> set present \<union> set (protected_native_ids d0)"
proof (cases "n \<in> set present")
  case False
  let ?d2 = "fold (remove_route at) (removed_routes present d1) d1"
  have in2: "(n, route) \<in> set (cd_routes ?d2)" "rt_present route \<or> route_requires_retention ?d2 route"
    using pruned_requires [OF mem] by blast+
  have "btree_ok (cd_routes d1)" using loop by (simp add: loop_ok_def)
  then obtain r where r: "(n, r) \<in> set (cd_routes d1)"
    "route = (if n \<in> fst ` set (removed_routes present d1) then mark_absent r else r)"
    using remove_all_routes [OF _ in2(1)] by blast
  have "n \<in> fst ` set (removed_routes present d1)" if "rt_present r"
    using r(1) that False by (force simp: removed_routes_def)
  then have "\<not> rt_present route" using r(2) by (cases "rt_present r") (simp_all add: mark_absent_def)
  then have "route_requires_retention ?d2 route" using in2(2) by simp
  moreover have "rt_route_id route = rt_route_id r" using r(2) by (simp add: mark_absent_def)
  ultimately have "route_requires_retention d0 r"
    using same by (simp add: route_requires_retention_def same_journal_def)
  moreover have "(n, r) \<in> set (cd_routes d0)" using loop r(1) False by (simp add: loop_ok_def)
  ultimately show ?thesis by (force simp: protected_native_ids_def)
qed simp

lemma reconcile_length:
  assumes base: "doc_base x W d0" "length (cd_routes d0) \<le> MAX_ROUTES"
    and loop: "loop_ok (protected_native_ids d0) (MAX_ROUTES - length (protected_native_ids d0)) d0 (d1, acc, present, snaps)"
    and same: "same_journal d0 (fold (remove_route at) (removed_routes present d1) d1)"
    and ok: "btree_ok (cd_routes (prune_absent_routes (fold (remove_route at) (removed_routes present d1) d1)))"
  shows "length (cd_routes (prune_absent_routes (fold (remove_route at) (removed_routes present d1) d1))) \<le> MAX_ROUTES"
proof -
  let ?m = "cd_routes (prune_absent_routes (fold (remove_route at) (removed_routes present d1) d1))"
  let ?prot = "protected_native_ids d0"
  have "btree_ok (cd_routes d0)" using base(1) by (simp add: doc_base_def routes_ok_def)
  then have "fst ` set ?m \<subseteq> set present \<union> set ?prot" using reconcile_keys [OF _ loop same] by fastforce
  then have "card (fst ` set ?m) \<le> card ((set present - set ?prot) \<union> set ?prot)" by (intro card_mono) auto
  also have "\<dots> \<le> card (set present - set ?prot) + card (set ?prot)" by (rule card_Un_le)
  also have "\<dots> \<le> MAX_ROUTES - length ?prot + length ?prot"
    using loop card_length [of ?prot] by (simp add: loop_ok_def)
  also have "length ?prot \<le> MAX_ROUTES" using base(2) unfolding protected_native_ids_def
    by (metis length_filter_le length_map le_trans)
  then have "MAX_ROUTES - length ?prot + length ?prot = MAX_ROUTES" by simp
  finally show ?thesis using distinct_card [OF btree_ok_distinct [OF ok]] by simp
qed

lemma doc_inv_reconcile:
  assumes inv: "doc_inv x W d" and W: "\<And>p. p \<in> set printers \<Longrightarrow> dp_native_id p \<in> W"
    and run: "reconcile_document x printers inventory at d = (d', snaps)"
  shows "doc_inv x W d' \<and> same_journal d d'"
proof -
  let ?p = "prune_absent_routes d"
  let ?prot = "protected_native_ids ?p"
  obtain d1 acc present snaps1 where loop: "fold (observe_printer x inventory at ?prot
      (MAX_ROUTES - length ?prot)) printers (?p, 0, [], []) = (d1, acc, present, snaps1)"
    by (metis surj_pair)
  let ?d2 = "fold (remove_route at) (removed_routes present d1) d1"
  have d': "d' = reconcile_coordination_keys x (prune_absent_routes ?d2)"
    using run loop by (simp add: reconcile_document_def Let_def)
  have p: "doc_base x W ?p" "length (cd_routes ?p) \<le> MAX_ROUTES"
    using inv prune_length [of d] by (simp_all add: doc_inv_def doc_base_prune)
  then have d1: "doc_base x W d1 \<and> same_journal ?p d1"
    by (intro doc_base_observe_all [OF _ W loop])
  then have d2: "doc_base x W ?d2 \<and> same_journal d1 ?d2" by (intro doc_base_remove_all) simp
  then have base: "doc_base x W (prune_absent_routes ?d2)" by (simp add: doc_base_prune)
  have "loop_ok ?prot (MAX_ROUTES - length ?prot) ?p (?p, 0, [], [])"
    using p(1) by (simp add: loop_ok_def doc_base_def routes_ok_def)
  from loop_ok_fold [OF this] have "loop_ok ?prot (MAX_ROUTES - length ?prot) ?p (d1, acc, present, snaps1)"
    unfolding loop [symmetric] .
  then have "length (cd_routes (prune_absent_routes ?d2)) \<le> MAX_ROUTES"
    using d1 d2 same_journal_trans base
    by (intro reconcile_length [OF p]) (auto simp: doc_base_def routes_ok_def)
  then have "doc_inv x W d'" using regroup_safe [OF base] by (simp add: d' doc_inv_def)
  moreover have "same_journal d (prune_absent_routes ?d2)"
    using prune_same d1 d2 same_journal_trans by blast
  then have "same_journal d d'" using regroup_safe(3) [OF base] same_journal_trans unfolding d' by blast
  ultimately show ?thesis by simp
qed

end
