(* ===== verification/Route_Reservations.thy ===== *)
theory Route_Reservations
  imports Route_Fences
begin

text \<open>
  Reservations and their end: every operation of the route coordinator on the document keeps the
  invariant of \<open>Route_Fences\<close> and the replay barriers. A fence begins in an unoccupied exclusion
  domain (\<open>add_fence\<close>) and ends with its barrier recorded (\<open>end_fence\<close>).
\<close>

lemmas doc_inv_defs = doc_inv_def doc_base_def collision_free_def routes_ok_def fences_ok_def
  fence_ok_def routes_fenced_def barriers_ok_def barrier_ok_def journal_ok_def route_views_def
  active_barriers_def

lemma doc_inv_update [simp]:
  "doc_inv x W (d\<lparr>cd_handoffs := hs\<rparr>) = doc_inv x W d"
  "doc_inv x W (d\<lparr>cd_handoff_sequence := n\<rparr>) = doc_inv x W d"
  "doc_inv x W (d\<lparr>cd_observation_sequence := n\<rparr>) = doc_inv x W d"
  by (simp_all add: doc_inv_defs)

lemma doc_invD:
  assumes "doc_inv x W d"
  shows "collision_free x W d" "routes_ok x W d" "fences_ok x W d" "barriers_ok x W d"
    "journal_ok d" "routes_fenced d" "btree_ok (cd_routes d)" "btree_ok (cd_reservations d)"
    "btree_ok (cd_consumed_authoritative_routes d)" "length (cd_routes d) \<le> MAX_ROUTES"
  using assms by (simp_all add: doc_inv_def doc_base_def routes_ok_def fences_ok_def barriers_ok_def)

lemma routes_fencedD:
  "routes_fenced d \<Longrightarrow> (K, r) \<in> set (cd_reservations d) \<Longrightarrow>
    (n, rv_local_route_key r, k, b) \<in> route_views d \<Longrightarrow> k = K \<or> b"
  unfolding routes_fenced_def by blast

lemma barriers_okD:
  assumes "barriers_ok x W d"
  shows "(k, b) \<in> set (cd_consumed_authoritative_routes d) \<Longrightarrow> barrier_ok x W d k b"
    and "(K, r) \<in> set (cd_reservations d) \<Longrightarrow> fence_barrier x r = Some k \<Longrightarrow>
      (k, b) \<in> set (cd_consumed_authoritative_routes d) \<Longrightarrow>
      cn_outcome b \<noteq> Accepted \<and> cn_generation b < rv_generation r"
    and "card (fst ` set (cd_consumed_authoritative_routes d) \<union> active_barriers x d)
      \<le> MAX_CONSUMED_AUTHORITATIVE_ROUTES"
  using assms unfolding barriers_ok_def by blast+

lemma barriers_okI:
  assumes "btree_ok (cd_consumed_authoritative_routes d)"
    and "\<And>k b. (k, b) \<in> set (cd_consumed_authoritative_routes d) \<Longrightarrow> barrier_ok x W d k b"
    and "\<And>K r k b. (K, r) \<in> set (cd_reservations d) \<Longrightarrow> fence_barrier x r = Some k \<Longrightarrow>
      (k, b) \<in> set (cd_consumed_authoritative_routes d) \<Longrightarrow>
      cn_outcome b \<noteq> Accepted \<and> cn_generation b < rv_generation r"
    and "card (fst ` set (cd_consumed_authoritative_routes d) \<union> active_barriers x d)
      \<le> MAX_CONSUMED_AUTHORITATIVE_ROUTES"
  shows "barriers_ok x W d"
  using assms unfolding barriers_ok_def by blast

lemma view_of_route:
  "(n, route) \<in> set (cd_routes d) \<Longrightarrow>
    (n, rt_route_id route, rt_coordination_key route, rt_coordination_conflict route) \<in> route_views d"
  by (force simp: route_views_def fence_view_def)

lemma finite_active_barriers [simp]: "finite (active_barriers x d)"
proof -
  have "active_barriers x d \<subseteq> the ` fence_barrier x ` snd ` set (cd_reservations d)"
    by (force simp: active_barriers_def)
  then show ?thesis by (rule finite_subset) simp
qed

text \<open>Two fences never share a replay barrier.\<close>

lemma fence_barrier_unique:
  assumes inv: "doc_inv x W d"
    and "(K, r) \<in> set (cd_reservations d)" "(K', r') \<in> set (cd_reservations d)"
    and "fence_barrier x r = Some k" "fence_barrier x r' = Some k"
  shows "K = K'"
proof -
  obtain s s' where s: "rv_server_route_id r = Some s" "rv_server_route_id r' = Some s'"
    using assms(4,5) by (auto simp: fence_barrier_def)
  have ok: "fence_ok x W d r" "fence_ok x W d r'"
    using fences_okD(1) [OF doc_invD(3) [OF inv]] assms(2,3) by auto
  have inj: "inj_on (\<lambda>(c, s, l, j). authoritative_route_key x c s l j) (W \<times> W \<times> route_id x d ` W \<times> W)"
    using doc_invD(1) [OF inv] by (simp add: collision_free_def)
  have "(rv_connector_id r, s, rv_local_route_key r, rv_job_id r) =
      (rv_connector_id r', s', rv_local_route_key r', rv_job_id r')"
    by (rule inj_onD [OF inj]) (use ok s assms(4,5) in \<open>auto simp: fence_ok_def fence_barrier_def\<close>)
  then show ?thesis using fences_okD(2) [OF doc_invD(3) [OF inv] assms(2,3)] by simp
qed

section \<open>A fence begins\<close>

lemma add_fence:
  assumes inv: "doc_inv x W d" and vacant: "map_of (cd_reservations d) K = None"
    and r: "fence_ok x W d r"
    and own: "\<And>n k b. (n, rv_local_route_key r, k, b) \<in> route_views d \<Longrightarrow> k = K \<and> \<not> b"
    and unrouted: "rv_local_route_key r \<notin> rt_route_id ` snd ` set (cd_routes d) \<Longrightarrow>
      K = rv_local_route_key r"
    and newer: "\<And>k b. fence_barrier x r = Some k \<Longrightarrow>
      (k, b) \<in> set (cd_consumed_authoritative_routes d) \<Longrightarrow>
      cn_outcome b \<noteq> Accepted \<and> cn_generation b < rv_generation r"
    and room: "card (fst ` set (cd_consumed_authoritative_routes d) \<union> active_barriers x d \<union>
      set_option (fence_barrier x r)) \<le> MAX_CONSUMED_AUTHORITATIVE_ROUTES"
  shows "doc_inv x W (d\<lparr>cd_reservations := btree_insert K r (cd_reservations d)\<rparr>)"
proof -
  let ?d = "d\<lparr>cd_reservations := btree_insert K r (cd_reservations d)\<rparr>"
  note D = doc_invD [OF inv]
  have mem: "(K', r') \<in> set (cd_reservations ?d) \<longleftrightarrow>
      K' = K \<and> r' = r \<or> (K', r') \<in> set (cd_reservations d) \<and> K' \<noteq> K" for K' r'
    by (simp add: set_btree_insert [OF D(8)])
  have other: "K' = K" if "(K', r') \<in> set (cd_reservations d)"
    "rv_local_route_key r' = rv_local_route_key r" for K' r'
  proof (cases "rv_local_route_key r \<in> rt_route_id ` snd ` set (cd_routes d)")
    case True
    then obtain n route where "(n, route) \<in> set (cd_routes d)" "rt_route_id route = rv_local_route_key r"
      by auto
    then obtain k b where "(n, rv_local_route_key r, k, b) \<in> route_views d"
      using view_of_route by metis
    then show ?thesis using own routes_fencedD [OF D(6) that(1)] that(2) by metis
  next
    case False
    then show ?thesis using unrouted fences_okD(3) [OF D(3) that(1)] that(2) by simp
  qed
  have fences: "fences_ok x W ?d"
  proof (rule fences_okI)
    show "btree_ok (cd_reservations ?d)" using D(8) by simp
    fix K1 r1 assume one: "(K1, r1) \<in> set (cd_reservations ?d)"
    have "fence_ok x W d r1" using one r fences_okD(1) [OF D(3)] unfolding mem by blast
    then show "fence_ok x W ?d r1" by (simp add: fence_ok_def)
    show "K1 = K2" if "(K2, r2) \<in> set (cd_reservations ?d)"
      "rv_local_route_key r1 = rv_local_route_key r2" for K2 r2
      using one that other fences_okD(2) [OF D(3), of K1 r1 K2 r2] unfolding mem by metis
    show "K1 = rv_local_route_key r1"
      if "rv_local_route_key r1 \<notin> rt_route_id ` snd ` set (cd_routes ?d)"
      using one that unrouted fences_okD(3) [OF D(3), of K1 r1] unfolding mem by auto
  qed
  have views: "route_views ?d = route_views d" by (simp add: route_views_def)
  have fenced: "routes_fenced ?d"
    unfolding routes_fenced_def views mem using own routes_fencedD [OF D(6)] by blast
  have barriers: "barriers_ok x W ?d"
  proof -
    have "active_barriers x ?d \<subseteq> active_barriers x d \<union> set_option (fence_barrier x r)"
      by (force simp: active_barriers_def set_btree_insert [OF D(8)])
    then have "card (fst ` set (cd_consumed_authoritative_routes d) \<union> active_barriers x ?d) \<le>
        card (fst ` set (cd_consumed_authoritative_routes d) \<union> active_barriers x d \<union>
          set_option (fence_barrier x r))"
      by (intro card_mono) auto
    moreover have "cn_outcome b \<noteq> Accepted \<and> cn_generation b < rv_generation r1"
      if "(K1, r1) \<in> set (cd_reservations ?d)" "fence_barrier x r1 = Some k"
        "(k, b) \<in> set (cd_consumed_authoritative_routes d)" for K1 r1 k b
      using that newer [of k b] barriers_okD(2) [OF D(4), of K1 r1 k b] unfolding mem by auto
    moreover have "barrier_ok x W ?d k b"
      if "(k, b) \<in> set (cd_consumed_authoritative_routes d)" for k b
      using barriers_okD(1) [OF D(4) that] by (simp add: barrier_ok_def)
    ultimately show ?thesis using D(9) room by (intro barriers_okI) simp_all
  qed
  show ?thesis
    using D(1,2,5,10) fences fenced barriers
    by (simp add: doc_inv_def doc_base_def collision_free_def routes_ok_def views journal_ok_def)
qed

text \<open>A new generation of a route changes nothing that fences see.\<close>

lemma bump_generation_views:
  "bump_generation rid m = (g, m') \<Longrightarrow>
    map (\<lambda>(n, route). (n, fence_view route)) m' = map (\<lambda>(n, route). (n, fence_view route)) m"
  by (induction rid m arbitrary: g m' rule: bump_generation.induct)
     (auto simp: Let_def fence_view_def split: if_splits prod.splits)

lemma doc_inv_views:
  assumes inv: "doc_inv x W d"
    and views: "map (\<lambda>(n, route). (n, fence_view route)) m =
      map (\<lambda>(n, route). (n, fence_view route)) (cd_routes d)"
  shows "doc_inv x W (d\<lparr>cd_routes := m\<rparr>)" "route_views (d\<lparr>cd_routes := m\<rparr>) = route_views d"
proof -
  have "map fst (map (\<lambda>(n, route). (n, fence_view route)) m) =
      map fst (map (\<lambda>(n, route). (n, fence_view route)) (cd_routes d))"
    using views by simp
  then have keys: "map fst m = map fst (cd_routes d)" by (simp add: comp_def case_prod_unfold)
  have same: "(\<lambda>(n, route). (n, fence_view route)) ` set m =
      (\<lambda>(n, route). (n, fence_view route)) ` set (cd_routes d)"
    using arg_cong [OF views, of set] by simp
  then show "route_views (d\<lparr>cd_routes := m\<rparr>) = route_views d" by (simp add: route_views_def)
  have "length m = length (cd_routes d)" using arg_cong [OF keys, of length] by simp
  then show "doc_inv x W (d\<lparr>cd_routes := m\<rparr>)"
    using inv keys same by (simp add: doc_inv_defs btree_ok_def)
qed

section \<open>A fence ends\<close>

lemma drop_fence:
  assumes inv: "doc_inv x W d" and K: "(K, a) \<in> set (cd_reservations d)"
    and bs: "btree_ok bs" "\<And>k b. (k, b) \<in> set bs \<Longrightarrow> barrier_ok x W d k b"
    and new: "\<And>k b. (k, b) \<in> set bs \<Longrightarrow>
      (k, b) \<in> set (cd_consumed_authoritative_routes d) \<or> fence_barrier x a = Some k"
  shows "doc_inv x W (d\<lparr>cd_consumed_authoritative_routes := bs,
    cd_reservations := btree_remove K (cd_reservations d)\<rparr>)"
proof -
  let ?d = "d\<lparr>cd_consumed_authoritative_routes := bs,
    cd_reservations := btree_remove K (cd_reservations d)\<rparr>"
  note D = doc_invD [OF inv]
  have mem: "(K', r') \<in> set (cd_reservations ?d) \<longleftrightarrow> (K', r') \<in> set (cd_reservations d) \<and> K' \<noteq> K"
    for K' r' by (simp add: set_btree_remove)
  have views: "route_views ?d = route_views d" by (simp add: route_views_def)
  have fences: "fences_ok x W ?d"
  proof (rule fences_okI)
    show "btree_ok (cd_reservations ?d)" using D(8) by simp
    fix K1 r1 assume "(K1, r1) \<in> set (cd_reservations ?d)"
    then have one: "(K1, r1) \<in> set (cd_reservations d)" unfolding mem by blast
    show "fence_ok x W ?d r1" using fences_okD(1) [OF D(3) one] by (simp add: fence_ok_def)
    show "K1 = K2" if "(K2, r2) \<in> set (cd_reservations ?d)"
      "rv_local_route_key r1 = rv_local_route_key r2" for K2 r2
      using that fences_okD(2) [OF D(3) one] unfolding mem by blast
    show "K1 = rv_local_route_key r1"
      if "rv_local_route_key r1 \<notin> rt_route_id ` snd ` set (cd_routes ?d)"
      using that fences_okD(3) [OF D(3) one] by simp
  qed
  have fenced: "routes_fenced ?d"
    unfolding routes_fenced_def views mem using routes_fencedD [OF D(6)] by blast
  have "barriers_ok x W ?d"
  proof (rule barriers_okI)
    show "btree_ok (cd_consumed_authoritative_routes ?d)" using bs(1) by simp
    show "barrier_ok x W ?d k b" if "(k, b) \<in> set (cd_consumed_authoritative_routes ?d)" for k b
      using bs(2) that by (simp add: barrier_ok_def)
    show "cn_outcome b \<noteq> Accepted \<and> cn_generation b < rv_generation r"
      if "(K1, r) \<in> set (cd_reservations ?d)" "fence_barrier x r = Some k"
        "(k, b) \<in> set (cd_consumed_authoritative_routes ?d)" for K1 r k b
    proof -
      have r: "(K1, r) \<in> set (cd_reservations d)" "K1 \<noteq> K" using that(1) unfolding mem by auto
      then have "fence_barrier x a \<noteq> Some k" using fence_barrier_unique [OF inv r(1) K that(2)] by blast
      then have "(k, b) \<in> set (cd_consumed_authoritative_routes d)" using new [of k b] that(3) by simp
      then show ?thesis by (rule barriers_okD(2) [OF D(4) r(1) that(2)])
    qed
    have active: "active_barriers x ?d \<subseteq> active_barriers x d"
      by (force simp: active_barriers_def set_btree_remove)
    have "k \<in> fst ` set (cd_consumed_authoritative_routes d) \<union> active_barriers x d"
      if "(k, b) \<in> set bs" for k b
      using new [OF that] K by (force simp: active_barriers_def)
    then have "fst ` set bs \<subseteq> fst ` set (cd_consumed_authoritative_routes d) \<union> active_barriers x d"
      by fastforce
    with active have "card (fst ` set bs \<union> active_barriers x ?d) \<le>
        card (fst ` set (cd_consumed_authoritative_routes d) \<union> active_barriers x d)"
      by (intro card_mono) auto
    then show "card (fst ` set (cd_consumed_authoritative_routes ?d) \<union> active_barriers x ?d)
        \<le> MAX_CONSUMED_AUTHORITATIVE_ROUTES"
      using barriers_okD(3) [OF D(4)] by simp
  qed
  then show ?thesis
    using D(1,2,5,10) fences fenced
    by (simp add: doc_inv_def doc_base_def collision_free_def routes_ok_def views journal_ok_def)
qed

text \<open>Recording the barrier of an unresolved cloud fence always succeeds.\<close>

lemma barrier_room:
  assumes inv: "doc_inv x W d" and K: "(K, a) \<in> set (cd_reservations d)" and k: "fence_barrier x a = Some k"
    and new: "k \<notin> fst ` set (cd_consumed_authoritative_routes d)"
  shows "length (cd_consumed_authoritative_routes d) < MAX_CONSUMED_AUTHORITATIVE_ROUTES"
proof -
  let ?C = "fst ` set (cd_consumed_authoritative_routes d)"
  have active: "k \<in> active_barriers x d" using K k by (force simp: active_barriers_def)
  have "length (cd_consumed_authoritative_routes d) = card ?C"
    using distinct_card [OF btree_ok_distinct [OF doc_invD(9) [OF inv]]] by simp
  also have "\<dots> < card (insert k ?C)" using new by simp
  also have "\<dots> \<le> card (?C \<union> active_barriers x d)"
    using active by (intro card_mono) auto
  finally show ?thesis using barriers_okD(3) [OF doc_invD(4) [OF inv]] by simp
qed

lemma end_fence:
  assumes inv: "doc_inv x W d" and K: "(K, a) \<in> set (cd_reservations d)"
  shows "\<exists>bs. record_consumed_authoritative_route x a outcome native at d =
      (d\<lparr>cd_consumed_authoritative_routes := bs\<rparr>, Inr ()) \<and>
    doc_inv x W (d\<lparr>cd_consumed_authoritative_routes := bs,
      cd_reservations := btree_remove K (cd_reservations d)\<rparr>) \<and>
    barriers_kept d (d\<lparr>cd_consumed_authoritative_routes := bs\<rparr>) \<and>
    (\<forall>s. rv_server_route_id a = Some s \<longrightarrow>
      (the (fence_barrier x a), consumed_of a s outcome native at) \<in> set bs)"
proof (cases "rv_server_route_id a")
  case None
  let ?bs = "cd_consumed_authoritative_routes d"
  have "doc_inv x W (d\<lparr>cd_consumed_authoritative_routes := ?bs,
      cd_reservations := btree_remove K (cd_reservations d)\<rparr>)"
    by (rule drop_fence [OF inv K doc_invD(9) [OF inv] barriers_okD(1) [OF doc_invD(4) [OF inv]]]) simp_all
  moreover have "d\<lparr>cd_consumed_authoritative_routes := ?bs\<rparr> = d" by simp
  ultimately show ?thesis
    using None by (intro exI [of _ ?bs]) (simp add: record_consumed_authoritative_route_def)
next
  case (Some s)
  note D = doc_invD [OF inv]
  let ?old = "cd_consumed_authoritative_routes d"
  let ?b = "consumed_of a s outcome native at"
  obtain k where k: "fence_barrier x a = Some k" using Some by (simp add: fence_barrier_def)
  then have key: "authoritative_route_key x (rv_connector_id a) s (rv_local_route_key a) (rv_job_id a) = k"
    using Some by (simp add: fence_barrier_def)
  let ?bs = "btree_insert k ?b ?old"
  have older: "cn_outcome b \<noteq> Accepted \<and> cn_generation b < rv_generation a" if "(k, b) \<in> set ?old" for b
    by (rule barriers_okD(2) [OF D(4) K k that])
  have run: "record_consumed_authoritative_route x a outcome native at d =
      (d\<lparr>cd_consumed_authoritative_routes := ?bs\<rparr>, Inr ())"
  proof -
    have "\<not> (\<not> contains_key k ?old \<and> length ?old \<ge> MAX_CONSUMED_AUTHORITATIVE_ROUTES)"
      using barrier_room [OF inv K k] by (auto simp: contains_key_iff not_le)
    moreover have "\<not> is_some_and (map_of ?old k) (\<lambda>b. cn_generation b \<ge> cn_generation ?b)"
      using older by (cases "map_of ?old k") (auto simp: consumed_of_def not_le dest!: map_of_SomeD)
    ultimately show ?thesis
      unfolding record_consumed_authoritative_route_def Some option.case key Let_def
      by (simp only: if_False)
  qed
  have set: "set ?bs = insert (k, ?b) {e \<in> set ?old. fst e \<noteq> k}" by (rule set_btree_insert [OF D(9)])
  have "fence_ok x W d a" by (rule fences_okD(1) [OF D(3) K])
  then have ok: "barrier_ok x W d k ?b"
    using Some key by (simp add: barrier_ok_def consumed_of_def fence_ok_def)
  have "doc_inv x W (d\<lparr>cd_consumed_authoritative_routes := ?bs,
      cd_reservations := btree_remove K (cd_reservations d)\<rparr>)"
    using ok barriers_okD(1) [OF D(4)] k D(9) by (intro drop_fence [OF inv K]) (auto simp: set)
  moreover have "barriers_kept d (d\<lparr>cd_consumed_authoritative_routes := ?bs\<rparr>)"
  proof -
    have "\<exists>b'. (q, b') \<in> set ?bs \<and> cn_generation b \<le> cn_generation b' \<and> (cn_outcome b = Accepted \<longrightarrow> b' = b)"
      if "(q, b) \<in> set ?old" for q b
    proof (cases "q = k")
      case True
      then have "cn_outcome b \<noteq> Accepted \<and> cn_generation b \<le> cn_generation ?b"
        using older [of b] that by (simp add: consumed_of_def)
      then show ?thesis using True by (intro exI [of _ ?b]) (simp add: set)
    qed (use that in \<open>auto simp: set\<close>)
    then show ?thesis by (simp add: barriers_kept_def)
  qed
  ultimately show ?thesis using run k Some by (intro exI [of _ ?bs]) (simp add: set)
qed

section \<open>The operations\<close>

text \<open>An operation that succeeds keeps the invariant and the barriers.\<close>

definition doc_safe :: "'b route_ext \<Rightarrow> string set \<Rightarrow> 'a doc_op \<Rightarrow> bool" where
  "doc_safe x W inner \<longleftrightarrow> (\<forall>d d' v. inner d = (d', Inr v) \<longrightarrow>
     cd_observation_sequence d' = cd_observation_sequence d \<and>
     (doc_inv x W d \<longrightarrow> doc_inv x W d' \<and> barriers_kept d d'))"

lemma doc_safeI:
  assumes "\<And>d d' v. inner d = (d', Inr v) \<Longrightarrow> cd_observation_sequence d' = cd_observation_sequence d"
    and "\<And>d d' v. doc_inv x W d \<Longrightarrow> inner d = (d', Inr v) \<Longrightarrow> doc_inv x W d' \<and> barriers_kept d d'"
  shows "doc_safe x W inner"
  using assms unfolding doc_safe_def by blast

lemma doc_safeD:
  assumes "doc_safe x W inner" "doc_inv x W d" "inner d = (d', Inr v)"
  shows "doc_inv x W d'" "barriers_kept d d'" "cd_observation_sequence d' = cd_observation_sequence d"
  using assms unfolding doc_safe_def by blast+

lemma reserve_inner_ok:
  assumes "reserve_inner x uuids connector native job now d = (d', Inr h)"
  shows "\<not> list_ex (crossed connector job) (cd_handoffs d) \<and>
    ((\<exists>existing. map_of (cd_reservations d) (exclusion_domain x d native) = Some existing \<and>
       rv_job_id existing = job \<and> rv_connector_id existing = connector \<and> d' = d \<and>
       h = handle_of (route_id x d native) (exclusion_domain x d native) existing) \<or>
     (\<exists>g m r. map_of (cd_reservations d) (exclusion_domain x d native) = None \<and>
       length (cd_handoffs d) + length (cd_reservations d) < MAX_HANDOFFS \<and>
       \<not> is_some_and (map_of (cd_routes d) native) rt_coordination_conflict \<and>
       bump_generation (route_id x d native) (cd_routes d) = (g, m) \<and>
       r = local_durable x uuids connector (route_id x d native) job g now \<and>
       d' = d\<lparr>cd_routes := m,
         cd_reservations := btree_insert (exclusion_domain x d native) r (cd_reservations d)\<rparr> \<and>
       h = handle_of (route_id x d native) (exclusion_domain x d native) r))"
  using assms unfolding reserve_inner_def Let_def
  by (auto split: if_splits option.splits prod.splits simp: not_le list_ex_iff)

lemma own_route_view:
  assumes inv: "doc_inv x W d" and native: "native \<in> W"
    and v: "(n, route_id x d native, k, b) \<in> route_views d"
  obtains route where "map_of (cd_routes d) native = Some route"
    "rt_coordination_key route = k" "rt_coordination_conflict route = b" "rt_route_id route = route_id x d native"
proof -
  obtain route where route: "(n, route) \<in> set (cd_routes d)" "rt_route_id route = route_id x d native"
    "rt_coordination_key route = k" "rt_coordination_conflict route = b"
    using v by (auto simp: route_views_def fence_view_def)
  have "n \<in> W" "route_id x d n = route_id x d native"
    using routes_okD [OF doc_invD(2) [OF inv] route(1)] route(2) by auto
  then have "n = native"
    using doc_invD(1) [OF inv] native by (auto simp: collision_free_def inj_on_def)
  then have "map_of (cd_routes d) native = Some route"
    using route(1) btree_get_iff [OF doc_invD(7) [OF inv]] by simp
  with route that show thesis by blast
qed

lemma native_routed:
  assumes "doc_inv x W d" "map_of (cd_routes d) native = Some route"
  shows "rt_route_id route = route_id x d native" "route_id x d native \<in> rt_route_id ` snd ` set (cd_routes d)"
proof -
  have mem: "(native, route) \<in> set (cd_routes d)" using assms(2) by (rule map_of_SomeD)
  show id: "rt_route_id route = route_id x d native" by (rule routes_okD(2) [OF doc_invD(2) [OF assms(1)] mem])
  show "route_id x d native \<in> rt_route_id ` snd ` set (cd_routes d)" using mem id by force
qed

lemma reserve_observations_same:
  "reserve_inner x uuids connector native job now d = (d', Inr h) \<Longrightarrow>
    cd_observation_sequence d' = cd_observation_sequence d"
  by (drule reserve_inner_ok) auto

lemma reserve_safe:
  assumes W: "connector \<in> W" "native \<in> W" "job \<in> W"
  shows "doc_safe x W (reserve_inner x uuids connector native job now)"
proof (rule doc_safeI)
  show "cd_observation_sequence d' = cd_observation_sequence d" if "reserve_inner x uuids connector native job now d = (d', Inr v)" for d d' v
    using that by (rule reserve_observations_same)
next
  fix d d' h assume inv: "doc_inv x W d"
    and run: "reserve_inner x uuids connector native job now d = (d', Inr h)"
  let ?K = "exclusion_domain x d native"
  consider "d' = d"
    | g m r where "map_of (cd_reservations d) ?K = None"
      "\<not> is_some_and (map_of (cd_routes d) native) rt_coordination_conflict"
      "bump_generation (route_id x d native) (cd_routes d) = (g, m)"
      "r = local_durable x uuids connector (route_id x d native) job g now"
      "d' = d\<lparr>cd_routes := m, cd_reservations := btree_insert ?K r (cd_reservations d)\<rparr>"
    using reserve_inner_ok [OF run] by blast
  then show "doc_inv x W d' \<and> barriers_kept d d'"
  proof cases
    case (2 g m r)
    have r: "rv_local_route_key r = route_id x d native" "fence_barrier x r = None" "fence_ok x W d r"
      using W by (auto simp: 2(4) local_durable_def fence_barrier_def fence_ok_def)
    note views = doc_inv_views [OF inv bump_generation_views [OF 2(3)]]
    have own: "k = ?K \<and> \<not> b" if v: "(n, rv_local_route_key r, k, b) \<in> route_views d" for n k b
    proof -
      obtain route where "map_of (cd_routes d) native = Some route"
        "rt_coordination_key route = k" "rt_coordination_conflict route = b"
        using own_route_view [OF inv W(2)] v r(1) by metis
      then show ?thesis using 2(2) by (simp add: exclusion_domain_def)
    qed
    have unrouted: "?K = rv_local_route_key r"
      if "rv_local_route_key r \<notin> rt_route_id ` snd ` set (cd_routes d)"
      using that native_routed(2) [OF inv] r(1)
      by (cases "map_of (cd_routes d) native") (auto simp: exclusion_domain_def)
    have ids: "rt_route_id ` snd ` set m = rt_route_id ` snd ` set (cd_routes d)"
      using views(2) route_views_ids [of d] route_views_ids [of "d\<lparr>cd_routes := m\<rparr>"] by simp
    have "doc_inv x W (d\<lparr>cd_routes := m\<rparr>\<lparr>cd_reservations :=
        btree_insert ?K r (cd_reservations (d\<lparr>cd_routes := m\<rparr>))\<rparr>)"
    proof (rule add_fence [OF views(1)])
      show "k = ?K \<and> \<not> b" if "(n, rv_local_route_key r, k, b) \<in> route_views (d\<lparr>cd_routes := m\<rparr>)" for n k b
        using that own unfolding views(2) by blast
      show "card (fst ` set (cd_consumed_authoritative_routes (d\<lparr>cd_routes := m\<rparr>)) \<union>
          active_barriers x (d\<lparr>cd_routes := m\<rparr>) \<union> set_option (fence_barrier x r))
          \<le> MAX_CONSUMED_AUTHORITATIVE_ROUTES"
        using barriers_okD(3) [OF doc_invD(4) [OF inv]] by (simp add: r(2) active_barriers_def)
    qed (use 2(1) r unrouted in \<open>simp_all add: ids fence_ok_def\<close>)
    then show ?thesis by (simp add: 2(5) barriers_kept_def) blast
  qed (use inv in simp)
qed

lemma set_filter_map: "set (List.map_filter f xs) = {y. \<exists>a\<in>set xs. f a = Some y}"
  by (force simp: List.map_filter_def)

lemma set_active_unconsumed:
  "set (active_unconsumed x d) =
    active_barriers x d - fst ` set (cd_consumed_authoritative_routes d)"
  unfolding active_unconsumed_def active_barriers_def fence_barrier_def set_remdups set_filter_map Let_def
  by (force simp: btree_simps split: option.splits if_splits)

lemma card_barriers:
  assumes "doc_inv x W d"
  shows "card (fst ` set (cd_consumed_authoritative_routes d) \<union> active_barriers x d) =
    length (cd_consumed_authoritative_routes d) + length (active_unconsumed x d)"
proof -
  let ?C = "fst ` set (cd_consumed_authoritative_routes d)"
  have "card (?C \<union> active_barriers x d) = card (?C \<union> (active_barriers x d - ?C))" by simp
  also have "\<dots> = card ?C + card (active_barriers x d - ?C)" by (intro card_Un_disjoint) auto
  also have "card ?C = length (cd_consumed_authoritative_routes d)"
    using distinct_card [OF btree_ok_distinct [OF doc_invD(9) [OF assms]]] by simp
  also have "card (active_barriers x d - ?C) = length (active_unconsumed x d)"
    using distinct_card [of "active_unconsumed x d"]
    by (simp add: set_active_unconsumed) (simp add: active_unconsumed_def)
  finally show ?thesis .
qed

lemma barrier_has_room_card:
  assumes inv: "doc_inv x W d" and room: "barrier_has_room x k d"
  shows "card (fst ` set (cd_consumed_authoritative_routes d) \<union> active_barriers x d \<union> {k})
    \<le> MAX_CONSUMED_AUTHORITATIVE_ROUTES"
proof (cases "k \<in> fst ` set (cd_consumed_authoritative_routes d) \<union> active_barriers x d")
  case True
  then show ?thesis using barriers_okD(3) [OF doc_invD(4) [OF inv]] by (simp add: insert_absorb)
next
  case False
  then have "length (cd_consumed_authoritative_routes d) + length (active_unconsumed x d)
      < MAX_CONSUMED_AUTHORITATIVE_ROUTES"
    using room by (auto simp: barrier_has_room_def contains_key_iff set_active_unconsumed)
  then show ?thesis using False card_barriers [OF inv] by simp
qed

lemma check_replay_ok:
  assumes "check_replay x connector job reservation d = Inr u"
  shows "\<not> list_ex (crossed_for_authority connector job) (btree_values (cd_consumed_authoritative_routes d)) \<and>
    \<not> list_ex (crossed connector job) (cd_handoffs d) \<and>
    (\<forall>b. map_of (cd_consumed_authoritative_routes d) (authoritative_route_key x connector
        (cl_route_id reservation) (cl_local_route_key reservation) job) = Some b \<longrightarrow>
      cn_outcome b \<noteq> Accepted \<and> cn_generation b < cl_generation reservation)"
  using assms by (auto simp: check_replay_def Let_def not_le split: if_splits)

lemma register_inner_ok:
  assumes "register_authoritative_inner x connector native job reservation now d = (d', Inr g)"
  shows "\<not> invalid_cloud_reservation (route_id x d native) reservation now \<and>
    check_replay x connector job reservation d = Inr () \<and>
    (\<exists>route. find_value (\<lambda>r. rt_route_id r = route_id x d native) (cd_routes d) = Some route \<and>
      (d' = d \<or>
       map_of (cd_reservations d) (rt_coordination_key route) = None \<and>
       \<not> rt_coordination_conflict route \<and>
       barrier_has_room x (authoritative_route_key x connector (cl_route_id reservation)
         (cl_local_route_key reservation) job) d \<and>
       d' = d\<lparr>cd_reservations := btree_insert (rt_coordination_key route)
         (cloud_durable x connector (route_id x d native) job reservation) (cd_reservations d)\<rparr>))"
  using assms unfolding register_authoritative_inner_def Let_def
  by (auto split: if_splits option.splits sum.splits)

lemma register_observations_same:
  "register_authoritative_inner x connector native job reservation now d = (d', Inr g) \<Longrightarrow>
    cd_observation_sequence d' = cd_observation_sequence d"
  by (drule register_inner_ok) auto

lemma register_safe:
  assumes W: "connector \<in> W" "native \<in> W" "job \<in> W" "cl_route_id reservation \<in> W"
  shows "doc_safe x W (register_authoritative_inner x connector native job reservation now)"
proof (rule doc_safeI)
  show "cd_observation_sequence d' = cd_observation_sequence d" if "register_authoritative_inner x connector native job reservation now d = (d', Inr v)" for d d' v
    using that by (rule register_observations_same)
next
  fix d d' g assume inv: "doc_inv x W d"
    and run: "register_authoritative_inner x connector native job reservation now d = (d', Inr g)"
  let ?rid = "route_id x d native"
  let ?r = "cloud_durable x connector ?rid job reservation"
  let ?k = "authoritative_route_key x connector (cl_route_id reservation) ?rid job"
  have valid: "cl_local_route_key reservation = ?rid" "cl_generation reservation \<noteq> 0"
    "cl_fencing_token reservation \<noteq> []"
    and replay: "check_replay x connector job reservation d = Inr ()"
    using register_inner_ok [OF run] by (auto simp: invalid_cloud_reservation_def)
  obtain route where found: "find_value (\<lambda>r. rt_route_id r = ?rid) (cd_routes d) = Some route"
    and cases: "d' = d \<or> map_of (cd_reservations d) (rt_coordination_key route) = None \<and>
      \<not> rt_coordination_conflict route \<and> barrier_has_room x ?k d \<and>
      d' = d\<lparr>cd_reservations := btree_insert (rt_coordination_key route) ?r (cd_reservations d)\<rparr>"
    using register_inner_ok [OF run] valid(1) by auto
  show "doc_inv x W d' \<and> barriers_kept d d'"
  proof (cases "d' = d")
    case False
    have r: "rv_local_route_key ?r = ?rid" "fence_barrier x ?r = Some ?k" "fence_ok x W d ?r"
      using W valid by (auto simp: cloud_durable_def fence_barrier_def fence_ok_def)
    obtain n where route: "(n, route) \<in> set (cd_routes d)" "rt_route_id route = ?rid"
      using find_value_SomeD [OF found] by blast
    have own: "k = rt_coordination_key route \<and> \<not> b"
      if v: "(m, rv_local_route_key ?r, k, b) \<in> route_views d" for m k b
    proof -
      obtain route' where route': "map_of (cd_routes d) native = Some route'"
        "rt_coordination_key route' = k" "rt_coordination_conflict route' = b" "rt_route_id route' = ?rid"
        using own_route_view [OF inv W(2)] v r(1) by metis
      have "find_value (\<lambda>r. rt_route_id r = ?rid) (cd_routes d) = Some route'"
        using find_route [OF doc_invD(2,1) [OF inv] map_of_SomeD [OF route'(1)]] route'(4) by simp
      then show ?thesis using found cases False route' by simp
    qed
    have "doc_inv x W (d\<lparr>cd_reservations := btree_insert (rt_coordination_key route) ?r (cd_reservations d)\<rparr>)"
    proof (rule add_fence [OF inv _ r(3) own])
      show "rt_coordination_key route = rv_local_route_key ?r"
        if "rv_local_route_key ?r \<notin> rt_route_id ` snd ` set (cd_routes d)"
        using that route r(1) by force
      show "cn_outcome b \<noteq> Accepted \<and> cn_generation b < rv_generation ?r"
        if "fence_barrier x ?r = Some k" "(k, b) \<in> set (cd_consumed_authoritative_routes d)" for k b
        using that r(2) check_replay_ok [OF replay] valid(1) btree_get_iff [OF doc_invD(9) [OF inv], of k b]
        by (simp add: cloud_durable_def)
      show "card (fst ` set (cd_consumed_authoritative_routes d) \<union> active_barriers x d \<union>
          set_option (fence_barrier x ?r)) \<le> MAX_CONSUMED_AUTHORITATIVE_ROUTES"
        using barrier_has_room_card [OF inv] cases False by (simp add: r(2))
    qed (use cases False in simp_all)
    then show ?thesis using cases False by (simp add: barriers_kept_def) blast
  qed (use inv in simp)
qed

lemma validate_fence_ok:
  "validate_fence handle d = Inr u \<longleftrightarrow>
    (\<exists>a. map_of (cd_reservations d) (fr_coordination_key handle) = Some a \<and>
      rv_reservation_id a = fr_reservation_id handle \<and> rv_generation a = fr_generation handle \<and>
      rv_fencing_token a = fr_fencing_token handle \<and> rv_server_route_id a = fr_server_route_id handle)"
  by (auto simp: validate_fence_def split: option.splits)

lemma doc_inv_push [simp]:
  "doc_inv x W (push_handoff c j h t out native at d) = doc_inv x W d"
  "cd_reservations (push_handoff c j h t out native at d) = cd_reservations d"
  "cd_consumed_authoritative_routes (push_handoff c j h t out native at d) = cd_consumed_authoritative_routes d"
  "cd_installation_namespace (push_handoff c j h t out native at d) = cd_installation_namespace d"
  by (simp_all add: push_handoff_def Let_def)

text \<open>
  A terminal outcome with a valid handle is always recorded; the fence ends unless the outcome is
  ambiguous.
\<close>

lemma finish_inner_runs:
  assumes inv: "doc_inv x W d" and a: "map_of (cd_reservations d) (fr_coordination_key handle) = Some a"
    and valid: "validate_fence handle d = Inr ()" and own: "rv_connector_id a = connector" "rv_job_id a = job"
  shows "\<exists>bs. finish_inner x connector job handle outcome native at d =
    ((let d1 = push_handoff connector job handle (rv_fencing_token a) outcome native at d
      in if outcome = Ambiguous then d1
         else d1\<lparr>cd_consumed_authoritative_routes := bs,
           cd_reservations := btree_remove (fr_coordination_key handle) (cd_reservations d)\<rparr>), Inr ()) \<and>
    (outcome \<noteq> Ambiguous \<longrightarrow>
      doc_inv x W (d\<lparr>cd_consumed_authoritative_routes := bs,
        cd_reservations := btree_remove (fr_coordination_key handle) (cd_reservations d)\<rparr>) \<and>
      barriers_kept d (d\<lparr>cd_consumed_authoritative_routes := bs\<rparr>) \<and>
      (\<forall>s. rv_server_route_id a = Some s \<longrightarrow>
        (the (fence_barrier x a), consumed_of a s outcome native at) \<in> set bs))"
proof -
  let ?d1 = "push_handoff connector job handle (rv_fencing_token a) outcome native at d"
  have inv1: "doc_inv x W ?d1" and K: "(fr_coordination_key handle, a) \<in> set (cd_reservations ?d1)"
    using inv a by (simp_all add: map_of_SomeD)
  obtain bs where bs: "record_consumed_authoritative_route x a outcome native at ?d1 =
      (?d1\<lparr>cd_consumed_authoritative_routes := bs\<rparr>, Inr ())"
    "doc_inv x W (?d1\<lparr>cd_consumed_authoritative_routes := bs,
      cd_reservations := btree_remove (fr_coordination_key handle) (cd_reservations ?d1)\<rparr>)"
    "barriers_kept ?d1 (?d1\<lparr>cd_consumed_authoritative_routes := bs\<rparr>)"
    "\<forall>s. rv_server_route_id a = Some s \<longrightarrow>
      (the (fence_barrier x a), consumed_of a s outcome native at) \<in> set bs"
    using end_fence [OF inv1 K] by blast
  have inv2: "doc_inv x W (d\<lparr>cd_consumed_authoritative_routes := bs,
      cd_reservations := btree_remove (fr_coordination_key handle) (cd_reservations d)\<rparr>)"
    using bs(2) by (simp add: push_handoff_def Let_def doc_inv_defs)
  have "barriers_kept d (d\<lparr>cd_consumed_authoritative_routes := bs\<rparr>)"
    using bs(3) by (simp add: barriers_kept_def)
  moreover have "finish_inner x connector job handle outcome native at d =
      (if outcome = Ambiguous then ?d1
       else ?d1\<lparr>cd_consumed_authoritative_routes := bs,
         cd_reservations := btree_remove (fr_coordination_key handle) (cd_reservations d)\<rparr>, Inr ())"
    using a own by (simp add: finish_inner_def valid bs(1) Let_def)
  ultimately show ?thesis using inv2 bs(4) unfolding Let_def by blast
qed

lemma finish_inner_ok:
  assumes "finish_inner x connector job handle outcome native at d = (d', Inr u)"
  obtains a where "map_of (cd_reservations d) (fr_coordination_key handle) = Some a"
    "validate_fence handle d = Inr ()" "rv_connector_id a = connector" "rv_job_id a = job"
  using assms by (auto simp: finish_inner_def split: sum.splits option.splits if_splits)

lemma barriers_kept_cong:
  assumes "cd_installation_namespace d1 = cd_installation_namespace d"
    "cd_consumed_authoritative_routes d1 = cd_consumed_authoritative_routes d"
    "cd_installation_namespace d2 = cd_installation_namespace d'"
    "cd_consumed_authoritative_routes d2 = cd_consumed_authoritative_routes d'"
  shows "barriers_kept d1 d2 = barriers_kept d d'"
  using assms by (simp add: barriers_kept_def)

lemma record_observations_same:
  "record_consumed_authoritative_route x a outcome native at d = (d', r) \<Longrightarrow>
    cd_observation_sequence d' = cd_observation_sequence d"
  by (auto simp: record_consumed_authoritative_route_def Let_def split: option.splits if_splits)

lemma finish_observations_same:
  assumes "finish_inner x connector job handle outcome native at d = (d', Inr u)"
  shows "cd_observation_sequence d' = cd_observation_sequence d"
proof -
  obtain a where a: "map_of (cd_reservations d) (fr_coordination_key handle) = Some a"
    "validate_fence handle d = Inr ()" "rv_connector_id a = connector" "rv_job_id a = job"
    using finish_inner_ok [OF assms] by blast
  let ?d1 = "push_handoff connector job handle (rv_fencing_token a) outcome native at d"
  obtain d2 q where q: "record_consumed_authoritative_route x a outcome native at ?d1 = (d2, q)"
    by (rule prod.exhaust)
  have "cd_observation_sequence ?d1 = cd_observation_sequence d" by (simp add: push_handoff_def Let_def)
  then show ?thesis
    using assms a q record_observations_same [OF q]
    by (auto simp: finish_inner_def Let_def split: if_splits sum.splits)
qed

lemma finish_safe: "doc_safe x W (finish_inner x connector job handle outcome native at)"
proof (rule doc_safeI)
  show "cd_observation_sequence d' = cd_observation_sequence d" if "finish_inner x connector job handle outcome native at d = (d', Inr v)" for d d' v
    using that by (rule finish_observations_same)
next
  fix d d' u assume inv: "doc_inv x W d"
    and run: "finish_inner x connector job handle outcome native at d = (d', Inr u)"
  obtain a where a: "map_of (cd_reservations d) (fr_coordination_key handle) = Some a"
    "validate_fence handle d = Inr ()" "rv_connector_id a = connector" "rv_job_id a = job"
    using finish_inner_ok [OF run] by blast
  let ?d1 = "push_handoff connector job handle (rv_fencing_token a) outcome native at d"
  let ?res = "btree_remove (fr_coordination_key handle) (cd_reservations d)"
  obtain bs where run2: "finish_inner x connector job handle outcome native at d =
      (if outcome = Ambiguous then ?d1
       else ?d1\<lparr>cd_consumed_authoritative_routes := bs, cd_reservations := ?res\<rparr>, Inr ())"
    and ends: "outcome \<noteq> Ambiguous \<longrightarrow>
      doc_inv x W (d\<lparr>cd_consumed_authoritative_routes := bs, cd_reservations := ?res\<rparr>) \<and>
      barriers_kept d (d\<lparr>cd_consumed_authoritative_routes := bs\<rparr>) \<and>
      (\<forall>s. rv_server_route_id a = Some s \<longrightarrow>
        (the (fence_barrier x a), consumed_of a s outcome native at) \<in> set bs)"
    using finish_inner_runs [OF inv a, where outcome = outcome and native = native and at = at]
    unfolding Let_def by (elim exE conjE) (rule that)
  have d': "d' = (if outcome = Ambiguous then ?d1
      else ?d1\<lparr>cd_consumed_authoritative_routes := bs, cd_reservations := ?res\<rparr>)"
    using run run2 by simp
  show "doc_inv x W d' \<and> barriers_kept d d'"
  proof (cases "outcome = Ambiguous")
    case True
    then have "barriers_kept d d' = barriers_kept d d"
      by (intro barriers_kept_cong) (simp_all add: d')
    then show ?thesis using True inv by (simp add: d')
  next
    case False
    have "doc_inv x W d'"
      using ends False by (simp add: d' push_handoff_def Let_def doc_inv_defs)
    moreover have "barriers_kept d d' = barriers_kept d (d\<lparr>cd_consumed_authoritative_routes := bs\<rparr>)"
      using False by (intro barriers_kept_cong) (simp_all add: d')
    ultimately show ?thesis using ends False by simp
  qed
qed

lemma acknowledge_safe: "doc_safe x W (acknowledge_inner connector through)"
proof (rule doc_safeI)
  show "cd_observation_sequence d' = cd_observation_sequence d"
    if "acknowledge_inner connector through d = (d', Inr v)" for d d' v
    using that by (auto simp: acknowledge_inner_def Let_def split: if_splits)
next
  fix d d' u assume inv: "doc_inv x W d" and run: "acknowledge_inner connector through d = (d', Inr u)"
  let ?acks = "cd_acknowledged_handoff_sequences d"
  obtain n hs where d': "d' = d\<lparr>cd_acknowledged_handoff_sequences := btree_insert connector n ?acks, cd_handoffs := hs\<rparr>"
    and room: "contains_key connector ?acks \<or> length ?acks < MAX_ACKNOWLEDGED_CONNECTORS"
    using run by (auto simp: acknowledge_inner_def Let_def not_le split: if_splits)
  have acks: "btree_ok ?acks" "length ?acks \<le> MAX_ACKNOWLEDGED_CONNECTORS"
    using doc_invD(5) [OF inv] by (simp_all add: journal_ok_def)
  then have "length (btree_insert connector n ?acks) \<le> MAX_ACKNOWLEDGED_CONNECTORS"
    using room by (auto simp: length_btree_insert)
  then have "doc_inv x W (d\<lparr>cd_acknowledged_handoff_sequences := btree_insert connector n ?acks\<rparr>)"
    using inv acks(1) by (simp add: doc_inv_defs)
  moreover have "barriers_kept d d' = barriers_kept d d"
    by (intro barriers_kept_cong) (simp_all add: d')
  ultimately show "doc_inv x W d' \<and> barriers_kept d d'" by (simp add: d')
qed

lemma end_fence_run:
  assumes "doc_inv x W d" "(K, a) \<in> set (cd_reservations d)"
    and "record_consumed_authoritative_route x a outcome native at d = (d1, q)"
  shows "doc_inv x W (d1\<lparr>cd_reservations := btree_remove K (cd_reservations d1)\<rparr>) \<and>
    barriers_kept d d1 \<and> q = Inr ()"
  using end_fence [OF assms(1,2), where outcome = outcome and native = native and at = at] assms(3)
  by (elim exE conjE) auto

lemma resolve_inner_ok:
  assumes "resolve_ambiguous_handoff_inner x att resolution d = (d', Inr u)" and "d' \<noteq> d"
  shows "\<exists>K a h d1 v. find (\<lambda>(key, r). reservation_attempt r = att) (cd_reservations d) = Some (K, a) \<and>
    find (\<lambda>h. handoff_attempt h = att \<and> ho_outcome h = Ambiguous) (rev (cd_handoffs d)) = Some h \<and>
    record_consumed_authoritative_route x a (resolved_outcome_of resolution) (ho_native_job_id h)
      (ho_observed_at h) (d\<lparr>cd_handoffs := update_last
        (\<lambda>h. handoff_attempt h = att \<and> ho_outcome h = Ambiguous)
        (\<lambda>h. h\<lparr>ho_outcome := resolved_outcome_of resolution\<rparr>) (cd_handoffs d)\<rparr>) = (d1, Inr v) \<and>
    (\<exists>hs. d' = d1\<lparr>cd_reservations := btree_remove K (cd_reservations d1), cd_handoffs := hs\<rparr>)"
proof -
  have none: "resolution_replay att (resolved_outcome_of resolution) d = None"
    using assms by (auto simp: resolve_ambiguous_handoff_inner_def Let_def split: option.splits)
  obtain K a where fence: "find (\<lambda>(key, r). reservation_attempt r = att) (cd_reservations d) = Some (K, a)"
    using assms(1) none by (auto simp: resolve_ambiguous_handoff_inner_def Let_def split: option.splits)
  obtain h where h: "find (\<lambda>h. handoff_attempt h = att \<and> ho_outcome h = Ambiguous) (rev (cd_handoffs d)) = Some h"
    using assms(1) none fence by (auto simp: resolve_ambiguous_handoff_inner_def Let_def split: option.splits)
  obtain d1 q where q: "record_consumed_authoritative_route x a (resolved_outcome_of resolution)
      (ho_native_job_id h) (ho_observed_at h) (d\<lparr>cd_handoffs := update_last
        (\<lambda>h. handoff_attempt h = att \<and> ho_outcome h = Ambiguous)
        (\<lambda>h. h\<lparr>ho_outcome := resolved_outcome_of resolution\<rparr>) (cd_handoffs d)\<rparr>) = (d1, q)"
    by (rule prod.exhaust)
  obtain v where v: "q = Inr v"
    using assms(1) none fence h q
    by (cases q) (auto simp: resolve_ambiguous_handoff_inner_def Let_def)
  let ?d2 = "d1\<lparr>cd_reservations := btree_remove K (cd_reservations d1)\<rparr>"
  have "\<exists>hs. d' = ?d2\<lparr>cd_handoffs := hs\<rparr>"
  proof (cases "ho_sequence h \<le> (case map_of (cd_acknowledged_handoff_sequences ?d2) (at_connector_id att) of
      None \<Rightarrow> 0 | Some n \<Rightarrow> n)")
    case True
    with assms(1) none fence h q v show ?thesis
      by (intro exI [of _ "filter (\<lambda>h'. ho_sequence h' \<noteq> ho_sequence h) (cd_handoffs ?d2)"])
         (simp add: resolve_ambiguous_handoff_inner_def Let_def)
  next
    case False
    with assms(1) none fence h q v show ?thesis
      by (intro exI [of _ "cd_handoffs ?d2"]) (simp add: resolve_ambiguous_handoff_inner_def Let_def)
  qed
  with fence h q v show ?thesis by blast
qed

lemma resolve_observations_same:
  assumes "resolve_ambiguous_handoff_inner x att resolution d = (d', Inr u)"
  shows "cd_observation_sequence d' = cd_observation_sequence d"
proof (cases "d' = d")
  case False
  then show ?thesis
    using resolve_inner_ok [OF assms False] by (auto dest: record_observations_same)
qed simp

lemma resolve_safe: "doc_safe x W (resolve_ambiguous_handoff_inner x att resolution)"
proof (rule doc_safeI)
  show "cd_observation_sequence d' = cd_observation_sequence d" if "resolve_ambiguous_handoff_inner x att resolution d = (d', Inr v)" for d d' v
    using that by (rule resolve_observations_same)
next
  fix d d' u assume inv: "doc_inv x W d"
    and run: "resolve_ambiguous_handoff_inner x att resolution d = (d', Inr u)"
  show "doc_inv x W d' \<and> barriers_kept d d'"
  proof (cases "d' = d")
    case False
    let ?hs = "update_last (\<lambda>h. handoff_attempt h = att \<and> ho_outcome h = Ambiguous)
      (\<lambda>h. h\<lparr>ho_outcome := resolved_outcome_of resolution\<rparr>) (cd_handoffs d)"
    obtain K a and h :: DurableHandoff and d1 v hs where fence: "find (\<lambda>(key, r). reservation_attempt r = att) (cd_reservations d) = Some (K, a)"
      and rec: "record_consumed_authoritative_route x a (resolved_outcome_of resolution) (ho_native_job_id h)
        (ho_observed_at h) (d\<lparr>cd_handoffs := ?hs\<rparr>) = (d1, Inr v)"
      and d': "d' = d1\<lparr>cd_reservations := btree_remove K (cd_reservations d1), cd_handoffs := hs\<rparr>"
      using resolve_inner_ok [OF run False] by blast
    have K: "(K, a) \<in> set (cd_reservations (d\<lparr>cd_handoffs := ?hs\<rparr>))" using find_member [OF fence] by simp
    have inv0: "doc_inv x W (d\<lparr>cd_handoffs := ?hs\<rparr>)" using inv by simp
    note run1 = end_fence_run [OF inv0 K rec]
    have "doc_inv x W d'" using run1 by (simp add: d')
    moreover have "barriers_kept d d' = barriers_kept (d\<lparr>cd_handoffs := ?hs\<rparr>) d1"
      by (intro barriers_kept_cong) (simp_all add: d')
    ultimately show ?thesis using run1 by simp
  qed (use inv in simp)
qed

end
