(* ===== verification/Route_Machine.thy ===== *)
theory Route_Machine
  imports Route_Journal Route_Reservations Transition
begin

text \<open>
  The route coordinator as a state machine: any sequence of its operations, with any outcome of
  the journal writes, and restarts of the process from the journal file. The invariant relates
  the document in memory to the document in the file; what grows are the replay barriers and the
  observation numbers. The contract \<open>machine\<close> is interpreted on it.

  \<open>journal_codec\<close> is what the coordinator relies on of serde: a document that was written is the
  document that is read back.
\<close>

section \<open>Memory and file\<close>

definition journal_codec :: "'b route_ext \<Rightarrow> bool" where
  "journal_codec x \<longleftrightarrow>
     (\<forall>d b. document_to_vec_pretty x d = Some b \<longrightarrow> document_from_slice x b = Some d) \<and>
     (\<forall>d b. document_to_vec x d = Some b \<longrightarrow> document_from_slice x b = Some d)"

definition on_disk :: "'b route_ext \<Rightarrow> 'b coordinator \<Rightarrow> CoordinatorDocument option" where
  "on_disk x c = Option.bind (rc_file c) (document_from_slice x)"

lemma on_disk_update [simp]:
  "on_disk x (c\<lparr>rc_document := d\<rparr>) = on_disk x c"
  "on_disk x (c\<lparr>rc_poisoned := b\<rparr>) = on_disk x c"
  "on_disk x (c\<lparr>rc_next_observation_sequence := n\<rparr>) = on_disk x c"
  "on_disk x (c\<lparr>rc_reserved_observation_sequence := n\<rparr>) = on_disk x c"
  by (simp_all add: on_disk_def)

definition coordinator_inv :: "'b route_ext \<Rightarrow> string set \<Rightarrow> 'b coordinator \<Rightarrow> bool" where
  "coordinator_inv x W c \<longleftrightarrow> journal_codec x \<and> doc_inv x W (rc_document c) \<and>
     (\<exists>disk. on_disk x c = Some disk \<and> doc_inv x W disk \<and> barriers_kept (rc_document c) disk \<and>
        rc_reserved_observation_sequence c \<le> cd_observation_sequence disk) \<and>
     rc_next_observation_sequence c \<le> Suc (rc_reserved_observation_sequence c) \<and>
     rc_reserved_observation_sequence c \<le> cd_observation_sequence (rc_document c)"

definition coordinator_grows :: "'b coordinator \<Rightarrow> 'b coordinator \<Rightarrow> bool" where
  "coordinator_grows c c' \<longleftrightarrow> barriers_kept (rc_document c) (rc_document c') \<and>
     rc_next_observation_sequence c \<le> rc_next_observation_sequence c'"

text \<open>Another document and file under the same counters.\<close>

lemma coordinator_invI:
  assumes "journal_codec x" "doc_inv x W (rc_document c)" "on_disk x c = Some disk" "doc_inv x W disk"
    "barriers_kept (rc_document c) disk"
    "rc_reserved_observation_sequence c \<le> cd_observation_sequence disk"
    "rc_next_observation_sequence c \<le> Suc (rc_reserved_observation_sequence c)"
    "rc_reserved_observation_sequence c \<le> cd_observation_sequence (rc_document c)"
  shows "coordinator_inv x W c"
  using assms unfolding coordinator_inv_def by blast

lemma coordinator_invE:
  assumes "coordinator_inv x W c"
  obtains disk where "journal_codec x" "doc_inv x W (rc_document c)" "on_disk x c = Some disk"
    "doc_inv x W disk" "barriers_kept (rc_document c) disk"
    "rc_reserved_observation_sequence c \<le> cd_observation_sequence disk"
    "rc_next_observation_sequence c \<le> Suc (rc_reserved_observation_sequence c)"
    "rc_reserved_observation_sequence c \<le> cd_observation_sequence (rc_document c)"
  using assms unfolding coordinator_inv_def by blast

lemma persist_effect:
  assumes "journal_codec x" "persist x io c = (c', r)"
  shows "\<exists>file. c' = c\<lparr>rc_file := file\<rparr> \<and>
    (on_disk x c' = on_disk x c \<and> r \<noteq> Inr () \<or> on_disk x c' = Some (rc_document c))"
  using assms
  by (intro exI [of _ "rc_file c'"]; cases "document_to_vec_pretty x (rc_document c)"; cases "ji_replace io")
     (auto simp: persist_def replace_json_def on_disk_def journal_codec_def)

lemma documents_match_eq: "journal_codec x \<Longrightarrow> documents_match x l r \<Longrightarrow> l = r"
  by (auto simp: documents_match_def journal_codec_def split: option.splits) (metis option.inject)

lemma read_journal_Some: "read_journal x io (rc_file c) = Some disk \<Longrightarrow> on_disk x c = Some disk"
  by (simp add: read_journal_def on_disk_def split: if_splits)

text \<open>
  The outcomes of a commit: the change is in memory and in the file; or nothing changed; or the
  coordinator has stopped, with the previous document or the one of the file in memory.
\<close>

lemma commit_effect:
  assumes codec: "journal_codec x"
    and run: "commit_document_change x io (rc_document c) (c\<lparr>rc_document := d\<rparr>) = (c', r)"
  shows "\<exists>doc file pois. c' = c\<lparr>rc_document := doc, rc_file := file, rc_poisoned := pois\<rparr> \<and>
    (r = Inr () \<and> doc = d \<and> pois = rc_poisoned c \<and> on_disk x c' = Some d \<or>
     (r = Inl JournalNotCommitted \<and> \<not> pois \<or> r = Inl JournalOutcomeAmbiguous \<and> pois) \<and>
     (doc = rc_document c \<or> on_disk x c' = Some doc) \<and>
     (on_disk x c' = on_disk x c \<or> on_disk x c' = Some d) \<and>
     (\<not> pois \<longrightarrow> doc = rc_document c \<and> on_disk x c' = Some doc))"
proof -
  obtain c1 q where p: "persist x io (c\<lparr>rc_document := d\<rparr>) = (c1, q)" by (rule prod.exhaust)
  obtain fil where c1: "c1 = c\<lparr>rc_document := d, rc_file := fil\<rparr>"
    and disk: "on_disk x c1 = on_disk x c \<and> q \<noteq> Inr () \<or> on_disk x c1 = Some d"
    using persist_effect [OF codec p] by (auto simp: on_disk_def)
  show ?thesis
  proof (cases q)
    case (Inr u)
    with p run c1 disk show ?thesis
      by (auto simp: commit_document_change_def intro!: exI [of _ d] exI [of _ fil] exI [of _ "rc_poisoned c"])
  next
    case (Inl e)
    let ?read = "read_journal x io (rc_file c1)"
    show ?thesis
    proof (cases ?read)
      case None
      with Inl p run c1 disk show ?thesis
        by (intro exI [of _ "rc_document c"] exI [of _ fil] exI [of _ True])
           (auto simp: commit_document_change_def Let_def on_disk_def)
    next
      case (Some b)
      have b: "on_disk x c1 = Some b" using read_journal_Some [OF Some] .
      show ?thesis
      proof (cases "documents_match x b (rc_document c)")
        case True
        then have "b = rc_document c" by (rule documents_match_eq [OF codec])
        with True Some b Inl p run c1 disk show ?thesis
          by (intro exI [of _ "rc_document c"] exI [of _ fil] exI [of _ "rc_poisoned c"])
             (auto simp: commit_document_change_def Let_def on_disk_def split: if_splits)
      next
        case False
        with Some b Inl p run c1 disk show ?thesis
          by (intro exI [of _ b] exI [of _ fil] exI [of _ True])
             (auto simp: commit_document_change_def Let_def on_disk_def)
      qed
    qed
  qed
qed

section \<open>Every operation is safe\<close>

definition op_safe :: "'b route_ext \<Rightarrow> string set \<Rightarrow> ('b, 'a) route_op \<Rightarrow> bool" where
  "op_safe x W f \<longleftrightarrow> (\<forall>c. coordinator_inv x W c \<longrightarrow>
     coordinator_inv x W (fst (f c)) \<and> coordinator_grows c (fst (f c)))"

lemma op_safeI:
  "(\<And>c c' r. coordinator_inv x W c \<Longrightarrow> f c = (c', r) \<Longrightarrow>
    coordinator_inv x W c' \<and> coordinator_grows c c') \<Longrightarrow> op_safe x W f"
  by (simp add: op_safe_def prod_eq_iff)

lemma op_safeD:
  assumes "op_safe x W f" "coordinator_inv x W c" "f c = (c', r)"
  shows "coordinator_inv x W c'" "coordinator_grows c c'"
  using assms unfolding op_safe_def by (metis fst_conv)+

lemma coordinator_grows_refl [simp]: "coordinator_grows c c"
  by (simp add: coordinator_grows_def)

lemma coordinator_grows_trans: "coordinator_grows c c' \<Longrightarrow> coordinator_grows c' c'' \<Longrightarrow> coordinator_grows c c''"
  unfolding coordinator_grows_def using barriers_kept_trans by (metis le_trans)

lemma poison_safe [simp]:
  "coordinator_inv x W (c\<lparr>rc_poisoned := b\<rparr>) = coordinator_inv x W c"
  "coordinator_grows c (c'\<lparr>rc_poisoned := b\<rparr>) = coordinator_grows c c'"
  by (simp_all add: coordinator_inv_def coordinator_grows_def on_disk_def)

lemma commit_safe:
  assumes inv: "coordinator_inv x W c" and d: "doc_inv x W d" "barriers_kept (rc_document c) d"
    "cd_observation_sequence d = cd_observation_sequence (rc_document c)"
    and run: "commit_document_change x io (rc_document c) (c\<lparr>rc_document := d\<rparr>) = (c', r)"
  shows "coordinator_inv x W c' \<and> coordinator_grows c c'"
proof -
  obtain disk where I: "journal_codec x" "doc_inv x W (rc_document c)" "on_disk x c = Some disk"
    "doc_inv x W disk" "barriers_kept (rc_document c) disk"
    "rc_reserved_observation_sequence c \<le> cd_observation_sequence disk"
    "rc_next_observation_sequence c \<le> Suc (rc_reserved_observation_sequence c)"
    "rc_reserved_observation_sequence c \<le> cd_observation_sequence (rc_document c)"
    using inv by (rule coordinator_invE)
  obtain doc fil pois where c': "c' = c\<lparr>rc_document := doc, rc_file := fil, rc_poisoned := pois\<rparr>"
    and doc: "doc = d \<and> on_disk x c' = Some d \<or>
      (doc = rc_document c \<or> on_disk x c' = Some doc) \<and>
      (on_disk x c' = on_disk x c \<or> on_disk x c' = Some d)"
    using commit_effect [OF I(1) run] by (elim exE) (metis that)
  define new where "new = the (on_disk x c')"
  have new: "on_disk x c' = Some new" "new = disk \<or> new = d"
    using doc I(3) by (auto simp: new_def)
  have "doc = rc_document c \<or> doc = new" using doc new by auto
  then have "doc_inv x W doc" "barriers_kept (rc_document c) doc" "barriers_kept doc new"
    "rc_reserved_observation_sequence c \<le> cd_observation_sequence doc"
    using new(2) I d by auto
  moreover have "doc_inv x W new" "rc_reserved_observation_sequence c \<le> cd_observation_sequence new"
    using new(2) I d by auto
  ultimately show ?thesis
    using I(1,7) new(1) c' by (auto intro!: coordinator_invI [where disk = new] simp: coordinator_grows_def)
qed

lemma journaled_safe:
  assumes "doc_safe x W inner"
  shows "op_safe x W (journaled x io inner)"
proof (rule op_safeI)
  fix c c' r assume inv: "coordinator_inv x W c" and run: "journaled x io inner c = (c', r)"
  obtain d q where q: "inner (rc_document c) = (d, q)" by (rule prod.exhaust)
  show "coordinator_inv x W c' \<and> coordinator_grows c c'"
  proof (cases "rc_poisoned c \<or> isl q")
    case True
    then have "c' = c" using run q
      by (cases q) (auto simp: journaled_def ensure_operational_def split: if_splits)
    with inv show ?thesis by simp
  next
    case False
    then obtain v where v: "q = Inr v" by (cases q) auto
    obtain c1 q1 where commit: "commit_document_change x io (rc_document c) (c\<lparr>rc_document := d\<rparr>) = (c1, q1)"
      by (rule prod.exhaust)
    have "c' = c1" using run q v commit False
      by (cases q1) (auto simp: journaled_def ensure_operational_def Let_def)
    moreover have "doc_inv x W (rc_document c)" using inv by (simp add: coordinator_inv_def)
    ultimately show ?thesis
      using commit_safe [OF inv _ _ _ commit] doc_safeD [OF assms, of "rc_document c" d v] q v by simp
  qed
qed

lemma persist_safe:
  assumes inv: "coordinator_inv x W c" and d: "doc_inv x W d" "barriers_kept (rc_document c) d"
    "barriers_kept d (rc_document c)" "cd_observation_sequence (rc_document c) \<le> cd_observation_sequence d"
    and run: "persist x io (c\<lparr>rc_document := d\<rparr>) = (c', r)"
  shows "coordinator_inv x W c' \<and> coordinator_grows c c'" "\<exists>fil. c' = c\<lparr>rc_document := d, rc_file := fil\<rparr>"
    "r = Inr u \<Longrightarrow> on_disk x c' = Some d"
proof -
  obtain disk where I: "journal_codec x" "doc_inv x W (rc_document c)" "on_disk x c = Some disk"
    "doc_inv x W disk" "barriers_kept (rc_document c) disk"
    "rc_reserved_observation_sequence c \<le> cd_observation_sequence disk"
    "rc_next_observation_sequence c \<le> Suc (rc_reserved_observation_sequence c)"
    "rc_reserved_observation_sequence c \<le> cd_observation_sequence (rc_document c)"
    using inv by (rule coordinator_invE)
  obtain fil where c': "c' = c\<lparr>rc_document := d, rc_file := fil\<rparr>"
    and disk: "on_disk x c' = on_disk x c \<and> r \<noteq> Inr () \<or> on_disk x c' = Some d"
    using persist_effect [OF I(1) run] by (auto simp: on_disk_def)
  then show "\<exists>fil. c' = c\<lparr>rc_document := d, rc_file := fil\<rparr>" by blast
  show "r = Inr u \<Longrightarrow> on_disk x c' = Some d" using disk by simp
  define new where "new = the (on_disk x c')"
  have new: "on_disk x c' = Some new" "new = disk \<or> new = d" using disk I(3) by (auto simp: new_def)
  have "barriers_kept d disk" using barriers_kept_trans [OF d(3) I(5)] .
  then have "doc_inv x W new" "barriers_kept d new"
    "rc_reserved_observation_sequence c \<le> cd_observation_sequence new"
    "rc_reserved_observation_sequence c \<le> cd_observation_sequence d"
    using new(2) I d by auto
  then show "coordinator_inv x W c' \<and> coordinator_grows c c'"
    using I(1,7) new(1) c' d by (auto intro!: coordinator_invI [where disk = new] simp: coordinator_grows_def)
qed

lemma same_journal_sym: "same_journal d d' \<Longrightarrow> same_journal d' d"
  by (simp add: same_journal_def)

lemma reconcile_safe:
  assumes W: "\<And>p. p \<in> set printers \<Longrightarrow> dp_native_id p \<in> W"
  shows "op_safe x W (reconcile_routes x io printers inventory at)"
proof (rule op_safeI)
  fix c c' r assume inv: "coordinator_inv x W c" and run: "reconcile_routes x io printers inventory at c = (c', r)"
  obtain d snaps where rec: "reconcile_document x printers inventory at (rc_document c) = (d, snaps)"
    by (rule prod.exhaust)
  have d: "doc_inv x W d \<and> same_journal (rc_document c) d"
    using doc_inv_reconcile [OF _ W rec] inv by (simp add: coordinator_inv_def)
  obtain c1 q where p: "persist x io (c\<lparr>rc_document := d\<rparr>) = (c1, q)" by (rule prod.exhaust)
  have "c' = c \<or> c' = c1" using run rec p
    by (cases q) (auto simp: reconcile_routes_def ensure_operational_def split: if_splits)
  then show "coordinator_inv x W c' \<and> coordinator_grows c c'"
    using inv persist_safe(1) [OF inv _ _ _ _ p] d
    by (auto simp: same_journal_kept same_journal_sym) (simp_all add: same_journal_def)
qed

lemma compact_safe: "op_safe x W (compact_local_terminal_handoffs x io connector commits)"
proof (rule op_safeI)
  fix c c' r assume inv: "coordinator_inv x W c"
    and run: "compact_local_terminal_handoffs x io connector commits c = (c', r)"
  let ?hs = "filter (keep_unprojected connector commits) (cd_handoffs (rc_document c))"
  let ?d = "rc_document c\<lparr>cd_handoffs := ?hs\<rparr>"
  obtain c1 q where commit: "commit_document_change x io (rc_document c) (c\<lparr>rc_document := ?d\<rparr>) = (c1, q)"
    by (rule prod.exhaust)
  have "doc_inv x W ?d" using inv by (simp add: coordinator_inv_def)
  moreover have "barriers_kept (rc_document c) ?d = barriers_kept (rc_document c) (rc_document c)"
    by (rule barriers_kept_cong) simp_all
  ultimately have c1: "coordinator_inv x W c1 \<and> coordinator_grows c c1"
    using commit_safe [OF inv _ _ _ commit] by simp
  have "length ?hs = length (cd_handoffs (rc_document c)) \<Longrightarrow> ?hs = cd_handoffs (rc_document c)"
    by (metis filter_id_conv length_filter_less nat_neq_iff)
  then have "?d = rc_document c" if "length (cd_handoffs (rc_document c)) - length ?hs = 0"
    using that length_filter_le [of "keep_unprojected connector commits" "cd_handoffs (rc_document c)"]
    by (simp add: le_antisym)
  then have "c' = c \<or> c' = c1" using run commit
    by (cases q) (auto simp: compact_local_terminal_handoffs_def ensure_operational_def Let_def split: if_splits)
  then show "coordinator_inv x W c' \<and> coordinator_grows c c'" using inv c1 by auto
qed

lemma reserve_observations_safe:
  assumes inv: "coordinator_inv x W c" and t: "t < rc_next_observation_sequence c + b"
    and run: "reserve_observations x io b t c = (c', r)"
  shows "coordinator_inv x W c' \<and> coordinator_grows c c'"
    "rc_next_observation_sequence c' = rc_next_observation_sequence c"
    "r = Inr () \<Longrightarrow> t \<le> rc_reserved_observation_sequence c'"
proof -
  let ?n = "cd_observation_sequence (rc_document c) + max OBSERVATION_SEQUENCE_RESERVATION b"
  let ?d = "rc_document c\<lparr>cd_observation_sequence := ?n\<rparr>"
  obtain c1 q where p: "persist x io (c\<lparr>rc_document := ?d\<rparr>) = (c1, q)" by (rule prod.exhaust)
  have docs: "doc_inv x W ?d" using inv by (simp add: coordinator_inv_def)
  have "barriers_kept (rc_document c) ?d = barriers_kept (rc_document c) (rc_document c)"
    "barriers_kept ?d (rc_document c) = barriers_kept (rc_document c) (rc_document c)"
    by (rule barriers_kept_cong; simp)+
  then have kept: "barriers_kept (rc_document c) ?d" "barriers_kept ?d (rc_document c)" by simp_all
  note ps = persist_safe [OF inv docs kept _ p, simplified]
  have counters: "rc_next_observation_sequence c1 = rc_next_observation_sequence c"
    "rc_reserved_observation_sequence c1 = rc_reserved_observation_sequence c" "rc_document c1 = ?d"
    using ps(2) by auto
  have bound: "rc_next_observation_sequence c \<le> Suc (cd_observation_sequence (rc_document c))"
    "rc_reserved_observation_sequence c \<le> cd_observation_sequence (rc_document c)"
    using inv by (auto simp: coordinator_inv_def)
  have written: "coordinator_inv x W (c1\<lparr>rc_reserved_observation_sequence := ?n\<rparr>) \<and>
      coordinator_grows c (c1\<lparr>rc_reserved_observation_sequence := ?n\<rparr>)" if "q = Inr u" for u
  proof -
    have "on_disk x c1 = Some ?d" using ps(3) that by simp
    moreover have "coordinator_inv x W c1" "coordinator_grows c c1" using ps(1) by simp_all
    ultimately show ?thesis
      using docs bound counters
      by (auto intro!: coordinator_invI [where disk = ?d] simp: coordinator_inv_def coordinator_grows_def)
  qed
  show "coordinator_inv x W c' \<and> coordinator_grows c c'"
    using run p ps(1) written inv
    by (cases q) (auto simp: reserve_observations_def checked_add_u64_def split: if_splits)
  show "rc_next_observation_sequence c' = rc_next_observation_sequence c"
    using run p counters
    by (cases q) (auto simp: reserve_observations_def checked_add_u64_def split: if_splits)
  show "t \<le> rc_reserved_observation_sequence c'" if "r = Inr ()"
    using run p that bound t
    by (cases q) (auto simp: reserve_observations_def checked_add_u64_def split: if_splits)
qed

text \<open>What an allocation does: the next numbers, contiguous, and the counter behind them.\<close>

lemma allocate_runs:
  assumes inv: "coordinator_inv x W c"
    and run: "allocate_observation_sequences x io count c = (c', r)"
  shows "coordinator_inv x W c' \<and> coordinator_grows c c'"
    "r = Inr ns \<Longrightarrow> ns = [rc_next_observation_sequence c ..< rc_next_observation_sequence c'] \<and>
      length ns = min count MAX_ROUTES"
proof -
  define b where "b = min count MAX_ROUTES"
  let ?t = "rc_next_observation_sequence c + (b - 1)"
  obtain c1 q where s: "reserve_observations x io b ?t c = (c1, q)" by (rule prod.exhaust)
  have "(coordinator_inv x W c' \<and> coordinator_grows c c') \<and>
      (\<forall>ns. r = Inr ns \<longrightarrow> ns = [rc_next_observation_sequence c ..< rc_next_observation_sequence c'] \<and>
        length ns = b)"
  proof (cases "b = 0 \<or> rc_poisoned c \<or> \<not> ?t \<le> u64_max")
    case True
    then have "c' = c" "\<forall>ns. r = Inr ns \<longrightarrow> ns = [] \<and> b = 0"
      using run by (auto simp: b_def [symmetric] allocate_observation_sequences_def ensure_operational_def Let_def
        checked_add_u64_def split: if_splits)
    with inv show ?thesis by simp
  next
    case False
    have less: "?t < rc_next_observation_sequence c + b" using False by auto
    have rs: "coordinator_inv x W c1 \<and> coordinator_grows c c1"
      "rc_next_observation_sequence c1 = rc_next_observation_sequence c"
      "q = Inr () \<Longrightarrow> ?t \<le> rc_reserved_observation_sequence c1"
      using reserve_observations_safe [OF inv less s] by auto
    have moved: "coordinator_inv x W (c1\<lparr>rc_next_observation_sequence := Suc ?t\<rparr>) \<and>
        coordinator_grows c (c1\<lparr>rc_next_observation_sequence := Suc ?t\<rparr>)" if "q = Inr ()"
      using rs(1,2) rs(3) [OF that] by (auto simp: coordinator_inv_def coordinator_grows_def)
    show ?thesis
      using run s False rs(1,2) moved
      by (cases q) (auto simp: b_def [symmetric] allocate_observation_sequences_def ensure_operational_def Let_def
        checked_add_u64_def split: if_splits)
  qed
  then show "coordinator_inv x W c' \<and> coordinator_grows c c'"
    "r = Inr ns \<Longrightarrow> ns = [rc_next_observation_sequence c ..< rc_next_observation_sequence c'] \<and>
      length ns = min count MAX_ROUTES" unfolding b_def by blast+
qed

lemma allocate_safe: "op_safe x W (allocate_observation_sequences x io count)"
  by (rule op_safeI) (rule allocate_runs(1))

lemma finish_op_safe: "op_safe x W (finish x io connector job handle outcome native at)"
  unfolding finish_def by (rule journaled_safe [OF finish_safe])

lemma finish_runtime_safe:
  "op_safe x W (finish_runtime x io1 io2 connector job handle outcome native at)"
proof (rule op_safeI)
  fix c c' r assume inv: "coordinator_inv x W c"
    and run: "finish_runtime x io1 io2 connector job handle outcome native at c = (c', r)"
  obtain c1 q1 where f1: "finish x io1 connector job handle outcome native at c = (c1, q1)"
    by (rule prod.exhaust)
  obtain c2 q2 where f2: "finish x io2 connector job handle outcome native at c1 = (c2, q2)"
    by (rule prod.exhaust)
  have c1: "coordinator_inv x W c1" "coordinator_grows c c1"
    using op_safeD [OF finish_op_safe inv f1] by auto
  have c2: "coordinator_inv x W c2" "coordinator_grows c c2"
    using op_safeD [OF finish_op_safe c1(1) f2] coordinator_grows_trans [OF c1(2)] by auto
  have "\<exists>b. c' = c1 \<or> c' = c1\<lparr>rc_poisoned := b\<rparr> \<or> c' = c2 \<or> c' = c2\<lparr>rc_poisoned := b\<rparr>"
    using run f1 f2 by (cases q1; cases q2) (auto simp: finish_runtime_def split: if_splits)
  then show "coordinator_inv x W c' \<and> coordinator_grows c c'" using c1 c2 by auto
qed

section \<open>Restarts\<close>

text \<open>
  The process ends and the journal is opened again. When that fails there is no coordinator to
  call, which is a coordinator that has stopped.
\<close>

definition restart :: "'b route_ext \<Rightarrow> journal_io \<Rightarrow> string \<Rightarrow> 'b coordinator \<Rightarrow> 'b coordinator" where
  "restart x io namespace c =
     (case open_coordinator x io namespace (rc_file c) of
        (file, Inl _) \<Rightarrow> c\<lparr>rc_file := file, rc_poisoned := True\<rparr>
      | (file, Inr c') \<Rightarrow> c')"

lemma doc_inv_prune:
  assumes "doc_inv x W d"
  shows "doc_inv x W (prune_absent_routes d)"
proof -
  have "route_views (prune_absent_routes d) \<subseteq> route_views d"
    unfolding route_views_def by (rule image_mono [OF prune_subset])
  moreover have "cd_reservations (prune_absent_routes d) = cd_reservations d"
    using prune_same [of d] by (simp add: same_journal_def)
  ultimately have "routes_fenced (prune_absent_routes d)"
    using doc_invD(6) [OF assms] unfolding routes_fenced_def by (metis subsetD)
  then show ?thesis using assms prune_length [of d] by (simp add: doc_inv_def doc_base_prune)
qed

definition repaired :: "'b route_ext \<Rightarrow> CoordinatorDocument \<Rightarrow> CoordinatorDocument" where
  "repaired x d = prune_absent_routes (reconcile_coordination_keys x d)"

lemma repaired_safe:
  assumes "doc_inv x W d"
  shows "doc_inv x W (repaired x d)" "same_journal d (repaired x d)"
proof -
  have base: "doc_base x W d" using assms by (simp add: doc_inv_def)
  have "doc_inv x W (reconcile_coordination_keys x d)"
    using regroup_safe [OF base] assms by (simp add: doc_inv_def)
  then show "doc_inv x W (repaired x d)" unfolding repaired_def by (rule doc_inv_prune)
  show "same_journal d (repaired x d)"
    unfolding repaired_def by (rule same_journal_trans [OF regroup_safe(3) [OF base] prune_same])
qed

text \<open>The state that \<open>open\<close> builds from the document of the file, before it writes it.\<close>

definition reopened :: "'b route_ext \<Rightarrow> CoordinatorDocument \<Rightarrow> 'b option \<Rightarrow> 'b coordinator" where
  "reopened x d file =
     \<lparr>rc_document = repaired x d, rc_next_observation_sequence = Suc (cd_observation_sequence d),
      rc_reserved_observation_sequence = cd_observation_sequence d, rc_poisoned = False,
      rc_file = file\<rparr>"

lemma open_runs:
  assumes "open_coordinator x io namespace file = (file', r)"
  shows "file' = file \<and> isl r \<or>
    (\<exists>d c q. load_document x io namespace file = Inr d \<and> check_document x d = Inr (Suc (cd_observation_sequence d)) \<and>
      persist x io (reopened x d file) = (c, q) \<and> file' = rc_file c \<and>
      (isl r \<or> r = Inr c \<and> q = Inr ()))"
proof -
  consider e where "load_document x io namespace file = Inl e"
    | d e where "load_document x io namespace file = Inr d" "check_document x d = Inl e"
    | d n where "load_document x io namespace file = Inr d" "check_document x d = Inr n"
    by (metis sum.exhaust)
  then show ?thesis
  proof cases
    case (3 d n)
    have n: "n = Suc (cd_observation_sequence d)"
      using 3(2) by (auto simp: check_document_def checked_add_u64_def split: if_splits)
    obtain c q where p: "persist x io (reopened x d file) = (c, q)" by (rule prod.exhaust)
    show ?thesis
      using assms 3 n p
      by (cases q) (auto simp: open_coordinator_def Let_def repaired_def [symmetric]
        reopened_def [symmetric] split: if_splits)
  qed (use assms in \<open>auto simp: open_coordinator_def\<close>)
qed

lemma restart_safe:
  assumes inv: "coordinator_inv x W c"
  shows "coordinator_inv x W (restart x io namespace c) \<and> coordinator_grows c (restart x io namespace c)"
proof -
  obtain disk where I: "journal_codec x" "doc_inv x W (rc_document c)" "on_disk x c = Some disk"
    "doc_inv x W disk" "barriers_kept (rc_document c) disk"
    "rc_reserved_observation_sequence c \<le> cd_observation_sequence disk"
    "rc_next_observation_sequence c \<le> Suc (rc_reserved_observation_sequence c)"
    "rc_reserved_observation_sequence c \<le> cd_observation_sequence (rc_document c)"
    using inv by (rule coordinator_invE)
  obtain bytes where bytes: "rc_file c = Some bytes" "document_from_slice x bytes = Some disk"
    using I(3) by (auto simp: on_disk_def bind_eq_Some_conv)
  obtain fil r where run: "open_coordinator x io namespace (rc_file c) = (fil, r)" by (rule prod.exhaust)
  consider "fil = rc_file c" "isl r"
    | c1 q where "persist x io (reopened x disk (rc_file c)) = (c1, q)" "fil = rc_file c1"
      "isl r \<or> r = Inr c1"
    using open_runs [OF run] bytes by (auto simp: load_document_def split: if_splits)
  then show ?thesis
  proof cases
    case 1
    then have "restart x io namespace c = c\<lparr>rc_poisoned := True\<rparr>"
      using run by (cases r) (auto simp: restart_def)
    with inv show ?thesis by simp
  next
    case (2 c1 q)
    let ?o = "reopened x disk (rc_file c)"
    have disk: "on_disk x ?o = Some disk" using I(3) by (simp add: reopened_def on_disk_def)
    have fresh: "coordinator_inv x W (?o\<lparr>rc_document := disk\<rparr>)"
      using I(1,4) disk by (intro coordinator_invI [where disk = disk]) (simp_all add: reopened_def on_disk_def)
    note same = repaired_safe [OF I(4)]
    have kept: "barriers_kept disk (repaired x disk)" "barriers_kept (repaired x disk) disk"
      "cd_observation_sequence (repaired x disk) = cd_observation_sequence disk"
      using same(2) same_journal_sym [OF same(2)] by (auto intro: same_journal_kept simp: same_journal_def)
    have "persist x io (?o\<lparr>rc_document := disk\<rparr>\<lparr>rc_document := repaired x disk\<rparr>) = (c1, q)"
      using 2(1) by (simp add: reopened_def)
    note ps = persist_safe [OF fresh same(1) _ _ _ this]
    have c1: "coordinator_inv x W c1" "coordinator_grows (?o\<lparr>rc_document := disk\<rparr>) c1"
      "\<exists>f. c1 = ?o\<lparr>rc_document := repaired x disk, rc_file := f\<rparr>"
      using ps(1,2) kept by simp_all
    have "barriers_kept disk (rc_document c1)" "Suc (cd_observation_sequence disk) \<le> rc_next_observation_sequence c1"
      using c1(2) by (simp_all add: coordinator_grows_def reopened_def)
    then have grows: "coordinator_grows c c1"
      using barriers_kept_trans [OF I(5)] I(6,7) by (simp add: coordinator_grows_def)
    show ?thesis
    proof (cases r)
      case (Inr c2)
      then show ?thesis using run 2(3) c1(1) grows by (simp add: restart_def)
    next
      case (Inl e)
      obtain disk1 where d1: "on_disk x c1 = Some disk1" "doc_inv x W disk1" "barriers_kept (rc_document c1) disk1"
        "rc_reserved_observation_sequence c1 \<le> cd_observation_sequence disk1"
        using c1(1) by (rule coordinator_invE)
      have "rc_document c1 = repaired x disk" "rc_reserved_observation_sequence c1 = cd_observation_sequence disk"
        using c1(3) by (auto simp: reopened_def)
      then have "barriers_kept disk disk1" "rc_reserved_observation_sequence c \<le> cd_observation_sequence disk1"
        using d1(4) I(6) barriers_kept_trans [OF kept(1)] d1(3) by simp_all
      then have "barriers_kept (rc_document c) disk1" "rc_reserved_observation_sequence c \<le> cd_observation_sequence disk1"
        using barriers_kept_trans [OF I(5)] by simp_all
      then have "coordinator_inv x W (c\<lparr>rc_file := rc_file c1\<rparr>)"
        using I d1 by (intro coordinator_invI [where disk = disk1]) (simp_all add: on_disk_def)
      then show ?thesis using run Inl 2(2)
        by (simp add: restart_def coordinator_grows_def)
    qed
  qed
qed

section \<open>The machine\<close>

datatype route_call =
    Reserve journal_io "string \<times> string" string string string int
  | Register journal_io string string string CloudRouteReservation int
  | Finish journal_io string string RouteReservation NativeHandoffOutcome "string option" int
  | FinishRuntime journal_io journal_io string string RouteReservation NativeHandoffOutcome
      "string option" int
  | Acknowledge journal_io string nat
  | Compact journal_io string "LocalHandoffCommit list"
  | Resolve journal_io attempt AmbiguousHandoffResolution
  | ReconcileRoutes journal_io "DiscoveredPrinter list" nat int
  | Allocate journal_io nat
  | Restart journal_io string

fun perform :: "'b route_ext \<Rightarrow> route_call \<Rightarrow> 'b coordinator \<Rightarrow> 'b coordinator" where
  "perform x (Reserve io uuids connector native job now) c =
     fst (reserve x io uuids connector native job now c)"
| "perform x (Register io connector native job reservation now) c =
     fst (register_authoritative x io connector native job reservation now c)"
| "perform x (Finish io connector job handle outcome native_job at) c =
     fst (finish x io connector job handle outcome native_job at c)"
| "perform x (FinishRuntime io1 io2 connector job handle outcome native_job at) c =
     fst (finish_runtime x io1 io2 connector job handle outcome native_job at c)"
| "perform x (Acknowledge io connector through) c = fst (acknowledge_handoffs x io connector through c)"
| "perform x (Compact io connector commits) c =
     fst (compact_local_terminal_handoffs x io connector commits c)"
| "perform x (Resolve io att resolution) c = fst (resolve_ambiguous_handoff x io att resolution c)"
| "perform x (ReconcileRoutes io printers inventory at) c =
     fst (reconcile_routes x io printers inventory at c)"
| "perform x (Allocate io count) c = fst (allocate_observation_sequences x io count c)"
| "perform x (Restart io namespace) c = restart x io namespace c"

text \<open>The identifiers that a call brings in are in use.\<close>

fun call_in :: "string set \<Rightarrow> route_call \<Rightarrow> bool" where
  "call_in W (Reserve io uuids connector native job now) =
     (connector \<in> W \<and> native \<in> W \<and> job \<in> W)"
| "call_in W (Register io connector native job reservation now) =
     (connector \<in> W \<and> native \<in> W \<and> job \<in> W \<and> cl_route_id reservation \<in> W)"
| "call_in W (ReconcileRoutes io printers inventory at) =
     list_all (\<lambda>printer. dp_native_id printer \<in> W) printers"
| "call_in W _ = True"

lemma perform_safe:
  assumes "call_in W call" "coordinator_inv x W c"
  shows "coordinator_inv x W (perform x call c) \<and> coordinator_grows c (perform x call c)"
proof (cases call)
  case (Reserve io uuids connector native job now)
  have "op_safe x W (reserve x io uuids connector native job now)"
    unfolding reserve_def using assms(1) Reserve by (intro journaled_safe reserve_safe) simp_all
  with assms(2) show ?thesis by (simp add: Reserve op_safe_def)
next
  case (Register io connector native job reservation now)
  have "op_safe x W (register_authoritative x io connector native job reservation now)"
    unfolding register_authoritative_def using assms(1) Register
    by (intro journaled_safe register_safe) simp_all
  with assms(2) show ?thesis by (simp add: Register op_safe_def)
next
  case (Finish io connector job handle outcome native_job at)
  show ?thesis using finish_op_safe assms(2) unfolding op_safe_def Finish perform.simps by blast
next
  case (FinishRuntime io1 io2 connector job handle outcome native_job at)
  show ?thesis using finish_runtime_safe assms(2) unfolding op_safe_def FinishRuntime perform.simps by blast
next
  case (Acknowledge io connector through)
  show ?thesis using journaled_safe [OF acknowledge_safe] assms(2)
    unfolding op_safe_def Acknowledge perform.simps acknowledge_handoffs_def by blast
next
  case (Compact io connector commits)
  show ?thesis using compact_safe assms(2) unfolding op_safe_def Compact perform.simps by blast
next
  case (Resolve io att resolution)
  show ?thesis using journaled_safe [OF resolve_safe] assms(2)
    unfolding op_safe_def Resolve perform.simps resolve_ambiguous_handoff_def by blast
next
  case (ReconcileRoutes io printers inventory at)
  have "op_safe x W (reconcile_routes x io printers inventory at)"
    using assms(1) ReconcileRoutes by (intro reconcile_safe) (simp add: list_all_iff)
  with assms(2) show ?thesis by (simp add: ReconcileRoutes op_safe_def)
next
  case (Allocate io count)
  show ?thesis using allocate_safe assms(2) unfolding op_safe_def Allocate perform.simps by blast
next
  case (Restart io namespace)
  show ?thesis using restart_safe [OF assms(2)] by (simp add: Restart)
qed

inductive coordinator_step :: "'b route_ext \<Rightarrow> string set \<Rightarrow> 'b coordinator \<Rightarrow> 'b coordinator \<Rightarrow> bool"
  for x W where
  call: "call_in W call \<Longrightarrow> coordinator_step x W c (perform x call c)"

inductive_cases coordinator_stepE: "coordinator_step x W c c'"

text \<open>A coordinator of a new installation: opened where there is no journal file.\<close>

definition coordinator_init :: "'b route_ext \<Rightarrow> string set \<Rightarrow> 'b coordinator \<Rightarrow> bool" where
  "coordinator_init x W c \<longleftrightarrow> journal_codec x \<and>
     (\<exists>io namespace. collision_free x W (empty_document namespace) \<and>
        open_coordinator x io namespace None = (rc_file c, Inr c))"

lemma repaired_empty [simp]: "repaired x (empty_document namespace) = empty_document namespace"
  by (simp add: repaired_def reconcile_coordination_keys_def prune_absent_routes_def empty_document_def
      Let_def btree_retain_def)

lemma doc_inv_empty: "collision_free x W (empty_document namespace) \<Longrightarrow> doc_inv x W (empty_document namespace)"
  by (simp add: doc_inv_def doc_base_def routes_ok_def fences_ok_def routes_fenced_def barriers_ok_def
      journal_ok_def route_views_def active_barriers_def empty_document_def)

lemma coordinator_init_inv:
  assumes "coordinator_init x W c"
  shows "coordinator_inv x W c"
proof -
  obtain io namespace where codec: "journal_codec x" and free: "collision_free x W (empty_document namespace)"
    and run: "open_coordinator x io namespace None = (rc_file c, Inr c)"
    using assms by (auto simp: coordinator_init_def)
  let ?e = "empty_document namespace"
  have "load_document x io namespace None = Inr d \<Longrightarrow> d = ?e" for d
    by (simp add: load_document_def split: if_splits)
  then have p: "persist x io (reopened x ?e None) = (c, Inr ())"
    using open_runs [OF run] by auto
  obtain fil where c: "c = (reopened x ?e None)\<lparr>rc_file := fil\<rparr>"
    "on_disk x c = Some ?e"
    using persist_effect [OF codec p] by (auto simp: reopened_def)
  then show ?thesis using codec doc_inv_empty [OF free]
    by (intro coordinator_invI [where disk = ?e]) (simp_all add: reopened_def)
qed

interpretation coordinator: machine "coordinator_init x W" "coordinator_step x W"
  "coordinator_inv x W" coordinator_grows for x :: "'b route_ext" and W
proof unfold_locales
  fix c c' c'' :: "'b coordinator"
  show "coordinator_init x W c \<Longrightarrow> coordinator_inv x W c" by (rule coordinator_init_inv)
  show "coordinator_step x W c c' \<Longrightarrow> coordinator_inv x W c \<Longrightarrow> coordinator_inv x W c'"
    by (auto elim!: coordinator_stepE dest: perform_safe)
  show "coordinator_step x W c c' \<Longrightarrow> coordinator_inv x W c \<Longrightarrow> coordinator_grows c c'"
    by (auto elim!: coordinator_stepE dest: perform_safe)
  show "coordinator_grows c c" by simp
  show "coordinator_grows c c' \<Longrightarrow> coordinator_grows c' c'' \<Longrightarrow> coordinator_grows c c''"
    by (rule coordinator_grows_trans)
qed

end
