(* ===== verification/Route_Sample.thy ===== *)
theory Route_Sample
  imports Route_Machine
begin

text \<open>
  A small installation on which the properties are evaluated: one native queue, one connector
  and one job, with a journal file whose content is the document itself.
\<close>

definition write_ok :: journal_io where
  "write_ok = \<lparr>ji_replace = Replaced, ji_readable = True\<rparr>"

definition sample_installation :: "CoordinatorDocument route_ext" where
  "sample_installation = \<lparr>sha256_hex = (\<lambda>s. s), uuid_to_string = (\<lambda>u. u), parse_ulid = (\<lambda>s. Some (length s)),
     timestamp_millis = (\<lambda>t. t div 1000000), from_timestamp_millis = (\<lambda>t. Some (t * 1000000)),
     driver_to_vec = (\<lambda>driver. Some (df_platform driver)),
     evidence_to_vec = (\<lambda>evidence. Some (concat (map ev_value_sha256 evidence))),
     document_to_vec = Some, document_to_vec_pretty = Some, document_from_slice = Some\<rparr>"

definition sample_ids :: "string set" where
  "sample_ids = {''a''}"

lemma sample_codec: "journal_codec sample_installation"
  by (simp add: journal_codec_def sample_installation_def)

lemma sample_total: "document_to_vec_pretty sample_installation d \<noteq> None"
  by (simp add: sample_installation_def)

lemma sample_collision_free: "collision_free sample_installation sample_ids d"
  by (simp add: collision_free_def sample_ids_def)

definition sample_opened :: "CoordinatorDocument coordinator" where
  "sample_opened = reopened sample_installation (empty_document ''n'') (Some (empty_document ''n''))"

definition sample_printer :: DiscoveredPrinter where
  "sample_printer = \<lparr>dp_native_id = ''a'', dp_driver_fingerprint = None, dp_identity_evidence = []\<rparr>"

definition sample_offer :: "nat \<Rightarrow> CloudRouteReservation" where
  "sample_offer generation = \<lparr>cl_route_id = ''a'',
     cl_local_route_key = route_id sample_installation (empty_document ''n'') ''a'', cl_reservation_id = ''r'',
     cl_generation = generation, cl_fencing_token = ''t'', cl_lease_expires_at = 1\<rparr>"

definition sample_handle :: RouteReservation where
  "sample_handle = \<lparr>fr_local_route_key = route_id sample_installation (empty_document ''n'') ''a'',
     fr_server_route_id = Some ''a'',
     fr_coordination_key = route_id sample_installation (empty_document ''n'') ''a'',
     fr_reservation_id = ''r'', fr_generation = 1, fr_fencing_token = ''t''\<rparr>"

definition sample_known :: "CoordinatorDocument coordinator" where
  "sample_known = perform sample_installation (ReconcileRoutes write_ok [sample_printer] 1 0) sample_opened"

definition sample_fenced :: "CoordinatorDocument coordinator" where
  "sample_fenced =
     perform sample_installation (Register write_ok ''a'' ''a'' ''a'' (sample_offer 1) 0) sample_known"

definition sample_accepted :: "CoordinatorDocument coordinator" where
  "sample_accepted =
     perform sample_installation (Finish write_ok ''a'' ''a'' sample_handle Accepted None 0) sample_fenced"

lemma sample_opened_init: "coordinator_init sample_installation sample_ids sample_opened"
proof -
  have "open_coordinator sample_installation write_ok ''n'' None = (rc_file sample_opened, Inr sample_opened)"
    by code_simp
  then show ?thesis
    unfolding coordinator_init_def using sample_codec sample_collision_free by blast
qed

lemma sample_opened_reachable: "coordinator.reachable sample_installation sample_ids sample_opened"
  by (rule coordinator.reachable_init [OF sample_opened_init])

lemma sample_known_reachable: "coordinator.reachable sample_installation sample_ids sample_known"
  unfolding sample_known_def
  by (rule coordinator.reachable_step [OF sample_opened_reachable], rule coordinator_step.call)
     (simp add: sample_printer_def sample_ids_def)

lemma sample_fenced_reachable: "coordinator.reachable sample_installation sample_ids sample_fenced"
  unfolding sample_fenced_def
  by (rule coordinator.reachable_step [OF sample_known_reachable], rule coordinator_step.call)
     (simp add: sample_offer_def sample_ids_def)

lemma sample_accepted_reachable: "coordinator.reachable sample_installation sample_ids sample_accepted"
  unfolding sample_accepted_def
  by (rule coordinator.reachable_step [OF sample_fenced_reachable], rule coordinator_step.call) simp

end
