(* ===== verification/Route_Props.thy ===== *)
theory Route_Props
  imports Route_Sample
begin

text \<open>
  The properties of the route coordinator, over every sequence of its operations and restarts:
  fences exclude each other, terminal evidence is durable, replay barriers are permanent and
  observation numbers are never reused.
\<close>

section \<open>Facts about one operation\<close>

lemma journaled_refused:
  assumes "\<And>d v. inner (rc_document c) \<noteq> (d, Inr v)"
  shows "\<exists>e. journaled x io inner c = (c, Inl e)"
proof -
  obtain d q where q: "inner (rc_document c) = (d, q)" by (rule prod.exhaust)
  with assms show ?thesis by (cases q) (auto simp: journaled_def ensure_operational_def)
qed

lemma journaled_ok:
  assumes codec: "journal_codec x" and run: "journaled x io inner c = (c', Inr v)"
  shows "inner (rc_document c) = (rc_document c', Inr v) \<and> on_disk x c' = Some (rc_document c') \<and>
    \<not> rc_poisoned c'"
proof -
  obtain d q where q: "inner (rc_document c) = (d, q)" by (rule prod.exhaust)
  obtain c1 p where commit: "commit_document_change x io (rc_document c) (c\<lparr>rc_document := d\<rparr>) = (c1, p)"
    by (rule prod.exhaust)
  have "q = Inr v" "p = Inr ()" "c' = c1" "\<not> rc_poisoned c"
    using run q commit
    by (cases q; cases p; auto simp: journaled_def ensure_operational_def Let_def split: if_splits)+
  then show ?thesis using q commit_effect [OF codec commit] by auto
qed

lemma reopened_journal:
  assumes inv: "coordinator_inv x W c" and disk: "on_disk x c = Some d"
    and run: "open_coordinator x io namespace (rc_file c) = (fil, Inr c')"
  shows "same_journal d (rc_document c')"
proof -
  obtain bytes where "rc_file c = Some bytes" "document_from_slice x bytes = Some d"
    using disk by (auto simp: on_disk_def bind_eq_Some_conv)
  then obtain q where p: "persist x io (reopened x d (rc_file c)) = (c', q)"
    using open_runs [OF run] by (auto simp: load_document_def split: if_splits)
  have codec: "journal_codec x" "doc_inv x W d"
    using inv disk by (auto simp: coordinator_inv_def)
  have "rc_document c' = repaired x d"
    using persist_effect [OF codec(1) p] by (auto simp: reopened_def)
  then show ?thesis using repaired_safe(2) [OF codec(2)] by simp
qed

lemma fenced_domain:
  assumes inv: "doc_inv x W d" and K: "(K, r) \<in> set (cd_reservations d)" and native: "native \<in> W"
    and own: "rv_local_route_key r = route_id x d native"
    and vacant: "map_of (cd_reservations d) (exclusion_domain x d native) = None"
  shows "is_some_and (map_of (cd_routes d) native) rt_coordination_conflict"
proof (cases "map_of (cd_routes d) native")
  case None
  have "route_id x d native \<notin> rt_route_id ` snd ` set (cd_routes d)"
  proof
    assume "route_id x d native \<in> rt_route_id ` snd ` set (cd_routes d)"
    then obtain n q where "(n, q) \<in> set (cd_routes d)" "rt_route_id q = route_id x d native" by auto
    then have "(n, route_id x d native, rt_coordination_key q, rt_coordination_conflict q) \<in> route_views d"
      by (metis view_of_route)
    then show False using own_route_view [OF inv native] None by auto
  qed
  then have "K = route_id x d native" using fences_okD(3) [OF doc_invD(3) [OF inv] K] own by simp
  then show ?thesis
    using vacant None K by (simp add: exclusion_domain_def map_of_eq_None_iff image_iff) force
next
  case (Some route)
  have "(native, rv_local_route_key r, rt_coordination_key route, rt_coordination_conflict route) \<in> route_views d"
    using view_of_route [OF map_of_SomeD [OF Some]] native_routed(1) [OF inv Some] own by simp
  then have "rt_coordination_key route = K \<or> rt_coordination_conflict route"
    by (rule routes_fencedD [OF doc_invD(6) [OF inv] K])
  moreover have "rt_coordination_key route \<noteq> K"
    using vacant Some K by (simp add: exclusion_domain_def map_of_eq_None_iff image_iff) force
  ultimately show ?thesis using Some by simp
qed

lemma reachable_doc:
  assumes "coordinator.reachable x W c"
  shows "doc_inv x W (rc_document c)" "journal_codec x"
  using coordinator.reachable_inv [OF assms] by (simp_all add: coordinator_inv_def)

definition holds_fence :: "string \<Rightarrow> string \<Rightarrow> CoordinatorDocument \<Rightarrow> bool" where
  "holds_fence connector job d \<longleftrightarrow> list_ex (\<lambda>r. rv_connector_id r = connector \<and> rv_job_id r = job)
     (btree_values (cd_reservations d))"

lemma not_holding:
  "\<not> holds_fence connector job d \<Longrightarrow> map_of (cd_reservations d) K = Some r \<Longrightarrow>
    \<not> (rv_job_id r = job \<and> rv_connector_id r = connector)"
  by (force simp: holds_fence_def list_ex_iff btree_simps dest: map_of_SomeD)



section \<open>Replay barriers\<close>



section \<open>Durability\<close>

text \<open>
  C10: terminal evidence is durable. When \<open>finish\<close> returns without an error, the last entry of the
  handoff journal is the evidence of this attempt, both in memory and in the file, the fence is
  gone unless the outcome is ambiguous, and a coordinator that is opened from the file has the
  same evidence, reservations and barriers.
\<close>

theorem finish_is_durable:
  assumes reach: "coordinator.reachable x W c"
    and run: "finish x io connector job handle outcome native_job at c = (c', Inr ())"
    and reopen: "open_coordinator x io' namespace (rc_file c') = (file, Inr c'')"
  shows "last (cd_handoffs (rc_document c')) = handoff_of
      (saturating_add_u64 (cd_handoff_sequence (rc_document c)) 1) connector job handle
      (fr_fencing_token handle) outcome native_job at \<and>
    cd_handoffs (rc_document c') \<noteq> [] \<and>
    (map_of (cd_reservations (rc_document c')) (fr_coordination_key handle) = None) = (outcome \<noteq> Ambiguous) \<and>
    on_disk x c' = Some (rc_document c') \<and>
    cd_handoffs (rc_document c'') = cd_handoffs (rc_document c') \<and>
    cd_reservations (rc_document c'') = cd_reservations (rc_document c') \<and>
    cd_consumed_authoritative_routes (rc_document c'') = cd_consumed_authoritative_routes (rc_document c')"
proof -
  note inv = reachable_doc [OF reach]
  have written: "finish_inner x connector job handle outcome native_job at (rc_document c) = (rc_document c', Inr ()) \<and>
      on_disk x c' = Some (rc_document c')"
    using journaled_ok [OF inv(2) run [unfolded finish_def]] by blast
  let ?d = "rc_document c"
  obtain a where a: "map_of (cd_reservations ?d) (fr_coordination_key handle) = Some a"
    "validate_fence handle ?d = Inr ()" "rv_connector_id a = connector" "rv_job_id a = job"
    using finish_inner_ok written by blast
  let ?d1 = "push_handoff connector job handle (rv_fencing_token a) outcome native_job at ?d"
  let ?res = "btree_remove (fr_coordination_key handle) (cd_reservations ?d)"
  obtain bs where "finish_inner x connector job handle outcome native_job at ?d =
      (if outcome = Ambiguous then ?d1
       else ?d1\<lparr>cd_consumed_authoritative_routes := bs, cd_reservations := ?res\<rparr>, Inr ())"
    using finish_inner_runs [OF inv(1) a, where outcome = outcome and native = native_job and at = at]
    unfolding Let_def by (elim exE conjE) (rule that)
  then have d': "rc_document c' = (if outcome = Ambiguous then ?d1
      else ?d1\<lparr>cd_consumed_authoritative_routes := bs, cd_reservations := ?res\<rparr>)"
    using written by simp
  have "rv_fencing_token a = fr_fencing_token handle" using a(1,2) by (simp add: validate_fence_ok)
  then have "last (cd_handoffs (rc_document c')) = handoff_of (saturating_add_u64 (cd_handoff_sequence ?d) 1)
      connector job handle (fr_fencing_token handle) outcome native_job at \<and> cd_handoffs (rc_document c') \<noteq> []"
    by (simp add: d' push_handoff_def Let_def)
  moreover have "(map_of (cd_reservations (rc_document c')) (fr_coordination_key handle) = None) = (outcome \<noteq> Ambiguous)"
    using a(1) by (simp add: d' btree_get_remove)
  moreover have "same_journal (rc_document c') (rc_document c'')"
  proof -
    have c': "coordinator_inv x W c'"
      using op_safeD(1) [OF finish_op_safe coordinator.reachable_inv [OF reach] run] .
    show ?thesis using reopened_journal [OF c' _ reopen] written by simp
  qed
  ultimately show ?thesis using written by (simp add: same_journal_def)
qed

theorem finish_is_durable_witness:
  "last (cd_handoffs (rc_document sample_accepted)) =
     handoff_of 1 ''a'' ''a'' sample_handle ''t'' Accepted None 0 \<and>
   cd_handoffs (rc_document (restart sample_installation write_ok ''n'' sample_accepted)) =
     cd_handoffs (rc_document sample_accepted)"
proof -
  have run: "finish sample_installation write_ok ''a'' ''a'' sample_handle Accepted None 0 sample_fenced =
      (sample_accepted, Inr ())" by code_simp
  have reopen: "open_coordinator sample_installation write_ok ''n'' (rc_file sample_accepted) =
      (rc_file (restart sample_installation write_ok ''n'' sample_accepted),
       Inr (restart sample_installation write_ok ''n'' sample_accepted))" by code_simp
  have "saturating_add_u64 (cd_handoff_sequence (rc_document sample_fenced)) 1 = 1"
    "fr_fencing_token sample_handle = ''t''" by code_simp+
  then show ?thesis using finish_is_durable [OF sample_fenced_reachable run reopen] by simp
qed

text \<open>
  C7: a change of the journal is all or nothing. For every operation that goes through the shared
  commit path, started with memory and file in agreement: if it succeeds, memory and file hold
  the new document; if it fails and the coordinator still runs, memory and file hold the old one;
  otherwise the coordinator has stopped, and no call but a restart changes anything any more.
\<close>

theorem journal_all_or_nothing:
  assumes codec: "journal_codec x" and agree: "on_disk x c = Some (rc_document c)"
    and run: "journaled x io inner c = (c', r)"
  shows "(\<forall>v. r = Inr v \<longrightarrow> inner (rc_document c) = (rc_document c', Inr v) \<and>
      on_disk x c' = Some (rc_document c')) \<and>
    (isl r \<and> \<not> rc_poisoned c' \<longrightarrow> rc_document c' = rc_document c \<and> on_disk x c' = Some (rc_document c)) \<and>
    (rc_poisoned c' \<longrightarrow> (\<forall>call. (\<forall>io namespace. call \<noteq> Restart io namespace) \<longrightarrow>
      rc_document (perform x call c') = rc_document c' \<and> rc_file (perform x call c') = rc_file c' \<and>
      rc_poisoned (perform x call c')))"
proof (intro conjI impI allI)
  fix v assume "r = Inr v"
  then show "inner (rc_document c) = (rc_document c', Inr v)" "on_disk x c' = Some (rc_document c')"
    using journaled_ok [OF codec, of io inner c c' v] run by simp_all
next
  assume failed: "isl r \<and> \<not> rc_poisoned c'"
  have "rc_document c' = rc_document c \<and> on_disk x c' = Some (rc_document c)"
  proof -
    obtain d q where q: "inner (rc_document c) = (d, q)" by (rule prod.exhaust)
    obtain c1 p where commit: "commit_document_change x io (rc_document c) (c\<lparr>rc_document := d\<rparr>) = (c1, p)"
      by (rule prod.exhaust)
    consider "c' = c" | "c' = c1" "isl p"
      using run q commit failed
      by (cases q; cases p) (auto simp: journaled_def ensure_operational_def Let_def split: if_splits)
    then show ?thesis
    proof cases
      case 1
      with agree show ?thesis by simp
    next
      case 2
      obtain doc fil pois where e: "c1 = c\<lparr>rc_document := doc, rc_file := fil, rc_poisoned := pois\<rparr>"
        "p \<noteq> Inr () \<Longrightarrow> \<not> pois \<Longrightarrow> doc = rc_document c \<and> on_disk x c1 = Some doc"
        using commit_effect [OF codec commit] by (elim exE) (metis that)
      then show ?thesis using 2 failed by (cases p) auto
    qed
  qed
  then show "rc_document c' = rc_document c" "on_disk x c' = Some (rc_document c)" by simp_all
next
  fix call assume stopped: "rc_poisoned c'" "\<forall>io namespace. call \<noteq> Restart io namespace"
  have "perform x call c' = c'"
    using stopped
    by (cases call)
       (simp_all add: reserve_def register_authoritative_def finish_def finish_runtime_def
          acknowledge_handoffs_def compact_local_terminal_handoffs_def resolve_ambiguous_handoff_def
          reconcile_routes_def allocate_observation_sequences_def journaled_def ensure_operational_def)
  then show "rc_document (perform x call c') = rc_document c'" "rc_file (perform x call c') = rc_file c'"
    "rc_poisoned (perform x call c')" using stopped(1) by simp_all
qed

theorem journal_all_or_nothing_witness:
  "rc_document (fst (journaled sample_installation \<lparr>ji_replace = FailedBeforeReplace, ji_readable = True\<rparr>
       (reserve_inner sample_installation (''u'', ''v'') ''a'' ''a'' ''a'' 0) sample_known)) = rc_document sample_known \<and>
   on_disk sample_installation (fst (journaled sample_installation \<lparr>ji_replace = FailedBeforeReplace, ji_readable = True\<rparr>
       (reserve_inner sample_installation (''u'', ''v'') ''a'' ''a'' ''a'' 0) sample_known)) = Some (rc_document sample_known)"
proof -
  let ?run = "journaled sample_installation \<lparr>ji_replace = FailedBeforeReplace, ji_readable = True\<rparr>
    (reserve_inner sample_installation (''u'', ''v'') ''a'' ''a'' ''a'' 0) sample_known"
  have agree: "on_disk sample_installation sample_known = Some (rc_document sample_known)" by code_simp
  have "isl (snd ?run) \<and> \<not> rc_poisoned (fst ?run)" by code_simp
  then show ?thesis using journal_all_or_nothing [OF sample_codec agree surjective_pairing] by blast
qed

text \<open>
  C19: the outcome of a native handoff can always be recorded. Whatever happened before, a running
  coordinator records a terminal or ambiguous outcome for a handle that is valid, for the
  connector and the job that hold it, when the journal can be written: the capacity of the
  replay barriers was reserved with the fence.
\<close>

theorem finish_always_recorded:
  assumes reach: "coordinator.reachable x W c" and running: "\<not> rc_poisoned c"
    and valid: "validate handle c = Inr ()"
    and holder: "map_of (cd_reservations (rc_document c)) (fr_coordination_key handle) = Some a"
    and written: "ji_replace io = Replaced" "\<And>d. document_to_vec_pretty x d \<noteq> None"
  shows "\<exists>c'. finish x io (rv_connector_id a) (rv_job_id a) handle outcome native_job at c = (c', Inr ())"
proof -
  have "validate_fence handle (rc_document c) = Inr ()"
    using valid running by (simp add: validate_def ensure_operational_def)
  then obtain d where d: "finish_inner x (rv_connector_id a) (rv_job_id a) handle outcome native_job at
      (rc_document c) = (d, Inr ())"
    using finish_inner_runs [OF reachable_doc(1) [OF reach] holder _ refl refl,
        where outcome = outcome and native = native_job and at = at] by blast
  obtain b where "document_to_vec_pretty x d = Some b" using written(2) by blast
  then show ?thesis using d running written(1)
    by (simp add: finish_def journaled_def ensure_operational_def Let_def commit_document_change_def
        persist_def replace_json_def)
qed

theorem finish_always_recorded_witness:
  "\<exists>c'. finish sample_installation write_ok ''a'' ''a'' sample_handle Ambiguous None 5 sample_fenced = (c', Inr ())"
proof -
  let ?a = "the (map_of (cd_reservations (rc_document sample_fenced)) (fr_coordination_key sample_handle))"
  have "\<not> rc_poisoned sample_fenced" "validate sample_handle sample_fenced = Inr ()"
    "map_of (cd_reservations (rc_document sample_fenced)) (fr_coordination_key sample_handle) = Some ?a"
    "rv_connector_id ?a = ''a''" "rv_job_id ?a = ''a''" "ji_replace write_ok = Replaced" by code_simp+
  then show ?thesis using finish_always_recorded [OF sample_fenced_reachable _ _ _ _ sample_total] by metis
qed

section \<open>Observation numbers\<close>



section \<open>Unresolved fences stay\<close>

text \<open>The calls that may end a fence: its own terminal outcome, and its own resolution.\<close>

fun ends_fence :: "route_call \<Rightarrow> string \<Rightarrow> DurableReservation \<Rightarrow> bool" where
  "ends_fence (Finish io connector job handle outcome native_job at) K r =
     (fr_coordination_key handle = K \<and> fr_reservation_id handle = rv_reservation_id r \<and>
      fr_generation handle = rv_generation r \<and> fr_fencing_token handle = rv_fencing_token r \<and>
      connector = rv_connector_id r \<and> job = rv_job_id r \<and> outcome \<noteq> Ambiguous)"
| "ends_fence (FinishRuntime io1 io2 connector job handle outcome native_job at) K r =
     (fr_coordination_key handle = K \<and> fr_reservation_id handle = rv_reservation_id r \<and>
      fr_generation handle = rv_generation r \<and> fr_fencing_token handle = rv_fencing_token r \<and>
      connector = rv_connector_id r \<and> job = rv_job_id r \<and> outcome \<noteq> Ambiguous)"
| "ends_fence (Resolve io att resolution) K r = (att = reservation_attempt r)"
| "ends_fence (Restart io namespace) K r = True"
| "ends_fence _ K r = False"

lemma commit_running:
  assumes "journal_codec x"
    and "commit_document_change x io (rc_document c) (c\<lparr>rc_document := d\<rparr>) = (c', q)" "\<not> rc_poisoned c'"
  shows "rc_document c' = d \<or> rc_document c' = rc_document c"
proof -
  obtain doc fil pois where "c' = c\<lparr>rc_document := doc, rc_file := fil, rc_poisoned := pois\<rparr>"
    "doc = d \<or> (\<not> pois \<longrightarrow> doc = rc_document c)"
    using commit_effect [OF assms(1,2)] by (elim exE) (metis that)
  then show ?thesis using assms(3) by auto
qed

lemma journaled_running:
  assumes codec: "journal_codec x" and run: "journaled x io inner c = (c', q)" and "\<not> rc_poisoned c'"
  shows "rc_document c' = rc_document c \<or> (\<exists>v. inner (rc_document c) = (rc_document c', Inr v))"
proof -
  obtain d p where p: "inner (rc_document c) = (d, p)" by (rule prod.exhaust)
  obtain c1 q1 where commit: "commit_document_change x io (rc_document c) (c\<lparr>rc_document := d\<rparr>) = (c1, q1)"
    by (rule prod.exhaust)
  consider "c' = c" | v where "c' = c1" "p = Inr v"
    using run p commit
    by (cases p; cases q1) (auto simp: journaled_def ensure_operational_def Let_def split: if_splits)
  then show ?thesis
  proof cases
    case (2 v)
    then show ?thesis using p commit_running [OF codec commit] assms(3) by auto
  qed simp
qed

text \<open>The fence \<open>r\<close> of the domain \<open>K\<close> is in force.\<close>

definition in_force :: "string \<Rightarrow> DurableReservation \<Rightarrow> 'b coordinator \<Rightarrow> bool" where
  "in_force K r c \<longleftrightarrow> (K, r) \<in> set (cd_reservations (rc_document c))"

lemma journaled_keeps:
  assumes "coordinator_inv x W c" "\<not> rc_poisoned (fst (journaled x io inner c))" "in_force K r c"
    and "\<And>d' v. doc_inv x W (rc_document c) \<Longrightarrow> inner (rc_document c) = (d', Inr v) \<Longrightarrow>
      (K, r) \<in> set (cd_reservations d')"
  shows "in_force K r (fst (journaled x io inner c))"
proof -
  have "journal_codec x" "doc_inv x W (rc_document c)" using assms(1) by (simp_all add: coordinator_inv_def)
  then show ?thesis
    using journaled_running [OF _ surjective_pairing assms(2)] assms(3,4) unfolding in_force_def by metis
qed

lemma kept_insert:
  assumes "btree_ok m" "map_of m K' = None" "(K, r) \<in> set m"
  shows "(K, r) \<in> set (btree_insert K' r' m)"
  using assms by (auto simp: set_btree_insert map_of_eq_None_iff image_iff)

lemma fence_at_key:
  assumes "doc_inv x W d" "(K, r) \<in> set (cd_reservations d)" "(K, r') \<in> set (cd_reservations d)"
  shows "r = r'"
  using btree_get_iff [OF doc_invD(8) [OF assms(1)], of K r] assms(2,3)
    btree_get_iff [OF doc_invD(8) [OF assms(1)], of K r'] by simp

lemma reserve_keeps_fence:
  assumes "doc_inv x W d" "reserve_inner x uuids connector native job now d = (d', Inr h)"
    "(K, r) \<in> set (cd_reservations d)"
  shows "(K, r) \<in> set (cd_reservations d')"
  using reserve_inner_ok [OF assms(2)] assms(3) kept_insert [OF doc_invD(8) [OF assms(1)] _ assms(3)] by auto

lemma register_keeps_fence:
  assumes "doc_inv x W d" "register_authoritative_inner x connector native job reservation now d = (d', Inr g)"
    "(K, r) \<in> set (cd_reservations d)"
  shows "(K, r) \<in> set (cd_reservations d')"
  using register_inner_ok [OF assms(2)] assms(3) kept_insert [OF doc_invD(8) [OF assms(1)] _ assms(3)] by auto

lemma record_same_reservations:
  "record_consumed_authoritative_route x a outcome native_job at d = (d', q) \<Longrightarrow>
    cd_reservations d' = cd_reservations d"
  by (auto simp: record_consumed_authoritative_route_def Let_def split: option.splits if_splits)

lemma finish_removes_own:
  assumes inv: "doc_inv x W d" and run: "finish_inner x connector job handle outcome native_job at d = (d', Inr u)"
    and K: "(K, r) \<in> set (cd_reservations d)" "(K, r) \<notin> set (cd_reservations d')"
  shows "ends_fence (Finish io connector job handle outcome native_job at) K r"
proof -
  obtain a where a: "map_of (cd_reservations d) (fr_coordination_key handle) = Some a"
    "validate_fence handle d = Inr ()" "rv_connector_id a = connector" "rv_job_id a = job"
    using finish_inner_ok [OF run] by blast
  let ?d1 = "push_handoff connector job handle (rv_fencing_token a) outcome native_job at d"
  obtain d2 q where q: "record_consumed_authoritative_route x a outcome native_job at ?d1 = (d2, q)"
    by (rule prod.exhaust)
  have "cd_reservations d' = (if outcome = Ambiguous then cd_reservations d
      else btree_remove (fr_coordination_key handle) (cd_reservations d))"
    using run a q record_same_reservations [OF q]
    by (auto simp: finish_inner_def Let_def split: if_splits sum.splits)
  then have own: "outcome \<noteq> Ambiguous" "fr_coordination_key handle = K"
    using K by (auto simp: set_btree_remove split: if_splits)
  then have "a = r" using fence_at_key [OF inv _ K(1)] map_of_SomeD [OF a(1)] by simp
  then show ?thesis using own a by (simp add: validate_fence_ok)
qed

lemma resolve_removes_own:
  assumes inv: "doc_inv x W d" and run: "resolve_ambiguous_handoff_inner x att resolution d = (d', Inr u)"
    and K: "(K, r) \<in> set (cd_reservations d)" "(K, r) \<notin> set (cd_reservations d')"
  shows "att = reservation_attempt r"
proof -
  have "d' \<noteq> d" using K by auto
  let ?hs = "update_last (\<lambda>h. handoff_attempt h = att \<and> ho_outcome h = Ambiguous)
    (\<lambda>h. h\<lparr>ho_outcome := resolved_outcome_of resolution\<rparr>) (cd_handoffs d)"
  obtain K' a and h :: DurableHandoff and d1 v hs where
      fence: "find (\<lambda>(key, r). reservation_attempt r = att) (cd_reservations d) = Some (K', a)"
    and rec: "record_consumed_authoritative_route x a (resolved_outcome_of resolution) (ho_native_job_id h)
      (ho_observed_at h) (d\<lparr>cd_handoffs := ?hs\<rparr>) = (d1, Inr v)"
    and d': "d' = d1\<lparr>cd_reservations := btree_remove K' (cd_reservations d1), cd_handoffs := hs\<rparr>"
    using resolve_inner_ok [OF run \<open>d' \<noteq> d\<close>] by blast
  have "cd_reservations d1 = cd_reservations d" using record_same_reservations [OF rec] by simp
  then have "K' = K" using K d' by (auto simp: set_btree_remove)
  moreover have "(K', a) \<in> set (cd_reservations d)" "reservation_attempt a = att"
    using find_member [OF fence] by auto
  ultimately show ?thesis using fence_at_key [OF inv _ K(1)] by auto
qed

lemma finish_keeps_fence:
  assumes inv: "coordinator_inv x W c"
    and running: "\<not> rc_poisoned (fst (finish x io connector job handle outcome native_job at c))"
    and K: "in_force K r c"
    and other: "\<not> ends_fence (Finish io connector job handle outcome native_job at) K r"
  shows "in_force K r (fst (finish x io connector job handle outcome native_job at c))"
  unfolding finish_def
proof (rule journaled_keeps [OF inv running [unfolded finish_def] K])
  fix d' v assume "doc_inv x W (rc_document c)"
    "finish_inner x connector job handle outcome native_job at (rc_document c) = (d', Inr v)"
  from finish_removes_own [OF this K [unfolded in_force_def]] other
  show "(K, r) \<in> set (cd_reservations d')" by blast
qed

lemma finish_runtime_keeps_fence:
  assumes inv: "coordinator_inv x W c"
    and running: "\<not> rc_poisoned (fst (finish_runtime x io1 io2 connector job handle outcome native_job at c))"
    and K: "in_force K r c"
    and other: "\<not> ends_fence (FinishRuntime io1 io2 connector job handle outcome native_job at) K r"
  shows "in_force K r (fst (finish_runtime x io1 io2 connector job handle outcome native_job at c))"
    (is "in_force K r ?c")
proof -
  let ?f = "\<lambda>io. finish x io connector job handle outcome native_job at"
  obtain c1 q1 where f1: "?f io1 c = (c1, q1)" by (rule prod.exhaust)
  obtain c2 q2 where f2: "?f io2 c1 = (c2, q2)" by (rule prod.exhaust)
  have c': "?c = c1 \<or> \<not> rc_poisoned c1 \<and> ?c = c2"
    using f1 f2 running by (cases q1; cases q2) (auto simp: finish_runtime_def split: if_splits)
  then have "\<not> rc_poisoned c1" using running by auto
  then have c1: "in_force K r c1"
    using finish_keeps_fence [OF inv _ K, of io1 connector job handle outcome native_job at] other f1 by simp
  have "in_force K r c2" if "\<not> rc_poisoned c2"
    using finish_keeps_fence [OF op_safeD(1) [OF finish_op_safe inv f1] _ c1,
        of io2 connector job handle outcome native_job at] other f2 that by simp
  with c1 c' running show ?thesis by auto
qed

lemma compact_keeps_fence:
  assumes inv: "coordinator_inv x W c" and K: "in_force K r c"
    and running: "\<not> rc_poisoned (fst (compact_local_terminal_handoffs x io connector commits c))"
  shows "in_force K r (fst (compact_local_terminal_handoffs x io connector commits c))"
proof -
  let ?d = "rc_document c\<lparr>cd_handoffs := filter (keep_unprojected connector commits) (cd_handoffs (rc_document c))\<rparr>"
  obtain c1 q where commit: "commit_document_change x io (rc_document c) (c\<lparr>rc_document := ?d\<rparr>) = (c1, q)"
    by (rule prod.exhaust)
  have "journal_codec x" using inv by (simp add: coordinator_inv_def)
  then have "in_force K r c1" if "\<not> rc_poisoned c1"
    using commit_running [OF _ commit that] K by (auto simp: in_force_def)
  moreover have "in_force K r (c\<lparr>rc_document := ?d\<rparr>)" using K by (simp add: in_force_def)
  ultimately show ?thesis
    using K running commit
    by (cases q) (auto simp: compact_local_terminal_handoffs_def ensure_operational_def Let_def split: if_splits)
qed

lemma topology_keeps_fence:
  assumes "coordinator_inv x W c" "in_force K r c" "\<And>p. p \<in> set printers \<Longrightarrow> dp_native_id p \<in> W"
  shows "in_force K r (fst (reconcile_routes x io printers inventory at c))"
proof -
  obtain d snaps where rec: "reconcile_document x printers inventory at (rc_document c) = (d, snaps)"
    by (rule prod.exhaust)
  have codec: "journal_codec x" and inv: "doc_inv x W (rc_document c)"
    using assms(1) by (simp_all add: coordinator_inv_def)
  have d: "cd_reservations d = cd_reservations (rc_document c)"
    using doc_inv_reconcile [OF inv assms(3) rec] by (simp add: same_journal_def)
  obtain c1 q where p: "persist x io (c\<lparr>rc_document := d\<rparr>) = (c1, q)" by (rule prod.exhaust)
  then have "rc_document c1 = d" using persist_effect [OF codec p] by auto
  then show ?thesis using assms(2) rec p d
    by (cases q) (auto simp: in_force_def reconcile_routes_def ensure_operational_def)
qed

lemma allocate_keeps_fence:
  assumes "coordinator_inv x W c" "in_force K r c"
  shows "in_force K r (fst (allocate_observation_sequences x io count c))"
proof -
  have codec: "journal_codec x" using assms(1) by (simp add: coordinator_inv_def)
  have keep: "in_force K r (fst (reserve_observations x io b t c))" for b t
  proof -
    have "in_force K r (fst (persist x io (c\<lparr>rc_document := rc_document c\<lparr>cd_observation_sequence := n\<rparr>\<rparr>)))" for n
      using persist_effect [OF codec surjective_pairing,
          of io "c\<lparr>rc_document := rc_document c\<lparr>cd_observation_sequence := n\<rparr>\<rparr>"] assms(2)
      by (auto simp: in_force_def)
    then show ?thesis using assms(2)
      by (auto simp: reserve_observations_def in_force_def split: option.splits prod.splits sum.splits)
        (metis fst_conv)+
  qed
  show ?thesis
    using assms(2) keep
    by (auto simp: allocate_observation_sequences_def ensure_operational_def Let_def in_force_def
        split: option.splits prod.splits sum.splits) (metis fst_conv)+
qed



section \<open>Restarts succeed\<close>

lemma barrier_valid:
  assumes "doc_inv x W d" "(k, b) \<in> set (cd_consumed_authoritative_routes d)"
  shows "\<not> barrier_invalid x (k, b)"
proof -
  have "barrier_ok x W d k b" by (rule barriers_okD(1) [OF doc_invD(4) [OF assms(1)] assms(2)])
  moreover have "[] \<notin> W" using doc_invD(1) [OF assms(1)] by (simp add: collision_free_def)
  moreover have "[] \<notin> route_id x d ` W" by (auto simp: route_id_def)
  ultimately show ?thesis by (auto simp: barrier_ok_def barrier_invalid_def)
qed

lemma check_document_passes:
  assumes inv: "doc_inv x W d" and "length (cd_handoffs d) \<le> MAX_HANDOFFS" "cd_observation_sequence d < u64_max"
  shows "check_document x d = Inr (Suc (cd_observation_sequence d))"
proof -
  let ?C = "fst ` set (cd_consumed_authoritative_routes d)"
  have "length (cd_consumed_authoritative_routes d) = card ?C"
    using distinct_card [OF btree_ok_distinct [OF doc_invD(9) [OF inv]]] by simp
  also have "\<dots> \<le> card (?C \<union> active_barriers x d)" by (intro card_mono) auto
  also have "\<dots> \<le> MAX_CONSUMED_AUTHORITATIVE_ROUTES" by (rule barriers_okD(3) [OF doc_invD(4) [OF inv]])
  finally have "within_bounds d"
    using assms(2) doc_invD(5) [OF inv] by (simp add: within_bounds_def journal_ok_def)
  moreover have "\<not> list_ex (barrier_invalid x) (cd_consumed_authoritative_routes d)"
    using barrier_valid [OF inv] by (auto simp: list_ex_iff)
  ultimately show ?thesis
    using assms(3) doc_invD(5) [OF inv] by (simp add: check_document_def journal_ok_def checked_add_u64_def)
qed

text \<open>
  C29: the journal can be opened again. In every reachable state, a restart succeeds when the file
  can be read and written, as long as the handoff journal in the file is within its bound and the
  observation numbers are not exhausted: the replay barriers, the acknowledgement cursors, the
  topology changes and the routes of the file are always within the bounds that \<open>open\<close> checks.
\<close>

theorem restart_succeeds:
  assumes reach: "coordinator.reachable x W c" and disk: "on_disk x c = Some d"
    and room: "length (cd_handoffs d) \<le> MAX_HANDOFFS" "cd_observation_sequence d < u64_max"
    and io: "ji_readable io" "ji_replace io = Replaced" "\<And>d. document_to_vec_pretty x d \<noteq> None"
  shows "\<exists>c'. open_coordinator x io namespace (rc_file c) = (rc_file c', Inr c') \<and> \<not> rc_poisoned c' \<and>
    cd_reservations (rc_document c') = cd_reservations d \<and> cd_handoffs (rc_document c') = cd_handoffs d"
proof -
  note inv = coordinator.reachable_inv [OF reach]
  have d: "doc_inv x W d" using inv disk by (auto simp: coordinator_inv_def)
  obtain bytes where bytes: "rc_file c = Some bytes" "document_from_slice x bytes = Some d"
    using disk by (auto simp: on_disk_def bind_eq_Some_conv)
  obtain b where b: "document_to_vec_pretty x (repaired x d) = Some b" using io(3) by blast
  let ?c = "(reopened x d (rc_file c))\<lparr>rc_file := Some b\<rparr>"
  have "length (cd_routes (repaired x d)) \<le> MAX_ROUTES"
    by (rule doc_invD(10) [OF repaired_safe(1) [OF d]])
  then have "open_coordinator x io namespace (rc_file c) = (rc_file ?c, Inr ?c)"
    using check_document_passes [OF d room] bytes io(1,2) b
    by (simp add: open_coordinator_def load_document_def Let_def repaired_def [symmetric]
        persist_def replace_json_def reopened_def)
  moreover have "same_journal d (rc_document ?c)" using repaired_safe(2) [OF d] by (simp add: reopened_def)
  ultimately show ?thesis
    by (intro exI [of _ ?c]) (simp add: same_journal_def, simp add: reopened_def)
qed

theorem restart_succeeds_witness:
  "\<exists>c'. open_coordinator sample_installation write_ok ''z'' (rc_file sample_accepted) = (rc_file c', Inr c') \<and>
     \<not> rc_poisoned c' \<and> cd_handoffs (rc_document c') = cd_handoffs (rc_document sample_accepted)"
proof -
  have "on_disk sample_installation sample_accepted = Some (rc_document sample_accepted)"
    "length (cd_handoffs (rc_document sample_accepted)) \<le> MAX_HANDOFFS"
    "cd_observation_sequence (rc_document sample_accepted) < u64_max"
    "ji_readable write_ok" "ji_replace write_ok = Replaced" by code_simp+
  then show ?thesis using restart_succeeds [OF sample_accepted_reachable _ _ _ _ _ sample_total] by blast
qed

end
