(* ===== verification/Route_Overflow.thy ===== *)
theory Route_Overflow
  imports Route_Props
begin

text \<open>
  The bound on the handoff journal. \<open>reserve\<close> refuses a reservation that could overflow the
  journal, \<open>register_authoritative\<close> does not: a connector that keeps offering a job whose native
  handoff is rejected grows the journal past \<open>MAX_HANDOFFS\<close>, and \<open>open\<close> then refuses the file
  that the coordinator itself has written.
\<close>

definition offer :: "'b route_ext \<Rightarrow> CoordinatorDocument \<Rightarrow> string \<Rightarrow> nat \<Rightarrow> CloudRouteReservation" where
  "offer x d a generation = \<lparr>cl_route_id = a, cl_local_route_key = route_id x d a,
     cl_reservation_id = a, cl_generation = generation, cl_fencing_token = a, cl_lease_expires_at = 1\<rparr>"

text \<open>The state after \<open>n\<close> rejected offers of one job.\<close>

definition rejected_times :: "'b route_ext \<Rightarrow> string \<Rightarrow> nat \<Rightarrow> 'b coordinator \<Rightarrow> bool" where
  "rejected_times x a n c \<longleftrightarrow> \<not> rc_poisoned c \<and> on_disk x c = Some (rc_document c) \<and>
     cd_reservations (rc_document c) = [] \<and>
     (\<exists>route. cd_routes (rc_document c) = [(a, route)] \<and>
        rt_route_id route = route_id x (rc_document c) a \<and> \<not> rt_coordination_conflict route) \<and>
     length (cd_handoffs (rc_document c)) = n \<and>
     (\<forall>h\<in>set (cd_handoffs (rc_document c)). ho_outcome h = RejectedBeforeHandoff \<and>
        ho_fencing_generation h \<le> n) \<and>
     length (cd_consumed_authoritative_routes (rc_document c)) \<le> n \<and>
     (\<forall>e\<in>set (cd_consumed_authoritative_routes (rc_document c)).
        cn_outcome (snd e) = RejectedBeforeHandoff \<and> cn_generation (snd e) \<le> n)"

lemma journaled_write_ok:
  assumes "journal_codec x" "\<not> rc_poisoned c" "\<And>d. document_to_vec_pretty x d \<noteq> None"
    and "inner (rc_document c) = (d, Inr v)"
  shows "\<exists>fil. journaled x write_ok inner c = (c\<lparr>rc_document := d, rc_file := fil\<rparr>, Inr v) \<and>
    on_disk x (c\<lparr>rc_document := d, rc_file := fil\<rparr>) = Some d"
proof -
  obtain b where b: "document_to_vec_pretty x d = Some b" using assms(3) by blast
  then have "document_from_slice x b = Some d" using assms(1) by (simp add: journal_codec_def)
  with b assms(2,4) show ?thesis
    by (intro exI [of _ "Some b"])
       (simp add: journaled_def ensure_operational_def Let_def commit_document_change_def persist_def
         replace_json_def write_ok_def on_disk_def)
qed

lemma register_round:
  assumes "rejected_times x a n c" "a \<noteq> []" "length a \<le> 512" "n < MAX_CONSUMED_AUTHORITATIVE_ROUTES"
  shows "\<exists>route r g. cd_routes (rc_document c) = [(a, route)] \<and>
    r = cloud_durable x a (route_id x (rc_document c) a) a (offer x (rc_document c) a (Suc n)) \<and>
    register_authoritative_inner x a a a (offer x (rc_document c) a (Suc n)) 0 (rc_document c) =
      (rc_document c\<lparr>cd_reservations := [(rt_coordination_key route, r)]\<rparr>, Inr g) \<and>
    ar_reservation g = handle_of (route_id x (rc_document c) a) (rt_coordination_key route) r"
proof -
  let ?d = "rc_document c"
  obtain route where route: "cd_routes ?d = [(a, route)]" "rt_route_id route = route_id x ?d a"
    "\<not> rt_coordination_conflict route"
    and st: "cd_reservations ?d = []" "\<forall>h\<in>set (cd_handoffs ?d). ho_outcome h = RejectedBeforeHandoff \<and>
        ho_fencing_generation h \<le> n"
      "length (cd_consumed_authoritative_routes ?d) \<le> n"
      "\<forall>e\<in>set (cd_consumed_authoritative_routes ?d).
        cn_outcome (snd e) = RejectedBeforeHandoff \<and> cn_generation (snd e) \<le> n"
    using assms(1) unfolding rejected_times_def by blast
  let ?o = "offer x ?d a (Suc n)"
  have valid: "\<not> invalid_cloud_reservation (route_id x ?d a) ?o 0"
    using assms(2,3) by (simp add: invalid_cloud_reservation_def offer_def)
  have "check_replay x a a ?o ?d = Inr ()"
  proof -
    have "\<not> list_ex (crossed_for_authority a a) (btree_values (cd_consumed_authoritative_routes ?d))"
      using st(4) by (auto simp: list_ex_iff btree_simps crossed_for_authority_def)
    moreover have "\<not> is_some_and (map_of (cd_consumed_authoritative_routes ?d) k)
        (\<lambda>b. cn_outcome b = Accepted \<or> Suc n \<le> cn_generation b)" for k
      using st(4) by (cases "map_of (cd_consumed_authoritative_routes ?d) k") (auto dest!: map_of_SomeD)
    moreover have "\<not> list_ex (crossed a a) (cd_handoffs ?d)"
      using st(2) by (auto simp: list_ex_iff crossed_def)
    moreover have "\<not> (gs \<noteq> [] \<and> Suc n \<le> Max (set gs))"
      if "gs = map ho_fencing_generation (filter q (cd_handoffs ?d))" for gs q
    proof
      assume big: "gs \<noteq> [] \<and> Suc n \<le> Max (set gs)"
      then have "Max (set gs) \<in> set gs" by (intro Max_in) simp_all
      then show False using st(2) that big by auto
    qed
    ultimately show ?thesis by (simp add: check_replay_def Let_def offer_def)
  qed
  moreover have "find_value (\<lambda>r. rt_route_id r = route_id x ?d a) (cd_routes ?d) = Some route"
    using route(1,2) by (simp add: find_value_def btree_values_def)
  moreover have "barrier_has_room x k ?d" for k
    using st(1,3) assms(4) by (simp add: barrier_has_room_def active_unconsumed_def btree_values_def
        List.map_filter_def)
  ultimately show ?thesis
    using valid route st(1) by (simp add: register_authoritative_inner_def Let_def)
qed

lemma length_btree_insert_le: "length (btree_insert k v m) \<le> Suc (length m)"
  by (induction k v m rule: btree_insert.induct) simp_all

lemma set_btree_insert_le: "set (btree_insert k v m) \<subseteq> insert (k, v) (set m)"
  by (induction k v m rule: btree_insert.induct) auto

lemma finish_round:
  assumes n: "n < MAX_CONSUMED_AUTHORITATIVE_ROUTES"
    and r: "rv_connector_id r = a" "rv_job_id r = a" "rv_fencing_token r = a" "rv_generation r = Suc n"
      "rv_server_route_id r = Some a"
    and res: "cd_reservations d = [(K, r)]" and h: "h = handle_of l K r"
    and consumed: "length (cd_consumed_authoritative_routes d) \<le> n"
      "\<forall>e\<in>set (cd_consumed_authoritative_routes d).
        cn_outcome (snd e) = RejectedBeforeHandoff \<and> cn_generation (snd e) \<le> n"
  shows "\<exists>bs. finish_inner x a a h RejectedBeforeHandoff None 0 d =
    ((push_handoff a a h a RejectedBeforeHandoff None 0 d)
      \<lparr>cd_consumed_authoritative_routes := bs, cd_reservations := []\<rparr>, Inr ()) \<and>
    length bs \<le> Suc n \<and>
    (\<forall>e\<in>set bs. cn_outcome (snd e) = RejectedBeforeHandoff \<and> cn_generation (snd e) \<le> Suc n)"
proof -
  let ?k = "authoritative_route_key x a a (rv_local_route_key r) a"
  let ?old = "cd_consumed_authoritative_routes d"
  let ?b = "consumed_of r a RejectedBeforeHandoff None 0"
  let ?bs = "btree_insert ?k ?b ?old"
  let ?d1 = "push_handoff a a h a RejectedBeforeHandoff None 0 d"
  have "\<not> is_some_and (map_of ?old ?k) (\<lambda>e. cn_generation e \<ge> cn_generation ?b)"
    using consumed(2) r(4)
    by (cases "map_of ?old ?k") (auto simp: consumed_of_def dest!: map_of_SomeD)
  then have rec: "record_consumed_authoritative_route x r RejectedBeforeHandoff None 0 ?d1 =
      (?d1\<lparr>cd_consumed_authoritative_routes := ?bs\<rparr>, Inr ())"
    using n consumed(1) r by (simp add: record_consumed_authoritative_route_def Let_def not_le)
  have "validate_fence h d = Inr ()"
    using res by (simp add: validate_fence_def h handle_of_def)
  moreover have "map_of (cd_reservations d) (fr_coordination_key h) = Some r"
    "btree_remove (fr_coordination_key h) (cd_reservations d) = []"
    using res by (simp_all add: h handle_of_def btree_remove_def)
  ultimately have "finish_inner x a a h RejectedBeforeHandoff None 0 d =
      (?d1\<lparr>cd_consumed_authoritative_routes := ?bs, cd_reservations := []\<rparr>, Inr ())"
    using r rec by (simp add: finish_inner_def Let_def)
  moreover have "length ?bs \<le> Suc n" using length_btree_insert_le [of ?k ?b ?old] consumed(1) by simp
  moreover have "\<forall>e\<in>set ?bs. cn_outcome (snd e) = RejectedBeforeHandoff \<and> cn_generation (snd e) \<le> Suc n"
  proof
    fix e assume "e \<in> set ?bs"
    then have "e = (?k, ?b) \<or> e \<in> set ?old" using set_btree_insert_le [of ?k ?b ?old] by blast
    then show "cn_outcome (snd e) = RejectedBeforeHandoff \<and> cn_generation (snd e) \<le> Suc n"
      using consumed(2) r(4) by (auto simp: consumed_of_def)
  qed
  ultimately show ?thesis by blast
qed

lemma one_round:
  assumes reach: "coordinator.reachable x W c" and a: "a \<in> W" "length a \<le> 512"
    and total: "\<And>d. document_to_vec_pretty x d \<noteq> None"
    and c: "rejected_times x a n c" and n: "n < MAX_CONSUMED_AUTHORITATIVE_ROUTES"
  shows "\<exists>c'. coordinator.reachable x W c' \<and> rejected_times x a (Suc n) c'"
proof -
  let ?d = "rc_document c"
  note codec = reachable_doc(2) [OF reach]
  have "a \<noteq> []" using reachable_doc(1) [OF reach] a(1) by (auto simp: doc_inv_def doc_base_def collision_free_def)
  then obtain route r g where route: "cd_routes ?d = [(a, route)]"
    and r: "r = cloud_durable x a (route_id x ?d a) a (offer x ?d a (Suc n))"
    and reg: "register_authoritative_inner x a a a (offer x ?d a (Suc n)) 0 ?d =
      (?d\<lparr>cd_reservations := [(rt_coordination_key route, r)]\<rparr>, Inr g)"
    using register_round [OF c _ a(2) n] by blast
  let ?d1 = "?d\<lparr>cd_reservations := [(rt_coordination_key route, r)]\<rparr>"
  let ?h = "handle_of (route_id x ?d a) (rt_coordination_key route) r"
  have run: "\<not> rc_poisoned c" using c by (simp add: rejected_times_def)
  obtain f1 where c1: "register_authoritative x write_ok a a a (offer x ?d a (Suc n)) 0 c =
      (c\<lparr>rc_document := ?d1, rc_file := f1\<rparr>, Inr g)"
    unfolding register_authoritative_def 
    using journaled_write_ok [where inner = "register_authoritative_inner x a a a (offer x ?d a (Suc n)) 0",
        OF codec run total reg] by blast
  let ?c1 = "c\<lparr>rc_document := ?d1, rc_file := f1\<rparr>"
  obtain bs where fin: "finish_inner x a a ?h RejectedBeforeHandoff None 0 ?d1 =
      ((push_handoff a a ?h a RejectedBeforeHandoff None 0 ?d1)
        \<lparr>cd_consumed_authoritative_routes := bs, cd_reservations := []\<rparr>, Inr ())" and bs: "length bs \<le> Suc n"
      "\<forall>e\<in>set bs. cn_outcome (snd e) = RejectedBeforeHandoff \<and> cn_generation (snd e) \<le> Suc n"
    using finish_round [OF n, of r a ?d1 "rt_coordination_key route" ?h "route_id x ?d a" x] c
    by (auto simp: r cloud_durable_def offer_def rejected_times_def)
  let ?d2 = "(push_handoff a a ?h a RejectedBeforeHandoff None 0 ?d1)
    \<lparr>cd_consumed_authoritative_routes := bs, cd_reservations := []\<rparr>"
  obtain f2 where c2: "finish x write_ok a a ?h RejectedBeforeHandoff None 0 ?c1 =
      (?c1\<lparr>rc_document := ?d2, rc_file := f2\<rparr>, Inr ())" "on_disk x (?c1\<lparr>rc_document := ?d2, rc_file := f2\<rparr>) = Some ?d2"
    unfolding finish_def
    using journaled_write_ok [where inner = "finish_inner x a a ?h RejectedBeforeHandoff None 0" and c = ?c1
        and d = ?d2 and v = "()", OF codec _ total] run fin by auto
  let ?c2 = "?c1\<lparr>rc_document := ?d2, rc_file := f2\<rparr>"
  have "coordinator_step x W c ?c1"
    using coordinator_step.call [of W "Register write_ok a a a (offer x ?d a (Suc n)) 0" x c] a(1) c1
    by (simp add: offer_def)
  moreover have "coordinator_step x W ?c1 ?c2"
    using coordinator_step.call [of W "Finish write_ok a a ?h RejectedBeforeHandoff None 0" x ?c1] c2(1) by simp
  ultimately have "coordinator.reachable x W ?c2"
    using reach coordinator.reachable_step by blast
  moreover have "rejected_times x a (Suc n) ?c2"
    using c c2(2) bs route run
    by (auto simp: rejected_times_def push_handoff_def handoff_of_def handle_of_def Let_def r
        cloud_durable_def offer_def)
  ultimately show ?thesis by blast
qed

lemma open_new:
  assumes "journal_codec x" "document_to_vec_pretty x (empty_document namespace) = Some b"
  shows "open_coordinator x write_ok namespace None =
    (Some b, Inr (reopened x (empty_document namespace) (Some b)))"
proof -
  have "check_document x (empty_document namespace) = Inr 1"
    by (simp add: check_document_def within_bounds_def empty_document_def checked_add_u64_def u64_max_def)
  then show ?thesis
    using assms(2) repaired_empty [of x namespace]
    by (simp add: open_coordinator_def load_document_def write_ok_def Let_def repaired_def [symmetric]
        persist_def replace_json_def reopened_def) (simp add: empty_document_def)
qed

definition plain_printer :: "string \<Rightarrow> DiscoveredPrinter" where
  "plain_printer native = \<lparr>dp_native_id = native, dp_driver_fingerprint = None, dp_identity_evidence = []\<rparr>"

lemma reconcile_new:
  "\<exists>route d. fst (reconcile_document x [plain_printer a] 0 0 (empty_document namespace)) = d \<and>
    cd_routes d = [(a, route)] \<and> rt_route_id route = route_id x d a \<and> \<not> rt_coordination_conflict route \<and>
    cd_reservations d = [] \<and> cd_handoffs d = [] \<and> cd_consumed_authoritative_routes d = []"
proof -
  let ?e = "empty_document namespace"
  let ?p = "plain_printer a"
  have e: "prune_absent_routes ?e = ?e" "protected_native_ids ?e = []"
    by (simp_all add: prune_absent_routes_def btree_retain_def empty_document_def protected_native_ids_def Let_def)
  let ?r = "observed_route x ?e ?p"
  let ?d = "observe_document x 0 ?p ?e"
  have d: "cd_routes ?d = [(a, ?r)]" "cd_reservations ?d = []" "cd_handoffs ?d = []"
    "cd_consumed_authoritative_routes ?d = []" "cd_installation_namespace ?d = namespace"
    by (simp_all add: observe_document_def Let_def topology_change_of_def empty_document_def plain_printer_def
        record_topology_change_def bump_topology_def)
  have present: "rt_present ?r" by (simp add: observed_route_def Let_def)
  have pruned: "prune_absent_routes ?d = ?d"
    using d(1) present by (simp add: prune_absent_routes_def Let_def btree_retain_def btree_values_def)
  have grouped: "regroup_route x ?d ?r = ?r\<lparr>rt_coordination_key := desired_key x ?r, rt_coordination_conflict := False\<rparr>"
    using d by (simp add: regroup_route_def occupied_by_desired_def btree_values_def contains_key_def Let_def)
  have "fst (reconcile_document x [?p] 0 0 ?e) = reconcile_coordination_keys x ?d"
    using e d(1) pruned
    by (simp add: reconcile_document_def Let_def observe_printer_def removed_routes_def MAX_ROUTES_def)
      (simp add: plain_printer_def)
  moreover have "rt_route_id ?r = route_id x ?e a" by (simp add: observed_route_def Let_def plain_printer_def)
  moreover have "route_id x (reconcile_coordination_keys x ?d) = route_id x ?e"
    using d(5) by (intro route_id_namespace) (simp add: reconcile_coordination_keys_def empty_document_def)
  ultimately show ?thesis
    using d grouped by (simp add: reconcile_coordination_keys_def)
qed

lemma rejected_start:
  assumes codec: "journal_codec x" and total: "\<And>d. document_to_vec_pretty x d \<noteq> None"
    and free: "collision_free x W (empty_document namespace)" and a: "a \<in> W"
  shows "\<exists>c. coordinator.reachable x W c \<and> rejected_times x a 0 c"
proof -
  let ?e = "empty_document namespace"
  obtain b where b: "document_to_vec_pretty x ?e = Some b" using total by blast
  let ?c = "reopened x ?e (Some b)"
  have "rc_file ?c = Some b" by (simp add: reopened_def)
  then have "coordinator_init x W ?c"
    using codec free open_new [OF codec b] unfolding coordinator_init_def by auto
  then have reach: "coordinator.reachable x W ?c" by (rule coordinator.reachable_init)
  let ?d = "fst (reconcile_document x [plain_printer a] 0 0 ?e)"
  obtain b' where b': "document_to_vec_pretty x ?d = Some b'" using total by blast
  let ?c' = "?c\<lparr>rc_document := ?d, rc_file := Some b'\<rparr>"
  have "fst (reconcile_routes x write_ok [plain_printer a] 0 0 ?c) = ?c'"
    using b' by (cases "reconcile_document x [plain_printer a] 0 0 ?e")
      (simp add: reconcile_routes_def ensure_operational_def reopened_def persist_def replace_json_def write_ok_def)
  then have "coordinator_step x W ?c ?c'"
    using coordinator_step.call [of W "ReconcileRoutes write_ok [plain_printer a] 0 0" x ?c] a
    by (simp add: plain_printer_def)
  then have "coordinator.reachable x W ?c'" using reach coordinator.reachable_step by blast
  moreover have "rejected_times x a 0 ?c'"
    using reconcile_new [of x a namespace] b' codec
    by (auto simp: rejected_times_def on_disk_def reopened_def journal_codec_def)
  ultimately show ?thesis by blast
qed

text \<open>
  C33: the handoff journal can outgrow what \<open>open\<close> accepts. For every installation there is a
  sequence of operations after which the coordinator still runs and has written its journal, but
  no restart succeeds any more: cloud reservations do not count against the journal's capacity.
\<close>

theorem register_overflows_journal:
  assumes codec: "journal_codec x" and total: "\<And>d. document_to_vec_pretty x d \<noteq> None"
    and free: "collision_free x W (empty_document namespace)" and a: "a \<in> W" "length a \<le> 512"
  shows "\<exists>c. coordinator.reachable x W c \<and> \<not> rc_poisoned c \<and> on_disk x c = Some (rc_document c) \<and>
    (\<forall>io namespace. isl (snd (open_coordinator x io namespace (rc_file c))))"
proof -
  have "\<exists>c. coordinator.reachable x W c \<and> rejected_times x a n c" if "n \<le> Suc MAX_HANDOFFS" for n
    using that
  proof (induction n)
    case 0
    show ?case by (rule rejected_start [OF codec total free a(1)])
  next
    case (Suc n)
    then obtain c where c: "coordinator.reachable x W c" "rejected_times x a n c" by auto
    have "n < MAX_CONSUMED_AUTHORITATIVE_ROUTES"
      using Suc.prems by (simp add: MAX_HANDOFFS_def MAX_CONSUMED_AUTHORITATIVE_ROUTES_def)
    then show ?case by (rule one_round [OF c(1) a total c(2)])
  qed
  then obtain c where c: "coordinator.reachable x W c" "rejected_times x a (Suc MAX_HANDOFFS) c" by blast
  have "isl (snd (open_coordinator x io namespace (rc_file c)))" for io namespace
  proof -
    obtain fil r where run: "open_coordinator x io namespace (rc_file c) = (fil, r)" by (rule prod.exhaust)
    have "load_document x io namespace (rc_file c) = Inr d \<Longrightarrow> d = rc_document c" for d
      using c(2) by (auto simp: rejected_times_def on_disk_def load_document_def bind_eq_Some_conv split: if_splits)
    moreover have "check_document x (rc_document c) \<noteq> Inr m" for m
      using c(2) by (auto simp: rejected_times_def check_document_def within_bounds_def)
    ultimately show ?thesis using open_runs [OF run] run by (cases r) auto
  qed
  then show ?thesis using c by (auto simp: rejected_times_def)
qed

theorem register_overflows_journal_witness:
  "\<exists>c. coordinator.reachable sample_installation sample_ids c \<and> \<not> rc_poisoned c \<and>
     on_disk sample_installation c = Some (rc_document c) \<and>
     isl (snd (open_coordinator sample_installation write_ok ''n'' (rc_file c)))"
proof -
  have "''a'' \<in> sample_ids" "length ''a'' \<le> 512" by (simp_all add: sample_ids_def)
  then show ?thesis
    using register_overflows_journal [OF sample_codec sample_total sample_collision_free] by blast
qed

end
