(* ===== verification/Executor_Framing.thy ===== *)
theory Executor_Framing
  imports Prelude
begin

text \<open>
  The framing of the executor protocol (\<open>src/crates/executor-protocol/src/lib.rs\<close>): a message is
  its JSON text behind a length of four bytes. A stream is the list of its bytes; the values and
  their JSON text are parameters (\<open>to_vec\<close>, \<open>from_slice\<close>).

  The lemmas show that the incremental decoder does not depend on how a stream is cut into
  chunks, and that it gives back the messages that were written.
\<close>

section \<open>Frames\<close>

definition MAX_FRAME_BYTES :: nat where "MAX_FRAME_BYTES = 1024 * 1024"

datatype FrameError = TooLarge nat | Truncated | Io | Json

text \<open>\<open>put_u32\<close> and \<open>u32::from_be_bytes\<close>.\<close>

definition put_u32 :: "nat \<Rightarrow> string" where
  "put_u32 n = map (\<lambda>i. char_of (n div 256 ^ i mod 256)) [3, 2, 1, 0]"

definition u32_from_be_bytes :: "string \<Rightarrow> nat" where
  "u32_from_be_bytes header = foldl (\<lambda>n c. n * 256 + byte_of c) 0 header"

definition encode_frame :: "('v \<Rightarrow> string option) \<Rightarrow> 'v \<Rightarrow> FrameError + string" where
  "encode_frame to_vec v =
     (case to_vec v of
        None \<Rightarrow> Inl Json
      | Some body \<Rightarrow>
          if length body > MAX_FRAME_BYTES then Inl (TooLarge (length body))
          else Inr (put_u32 (length body) @ body))"

definition json_of :: "(string \<Rightarrow> 'v option) \<Rightarrow> string \<Rightarrow> FrameError + 'v" where
  "json_of from_slice body = (case from_slice body of None \<Rightarrow> Inl Json | Some v \<Rightarrow> Inr v)"

definition decode_frame :: "(string \<Rightarrow> 'v option) \<Rightarrow> string \<Rightarrow> FrameError + 'v" where
  "decode_frame from_slice frame =
     (if length frame < 4 then Inl Truncated
      else
        (let body_len = u32_from_be_bytes (take 4 frame); input = drop 4 frame
         in if body_len > MAX_FRAME_BYTES then Inl (TooLarge body_len)
            else if length input \<noteq> body_len then Inl Truncated
            else json_of from_slice input))"

text \<open>\<open>read_exact\<close> on a stream that ends, and the blocking and the asynchronous reader and writer.\<close>

definition read_exact :: "nat \<Rightarrow> string \<Rightarrow> string \<times> (FrameError + string)" where
  "read_exact n stream =
     (if length stream < n then ([], Inl Io) else (drop n stream, Inr (take n stream)))"

definition read_frame :: "(string \<Rightarrow> 'v option) \<Rightarrow> string \<Rightarrow> string \<times> (FrameError + 'v)" where
  "read_frame from_slice stream =
     (case read_exact 4 stream of
        (rest, Inl e) \<Rightarrow> (rest, Inl e)
      | (rest, Inr header) \<Rightarrow>
          (let body_len = u32_from_be_bytes header
           in if body_len > MAX_FRAME_BYTES then (rest, Inl (TooLarge body_len))
              else case read_exact body_len rest of
                (rest, Inl e) \<Rightarrow> (rest, Inl e)
              | (rest, Inr body) \<Rightarrow> (rest, json_of from_slice body)))"

definition write_frame :: "('v \<Rightarrow> string option) \<Rightarrow> 'v \<Rightarrow> string \<Rightarrow> string \<times> (FrameError + unit)" where
  "write_frame to_vec v stream =
     (case encode_frame to_vec v of
        Inl e \<Rightarrow> (stream, Inl e)
      | Inr frame \<Rightarrow> (stream @ frame, Inr ()))"

section \<open>The incremental decoder\<close>

text \<open>The loop of \<open>FrameDecoder::push\<close>: the buffer it leaves and the decoded messages.\<close>

function drain ::
  "(string \<Rightarrow> 'v option) \<Rightarrow> string \<Rightarrow> 'v list \<Rightarrow> string \<times> (FrameError + 'v list)" where
  "drain from_slice buffer decoded =
     (if length buffer < 4 then (buffer, Inr decoded)
      else
        (let body_len = u32_from_be_bytes (take 4 buffer)
         in if body_len > MAX_FRAME_BYTES then (buffer, Inl (TooLarge body_len))
            else if length buffer < body_len + 4 then (buffer, Inr decoded)
            else
              (let body = take body_len (drop 4 buffer); buffer = drop (body_len + 4) buffer
               in case from_slice body of
                    None \<Rightarrow> (buffer, Inl Json)
                  | Some v \<Rightarrow> drain from_slice buffer (decoded @ [v]))))"
  by pat_completeness auto
termination
  by (relation "measure (\<lambda>(_, buffer, _). length buffer)") auto

declare drain.simps [simp del]

definition push :: "(string \<Rightarrow> 'v option) \<Rightarrow> string \<Rightarrow> string \<Rightarrow> string \<times> (FrameError + 'v list)" where
  "push from_slice bytes buffer = drain from_slice (buffer @ bytes) []"

text \<open>A stream that arrives in chunks, up to the first error.\<close>

fun push_all ::
  "(string \<Rightarrow> 'v option) \<Rightarrow> string list \<Rightarrow> string \<Rightarrow> string \<times> (FrameError + 'v list)" where
  "push_all from_slice [] buffer = (buffer, Inr [])"
| "push_all from_slice (chunk # chunks) buffer =
     (case push from_slice chunk buffer of
        (buffer, Inl e) \<Rightarrow> (buffer, Inl e)
      | (buffer, Inr ms) \<Rightarrow>
          (case push_all from_slice chunks buffer of
             (buffer, Inl e) \<Rightarrow> (buffer, Inl e)
           | (buffer, Inr ms') \<Rightarrow> (buffer, Inr (ms @ ms'))))"

section \<open>Chunks\<close>

text \<open>One step of the loop: it stops, with a result that shows the reason, or takes a frame.\<close>

definition incomplete :: "string \<Rightarrow> bool" where
  "incomplete buffer \<longleftrightarrow> length buffer < 4 \<or> u32_from_be_bytes (take 4 buffer) \<le> MAX_FRAME_BYTES \<and>
     length buffer < u32_from_be_bytes (take 4 buffer) + 4"

lemma drain_incomplete: "incomplete buffer \<Longrightarrow> drain from_slice buffer decoded = (buffer, Inr decoded)"
  by (subst drain.simps) (auto simp: incomplete_def Let_def)

lemma drain_frame:
  assumes "4 \<le> length buffer" "n = u32_from_be_bytes (take 4 buffer)" "n \<le> MAX_FRAME_BYTES"
    "n + 4 \<le> length buffer"
  shows "drain from_slice buffer decoded =
    (case from_slice (take n (drop 4 buffer)) of
       None \<Rightarrow> (drop (n + 4) buffer, Inl Json)
     | Some v \<Rightarrow> drain from_slice (drop (n + 4) buffer) (decoded @ [v]))"
  using assms(1,3,4) unfolding assms(2) by (subst drain.simps) (simp add: Let_def)

lemma drain_too_large:
  assumes "4 \<le> length buffer" "u32_from_be_bytes (take 4 buffer) > MAX_FRAME_BYTES"
  shows "drain from_slice buffer decoded = (buffer, Inl (TooLarge (u32_from_be_bytes (take 4 buffer))))"
  using assms by (subst drain.simps) (simp add: Let_def)

lemma buffer_cases:
  obtains "incomplete buffer"
  | "4 \<le> length buffer" "u32_from_be_bytes (take 4 buffer) > MAX_FRAME_BYTES"
  | n where "4 \<le> length buffer" "n = u32_from_be_bytes (take 4 buffer)" "n \<le> MAX_FRAME_BYTES"
      "n + 4 \<le> length buffer"
  unfolding incomplete_def by (metis not_le not_less)

lemma drain_accumulates:
  "drain from_slice buffer decoded =
    (fst (drain from_slice buffer []), map_sum id (\<lambda>ms. decoded @ ms) (snd (drain from_slice buffer [])))"
proof (induction "length buffer" arbitrary: buffer decoded rule: less_induct)
  case less
  show ?case
  proof (cases buffer rule: buffer_cases)
    case 1
    then show ?thesis by (simp add: drain_incomplete)
  next
    case 2
    then show ?thesis by (simp add: drain_too_large)
  next
    case (3 n)
    have "drain from_slice (drop (n + 4) buffer) acc = (fst (drain from_slice (drop (n + 4) buffer) []),
        map_sum id (\<lambda>ms. acc @ ms) (snd (drain from_slice (drop (n + 4) buffer) [])))" for acc
      using 3 by (intro less) simp
    note shorter = this [of "decoded @ [v]" for v] this [of "[v]" for v]
    show ?thesis
    proof (cases "from_slice (take n (drop 4 buffer))")
      case None
      then show ?thesis by (simp add: drain_frame [OF 3])
    next
      case (Some v)
      then show ?thesis
        using shorter [of v]
        by (cases "snd (drain from_slice (drop (n + 4) buffer) [])") (simp_all add: drain_frame [OF 3])
    qed
  qed
qed

text \<open>More bytes behind a buffer do not change what was decoded from it.\<close>

lemma drain_append:
  "drain from_slice buffer [] = (rest, Inr ms) \<Longrightarrow>
    drain from_slice (buffer @ bytes) [] = drain from_slice (rest @ bytes) ms"
proof (induction "length buffer" arbitrary: buffer ms rule: less_induct)
  case less
  show ?case
  proof (cases buffer rule: buffer_cases)
    case 1
    with less.prems show ?thesis by (simp add: drain_incomplete)
  next
    case 2
    with less.prems show ?thesis by (simp add: drain_too_large)
  next
    case (3 n)
    let ?r = "drop (n + 4) buffer"
    obtain v where v: "from_slice (take n (drop 4 buffer)) = Some v"
      using less.prems by (cases "from_slice (take n (drop 4 buffer))") (auto simp: drain_frame [OF 3])
    then have "drain from_slice ?r [v] = (rest, Inr ms)" using less.prems by (simp add: drain_frame [OF 3])
    then obtain ms' where ms': "drain from_slice ?r [] = (rest, Inr ms')" "ms = v # ms'"
      by (subst (asm) drain_accumulates) (cases "drain from_slice ?r []"; cases "snd (drain from_slice ?r [])"; auto)
    have longer: "4 \<le> length (buffer @ bytes)" "n = u32_from_be_bytes (take 4 (buffer @ bytes))"
      "n + 4 \<le> length (buffer @ bytes)" using 3 by simp_all
    have "drain from_slice (buffer @ bytes) [] = drain from_slice (?r @ bytes) [v]"
      using v 3 by (simp add: drain_frame [OF longer(1,2) 3(3) longer(3)])
    also have "\<dots> = (fst (drain from_slice (?r @ bytes) []),
        map_sum id (\<lambda>ms. [v] @ ms) (snd (drain from_slice (?r @ bytes) [])))" by (rule drain_accumulates)
    also have "drain from_slice (?r @ bytes) [] = drain from_slice (rest @ bytes) ms'"
      using 3 ms'(1) by (intro less.hyps) simp_all
    also have "(fst (drain from_slice (rest @ bytes) ms'),
        map_sum id (\<lambda>ms. [v] @ ms) (snd (drain from_slice (rest @ bytes) ms'))) =
        drain from_slice (rest @ bytes) ms"
      unfolding ms'(2)
      by (subst (1 2 3) drain_accumulates) (cases "snd (drain from_slice (rest @ bytes) [])"; simp)
    finally show ?thesis .
  qed
qed

lemma drain_error:
  "drain from_slice buffer decoded = (rest, Inl e) \<Longrightarrow>
    snd (drain from_slice (buffer @ bytes) decoded) = Inl e"
proof (induction "length buffer" arbitrary: buffer decoded rule: less_induct)
  case less
  show ?case
  proof (cases buffer rule: buffer_cases)
    case 1
    with less.prems show ?thesis by (simp add: drain_incomplete)
  next
    case 2
    with less.prems show ?thesis by (auto simp: drain_too_large)
  next
    case (3 n)
    have longer: "4 \<le> length (buffer @ bytes)" "n = u32_from_be_bytes (take 4 (buffer @ bytes))"
      "n + 4 \<le> length (buffer @ bytes)" using 3 by simp_all
    note frames = drain_frame [OF 3] drain_frame [OF longer(1,2) 3(3) longer(3)]
    show ?thesis
    proof (cases "from_slice (take n (drop 4 buffer))")
      case None
      with less.prems 3 show ?thesis by (simp add: frames)
    next
      case (Some v)
      have "drain from_slice (drop (n + 4) buffer) (decoded @ [v]) = (rest, Inl e)"
        using less.prems Some by (simp add: frames(1))
      then have "snd (drain from_slice (drop (n + 4) buffer @ bytes) (decoded @ [v])) = Inl e"
        using 3 by (intro less.hyps) simp_all
      then show ?thesis using Some 3 by (simp add: frames(2))
    qed
  qed
qed

text \<open>The buffer that the decoder keeps holds no complete frame.\<close>

lemma drain_rest:
  "drain from_slice buffer decoded = (rest, Inr ms) \<Longrightarrow> incomplete rest"
proof (induction "length buffer" arbitrary: buffer decoded rule: less_induct)
  case less
  show ?case
  proof (cases buffer rule: buffer_cases)
    case 1
    with less.prems show ?thesis by (simp add: drain_incomplete)
  next
    case 2
    with less.prems show ?thesis by (simp add: drain_too_large)
  next
    case (3 n)
    obtain v where "drain from_slice (drop (n + 4) buffer) (decoded @ [v]) = (rest, Inr ms)"
      using less.prems by (cases "from_slice (take n (drop 4 buffer))") (auto simp: drain_frame [OF 3])
    then show ?thesis using 3 by (intro less.hyps) auto
  qed
qed

lemma push_all_drain:
  "incomplete buffer \<Longrightarrow>
    snd (push_all from_slice chunks buffer) = snd (drain from_slice (buffer @ concat chunks) []) \<and>
    (\<not> isl (snd (push_all from_slice chunks buffer)) \<longrightarrow>
      push_all from_slice chunks buffer = drain from_slice (buffer @ concat chunks) [])"
proof (induction chunks arbitrary: buffer)
  case Nil
  then show ?case by (simp add: drain_incomplete)
next
  case (Cons chunk chunks)
  obtain rest q where q: "drain from_slice (buffer @ chunk) [] = (rest, q)" by (rule prod.exhaust)
  show ?case
  proof (cases q)
    case (Inl e)
    then show ?thesis
      using q drain_error [OF q [unfolded Inl], of "concat chunks"] by (simp add: push_def)
  next
    case (Inr ms)
    have "incomplete rest" using drain_rest q Inr by blast
    note IH = Cons.IH [OF this]
    have all: "drain from_slice (buffer @ concat (chunk # chunks)) [] = drain from_slice (rest @ concat chunks) ms"
      using drain_append [of from_slice "buffer @ chunk" rest ms "concat chunks"] q Inr by simp
    obtain b p where p: "push_all from_slice chunks rest = (b, p)" by (rule prod.exhaust)
    obtain b' p' where p': "drain from_slice (rest @ concat chunks) [] = (b', p')" by (rule prod.exhaust)
    have same: "p = p'" using conjunct1 [OF IH] unfolding p p' by simp
    have "b = b'" if "\<not> isl p"
      using mp [OF conjunct2 [OF IH]] that unfolding p p' by simp
    moreover have "drain from_slice (rest @ concat chunks) ms = (b', map_sum id (\<lambda>ms'. ms @ ms') p')"
      by (subst drain_accumulates) (simp add: p')
    ultimately show ?thesis
      using q Inr p same unfolding all by (cases p) (auto simp: push_def)
  qed
qed

section \<open>Round trip\<close>

lemma byte_of_char [simp]: "byte_of (char_of n) = n mod 256"
  by (simp add: byte_of_def)

lemma put_u32_length [simp]: "length (put_u32 n) = 4"
  by (simp add: put_u32_def)

lemma u32_roundtrip:
  assumes "n < 2 ^ 32"
  shows "u32_from_be_bytes (put_u32 n) = n"
proof -
  let ?a = "n div 256" and ?b = "n div 256 div 256" and ?c = "n div 256 div 256 div 256"
  have digits: "n div 65536 = ?b" "n div 16777216 = ?c" by (simp_all flip: div_mult2_eq)
  have "?c < 256" using assms by (simp add: flip: div_mult2_eq)
  then have "((?c mod 256 * 256 + ?b mod 256) * 256 + ?a mod 256) * 256 + n mod 256 = n"
    by (metis div_mult_mod_eq mod_less)
  then show ?thesis by (simp add: u32_from_be_bytes_def put_u32_def digits)
qed

lemma drain_encoded:
  assumes "encode_frame to_vec v = Inr frame" "\<And>body. to_vec v = Some body \<Longrightarrow> from_slice body = Some v"
  shows "drain from_slice (frame @ bytes) decoded = drain from_slice bytes (decoded @ [v])"
proof -
  obtain body where body: "to_vec v = Some body" "length body \<le> MAX_FRAME_BYTES"
    "frame = put_u32 (length body) @ body"
    using assms(1) by (auto simp: encode_frame_def split: option.splits if_splits)
  have "length body < 2 ^ 32" using body(2) by (simp add: MAX_FRAME_BYTES_def)
  then have header: "length body = u32_from_be_bytes (take 4 (frame @ bytes))"
    using body(3) u32_roundtrip by simp
  have sizes: "4 \<le> length (frame @ bytes)" "length body + 4 \<le> length (frame @ bytes)"
    using body(3) by simp_all
  have parts: "take (length body) (drop 4 (frame @ bytes)) = body"
    "drop (length body + 4) (frame @ bytes) = bytes"
    using body(3) by simp_all
  show ?thesis
    unfolding drain_frame [OF sizes(1) header body(2) sizes(2)] parts assms(2) [OF body(1)] by simp
qed

text \<open>
  C13: the decoder does not depend on how the stream is cut. Feeding a stream chunk by chunk gives
  the messages, or the first error, that feeding it in one piece gives; without an error the
  remaining buffer is the same too.
\<close>

theorem decoder_ignores_chunks:
  "snd (push_all from_slice chunks []) = snd (push from_slice (concat chunks) []) \<and>
   (\<forall>ms. snd (push_all from_slice chunks []) = Inr ms \<longrightarrow>
     push_all from_slice chunks [] = push from_slice (concat chunks) [])"
proof -
  have "incomplete []" by (simp add: incomplete_def)
  note D = push_all_drain [OF this, of from_slice chunks]
  show ?thesis
  proof (intro conjI allI impI)
    show "snd (push_all from_slice chunks []) = snd (push from_slice (concat chunks) [])"
      unfolding push_def by (rule conjunct1 [OF D])
    fix ms assume "snd (push_all from_slice chunks []) = Inr ms"
    then have "\<not> isl (snd (push_all from_slice chunks []))" by simp
    then show "push_all from_slice chunks [] = push from_slice (concat chunks) []"
      unfolding push_def by (rule mp [OF conjunct2 [OF D]])
  qed
qed

theorem decoder_ignores_chunks_witness:
  "snd (push_all Some [[CHR 0x00], [CHR 0x00, CHR 0x00, CHR 0x02, CHR ''o''], ''k''] []) =
     snd (push Some [CHR 0x00, CHR 0x00, CHR 0x00, CHR 0x02, CHR ''o'', CHR ''k''] []) \<and>
   push_all Some [[CHR 0x00], [CHR 0x00, CHR 0x00, CHR 0x02, CHR ''o''], ''k''] [] = ([], Inr [''ok''])"
proof -
  have "snd (push_all Some [[CHR 0x00], [CHR 0x00, CHR 0x00, CHR 0x02, CHR ''o''], ''k''] []) = Inr [''ok'']"
    by code_simp
  moreover have "push Some [CHR 0x00, CHR 0x00, CHR 0x00, CHR 0x02, CHR ''o'', CHR ''k''] [] = ([], Inr [''ok''])"
    by code_simp
  ultimately show ?thesis
    using decoder_ignores_chunks [of Some "[[CHR 0x00], [CHR 0x00, CHR 0x00, CHR 0x02, CHR ''o''], ''k'']"] by simp
qed

text \<open>
  C24: what was written is read. The messages that were encoded come out of the decoder, in order
  and with nothing left over, however their frames are cut into chunks.
\<close>

theorem decoder_roundtrip:
  assumes encoded: "map (encode_frame to_vec) messages = map Inr frames"
    and chunks: "concat chunks = concat frames"
    and json: "\<And>v body. v \<in> set messages \<Longrightarrow> to_vec v = Some body \<Longrightarrow> from_slice body = Some v"
  shows "push_all from_slice chunks [] = ([], Inr messages)"
proof -
  have "drain from_slice (concat frames) decoded = ([], Inr (decoded @ messages))" for decoded
    using encoded json
  proof (induction messages arbitrary: frames decoded)
    case Nil
    then show ?case by (simp add: drain_incomplete incomplete_def)
  next
    case (Cons v messages)
    then obtain frame frames' where frames: "frames = frame # frames'" "encode_frame to_vec v = Inr frame"
      "map (encode_frame to_vec) messages = map Inr frames'" by (cases frames) auto
    have "drain from_slice (concat frames') (decoded @ [v]) = ([], Inr ((decoded @ [v]) @ messages))"
      by (rule Cons.IH [OF frames(3)]) (simp add: Cons.prems(2))
    then show ?case
      using drain_encoded [OF frames(2) Cons.prems(2)] frames(1) by simp
  qed
  then have whole: "push from_slice (concat chunks) [] = ([], Inr messages)"
    by (simp add: push_def chunks)
  moreover have "incomplete []" by (simp add: incomplete_def)
  note D = push_all_drain [OF this, of from_slice chunks]
  ultimately have "\<not> isl (snd (push_all from_slice chunks []))"
    using conjunct1 [OF D] unfolding push_def by simp
  then have "push_all from_slice chunks [] = push from_slice (concat chunks) []"
    unfolding push_def by (rule mp [OF conjunct2 [OF D]])
  then show ?thesis using whole by simp
qed

theorem decoder_roundtrip_witness:
  "push_all Some [[CHR 0x00, CHR 0x00], [CHR 0x00, CHR 0x02, CHR ''h'', CHR ''i'', CHR 0x00, CHR 0x00],
     [CHR 0x00, CHR 0x00]] [] = ([], Inr [''hi'', []])"
proof (rule decoder_roundtrip)
  show "map (encode_frame Some) [''hi'', []] = map Inr [[CHR 0x00, CHR 0x00, CHR 0x00, CHR 0x02, CHR ''h'', CHR ''i''],
      [CHR 0x00, CHR 0x00, CHR 0x00, CHR 0x00]]" by code_simp
qed simp_all

end
