(* ===== verification/Spec2Isabelle.thy ===== *)
theory Spec2Isabelle
  imports Domain_Job Agent_Store_Props Agent_Engine_Props Document_Cache_Props Single_Flight
    Route_Overflow Executor_Framing
begin

text \<open>
  Verification of the durable core of the print platform piqae.

  \<^bold>\<open>The program.\<close> A node (an agent process, or an application that embeds the node runtime) takes
  print jobs from a cloud service or from local callers, keeps them in an SQLite store until the
  operating system has accepted them, and reports every change of state through an outbox. The
  print engine takes the runnable jobs one printer at a time through their states up to the native
  call, and observes the print queues afterwards. The same store keeps the printers with their
  immutable print profiles. Before
  a job is handed to a print queue of the operating system, the route coordinator of the
  installation fences the physical printer, so that two connectors never hand a job to the same
  device at once and no job crosses the native boundary twice. Documents refer to resources, which
  a bounded cache keeps by content hash. Native calls run in executor processes, which talk to the
  node in length-prefixed frames.

  \<^bold>\<open>Shared theories.\<close>
  \<^item> \<open>Prelude\<close>: results as sums with \<open>and_then\<close>, SQL tables as lists of rows, saturating and
    clamped integers, strings as UTF-8 byte lists.
  \<^item> \<open>Ordered_Map\<close>: the standard library's \<open>BTreeMap\<close> as a list with increasing keys.
  \<^item> \<open>Transition\<close>: the locale \<open>machine\<close> of a component as a state machine: initial states, steps,
    an invariant that steps keep, and a preorder along which states only grow. Its lemmas on
    reachable states and runs are used through six interpretations: \<open>store\<close> (agent store),
    \<open>stock_room\<close> (inventory of the store), \<open>press\<close> (print engine over both), \<open>cache\<close> (document
    cache), \<open>flights\<close> (concurrent callers of the cache) and \<open>coordinator\<close> (route coordinator).

  \<^bold>\<open>Print job domain\<close> (\<open>crates/domain/src/job.rs\<close>, \<open>id.rs\<close>). \<open>Domain_Job\<close> has the job options, their
  bounds and their merging, the rotation codec, and the job states with \<open>can_transition_to\<close>.
  \<open>Typed_Id\<close> has the prefixed identifiers. \<open>Domain_Printer\<close> (\<open>printer.rs\<close>, \<open>profile.rs\<close>) has the native
  options of a driver with their validation, and the kinds and states of profiles.

  \<^bold>\<open>Agent store\<close> (\<open>crates/agent-storage/src/lib.rs\<close>, \<open>schema.sql\<close>). The database is the record
  \<open>agent_db\<close> of \<open>Agent_Schema\<close>, one list of rows per table; constraints of the schema (keys, foreign
  keys, checks) are conditions of the inserts and deletes, and a transaction either returns the
  new database or leaves the old one. Code outside the repository (the JSON validity test and the
  codec, random identifiers) is the parameter \<open>ext\<close> or an argument.
  \<^item> \<open>Agent_Events\<close>, \<open>Agent_Queue\<close>: event log, outbox, acceptance, FIFO selection of runnable heads;
    \<open>Agent_Invariant\<close> and \<open>Agent_Accept\<close> show their invariant and behaviour.
  \<^item> \<open>Agent_Cloud\<close>: the two-phase acceptance of cloud jobs (prepare, confirm, activate, abandon,
    quarantine); \<open>Agent_Cloud_Correct\<close> and \<open>Agent_Cloud_Props\<close>. The quarantine loop, which works in
    batches, terminates because every batch makes the table of intents smaller.
  \<^item> \<open>Agent_Handoff\<close>: native acceptance, uncertainty and its resolution, retry, cancellation, expiry
    and reconciliation; \<open>Agent_Handoff_Correct\<close> and \<open>Agent_Handoff_Props\<close>.
  \<^item> \<open>Agent_Content\<close>: claims on content for deletion and their completion.
  \<^item> \<open>Agent_Reach\<close> and \<open>Agent_Store_Props\<close>: all operations as steps, the invariant of every reachable
    database, the append-only history, and the refinement of job rows by the outbox. The steps
    are those of the store's callers (\<open>client_step\<close>) and the raw events of the engine.
  \<^item> \<open>Agent_Moves\<close>: which changes of state the callers' operations can make (\<open>client_moves\<close>). This is
    what the engine relies on when other connections of the store work beside it.

  \<^bold>\<open>Inventory of the agent store\<close> (the same files). Its tables are disjoint from those of the jobs and
  are the record \<open>inventory\<close>.
  \<^item> \<open>Agent_Inventory\<close>: settings and failure counters, printers with capability snapshots, devices,
    stock, loaded media and targets. \<open>Agent_Profiles\<close>: named profiles in immutable revisions,
    defaults, one-time capture sessions and native payloads.
  \<^item> \<open>Agent_Profiles_Correct\<close>, \<open>Agent_Inventory_Machine\<close>: the invariant of the profile tables and the
    state machine of all operations. \<open>Agent_Inventory_Props\<close>: what a listing shows, that capture
    sessions are used once, and that revisions and captured payloads never change.

  \<^bold>\<open>Print engine\<close> (\<open>AgentEngine\<close> in \<open>crates/agent-core/src/lib.rs\<close>). \<open>Agent_Engine\<close> has \<open>run_once\<close> with all it
  calls: execution of a job up to the native submission, the record of its outcome, observation
  and cancellation of submitted jobs. Each clock reading, store call and native call is one effect
  with a number; the record \<open>host\<close> says, by number, what the clock and the executor answer, what
  other connections did to the store just before, and whether the process dies there. The engine
  keeps a ghost list of its native calls with the length of the event log at each.
  \<^item> The hypothesis \<open>orderly\<close> on the host says that the other connections run operations of the store
    that leave jobs at their spool intent alone (those belong to recovery at start-up and to
    operators), and that SQLite returns each expired row once. Everything else is arbitrary.
  \<^item> \<open>Agent_Engine_Correct\<close>: a run is a sequence of small steps that keep \<open>engine_ok\<close>.
    \<open>Agent_Engine_Props\<close>: no unaccounted second submission of a job, and what becomes of a job whose
    execution was cut short.

  \<^bold>\<open>Document cache\<close> (\<open>crates/agent-core/src/document_resources.rs\<close>). \<open>Document_Cache\<close> has the rows, the
  files and all operations, each with a record \<open>doc_io\<close> that says which file operations fail.
  \<open>Document_Cache_Effects\<close> and \<open>Document_Cache_Props\<close> show the bound, the order of eviction, the
  protection of pinned resources and the integrity of what is returned. \<open>Single_Flight\<close> has the
  interleavings of concurrent callers of \<open>resolve\<close> as an inductive step relation.

  \<^bold>\<open>Route coordinator\<close> (\<open>crates/node-runtime/src/route_coordinator.rs\<close>, \<open>durable_file.rs\<close>).
  \<^item> \<open>Route_Document\<close>: the journalled document, identity evidence and the keys derived from it.
  \<^item> \<open>Route_Coordinator\<close>: the operations on the document: reconciliation of discovered printers,
    coordination keys, local and cloud reservations, terminal evidence, acknowledgement,
    compaction, resolution of ambiguous handoffs.
  \<^item> \<open>Route_Journal\<close>: the coordinator with its file, the commit path (a replacement of the file may
    fail before or after the rename, the file may be unreadable afterwards), and \<open>open\<close>.
  \<^item> \<open>Route_Fences\<close>, \<open>Route_Reservations\<close>, \<open>Route_Machine\<close>: the invariant of the document under every
    operation, and the state machine of calls and restarts.
  \<^item> \<open>Route_Sample\<close>: a concrete installation. \<open>Route_Props\<close>, \<open>Route_Overflow\<close>: mutual exclusion,
    permanence of replay barriers, durability of evidence, atomicity of the journal, progress, and
    a journal that outgrows its bound.

  SHA-256, UUIDv5 and the JSON codec are the record \<open>route_ext\<close>. Two hypotheses are made about them,
  inside the predicates of the initial states: \<open>journal_codec\<close>, that a document that was serialised is
  read back, and \<open>collision_free\<close>, that the derived identifiers differ for the native queue names
  of a set \<open>W\<close> that the run uses. \<open>Route_Sample\<close> gives an installation that satisfies both.

  \<^bold>\<open>Executor framing\<close> (\<open>crates/executor-protocol/src/lib.rs\<close>). \<open>Executor_Framing\<close> has the encoder, the
  strict decoder, the stream reader and writer and the incremental decoder, whose loop ends because
  every frame shortens the buffer. The decoder does not depend on how the stream is cut, and reads
  back what was encoded.

  \<^bold>\<open>Integers and bounds.\<close> Counters are natural numbers or integers with the bounds of their types
  written out where the code saturates, checks or converts (\<open>saturating_add_u64\<close>, \<open>to_sql_u64\<close>).
  Times are integers in milliseconds. Every loop of the model terminates by its own measure; there
  is no fuel.

  \<^bold>\<open>Not modelled.\<close> Of the agent core: the files of the content store and document rendering. Of
  the node: the asynchronous runtime, transports, executors, shells and updates. The control plane,
  its PostgreSQL storage, the renderer, the web applications and the SDKs. The file system is
  modelled by the outcome of each call; power loss between two calls is a restart from the file as
  the last call left it.
\<close>

end
